(* ===== verification/F32_Rounding.thy ===== *)
theory F32_Rounding
  imports Fand_Prelude
begin

text \<open>
  Round-to-nearest, ties-to-even, to the 24-bit significands of IEEE binary32, on natural numbers.
  Magnitudes are counted in units of \<open>2^-149\<close> (the smallest positive binary32 number), so every
  finite value is a natural number. \<open>rnd p q\<close> rounds the exact quotient \<open>p/q\<close>; the locale
  \<open>rounding\<close> holds the two laws most component proofs rest on (exact on representable
  arguments, monotone) and the comparisons with representable bounds that follow from them.
\<close>

section \<open>Bit length and rounding of quotients\<close>

fun bitlen :: "nat \<Rightarrow> nat" where
  "bitlen n = (if n = 0 then 0 else Suc (bitlen (n div 2)))"

declare bitlen.simps [simp del]

lemma bitlen_0 [simp]: "bitlen 0 = 0"
  by (simp add: bitlen.simps)

lemma bitlen_bounds: "0 < n \<Longrightarrow> 2 ^ (bitlen n - 1) \<le> n \<and> n < 2 ^ bitlen n \<and> 0 < bitlen n"
proof (induction n rule: bitlen.induct)
  case (1 n)
  show ?case
  proof (cases "n div 2 = 0")
    case True
    with 1 have "n = 1" by auto
    then show ?thesis by (simp add: bitlen.simps)
  next
    case False
    with 1 have IH: "2 ^ (bitlen (n div 2) - 1) \<le> n div 2" "n div 2 < 2 ^ bitlen (n div 2)"
      "0 < bitlen (n div 2)" by auto
    have b: "bitlen n = Suc (bitlen (n div 2))" using 1 by (subst bitlen.simps) simp
    obtain m where m: "bitlen (n div 2) = Suc m" using IH(3) by (cases "bitlen (n div 2)") auto
    have "2 ^ Suc m \<le> n" "n < 2 ^ Suc (Suc m)" using IH m by auto
    then show ?thesis by (simp add: b m)
  qed
qed

lemma bitlen_le_iff: "bitlen n \<le> e \<longleftrightarrow> n < 2 ^ e"
proof (cases "n = 0")
  case False
  then have b: "2 ^ (bitlen n - 1) \<le> n" "n < 2 ^ bitlen n" "0 < bitlen n"
    using bitlen_bounds [of n] by auto
  show ?thesis
  proof
    assume "bitlen n \<le> e"
    then have "(2::nat) ^ bitlen n \<le> 2 ^ e" by (simp add: power_increasing)
    with b(2) show "n < 2 ^ e" by linarith
  next
    assume "n < 2 ^ e"
    with b(1) have "(2::nat) ^ (bitlen n - 1) < 2 ^ e" by linarith
    then have "bitlen n - 1 < e" by (simp add: power_strict_increasing_iff)
    then show "bitlen n \<le> e" using b(3) by linarith
  qed
qed simp

lemma bitlen_mono: "m \<le> n \<Longrightarrow> bitlen m \<le> bitlen n"
  using bitlen_le_iff [of n "bitlen n"] by (simp add: bitlen_le_iff)

lemma bitlen_eval [simp]:
  "bitlen 1 = 1" "bitlen (Suc 0) = 1"
  "bitlen (numeral (Num.Bit0 w)) = Suc (bitlen (numeral w))"
  "bitlen (numeral (Num.Bit1 w)) = Suc (bitlen (numeral w))"
  by (subst bitlen.simps; simp)+

text \<open>Round half to even of the quotient \<open>p/q\<close>.\<close>

definition rhe :: "nat \<Rightarrow> nat \<Rightarrow> nat" where
  "rhe p q = (let k = p div q; r = p mod q in
     if 2 * r < q \<or> (2 * r = q \<and> even k) then k else Suc k)"

lemma rhe_exact [simp]: "0 < q \<Longrightarrow> rhe (k * q) q = k"
  by (simp add: rhe_def)

lemma rhe_bounds: "p div q \<le> rhe p q \<and> rhe p q \<le> Suc (p div q)"
  by (simp add: rhe_def Let_def)

lemma frac_le_div:
  assumes "p1 * q2 \<le> p2 * q1" "0 < q1" "0 < q2"
  shows "p1 div q1 \<le> p2 div (q2 :: nat)"
proof -
  have "(p1 div q1) * q1 * q2 \<le> p1 * q2" by (simp add: mult_right_mono)
  also have "\<dots> \<le> p2 * q1" by (rule assms)
  finally have "((p1 div q1) * q2) * q1 \<le> p2 * q1" by (simp add: ac_simps)
  then have "(p1 div q1) * q2 \<le> p2" using assms(2) by simp
  then show ?thesis using assms(3) by (simp add: less_eq_div_iff_mult_less_eq)
qed

lemma frac_le_mod:
  assumes "p1 * q2 \<le> p2 * q1" "p1 div q1 = p2 div (q2 :: nat)"
  shows "p1 mod q1 * q2 \<le> p2 mod q2 * q1"
proof -
  let ?k = "p1 div q1"
  have "(?k * q1 + p1 mod q1) * q2 \<le> (?k * q2 + p2 mod q2) * q1"
    using assms by (metis div_mult_mod_eq)
  moreover have "?k * q1 * q2 = ?k * q2 * q1" by simp
  ultimately show ?thesis by (simp only: add_mult_distrib)
qed

lemma rhe_mono:
  assumes le: "p1 * q2 \<le> p2 * q1" and q: "0 < q1" "0 < q2"
  shows "rhe p1 q1 \<le> rhe p2 q2"
proof (cases "p1 div q1 = p2 div q2")
  case False
  with frac_le_div [OF assms] have "Suc (p1 div q1) \<le> p2 div q2" by linarith
  then show ?thesis using rhe_bounds [of p1 q1] rhe_bounds [of p2 q2] by linarith
next
  case True
  define r1 r2 where "r1 = p1 mod q1" and "r2 = p2 mod q2"
  have m: "r1 * q2 \<le> r2 * q1" using frac_le_mod [OF le True] by (simp add: r1_def r2_def)
  have lt: "2 * r2 < q2 \<Longrightarrow> 2 * r1 < q1"
  proof (rule ccontr)
    assume a: "2 * r2 < q2" "\<not> 2 * r1 < q1"
    then have "q1 * q2 \<le> 2 * r1 * q2" by (simp add: mult_right_mono)
    also have "\<dots> \<le> 2 * r2 * q1" using m by linarith
    also have "\<dots> < q2 * q1" using a q by simp
    finally show False by (simp add: ac_simps)
  qed
  have eq: "2 * r2 = q2 \<Longrightarrow> 2 * r1 \<le> q1"
  proof -
    assume a: "2 * r2 = q2"
    have "2 * r1 * q2 \<le> 2 * r2 * q1" using m by linarith
    then have "2 * r1 * q2 \<le> q2 * q1" by (simp only: a)
    then have "2 * r1 * q2 \<le> q1 * q2" by (simp only: mult.commute [of q2 q1])
    then show "2 * r1 \<le> q1" using q by simp
  qed
  have one: "rhe p1 q1 \<le> Suc (p2 div q2)" using rhe_bounds [of p1 q1] True by simp
  show ?thesis
  proof (cases "2 * r2 < q2 \<or> (2 * r2 = q2 \<and> even (p2 div q2))")
    case up: True
    then have "2 * r1 < q1 \<or> (2 * r1 = q1 \<and> even (p1 div q1))" using lt eq True by (metis le_neq_implies_less)
    with up True show ?thesis by (simp add: rhe_def Let_def r1_def r2_def)
  next
    case False
    then have "rhe p2 q2 = Suc (p2 div q2)" by (auto simp add: rhe_def Let_def r2_def)
    with one show ?thesis by simp
  qed
qed

text \<open>Representable magnitudes: at most 24 significant bits, below \<open>2^128\<close> (in units, \<open>2^277\<close>).\<close>

definition rep :: "nat \<Rightarrow> bool" where
  "rep k \<longleftrightarrow> k < 2 ^ 277 \<and> 2 ^ (bitlen k - 24) dvd k"

definition rnd :: "nat \<Rightarrow> nat \<Rightarrow> nat" where
  "rnd p q = (let e = bitlen (p div q) - 24 in rhe p (q * 2 ^ e) * 2 ^ e)"

lemma rnd_grid_bounds:
  assumes q: "0 < q" and e: "e = bitlen (p div q) - 24"
  shows "rnd p q \<le> 2 ^ 24 * 2 ^ e \<and> (0 < e \<longrightarrow> 2 ^ 23 * 2 ^ e \<le> rnd p q)"
proof -
  let ?Q = "q * 2 ^ e"
  have Q: "0 < ?Q" using q by simp
  have "p div q < 2 ^ (24 + e)" using e by (simp flip: bitlen_le_iff)
  then have "p < 2 ^ (24 + e) * q" using q by (simp add: div_less_iff_less_mult)
  then have "p * 1 \<le> 2 ^ 24 * ?Q * 1" by (simp add: power_add ac_simps)
  then have "rhe p ?Q \<le> rhe (2 ^ 24 * ?Q) ?Q" using Q by (intro rhe_mono) auto
  then have up: "rhe p ?Q \<le> 2 ^ 24" using Q by (simp only: rhe_exact)
  have low: "2 ^ 23 \<le> rhe p ?Q" if "0 < e"
  proof -
    have "bitlen (p div q) = 24 + e" using e that by simp
    then have "2 ^ (23 + e) \<le> p div q" using bitlen_bounds [of "p div q"] by (cases "p div q = 0") auto
    then have "2 ^ (23 + e) * q \<le> p" using q by (simp add: less_eq_div_iff_mult_less_eq)
    then have "2 ^ 23 * ?Q * 1 \<le> p * 1" by (simp add: power_add ac_simps)
    then have "rhe (2 ^ 23 * ?Q) ?Q \<le> rhe p ?Q" using Q by (intro rhe_mono) auto
    then show ?thesis using Q by (simp only: rhe_exact)
  qed
  show ?thesis using up low by (simp add: rnd_def Let_def flip: e)
qed

lemma rnd_mono:
  assumes le: "p1 * q2 \<le> p2 * q1" and q: "0 < q1" "0 < q2"
  shows "rnd p1 q1 \<le> rnd p2 q2"
proof -
  define e1 e2 where e: "e1 = bitlen (p1 div q1) - 24" "e2 = bitlen (p2 div q2) - 24"
  have "bitlen (p1 div q1) \<le> bitlen (p2 div q2)" by (intro bitlen_mono frac_le_div assms)
  then consider "e1 = e2" | "e1 < e2" using e by linarith
  then show ?thesis
  proof cases
    case 1
    have "p1 * (q2 * 2 ^ e2) \<le> p2 * (q1 * 2 ^ e2)" using le by (simp flip: mult.assoc)
    then have "rhe p1 (q1 * 2 ^ e2) \<le> rhe p2 (q2 * 2 ^ e2)" using q by (intro rhe_mono) auto
    then show ?thesis using 1 by (simp add: rnd_def Let_def flip: e)
  next
    case 2
    have "rnd p1 q1 \<le> 2 ^ 24 * 2 ^ e1" using rnd_grid_bounds [OF q(1) e(1)] by simp
    also have "\<dots> = 2 ^ 23 * 2 ^ Suc e1" by simp
    also have "\<dots> \<le> 2 ^ 23 * 2 ^ e2" using 2 by (intro mult_left_mono power_increasing) auto
    also have "\<dots> \<le> rnd p2 q2" using rnd_grid_bounds [OF q(2) e(2)] 2 by simp
    finally show ?thesis .
  qed
qed

lemma rnd_exact:
  assumes "rep k" "0 < q"
  shows "rnd (k * q) q = k"
proof -
  let ?e = "bitlen k - 24"
  obtain m where m: "k = 2 ^ ?e * m" using assms(1) by (auto simp: rep_def)
  have "rhe (m * (q * 2 ^ ?e)) (q * 2 ^ ?e) = m" using assms(2) by (intro rhe_exact) simp
  moreover have "k * q = m * (q * 2 ^ ?e)" by (subst m) (simp only: ac_simps)
  ultimately have "rhe (k * q) (q * 2 ^ ?e) = m" by (simp only:)
  then show ?thesis using assms(2) m by (simp add: rnd_def Let_def ac_simps)
qed

lemma rep_shift: "m \<le> 2 ^ 24 \<Longrightarrow> m * 2 ^ e < 2 ^ 277 \<Longrightarrow> rep (m * 2 ^ e)"
proof -
  assume m: "m \<le> 2 ^ 24" and lt: "m * 2 ^ e < 2 ^ 277"
  show "rep (m * 2 ^ e)"
  proof (cases "m = 2 ^ 24")
    case True
    have "bitlen (m * 2 ^ e) \<le> 25 + e" using True by (simp add: bitlen_le_iff power_add)
    then have "(2::nat) ^ (bitlen (m * 2 ^ e) - 24) dvd 2 ^ (24 + e)" by (intro le_imp_power_dvd) simp
    then show ?thesis using True lt by (simp add: rep_def power_add)
  next
    case False
    with m have "m * 2 ^ e < 2 ^ 24 * 2 ^ e" by simp
    then have "bitlen (m * 2 ^ e) \<le> 24 + e" by (simp add: bitlen_le_iff power_add)
    then have "(2::nat) ^ (bitlen (m * 2 ^ e) - 24) dvd 2 ^ e" by (intro le_imp_power_dvd) simp
    then show ?thesis using lt by (simp add: rep_def dvd_mult)
  qed
qed

lemma rnd_rep: "0 < q \<Longrightarrow> rnd p q < 2 ^ 277 \<Longrightarrow> rep (rnd p q)"
proof -
  assume q: "0 < q" and lt: "rnd p q < 2 ^ 277"
  let ?e = "bitlen (p div q) - 24"
  have "rnd p q = rhe p (q * 2 ^ ?e) * 2 ^ ?e" by (simp add: rnd_def Let_def)
  moreover have "rhe p (q * 2 ^ ?e) \<le> 2 ^ 24" using rnd_grid_bounds [OF q refl, of p] calculation by simp
  ultimately show ?thesis using rep_shift [of "rhe p (q * 2 ^ ?e)" ?e] lt by simp
qed

lemma rep_0 [simp]: "rep 0"
  by (simp add: rep_def)

text \<open>The laws of rounding, and what follows from them alone.\<close>

locale rounding =
  fixes rp :: "nat \<Rightarrow> bool" and rn :: "nat \<Rightarrow> nat \<Rightarrow> nat"
  assumes exact: "rp k \<Longrightarrow> 0 < q \<Longrightarrow> rn (k * q) q = k"
    and mono: "p1 * q2 \<le> p2 * q1 \<Longrightarrow> 0 < q1 \<Longrightarrow> 0 < q2 \<Longrightarrow> rn p1 q1 \<le> rn p2 q2"
begin

lemma le_rep: "rp k \<Longrightarrow> 0 < q \<Longrightarrow> p \<le> k * q \<Longrightarrow> rn p q \<le> k"
  using mono [of p q "k * q" q] exact [of k q] by simp

lemma ge_rep: "rp k \<Longrightarrow> 0 < q \<Longrightarrow> k * q \<le> p \<Longrightarrow> k \<le> rn p q"
  using mono [of "k * q" q p q] exact [of k q] by simp

end

interpretation rnd: rounding rep rnd
  by unfold_locales (auto intro: rnd_exact rnd_mono)

end
