(* ===== verification/F32.thy ===== *)
theory F32
  imports F32_Rounding
begin

text \<open>
  Rust's \<open>f32\<close>: IEEE binary32 with round-to-nearest, ties-to-even, as an executable integer
  model. A value is its bit pattern (\<open>to_bits\<close>), read through \<open>view\<close>: NaN, an infinity, or
  a sign and a magnitude in units of \<open>2^-149\<close>. The arithmetic operators, the comparisons and the
  conversions the sources use (\<open>as f32\<close>, \<open>as u32\<close>, \<open>round\<close>, \<open>abs\<close>,
  \<open>f32::max\<close>, \<open>f32::min\<close>, \<open>clamp\<close>) are instances or definitions on it.
  The payload of a NaN is not kept (Rust leaves it unspecified): every computed NaN is the quiet NaN
  \<open>0x7FC00000\<close>.
\<close>

section \<open>Bit patterns and their values\<close>

datatype f32 = F32 (to_bits: u32)

datatype fview = VNaN | VInf bool | VFin bool nat

definition view :: "f32 \<Rightarrow> fview" where
  "view x = (let n = unat (to_bits x); s = (n div 2 ^ 31 = 1);
                 e = n div 2 ^ 23 mod 2 ^ 8; f = n mod 2 ^ 23 in
     if e = 255 then (if f = 0 then VInf s else VNaN)
     else if e = 0 then VFin s f
     else VFin s ((2 ^ 23 + f) * 2 ^ (e - 1)))"

definition sign_bits :: "bool \<Rightarrow> nat" where
  "sign_bits s = (if s then 2 ^ 31 else 0)"

text \<open>Exponent and fraction fields of a magnitude.\<close>

definition mag_bits :: "nat \<Rightarrow> nat" where
  "mag_bits k = (if k < 2 ^ 23 then k
     else let e = bitlen k - 23 in e * 2 ^ 23 + (k div 2 ^ (e - 1) - 2 ^ 23))"

text \<open>A magnitude of \<open>2^277\<close> units (\<open>2^128\<close>) or more overflows to an infinity.\<close>

fun pack :: "fview \<Rightarrow> f32" where
  "pack VNaN = F32 0x7FC00000"
| "pack (VInf s) = F32 (word_of_nat (sign_bits s + 255 * 2 ^ 23))"
| "pack (VFin s k) = (if k < 2 ^ 277 then F32 (word_of_nat (sign_bits s + mag_bits k))
     else F32 (word_of_nat (sign_bits s + 255 * 2 ^ 23)))"

lemma view_F32_nat:
  assumes "n < 2 ^ 32"
  shows "view (F32 (word_of_nat n)) = (let s = (n div 2 ^ 31 = 1);
                 e = n div 2 ^ 23 mod 2 ^ 8; f = n mod 2 ^ 23 in
     if e = 255 then (if f = 0 then VInf s else VNaN)
     else if e = 0 then VFin s f
     else VFin s ((2 ^ 23 + f) * 2 ^ (e - 1)))"
proof -
  have "unat (word_of_nat n :: u32) = n" using assms by (simp add: unat_of_nat take_bit_eq_mod)
  then show ?thesis by (simp add: view_def)
qed

lemma fields:
  assumes "e < 256" "f < 2 ^ 23" "n = sign_bits s + (e * 2 ^ 23 + f)"
  shows "n < 2 ^ 32" "(n div 2 ^ 31 = 1) = s" "n div 2 ^ 23 mod 2 ^ 8 = e" "n mod 2 ^ 23 = f"
proof -
  have d: "n div 2 ^ 23 = (if s then 256 else 0) + e"
    using assms by (auto simp: sign_bits_def)
  show "n < 2 ^ 32" using assms by (auto simp: sign_bits_def)
  show "n div 2 ^ 23 mod 2 ^ 8 = e" using assms(1) by (simp only: d) simp
  have n: "n = f + ((if s then 256 else 0) + e) * 2 ^ 23"
    using assms(3) by (simp add: sign_bits_def)
  show "n mod 2 ^ 23 = f" unfolding n mod_mult_self1 using assms(2) by simp
  have "n div 2 ^ 31 = n div 2 ^ 23 div 2 ^ 8" by (simp flip: div_mult2_eq)
  then show "(n div 2 ^ 31 = 1) = s"
    using assms(1) by (simp only: d) (cases s; simp add: div_add_self1)
qed

lemma view_inf: "view (pack (VInf s)) = VInf s"
  using fields [of 255 0 _ s, OF _ _ refl] view_F32_nat [of "sign_bits s + 255 * 2 ^ 23"] by simp

lemma view_nan [simp]: "view (pack VNaN) = VNaN"
  by (simp add: view_def)

text \<open>A representable magnitude survives packing and reading back.\<close>

lemma view_fin:
  assumes "rep k"
  shows "view (pack (VFin s k)) = VFin s k"
proof (cases "k < 2 ^ 23")
  case True
  then show ?thesis
    using fields [of 0 k _ s, OF _ _ refl] view_F32_nat [of "sign_bits s + k"] by (simp add: mag_bits_def)
next
  case False
  define e where "e = bitlen k - 23"
  have lt: "k < 2 ^ 277" and dv: "2 ^ (bitlen k - 24) dvd k" using assms by (auto simp: rep_def)
  have b: "2 ^ (bitlen k - 1) \<le> k" "k < 2 ^ bitlen k" using bitlen_bounds [of k] False by auto
  have "\<not> bitlen k \<le> 23" "bitlen k \<le> 277" using False lt by (auto simp: bitlen_le_iff)
  then have e: "0 < e" "e < 255" "bitlen k = 23 + e" by (auto simp: e_def)
  obtain m where m: "k = 2 ^ (e - 1) * m" using dv e by (auto simp: add.commute)
  have p: "(2::nat) ^ (23 + e) = 2 ^ (e - 1) * 2 ^ 24" "(2::nat) ^ (23 + e - 1) = 2 ^ (e - 1) * 2 ^ 23"
    using e(1) by (cases e; simp add: power_add)+
  have "2 ^ (e - 1) * 2 ^ 23 \<le> 2 ^ (e - 1) * m" "2 ^ (e - 1) * m < 2 ^ (e - 1) * 2 ^ 24"
    using b by (simp_all only: e(3) p flip: m)
  then have "2 ^ 23 \<le> m" "m < 2 ^ 24" by simp_all
  then have f: "m - 2 ^ 23 < 2 ^ 23" and k: "k = (2 ^ 23 + (m - 2 ^ 23)) * 2 ^ (e - 1)"
    by (auto simp: m)
  have "mag_bits k = e * 2 ^ 23 + (m - 2 ^ 23)"
    using False by (simp add: mag_bits_def Let_def e_def [symmetric]) (simp add: m)
  then show ?thesis
    using fields [of e "m - 2 ^ 23" _ s, OF _ _ refl] f e lt view_F32_nat [of "sign_bits s + mag_bits k"]
      k by simp
qed

lemma view_rep: "view x = VFin s k \<Longrightarrow> rep k"
proof -
  assume v: "view x = VFin s k"
  define n where "n = unat (to_bits x)"
  define e f where "e = n div 2 ^ 23 mod 2 ^ 8" and "f = n mod 2 ^ 23"
  have f: "f < 2 ^ 23" and e: "e < 256" by (simp_all add: f_def e_def)
  consider "e = 0" "k = f" | "0 < e" "e < 255" "k = (2 ^ 23 + f) * 2 ^ (e - 1)"
    using v e unfolding view_def Let_def n_def [symmetric] e_def [symmetric] f_def [symmetric]
    by (auto split: if_splits)
  then show "rep k"
  proof cases
    case 1
    then show ?thesis using rep_shift [of f 0] f by simp
  next
    case 2
    have "(2 ^ 23 + f) * 2 ^ (e - 1) < 2 ^ 24 * 2 ^ (e - 1)" using f by simp
    also have "\<dots> \<le> 2 ^ 24 * 2 ^ 253" using 2 by (intro mult_left_mono power_increasing) auto
    also have "\<dots> = 2 ^ 277" by (simp flip: power_add)
    finally show ?thesis using rep_shift [of "2 ^ 23 + f" "e - 1"] f 2 by simp
  qed
qed

lemma pack_overflow: "\<not> k < 2 ^ 277 \<Longrightarrow> pack (VFin s k) = pack (VInf s)"
  by simp

declare pack.simps [simp del]

section \<open>Arithmetic\<close>

definition round_to :: "bool \<Rightarrow> nat \<Rightarrow> nat \<Rightarrow> f32" where
  "round_to s p q = pack (VFin s (rnd p q))"

text \<open>The finite value as an integer number of units.\<close>

definition signed :: "bool \<Rightarrow> nat \<Rightarrow> int" where
  "signed s k = (if s then - int k else int k)"

text \<open>IEEE addition: an exact zero is \<open>+0\<close> unless both operands are negative zeros.\<close>

fun add_view :: "fview \<Rightarrow> fview \<Rightarrow> f32" where
  "add_view VNaN _ = pack VNaN"
| "add_view _ VNaN = pack VNaN"
| "add_view (VInf s) (VInf t) = (if s = t then pack (VInf s) else pack VNaN)"
| "add_view (VInf s) (VFin _ _) = pack (VInf s)"
| "add_view (VFin _ _) (VInf t) = pack (VInf t)"
| "add_view (VFin s k) (VFin t l) =
     (let z = signed s k + signed t l in
      if z = 0 then pack (VFin (s \<and> t) 0) else round_to (z < 0) (nat \<bar>z\<bar>) 1)"

text \<open>A product of two magnitudes is counted in units of \<open>2^-298\<close>.\<close>

fun mul_view :: "fview \<Rightarrow> fview \<Rightarrow> f32" where
  "mul_view VNaN _ = pack VNaN"
| "mul_view _ VNaN = pack VNaN"
| "mul_view (VInf s) (VInf t) = pack (VInf (s \<noteq> t))"
| "mul_view (VInf s) (VFin t l) = (if l = 0 then pack VNaN else pack (VInf (s \<noteq> t)))"
| "mul_view (VFin s k) (VInf t) = (if k = 0 then pack VNaN else pack (VInf (s \<noteq> t)))"
| "mul_view (VFin s k) (VFin t l) = round_to (s \<noteq> t) (k * l) (2 ^ 149)"

fun div_view :: "fview \<Rightarrow> fview \<Rightarrow> f32" where
  "div_view VNaN _ = pack VNaN"
| "div_view _ VNaN = pack VNaN"
| "div_view (VInf s) (VInf t) = pack VNaN"
| "div_view (VInf s) (VFin t l) = pack (VInf (s \<noteq> t))"
| "div_view (VFin s k) (VInf t) = pack (VFin (s \<noteq> t) 0)"
| "div_view (VFin s k) (VFin t l) =
     (if l = 0 then (if k = 0 then pack VNaN else pack (VInf (s \<noteq> t)))
      else round_to (s \<noteq> t) (k * 2 ^ 149) l)"

text \<open>Negation flips the sign bit: adding \<open>2^31\<close> modulo \<open>2^32\<close> flips bit 31 and nothing else.\<close>

definition fneg :: "f32 \<Rightarrow> f32" where
  "fneg x = F32 (to_bits x + 0x80000000)"

definition fabs :: "f32 \<Rightarrow> f32" where
  "fabs x = F32 (take_bit 31 (to_bits x))"

instantiation f32 :: "{plus, minus, uminus, times, inverse}"
begin

definition plus_f32 :: "f32 \<Rightarrow> f32 \<Rightarrow> f32" where
  "x + y = add_view (view x) (view y)"

definition uminus_f32 :: "f32 \<Rightarrow> f32" where
  "- x = fneg x"

definition minus_f32 :: "f32 \<Rightarrow> f32 \<Rightarrow> f32" where
  "x - y = x + - (y :: f32)"

definition times_f32 :: "f32 \<Rightarrow> f32 \<Rightarrow> f32" where
  "x * y = mul_view (view x) (view y)"

definition divide_f32 :: "f32 \<Rightarrow> f32 \<Rightarrow> f32" where
  "divide_f32 x y = div_view (view x) (view y)"

definition inverse_f32 :: "f32 \<Rightarrow> f32" where
  "inverse_f32 x = div_view (VFin False (2 ^ 149)) (view x)"

instance ..

end

section \<open>Comparisons\<close>

text \<open>The position of a value on the extended line; a NaN has none, so every comparison with it fails.\<close>

fun line :: "fview \<Rightarrow> int option" where
  "line VNaN = None"
| "line (VInf s) = Some (if s then - (2 ^ 277) else 2 ^ 277)"
| "line (VFin s k) = Some (signed s k)"

definition pos :: "f32 \<Rightarrow> int option" where
  "pos x = line (view x)"

instantiation f32 :: ord
begin

definition less_eq_f32 :: "f32 \<Rightarrow> f32 \<Rightarrow> bool" where
  "x \<le> y = (case (pos x, pos y) of (Some a, Some b) \<Rightarrow> a \<le> b | _ \<Rightarrow> False)"

definition less_f32 :: "f32 \<Rightarrow> f32 \<Rightarrow> bool" where
  "x < y = (case (pos x, pos y) of (Some a, Some b) \<Rightarrow> a < b | _ \<Rightarrow> False)"

instance ..

end

text \<open>Rust's \<open>==\<close>: \<open>+0\<close> equals \<open>-0\<close>, a NaN equals nothing.\<close>

definition feq :: "f32 \<Rightarrow> f32 \<Rightarrow> bool" where
  "feq x y = (case (pos x, pos y) of (Some a, Some b) \<Rightarrow> a = b | _ \<Rightarrow> False)"

definition is_nan :: "f32 \<Rightarrow> bool" where
  "is_nan x = (view x = VNaN)"

definition is_infinite :: "f32 \<Rightarrow> bool" where
  "is_infinite x = (case view x of VInf _ \<Rightarrow> True | _ \<Rightarrow> False)"

definition is_finite :: "f32 \<Rightarrow> bool" where
  "is_finite x = (case view x of VFin _ _ \<Rightarrow> True | _ \<Rightarrow> False)"

text \<open>\<open>f32::max\<close> and \<open>f32::min\<close> ignore a NaN operand.\<close>

definition fmax :: "f32 \<Rightarrow> f32 \<Rightarrow> f32" where
  "fmax x y = (if is_nan x then y else if is_nan y then x else if x < y then y else x)"

definition fmin :: "f32 \<Rightarrow> f32 \<Rightarrow> f32" where
  "fmin x y = (if is_nan x then y else if is_nan y then x else if y < x then y else x)"

text \<open>\<open>f32::clamp\<close> panics (here \<open>None\<close>) unless \<open>lo <= hi\<close>.\<close>

definition fclamp :: "f32 \<Rightarrow> f32 \<Rightarrow> f32 \<Rightarrow> f32 option" where
  "fclamp x lo hi = (if \<not> lo \<le> hi then None
     else let y = (if x < lo then lo else x) in Some (if hi < y then hi else y))"

section \<open>Conversions and literals\<close>

definition f32_of_nat :: "nat \<Rightarrow> f32" where
  "f32_of_nat n = round_to False (n * 2 ^ 149) 1"

text \<open>\<open>as f32\<close> on an unsigned integer.\<close>

definition f32_of_word :: "'a::len word \<Rightarrow> f32" where
  "f32_of_word w = f32_of_nat (unat w)"

text \<open>A decimal literal \<open>p/q\<close>, rounded as the compiler rounds it.\<close>

definition lit :: "nat \<Rightarrow> nat \<Rightarrow> f32" where
  "lit p q = round_to False (p * 2 ^ 149) q"

definition f32_NAN :: f32 where "f32_NAN = pack VNaN"
definition f32_INFINITY :: f32 where "f32_INFINITY = pack (VInf False)"
definition f32_NEG_INFINITY :: f32 where "f32_NEG_INFINITY = pack (VInf True)"
definition f32_EPSILON :: f32 where "f32_EPSILON = F32 0x34000000"

text \<open>\<open>f32::round\<close>: half away from zero.\<close>

definition fround :: "f32 \<Rightarrow> f32" where
  "fround x = (case view x of
     VFin s k \<Rightarrow> round_to s ((k + 2 ^ 148) div 2 ^ 149 * 2 ^ 149) 1 | _ \<Rightarrow> x)"

text \<open>\<open>as u32\<close>: truncates and saturates; a NaN gives 0.\<close>

definition f32_to_u32 :: "f32 \<Rightarrow> u32" where
  "f32_to_u32 x = (case view x of VNaN \<Rightarrow> 0
     | VInf s \<Rightarrow> (if s then 0 else - 1)
     | VFin s k \<Rightarrow> (if s then 0 else word_of_nat (min (k div 2 ^ 149) (2 ^ 32 - 1))))"

section \<open>Byte encodings\<close>

definition f32_to_le :: "f32 \<Rightarrow> u8 list" where
  "f32_to_le x = u32_to_le (to_bits x)"

definition f32_to_be :: "f32 \<Rightarrow> u8 list" where
  "f32_to_be x = u32_to_be (to_bits x)"

definition f32_from_le :: "u8 \<Rightarrow> u8 \<Rightarrow> u8 \<Rightarrow> u8 \<Rightarrow> f32" where
  "f32_from_le a b c d = F32 (u32_from_le a b c d)"

section \<open>Evaluation on concrete values\<close>

named_theorems f32_eval "definitions that compute binary32 operations on numerals"

declare
  view_def [f32_eval] pack.simps [f32_eval] sign_bits_def [f32_eval] mag_bits_def [f32_eval] round_to_def [f32_eval]
  rnd_def [f32_eval] rhe_def [f32_eval] signed_def [f32_eval] fneg_def [f32_eval]
  fabs_def [f32_eval] plus_f32_def [f32_eval] uminus_f32_def [f32_eval] minus_f32_def [f32_eval]
  times_f32_def [f32_eval] divide_f32_def [f32_eval] pos_def [f32_eval] less_eq_f32_def [f32_eval]
  less_f32_def [f32_eval] feq_def [f32_eval] is_nan_def [f32_eval] is_infinite_def [f32_eval]
  is_finite_def [f32_eval] fmax_def [f32_eval] fmin_def [f32_eval] fclamp_def [f32_eval]
  f32_of_nat_def [f32_eval] f32_of_word_def [f32_eval] lit_def [f32_eval] f32_NAN_def [f32_eval]
  f32_INFINITY_def [f32_eval] f32_NEG_INFINITY_def [f32_eval] f32_EPSILON_def [f32_eval]
  fround_def [f32_eval] f32_to_u32_def [f32_eval] Let_def [f32_eval]

lemma lit_eval_quarter: "lit 1 4 = F32 0x3E800000"
  by (simp add: f32_eval)

end
