(* ===== verification/F32_Laws.thy ===== *)
theory F32_Laws
  imports F32
begin

text \<open>
  The laws of binary32 the component proofs use: the integer value \<open>fv\<close> of a finite number (in
  units of \<open>2^-149\<close>), the comparisons as comparisons of that value, negation and absolute value as
  operations on the sign, sums, products and quotients as roundings, and the bounds that monotone
  rounding gives.
\<close>

section \<open>Finite values\<close>

definition fv :: "f32 \<Rightarrow> int" where
  "fv x = (case view x of VFin s k \<Rightarrow> signed s k | _ \<Rightarrow> 0)"

lemma finiteE:
  assumes "is_finite x"
  obtains s k where "view x = VFin s k" "rep k" "fv x = signed s k" "pos x = Some (signed s k)"
  using assms view_rep [of x] by (auto simp: is_finite_def fv_def pos_def split: fview.splits)

lemma finite_pos: "is_finite x \<Longrightarrow> pos x = Some (fv x)"
  by (elim finiteE) simp

lemma finite_not_nan [simp]: "is_finite x \<Longrightarrow> \<not> is_nan x"
  by (auto simp: is_finite_def is_nan_def)

lemma finite_not_infinite [simp]: "is_finite x \<Longrightarrow> \<not> is_infinite x"
  by (auto simp: is_finite_def is_infinite_def split: fview.splits)

lemma is_finite_iff: "is_finite x \<longleftrightarrow> \<not> is_nan x \<and> \<not> is_infinite x"
  by (auto simp: is_finite_def is_infinite_def is_nan_def split: fview.splits)

lemma pos_None: "pos x = None \<longleftrightarrow> is_nan x"
  by (cases "view x") (auto simp: pos_def is_nan_def)

lemma signed_abs [simp]: "nat \<bar>signed s k\<bar> = k"
  by (simp add: signed_def)

lemma fv_bound: "is_finite x \<Longrightarrow> \<bar>fv x\<bar> < 2 ^ 277"
  by (elim finiteE) (auto simp: rep_def signed_def)

section \<open>Comparisons\<close>

lemma le_fin: "is_finite x \<Longrightarrow> is_finite y \<Longrightarrow> x \<le> y \<longleftrightarrow> fv x \<le> fv y"
  by (simp add: less_eq_f32_def finite_pos)

lemma lt_fin: "is_finite x \<Longrightarrow> is_finite y \<Longrightarrow> x < y \<longleftrightarrow> fv x < fv y"
  by (simp add: less_f32_def finite_pos)

lemma nan_compare [simp]:
  "is_nan x \<Longrightarrow> \<not> x \<le> y" "is_nan y \<Longrightarrow> \<not> x \<le> y" "is_nan x \<Longrightarrow> \<not> x < y" "is_nan y \<Longrightarrow> \<not> x < y"
  by (auto simp: less_eq_f32_def less_f32_def pos_None [symmetric] split: option.splits)

lemma f32_le_trans: "x \<le> y \<Longrightarrow> y \<le> z \<Longrightarrow> x \<le> z" for x y z :: f32
  by (auto simp: less_eq_f32_def split: option.splits)

lemma f32_le_less_trans: "x \<le> y \<Longrightarrow> y < z \<Longrightarrow> x < z" for x y z :: f32
  by (auto simp: less_eq_f32_def less_f32_def split: option.splits)

lemma f32_less_le_trans: "x < y \<Longrightarrow> y \<le> z \<Longrightarrow> x < z" for x y z :: f32
  by (auto simp: less_eq_f32_def less_f32_def split: option.splits)

lemma f32_less_trans: "x < y \<Longrightarrow> y < z \<Longrightarrow> x < z" for x y z :: f32
  by (auto simp: less_f32_def split: option.splits)

lemma f32_less_imp_le: "x < y \<Longrightarrow> x \<le> y" for x y :: f32
  by (auto simp: less_eq_f32_def less_f32_def split: option.splits)

lemma f32_not_less: "\<not> is_nan x \<Longrightarrow> \<not> is_nan y \<Longrightarrow> \<not> x < y \<longleftrightarrow> y \<le> x" for x y :: f32
  by (auto simp: less_eq_f32_def less_f32_def pos_None [symmetric] split: option.splits)

lemma f32_not_le: "\<not> is_nan x \<Longrightarrow> \<not> is_nan y \<Longrightarrow> \<not> x \<le> y \<longleftrightarrow> y < x" for x y :: f32
  by (auto simp: less_eq_f32_def less_f32_def pos_None [symmetric] split: option.splits)

lemma f32_less_irrefl [simp]: "\<not> x < (x :: f32)"
  by (auto simp: less_f32_def split: option.splits)

lemma f32_less_not_le: "x < y \<Longrightarrow> \<not> y \<le> x" for x y :: f32
  by (auto simp: less_eq_f32_def less_f32_def split: option.splits)

lemma f32_le_refl: "x \<le> x \<longleftrightarrow> \<not> is_nan x" for x :: f32
  by (auto simp: less_eq_f32_def pos_None [symmetric] split: option.splits)

lemma compare_not_nan:
  "x \<le> y \<Longrightarrow> \<not> is_nan x \<and> \<not> is_nan y" "x < y \<Longrightarrow> \<not> is_nan x \<and> \<not> is_nan y"
  by auto

lemma between_finite:
  assumes "x \<le> y" "y \<le> z" "is_finite x" "is_finite z"
  shows "is_finite y"
proof (rule ccontr)
  assume "\<not> is_finite y"
  then obtain s where "view y = VInf s" using assms(1) compare_not_nan(1) [of x y]
    by (auto simp: is_finite_def is_nan_def split: fview.splits)
  then show False using assms fv_bound [of x] fv_bound [of z]
    by (auto simp: less_eq_f32_def finite_pos pos_def [of y] split: if_splits)
qed

section \<open>Results of rounding\<close>

lemma view_round_to:
  assumes "0 < q"
  shows "view (round_to s p q) = (if rnd p q < 2 ^ 277 then VFin s (rnd p q) else VInf s)"
  using assms by (auto simp: round_to_def view_fin rnd_rep pack_overflow view_inf)

lemma rep_small: "k \<le> 2 ^ 24 \<Longrightarrow> e \<le> 252 \<Longrightarrow> rep (k * 2 ^ e)"
proof -
  assume a: "k \<le> 2 ^ 24" "e \<le> 252"
  then have "k * 2 ^ e \<le> 2 ^ 24 * 2 ^ 252" by (intro mult_mono power_increasing) auto
  also have "\<dots> < 2 ^ 277" by simp
  finally show ?thesis using a by (intro rep_shift)
qed

text \<open>Signed rounding, for sums.\<close>

definition rz :: "int \<Rightarrow> int" where
  "rz z = (if z < 0 then - int (rnd (nat (- z)) 1) else int (rnd (nat z) 1))"

lemma rz_mono: "a \<le> b \<Longrightarrow> rz a \<le> rz b"
  by (auto simp: rz_def intro!: rnd_mono)

lemma rz_exact: "rep (nat \<bar>z\<bar>) \<Longrightarrow> rz z = z"
  using rnd_exact [of "nat \<bar>z\<bar>" 1] by (auto simp: rz_def abs_if split: if_splits)

lemma rz_neg: "rz (- z) = - rz z"
proof -
  have "rnd 0 1 = 0" using rnd_exact [of 0 1] by simp
  then show ?thesis by (auto simp: rz_def)
qed

lemma add_fin:
  assumes x: "is_finite x" and y: "is_finite y" and ov: "\<bar>rz (fv x + fv y)\<bar> < 2 ^ 277"
  shows "is_finite (x + y)" and "fv (x + y) = rz (fv x + fv y)"
proof -
  from x obtain s k where vx: "view x = VFin s k" "fv x = signed s k" by (elim finiteE)
  from y obtain t l where vy: "view y = VFin t l" "fv y = signed t l" by (elim finiteE)
  define z where "z = fv x + fv y"
  have r0: "rz 0 = 0" using rz_exact [of 0] by simp
  have "is_finite (x + y) \<and> fv (x + y) = rz z"
  proof (cases "z = 0")
    case True
    then show ?thesis
      using view_fin [of 0 "s \<and> t"] r0
      by (simp add: plus_f32_def vx vy z_def is_finite_def fv_def signed_def)
  next
    case False
    have "rnd (nat \<bar>z\<bar>) 1 < 2 ^ 277"
      using ov by (auto simp: z_def [symmetric] rz_def abs_if split: if_splits)
    then have "view (x + y) = VFin (z < 0) (rnd (nat \<bar>z\<bar>) 1)"
      using False view_round_to [of 1 "z < 0" "nat \<bar>z\<bar>"]
      by (simp add: plus_f32_def vx vy z_def Let_def)
    then show ?thesis by (auto simp: is_finite_def fv_def signed_def rz_def)
  qed
  then show "is_finite (x + y)" "fv (x + y) = rz (fv x + fv y)" by (simp_all add: z_def)
qed

section \<open>Sign operations\<close>

fun flip_sign :: "fview \<Rightarrow> fview" where
  "flip_sign VNaN = VNaN"
| "flip_sign (VInf s) = VInf (\<not> s)"
| "flip_sign (VFin s k) = VFin (\<not> s) k"

lemma view_split:
  assumes "g < 2 ^ 31"
  shows "view (F32 (word_of_nat (sign_bits s + g))) =
    (let e = g div 2 ^ 23; f = g mod 2 ^ 23 in
     if e = 255 then (if f = 0 then VInf s else VNaN)
     else if e = 0 then VFin s f else VFin s ((2 ^ 23 + f) * 2 ^ (e - 1)))"
proof -
  have e: "g div 2 ^ 23 < 256" and f: "g mod 2 ^ 23 < 2 ^ 23" using assms by auto
  have g: "sign_bits s + g = sign_bits s + (g div 2 ^ 23 * 2 ^ 23 + g mod 2 ^ 23)" by simp
  note h = fields [OF e f g]
  show ?thesis using view_F32_nat [OF h(1)] h(2,3,4) by simp
qed

lemma bits_split:
  obtains s g where "x = F32 (word_of_nat (sign_bits s + g))" "g < 2 ^ 31"
proof -
  define n where "n = unat (to_bits x)"
  have n: "n < 2 ^ 32" using unsigned_less [of "to_bits x", where 'a = nat] by (simp add: n_def)
  have x: "x = F32 (word_of_nat n)" by (simp add: n_def)
  show thesis
  proof (cases "n < 2 ^ 31")
    case True
    then show ?thesis using that [of False n] x by (simp add: sign_bits_def)
  next
    case False
    then have "n = sign_bits True + (n - 2 ^ 31)" "n - 2 ^ 31 < 2 ^ 31"
      using n by (simp_all add: sign_bits_def)
    then show ?thesis using that [of True "n - 2 ^ 31"] x by simp
  qed
qed

lemma view_uminus: "view (- x) = flip_sign (view x)"
proof (rule bits_split [of x])
  fix s g
  assume x: "x = F32 (word_of_nat (sign_bits s + g))" and g: "g < 2 ^ 31"
  have "- x = F32 (word_of_nat (sign_bits s + g) + 0x80000000)"
    by (simp add: x uminus_f32_def fneg_def)
  also have "\<dots> = F32 (word_of_nat (sign_bits (\<not> s) + g))"
    by (auto simp: sign_bits_def)
  finally have n: "- x = F32 (word_of_nat (sign_bits (\<not> s) + g))" .
  show ?thesis unfolding n unfolding x using g by (simp only: view_split Let_def) auto
qed

lemma uminus_fin [simp]: "is_finite (- x) = is_finite x"
  by (cases "view x") (auto simp: is_finite_def view_uminus)

lemma fv_uminus [simp]: "fv (- x) = - fv x"
  by (cases "view x") (auto simp: fv_def view_uminus signed_def)

lemma nan_uminus [simp]: "is_nan (- x) = is_nan x"
  by (cases "view x") (auto simp: is_nan_def view_uminus)

lemma view_fabs: "view (fabs x) = (case view x of VNaN \<Rightarrow> VNaN | VInf _ \<Rightarrow> VInf False
    | VFin _ k \<Rightarrow> VFin False k)"
proof (rule bits_split [of x])
  fix s g
  assume x: "x = F32 (word_of_nat (sign_bits s + g))" and g: "g < 2 ^ 31"
  have "take_bit 31 (word_of_nat (sign_bits s + g) :: u32) = word_of_nat (take_bit 31 (sign_bits s + g))"
    by (simp only: take_bit_of_nat)
  also have "take_bit 31 (sign_bits s + g) = sign_bits False + g"
    using g by (auto simp: sign_bits_def take_bit_eq_mod)
  finally have "fabs x = F32 (word_of_nat (sign_bits False + g))" by (simp only: fabs_def x f32.sel)
  then show ?thesis using g by (simp only: x view_split Let_def split: if_splits) auto
qed

lemma fabs_fin [simp]: "is_finite (fabs x) = is_finite x"
  by (cases "view x") (auto simp: is_finite_def view_fabs)

lemma fv_fabs [simp]: "fv (fabs x) = \<bar>fv x\<bar>"
  by (cases "view x") (auto simp: fv_def view_fabs signed_def)

lemma nan_fabs [simp]: "is_nan (fabs x) = is_nan x"
  by (cases "view x") (auto simp: is_nan_def view_fabs)

section \<open>Differences, products, quotients\<close>

lemma sub_fin:
  assumes "is_finite x" "is_finite y" "\<bar>rz (fv x - fv y)\<bar> < 2 ^ 277"
  shows "is_finite (x - y)" and "fv (x - y) = rz (fv x - fv y)"
  using add_fin [of x "- y"] assms by (simp_all add: minus_f32_def)

text \<open>Products and quotients of non-negative numbers (a negative zero counts as zero).\<close>

lemma fv_sign_cases: "0 \<le> fv x \<Longrightarrow> view x = VFin s k \<Longrightarrow> k = nat (fv x) \<and> (s \<longrightarrow> k = 0)"
  by (auto simp: fv_def signed_def split: if_splits)

lemma rnd_0 [simp]: "0 < q \<Longrightarrow> rnd 0 q = 0"
  using rnd_exact [of 0 q] by simp

lemma mul_fin:
  assumes x: "is_finite x" "0 \<le> fv x" and y: "is_finite y" "0 \<le> fv y"
    and ov: "rnd (nat (fv x) * nat (fv y)) (2 ^ 149) < 2 ^ 277"
  shows "is_finite (x * y)" and "fv (x * y) = int (rnd (nat (fv x) * nat (fv y)) (2 ^ 149))"
proof -
  from x(1) obtain s k where vx: "view x = VFin s k" by (elim finiteE)
  from y(1) obtain t l where vy: "view y = VFin t l" by (elim finiteE)
  have k: "k = nat (fv x)" "s \<Longrightarrow> k = 0" and l: "l = nat (fv y)" "t \<Longrightarrow> l = 0"
    using fv_sign_cases [OF x(2) vx] fv_sign_cases [OF y(2) vy] by auto
  have v: "view (x * y) = VFin (s \<noteq> t) (rnd (k * l) (2 ^ 149))"
    using ov by (simp add: times_f32_def vx vy view_round_to k(1) l(1))
  have "s \<noteq> t \<Longrightarrow> k * l = 0" using k l by auto
  then have "fv (x * y) = int (rnd (k * l) (2 ^ 149))"
    by (auto simp: fv_def v signed_def)
  then show "is_finite (x * y)" "fv (x * y) = int (rnd (nat (fv x) * nat (fv y)) (2 ^ 149))"
    using v by (auto simp: is_finite_def k(1) l(1))
qed

lemma div_fin:
  assumes x: "is_finite x" "0 \<le> fv x" and y: "is_finite y" "0 < fv y"
    and ov: "rnd (nat (fv x) * 2 ^ 149) (nat (fv y)) < 2 ^ 277"
  shows "is_finite (divide x y)"
    and "fv (divide x y) = int (rnd (nat (fv x) * 2 ^ 149) (nat (fv y)))"
proof -
  from x(1) obtain s k where vx: "view x = VFin s k" by (elim finiteE)
  from y(1) obtain t l where vy: "view y = VFin t l" by (elim finiteE)
  have k: "k = nat (fv x)" "s \<Longrightarrow> k = 0" and l: "l = nat (fv y)" "\<not> t" "0 < l"
    using fv_sign_cases [OF x(2) vx] fv_sign_cases [of y, OF _ vy] y(2) by auto
  have v: "view (divide x y) = VFin s (rnd (k * 2 ^ 149) l)"
    using ov l(2,3) by (simp add: divide_f32_def vx vy view_round_to k(1) l(1))
  have "s \<Longrightarrow> rnd (k * 2 ^ 149) l = 0" using k l by simp
  then have "fv (divide x y) = int (rnd (k * 2 ^ 149) l)"
    by (auto simp: fv_def v signed_def)
  then show "is_finite (divide x y)"
    "fv (divide x y) = int (rnd (nat (fv x) * 2 ^ 149) (nat (fv y)))"
    using v by (auto simp: is_finite_def k(1) l(1))
qed

section \<open>Conversions\<close>

text \<open>An integer below \<open>2^24\<close> is converted exactly.\<close>

lemma f32_of_nat_view:
  "view (f32_of_nat n) = (if rnd (n * 2 ^ 149) 1 < 2 ^ 277 then VFin False (rnd (n * 2 ^ 149) 1)
     else VInf False)"
  by (simp add: f32_of_nat_def view_round_to)

lemma rnd_u32_bound: "n \<le> 2 ^ 32 \<Longrightarrow> rnd (n * 2 ^ 149) 1 \<le> 2 ^ 181"
  using rnd.le_rep [of "2 ^ 181" 1 "n * 2 ^ 149"] rep_small [of 1 181] by simp

lemma f32_of_nat_fin:
  assumes "n \<le> 2 ^ 32"
  shows "is_finite (f32_of_nat n)" "fv (f32_of_nat n) = int (rnd (n * 2 ^ 149) 1)"
    "0 \<le> fv (f32_of_nat n)" "fv (f32_of_nat n) \<le> 2 ^ 181"
proof -
  have b: "rnd (n * 2 ^ 149) 1 \<le> 2 ^ 181" using assms by (rule rnd_u32_bound)
  then have "view (f32_of_nat n) = VFin False (rnd (n * 2 ^ 149) 1)"
    by (simp add: f32_of_nat_view)
  then show "is_finite (f32_of_nat n)" "fv (f32_of_nat n) = int (rnd (n * 2 ^ 149) 1)"
    "0 \<le> fv (f32_of_nat n)" "fv (f32_of_nat n) \<le> 2 ^ 181"
    using b by (auto simp: is_finite_def fv_def signed_def)
qed

lemma f32_of_nat_exact: "n \<le> 2 ^ 24 \<Longrightarrow> fv (f32_of_nat n) = int n * 2 ^ 149"
  using f32_of_nat_fin(2) [of n] rnd_exact [of "n * 2 ^ 149" 1] rep_small [of n 149] by simp

lemma f32_of_nat_mono:
  "m \<le> n \<Longrightarrow> n \<le> 2 ^ 32 \<Longrightarrow> fv (f32_of_nat m) \<le> fv (f32_of_nat n)"
  by (simp add: f32_of_nat_fin rnd_mono)

lemma f32_of_word_fin:
  "is_finite (f32_of_word (w :: u32))" "0 \<le> fv (f32_of_word w)" "fv (f32_of_word w) \<le> 2 ^ 181"
  using f32_of_nat_fin [of "unat w"] unsigned_less [of w, where 'a = nat]
  by (simp_all add: f32_of_word_def)

lemma f32_of_word_mono: "v \<le> w \<Longrightarrow> fv (f32_of_word v) \<le> fv (f32_of_word (w :: u32))"
  using f32_of_nat_mono [of "unat v" "unat w"] unsigned_less [of w, where 'a = nat]
  by (simp add: f32_of_word_def word_le_nat_alt)

text \<open>Rounding to an integer, and the saturating cast, are monotone on finite values.\<close>

definition round_int :: "int \<Rightarrow> nat" where
  "round_int z = (nat z + 2 ^ 148) div 2 ^ 149"

lemma round_int_mono: "a \<le> b \<Longrightarrow> round_int a \<le> round_int b"
  by (auto simp: round_int_def intro!: div_le_mono)

lemma round_int_of_int [simp]: "round_int (int n * 2 ^ 149) = n"
  by (simp add: round_int_def nat_mult_distrib)

lemma fround_to_u32:
  assumes x: "is_finite x" "0 \<le> fv x" and lt: "fv x \<le> 2 ^ 24 * 2 ^ 149"
  shows "unat (f32_to_u32 (fround x)) = round_int (fv x)"
proof -
  from x(1) obtain s k where v: "view x = VFin s k" by (elim finiteE)
  have k: "k = nat (fv x)" "s \<Longrightarrow> k = 0" using fv_sign_cases [OF x(2) v] by auto
  define r where "r = (k + 2 ^ 148) div 2 ^ 149"
  have "k \<le> 2 ^ 24 * 2 ^ 149" using lt k(1) by simp
  then have "r \<le> (2 ^ 24 * 2 ^ 149 + 2 ^ 148) div 2 ^ 149" unfolding r_def by (intro div_le_mono) simp
  then have r: "r \<le> 2 ^ 24" by simp
  define R where "R = r * 2 ^ 149"
  have "rep R" unfolding R_def using r by (intro rep_small) auto
  then have "rnd R 1 = R" "R < 2 ^ 277" using rnd_exact [of R 1] by (simp_all add: rep_def)
  moreover have "fround x = round_to s R 1" by (simp add: fround_def v R_def r_def)
  ultimately have "view (fround x) = VFin s R" by (simp add: view_round_to)
  moreover have "s \<Longrightarrow> r = 0" using k by (simp add: r_def)
  moreover have "round_int (fv x) = r" using k(1) by (simp add: round_int_def r_def)
  moreover have "R div 2 ^ 149 = r" by (simp add: R_def)
  ultimately show ?thesis using r by (auto simp: f32_to_u32_def unat_of_nat take_bit_eq_mod R_def)
qed

end
