(* ===== verification/F32_Real.thy ===== *)
theory F32_Real
  imports Complex_Main F32_Laws
begin

text \<open>
  Binary32 against the real numbers: the real value \<open>rv\<close> of a finite number, the relative error
  \<open>2^-24\<close> of one rounding (with an absolute term for results below the normal range), and the
  error of each arithmetic operation. The accuracy of the fan curve rests on these.
\<close>

section \<open>Error of one rounding\<close>

lemma rhe_error:
  assumes "0 < q"
  shows "\<bar>real (rhe p q) * real q - real p\<bar> \<le> real q / 2"
proof -
  define k r where "k = p div q" and "r = p mod q"
  have p: "real p = real k * real q + real r"
    unfolding k_def r_def by (simp flip: of_nat_mult of_nat_add)
  have r: "r < q" using assms by (simp add: r_def)
  show ?thesis
  proof (cases "2 * r < q \<or> 2 * r = q \<and> even k")
    case True
    then have "rhe p q = k" by (simp add: rhe_def Let_def k_def r_def)
    moreover have "real r \<le> real q / 2" using True by auto
    ultimately show ?thesis by (simp add: p)
  next
    case False
    then have "rhe p q = Suc k" by (simp add: rhe_def Let_def k_def r_def)
    moreover have "real q \<le> 2 * real r" using False by linarith
    moreover have "real r \<le> real q" using r by simp
    ultimately show ?thesis by (simp add: p algebra_simps)
  qed
qed

definition ulp :: real where
  "ulp = 1 / 2 ^ 24"

lemma rnd_error:
  assumes q: "0 < q"
  shows "\<bar>real (rnd p q) - real p / real q\<bar> \<le> max (ulp * (real p / real q)) (1 / 2)"
proof -
  define e where "e = bitlen (p div q) - 24"
  define m where "m = rhe p (q * 2 ^ e)"
  have r: "real (rnd p q) = real m * 2 ^ e" by (simp add: rnd_def Let_def e_def m_def)
  have "\<bar>real m * real (q * 2 ^ e) - real p\<bar> \<le> real (q * 2 ^ e) / 2"
    unfolding m_def using q by (intro rhe_error) simp
  then have "\<bar>(real (rnd p q) - real p / real q) * real q\<bar> \<le> 2 ^ e / 2 * real q"
    using q by (simp add: r algebra_simps)
  then have err: "\<bar>real (rnd p q) - real p / real q\<bar> \<le> 2 ^ e / 2"
    using q by (simp only: abs_mult) simp
  show ?thesis
  proof (cases "e = 0")
    case True
    then show ?thesis using err by (intro max.coboundedI2) simp
  next
    case False
    then have b: "bitlen (p div q) = 24 + e" by (simp add: e_def)
    then have "2 ^ (23 + e) \<le> p div q" using bitlen_bounds [of "p div q"] by (cases "p div q = 0") auto
    then have "2 ^ (23 + e) * q \<le> p" using q by (simp add: less_eq_div_iff_mult_less_eq)
    then have "real (2 ^ (23 + e) * q) \<le> real p" by (simp only: of_nat_le_iff)
    then have "2 ^ (23 + e) \<le> real p / real q" using q by (simp add: le_divide_eq)
    then have "(2::real) ^ e / 2 \<le> ulp * (real p / real q)"
      unfolding ulp_def by (simp add: power_add)
    then show ?thesis using err by linarith
  qed
qed

text \<open>A whole number of units rounds with a purely relative error.\<close>

lemma rnd_error_int: "\<bar>real (rnd n 1) - real n\<bar> \<le> ulp * real n"
proof (cases "n < 2 ^ 24")
  case True
  then have "rep n" using rep_small [of n 0] by simp
  then have "rnd n 1 = n" using rnd_exact [of n 1] by simp
  then show ?thesis by (simp add: ulp_def)
next
  case False
  then have "(2::nat) ^ 24 \<le> n" by simp
  then have "(1::real) / 2 \<le> ulp * real n" unfolding ulp_def by simp
  then show ?thesis using rnd_error [of 1 n] by simp
qed

lemma rz_error: "\<bar>real_of_int (rz z) - real_of_int z\<bar> \<le> ulp * \<bar>real_of_int z\<bar>"
  using rnd_error_int [of "nat z"] rnd_error_int [of "nat (- z)"] by (auto simp: rz_def)

section \<open>Real values and the error of each operation\<close>

definition U :: real where
  "U = 2 ^ 149"

lemma U_pos [simp]: "0 < U" "U \<noteq> 0" "0 \<le> U" "\<not> U < 0" "\<not> U \<le> 0"
  by (simp_all add: U_def)

definition rv :: "f32 \<Rightarrow> real" where
  "rv x = real_of_int (fv x) / U"

lemma rv_le: "is_finite x \<Longrightarrow> is_finite y \<Longrightarrow> x \<le> y \<longleftrightarrow> rv x \<le> rv y"
  by (simp add: le_fin rv_def divide_le_cancel)

lemma rv_lt: "is_finite x \<Longrightarrow> is_finite y \<Longrightarrow> x < y \<longleftrightarrow> rv x < rv y"
  by (simp add: lt_fin rv_def divide_less_cancel)

lemma fv_rv: "real_of_int (fv x) = rv x * U"
  by (simp add: rv_def)

text \<open>Absolute error \<open>eta\<close> of a result below the normal range.\<close>

definition eta :: real where
  "eta = 1 / (2 * U)"

lemma rz_small: "\<bar>z\<bar> \<le> 2 ^ 276 \<Longrightarrow> \<bar>rz z\<bar> < 2 ^ 277"
proof -
  assume z: "\<bar>z\<bar> \<le> 2 ^ 276"
  have "rep (2 ^ 276)" using rep_small [of "2 ^ 24" 252] by simp
  then have "rz (2 ^ 276) = 2 ^ 276" "rz (- (2 ^ 276)) = - (2 ^ 276)"
    using rz_exact [of "2 ^ 276"] rz_neg [of "2 ^ 276"] by simp_all
  moreover have "rz z \<le> rz (2 ^ 276)" "rz (- (2 ^ 276)) \<le> rz z"
    using z by (intro rz_mono; linarith)+
  ultimately show ?thesis by (simp add: abs_less_iff)
qed

lemma add_real:
  assumes f: "is_finite x" "is_finite y" and small: "\<bar>rv x + rv y\<bar> \<le> 2 ^ 127"
  shows "is_finite (x + y)" and "\<bar>rv (x + y) - (rv x + rv y)\<bar> \<le> ulp * \<bar>rv x + rv y\<bar>"
proof -
  have s: "rv x + rv y = real_of_int (fv x + fv y) / U" by (simp add: rv_def add_divide_distrib)
  have "\<bar>real_of_int (fv x + fv y)\<bar> \<le> 2 ^ 127 * U"
    using small by (simp add: s abs_divide divide_le_eq)
  then have "real_of_int \<bar>fv x + fv y\<bar> \<le> real_of_int (2 ^ 276)" by (simp add: U_def)
  then have b: "\<bar>fv x + fv y\<bar> \<le> 2 ^ 276" by (simp only: of_int_le_iff)
  note a = add_fin [OF f rz_small [OF b]]
  show "is_finite (x + y)" by (rule a)
  have "\<bar>rv (x + y) - (rv x + rv y)\<bar> = \<bar>real_of_int (rz (fv x + fv y)) - real_of_int (fv x + fv y)\<bar> / U"
    unfolding s rv_def [of "x + y"] a(2) by (simp add: abs_divide flip: diff_divide_distrib)
  also have "\<dots> \<le> ulp * \<bar>real_of_int (fv x + fv y)\<bar> / U"
    by (intro divide_right_mono rz_error) simp
  finally show "\<bar>rv (x + y) - (rv x + rv y)\<bar> \<le> ulp * \<bar>rv x + rv y\<bar>"
    by (simp only: s abs_divide times_divide_eq_right) simp
qed

lemma rv_uminus [simp]: "rv (- x) = - rv x"
  by (simp add: rv_def)

lemma sub_real:
  assumes "is_finite x" "is_finite y" "\<bar>rv x - rv y\<bar> \<le> 2 ^ 127"
  shows "is_finite (x - y)" and "\<bar>rv (x - y) - (rv x - rv y)\<bar> \<le> ulp * \<bar>rv x - rv y\<bar>"
  using add_real [of x "- y"] assms by (simp_all add: minus_f32_def)

lemma rnd_small: "0 < q \<Longrightarrow> p \<le> 2 ^ 276 * q \<Longrightarrow> rnd p q < 2 ^ 277"
proof -
  assume q: "0 < q" "p \<le> 2 ^ 276 * q"
  have "rep (2 ^ 276)" using rep_small [of "2 ^ 24" 252] by simp
  from rnd.le_rep [OF this q] show ?thesis by simp
qed

lemma mul_real:
  assumes x: "is_finite x" "0 \<le> rv x" and y: "is_finite y" "0 \<le> rv y" and small: "rv x * rv y \<le> 2 ^ 127"
  shows "is_finite (x * y)" and "0 \<le> rv (x * y)"
    and "\<bar>rv (x * y) - rv x * rv y\<bar> \<le> max (ulp * (rv x * rv y)) eta"
proof -
  have x0: "0 \<le> fv x" and y0: "0 \<le> fv y" using x y by (simp_all add: rv_def zero_le_divide_iff)
  define p where "p = nat (fv x) * nat (fv y)"
  have p: "real p = rv x * rv y * (U * U)" using x0 y0 by (simp add: p_def rv_def)
  have u: "real (2 ^ 149) = U" by (simp add: U_def)
  have pq: "real p / real (2 ^ 149) = rv x * rv y * U" unfolding u p by simp
  have "real p \<le> 2 ^ 127 * (U * U)" unfolding p using small by (simp add: mult_right_mono)
  also have "\<dots> = real (2 ^ 276 * 2 ^ 149)" by (simp add: U_def)
  finally have "p \<le> 2 ^ 276 * 2 ^ 149" by (simp only: of_nat_le_iff)
  then have "rnd p (2 ^ 149) < 2 ^ 277" by (intro rnd_small) simp_all
  note m = mul_fin [OF x(1) x0 y(1) y0, folded p_def, OF this]
  show "is_finite (x * y)" by (rule m)
  have v: "rv (x * y) = real (rnd p (2 ^ 149)) / U" by (simp only: rv_def m of_int_of_nat_eq)
  show "0 \<le> rv (x * y)" by (simp add: v)
  have "\<bar>real (rnd p (2 ^ 149)) - rv x * rv y * U\<bar> \<le> max (ulp * (rv x * rv y * U)) (1 / 2)"
    using rnd_error [of "2 ^ 149" p] unfolding pq by simp
  then have "\<bar>(rv (x * y) - rv x * rv y) * U\<bar> \<le> max (ulp * (rv x * rv y)) eta * U"
    by (simp add: v eta_def left_diff_distrib max_mult_distrib_right)
  then show "\<bar>rv (x * y) - rv x * rv y\<bar> \<le> max (ulp * (rv x * rv y)) eta"
    by (simp only: abs_mult) simp
qed

lemma div_real:
  assumes x: "is_finite x" "0 \<le> rv x" and y: "is_finite y" "0 < rv y" and small: "rv x \<le> 2 ^ 127 * rv y"
  shows "is_finite (divide x y)" and "0 \<le> rv (divide x y)"
    and "\<bar>rv (divide x y) - rv x / rv y\<bar> \<le> max (ulp * (rv x / rv y)) eta"
proof -
  have x0: "0 \<le> fv x" and y0: "0 < fv y"
    using x y by (simp_all add: rv_def zero_le_divide_iff zero_less_divide_iff)
  define p q where "p = nat (fv x) * 2 ^ 149" and "q = nat (fv y)"
  have q0: "0 < q" using y0 by (simp add: q_def)
  have u: "real (2 ^ 149) = U" by (simp add: U_def)
  have p: "real p = rv x * U * U" and q: "real q = rv y * U"
    using x0 y0 unfolding p_def q_def of_nat_mult u by (simp_all add: rv_def)
  have pq: "real p / real q = rv x / rv y * U" using y by (simp add: p q)
  have "real p \<le> 2 ^ 127 * rv y * U * U" unfolding p using small by (intro mult_right_mono) simp_all
  also have "\<dots> = 2 ^ 127 * U * real q" by (simp add: q)
  also have "2 ^ 127 * U = real (2 ^ 276)" by (simp add: U_def)
  finally have "p \<le> 2 ^ 276 * q" by (simp only: of_nat_le_iff flip: of_nat_mult)
  then have "rnd p q < 2 ^ 277" using q0 by (intro rnd_small)
  note m = div_fin [OF x(1) x0 y(1) y0, folded p_def q_def, OF this]
  show "is_finite (divide x y)" by (rule m)
  have v: "rv (divide x y) = real (rnd p q) / U" by (simp only: rv_def m of_int_of_nat_eq)
  show "0 \<le> rv (divide x y)" by (simp add: v)
  have "\<bar>real (rnd p q) - rv x / rv y * U\<bar> \<le> max (ulp * (rv x / rv y * U)) (1 / 2)"
    using rnd_error [OF q0, of p] unfolding pq by simp
  then have "\<bar>(rv (divide x y) - rv x / rv y) * U\<bar> \<le> max (ulp * (rv x / rv y)) eta * U"
    by (simp add: v eta_def left_diff_distrib max_mult_distrib_right)
  then show "\<bar>rv (divide x y) - rv x / rv y\<bar> \<le> max (ulp * (rv x / rv y)) eta"
    by (simp only: abs_mult) simp
qed

text \<open>An unsigned integer up to \<open>2^24\<close> is converted exactly.\<close>

lemma rv_of_word: "unat w \<le> 2 ^ 24 \<Longrightarrow> rv (f32_of_word w) = real (unat w)" for w :: u32
  using f32_of_nat_exact [of "unat w"] by (simp add: f32_of_word_def rv_def U_def)

end
