(* ===== verification/Curve.thy ===== *)
theory Curve
  imports F32_Real
begin

text \<open>
  The fan curve (\<open>src/control/curve.rs\<close>): piecewise linear interpolation of breakpoints
  (temperature, RPM) in binary32, its exact real-valued specification \<open>curve_spec\<close>, and the
  accuracy of the code against it.
\<close>

section \<open>The code\<close>

type_synonym breakpoint = "f32 \<times> u32"

text \<open>The body of the loop for one segment.\<close>

definition interpolate :: "breakpoint \<Rightarrow> breakpoint \<Rightarrow> f32 \<Rightarrow> f32" where
  "interpolate lo hi temp = (let dt = fst hi - fst lo in
     if fabs dt < f32_EPSILON then f32_of_word (snd lo)
     else let t = divide (temp - fst lo) dt; a = f32_of_word (snd lo); b = f32_of_word (snd hi) in
       (lit 1 1 - t) * a + t * b)"

text \<open>The \<open>while\<close> loop over the segments; past the last one the last RPM is returned.\<close>

fun scan :: "f32 \<Rightarrow> breakpoint list \<Rightarrow> f32" where
  "scan temp (lo # hi # bps) = (if temp \<le> fst hi then interpolate lo hi temp else scan temp (hi # bps))"
| "scan temp [p] = f32_of_word (snd p)"
| "scan temp [] = lit 0 1"

definition evaluate :: "breakpoint list \<Rightarrow> f32 \<Rightarrow> f32" where
  "evaluate bps temp = (if bps = [] then lit 0 1
     else if length bps = 1 \<or> temp \<le> fst (hd bps) then f32_of_word (snd (hd bps))
     else if fst (last bps) \<le> temp then f32_of_word (snd (last bps))
     else scan temp bps)"

section \<open>The specification\<close>

definition lerp :: "breakpoint \<Rightarrow> breakpoint \<Rightarrow> real \<Rightarrow> real" where
  "lerp lo hi x = (let t = (x - rv (fst lo)) / (rv (fst hi) - rv (fst lo)) in
     (1 - t) * real (unat (snd lo)) + t * real (unat (snd hi)))"

fun spec_scan :: "real \<Rightarrow> breakpoint list \<Rightarrow> real" where
  "spec_scan x (lo # hi # bps) = (if x \<le> rv (fst hi) then lerp lo hi x else spec_scan x (hi # bps))"
| "spec_scan x [p] = real (unat (snd p))"
| "spec_scan x [] = 0"

definition curve_spec :: "breakpoint list \<Rightarrow> real \<Rightarrow> real" where
  "curve_spec bps x = (if x \<le> rv (fst (hd bps)) then real (unat (snd (hd bps)))
     else spec_scan x bps)"

text \<open>
  The curves the accuracy claims are about: at least two breakpoints, temperatures in
  \<open>[0, 2^64]\<close>, each at least \<open>f32::EPSILON\<close> above the one before, speeds up to 131072 RPM.
\<close>

definition ok_point :: "breakpoint \<Rightarrow> bool" where
  "ok_point p \<longleftrightarrow> lit 0 1 \<le> fst p \<and> fst p \<le> lit (2 ^ 64) 1 \<and> unat (snd p) \<le> 131072"

fun rising :: "breakpoint list \<Rightarrow> bool" where
  "rising (lo # hi # bps) = (fst lo < fst hi \<and> \<not> fabs (fst hi - fst lo) < f32_EPSILON \<and> rising (hi # bps))"
| "rising _ = True"

definition wf_curve :: "breakpoint list \<Rightarrow> bool" where
  "wf_curve bps \<longleftrightarrow> 2 \<le> length bps \<and> list_all ok_point bps \<and> rising bps"

section \<open>One segment\<close>

lemma lits: "is_finite (lit 0 1)" "rv (lit 0 1) = 0" "is_finite (lit 1 1)" "rv (lit 1 1) = 1"
    "is_finite (lit (2 ^ 64) 1)" "rv (lit (2 ^ 64) 1) = 2 ^ 64"
    "is_finite f32_EPSILON" "rv f32_EPSILON = 1 / 2 ^ 23" "fv (lit 1 1) = 2 ^ 149"
  by (simp_all add: rv_def fv_def U_def f32_eval)

lemma ok_pointD:
  assumes "ok_point p"
  shows "is_finite (fst p)" "0 \<le> rv (fst p)" "rv (fst p) \<le> 2 ^ 64"
    "is_finite (f32_of_word (snd p))" "rv (f32_of_word (snd p)) = real (unat (snd p))"
    "real (unat (snd p)) \<le> 131072"
proof -
  have p: "lit 0 1 \<le> fst p" "fst p \<le> lit (2 ^ 64) 1" "unat (snd p) \<le> 131072"
    using assms by (simp_all add: ok_point_def)
  show f: "is_finite (fst p)" using p lits by (blast intro: between_finite)
  show "0 \<le> rv (fst p)" "rv (fst p) \<le> 2 ^ 64"
    using p(1,2) unfolding rv_le [OF lits(1) f] rv_le [OF f lits(5)] lits by blast+
  show "is_finite (f32_of_word (snd p))" by (rule f32_of_word_fin)
  show "rv (f32_of_word (snd p)) = real (unat (snd p))" "real (unat (snd p)) \<le> 131072"
    using p(3) by (simp add: rv_of_word) (metis p(3) of_nat_le_iff of_nat_numeral)
qed

text \<open>The fraction \<open>t\<close> of a segment: finite, in \<open>[0,1]\<close>, within four ulps of the exact one.\<close>

lemma diff_bounds:
  assumes "is_finite x" "is_finite y" "0 \<le> rv y" "rv y \<le> rv x" "rv x \<le> 2 ^ 64"
  shows "is_finite (x - y)" "\<bar>rv (x - y) - (rv x - rv y)\<bar> \<le> ulp * (rv x - rv y)" "0 \<le> rv (x - y)"
    "rv (x - y) \<le> 2 ^ 65" "fv (x - y) = rz (fv x - fv y)"
proof -
  have b: "\<bar>rv x - rv y\<bar> \<le> 2 ^ 127" using assms by (simp add: abs_if)
  show "is_finite (x - y)" by (rule sub_real [OF assms(1,2) b])
  show e: "\<bar>rv (x - y) - (rv x - rv y)\<bar> \<le> ulp * (rv x - rv y)"
    using sub_real(2) [OF assms(1,2) b] assms by simp
  have u: "ulp * (rv x - rv y) \<le> rv x - rv y"
    using assms by (intro mult_left_le_one_le) (simp_all add: ulp_def)
  then show "0 \<le> rv (x - y)" using e by linarith
  show "rv (x - y) \<le> 2 ^ 65" using e u assms by simp
  have "\<bar>fv x - fv y\<bar> \<le> 2 ^ 276"
  proof -
    have "\<bar>real_of_int (fv x - fv y)\<bar> = \<bar>rv x - rv y\<bar> * U" by (simp add: fv_rv abs_mult flip: left_diff_distrib)
    also have "\<dots> \<le> 2 ^ 127 * U" by (intro mult_right_mono b) simp
    finally have "real_of_int \<bar>fv x - fv y\<bar> \<le> real_of_int (2 ^ 276)" by (simp add: U_def)
    then show ?thesis by (simp only: of_int_le_iff)
  qed
  then show "fv (x - y) = rz (fv x - fv y)" using assms by (intro sub_fin rz_small)
qed

lemma quotient_error:
  fixes d D dh Dh :: real
  assumes "0 \<le> d" "d \<le> D" "0 < D" "\<bar>dh - d\<bar> \<le> ulp * d" "\<bar>Dh - D\<bar> \<le> ulp * D" "0 < Dh"
  shows "\<bar>dh / Dh - d / D\<bar> \<le> 5 / 2 * ulp"
proof -
  have "\<bar>dh * D - d * Dh\<bar> = \<bar>(dh - d) * D - d * (Dh - D)\<bar>" by (simp add: algebra_simps)
  also have "\<dots> \<le> \<bar>dh - d\<bar> * D + d * \<bar>Dh - D\<bar>"
    using assms(1,3) abs_triangle_ineq4 [of "(dh - d) * D" "d * (Dh - D)"] by (simp add: abs_mult)
  also have "\<dots> \<le> ulp * d * D + d * (ulp * D)"
    using assms by (intro add_mono mult_right_mono mult_left_mono) simp_all
  also have "\<dots> = 2 * ulp * D * d" by simp
  also have "\<dots> \<le> 2 * ulp * D * (5 / 4 * Dh)"
  proof (rule mult_left_mono)
    have "ulp * D \<le> 1 / 5 * D" using assms by (intro mult_right_mono) (simp_all add: ulp_def)
    then show "d \<le> 5 / 4 * Dh" using assms by linarith
    show "0 \<le> 2 * ulp * D" using assms by (simp add: ulp_def)
  qed
  finally have n: "\<bar>dh * D - d * Dh\<bar> \<le> 5 / 2 * ulp * (Dh * D)" by (simp add: algebra_simps)
  have "dh / Dh - d / D = (dh * D - d * Dh) / (Dh * D)" using assms by (simp add: field_simps)
  then have "\<bar>dh / Dh - d / D\<bar> = \<bar>dh * D - d * Dh\<bar> / (Dh * D)" using assms by (simp add: abs_divide)
  also have "\<dots> \<le> 5 / 2 * ulp" using n assms by (simp add: divide_le_eq)
  finally show ?thesis .
qed

text \<open>Accumulated error of \<open>(1 - t) * a + t * b\<close> for speeds up to 131072 RPM.\<close>

lemma lerp_error:
  fixes T t s a b p q r :: real
  assumes ab: "0 \<le> a" "a \<le> 131072" "0 \<le> b" "b \<le> 131072" and T: "0 \<le> t" "t \<le> 1" "0 \<le> s"
    and e: "\<bar>t - T\<bar> \<le> 4 * ulp" "\<bar>s - (1 - t)\<bar> \<le> ulp"
    and pq: "\<bar>p - s * a\<bar> \<le> max (ulp * (s * a)) eta" "\<bar>q - t * b\<bar> \<le> max (ulp * (t * b)) eta"
    and r: "\<bar>r - (p + q)\<bar> \<le> ulp * \<bar>p + q\<bar>"
  shows "\<bar>r - ((1 - T) * a + T * b)\<bar> \<le> 1 / 2"
proof -
  have eta: "eta \<le> 1 / 64" by (simp add: eta_def U_def)
  have "ulp \<le> 1" by (simp add: ulp_def)
  then have s2: "s \<le> 2" using e(2) T by linarith
  have sa: "s * a \<le> 2 * 131072" "0 \<le> s * a" using s2 T ab by (intro mult_mono mult_nonneg_nonneg; simp)+
  have tb: "t * b \<le> 1 * 131072" "0 \<le> t * b" using T ab by (intro mult_mono mult_nonneg_nonneg; simp)+
  have u1: "ulp * (s * a) \<le> 1 / 64" "ulp * (t * b) \<le> 1 / 64" using sa tb by (simp_all add: ulp_def mult.commute)
  have p1: "\<bar>p - s * a\<bar> \<le> 1 / 64" and q1: "\<bar>q - t * b\<bar> \<le> 1 / 64"
    using pq u1 eta by linarith+
  then have "\<bar>p + q\<bar> \<le> 524288" using sa tb by linarith
  then have r1: "\<bar>r - (p + q)\<bar> \<le> 1 / 32" using r by (simp add: ulp_def)
  have "\<bar>(t - T) * b\<bar> \<le> 4 * ulp * 131072" unfolding abs_mult using ab e by (intro mult_mono) simp_all
  then have tb1: "\<bar>t * b - T * b\<bar> \<le> 1 / 32" by (simp add: ulp_def left_diff_distrib)
  have "\<bar>s - (1 - T)\<bar> \<le> 5 * ulp" using e by linarith
  then have "\<bar>(s - (1 - T)) * a\<bar> \<le> 5 * ulp * 131072" unfolding abs_mult using ab
    by (intro mult_mono) (simp_all add: ulp_def)
  then have sa1: "\<bar>s * a - (1 - T) * a\<bar> \<le> 5 / 128" by (simp add: ulp_def left_diff_distrib)
  show ?thesis using p1 q1 r1 tb1 sa1 by linarith
qed

text \<open>The exact and the computed position in a segment.\<close>

lemma fraction:
  assumes L: "is_finite lo" "0 \<le> rv lo" and H: "is_finite hi" "rv hi \<le> 2 ^ 64"
    and gap: "lo < hi" "\<not> fabs (hi - lo) < f32_EPSILON"
    and x: "is_finite x" "rv lo \<le> rv x" "rv x \<le> rv hi"
  defines "t \<equiv> divide (x - lo) (hi - lo)"
  shows "is_finite t" "0 \<le> rv t" "rv t \<le> 1"
    "\<bar>rv t - (rv x - rv lo) / (rv hi - rv lo)\<bar> \<le> 4 * ulp" "rv x = rv hi \<Longrightarrow> rv t = 1"
proof -
  define D d where "D = hi - lo" and "d = x - lo"
  have Dpos: "0 < rv hi - rv lo" using gap(1) by (simp add: rv_lt L H)
  have x64: "rv x \<le> 2 ^ 64" using x(3) H(2) by (rule order_trans)
  have lh: "rv lo \<le> rv hi" using Dpos by simp
  note Df = diff_bounds [OF H(1) L lh H(2), folded D_def] and df = diff_bounds [OF x(1) L x(2) x64, folded d_def]
  have "rv (fabs D) = rv D" using Df(3) by (simp add: rv_def zero_le_divide_iff)
  then have "1 / 2 ^ 23 \<le> rv D"
    using gap(2) rv_lt [of "fabs D" f32_EPSILON] Df(1) by (simp only: fabs_fin lits D_def [symmetric])
  then have Dp: "0 < rv D" by (rule less_le_trans [rotated]) simp
  have d0: "0 \<le> fv d" "0 < fv D"
    using df(3) Dp by (simp_all add: rv_def zero_le_divide_iff zero_less_divide_iff)
  have dD: "fv d \<le> fv D" unfolding df Df using x(3) by (intro rz_mono) (simp add: rv_def divide_le_cancel)
  then have "rv d \<le> rv D" by (simp add: rv_def divide_right_mono)
  then have small: "rv d \<le> 2 ^ 127 * rv D" using Dp by simp
  note t = div_real [OF df(1,3) Df(1) Dp small] and tt = t_def [folded D_def d_def]
  show "is_finite t" "0 \<le> rv t" using t by (simp_all add: tt)
  define R where "R = rnd (nat (fv d) * 2 ^ 149) (nat (fv D))"
  have rp: "rep (2 ^ 149)" using rep_small [of 1 149] by simp
  then have rle: "R \<le> 2 ^ 149" unfolding R_def using d0 dD by (intro rnd.le_rep) simp_all
  then have "R < 2 ^ 277" by (rule order_le_less_trans) simp
  then have ft: "fv t = int R"
    using div_fin(2) [OF df(1) d0(1) Df(1) d0(2)] by (simp only: tt R_def)
  have rt: "rv t = real R / U" by (simp only: rv_def ft of_int_of_nat_eq)
  have "real R \<le> real (2 ^ 149)" using rle by (simp only: of_nat_le_iff)
  then show "rv t \<le> 1" unfolding rt by (simp add: U_def)
  have "\<bar>rv t - rv d / rv D\<bar> \<le> max (ulp * (rv d / rv D)) eta" using t(3) by (simp only: tt)
  moreover have "rv d / rv D \<le> 1" using dD Dp by (simp add: rv_def divide_le_eq zero_less_divide_iff)
  then have "ulp * (rv d / rv D) \<le> ulp * 1" by (intro mult_left_mono) (simp_all add: ulp_def)
  moreover have "eta \<le> ulp" by (simp add: eta_def ulp_def U_def)
  moreover have "\<bar>rv d / rv D - (rv x - rv lo) / (rv hi - rv lo)\<bar> \<le> 5 / 2 * ulp"
    using x df(2) Df(2) Dp Dpos by (intro quotient_error) simp_all
  moreover have "0 \<le> ulp" by (simp add: ulp_def)
  ultimately show "\<bar>rv t - (rv x - rv lo) / (rv hi - rv lo)\<bar> \<le> 4 * ulp" by linarith
  assume "rv x = rv hi"
  then have "fv x = fv hi" by (simp add: rv_def)
  then have "nat (fv d) * 2 ^ 149 = 2 ^ 149 * nat (fv D)" by (simp add: df Df)
  then have "R = 2 ^ 149" unfolding R_def using rnd_exact [OF rp, of "nat (fv D)"] d0 by (simp only: zero_less_nat_eq)
  then show "rv t = 1" unfolding rt by (simp add: U_def)
qed

lemma rv_eq_zero_mul:
  assumes "is_finite x" "is_finite y" "rv x = 0" "0 \<le> rv y"
  shows "is_finite (x * y)" "rv (x * y) = 0"
proof -
  have "fv x = 0" "0 \<le> fv y" using assms by (simp_all add: rv_def zero_le_divide_iff)
  then show "is_finite (x * y)" "rv (x * y) = 0"
    using mul_fin [of x y] assms by (simp_all add: rv_def)
qed

lemma mul_one:
  assumes "is_finite x" "is_finite y" "rv x = 1" "0 \<le> rv y"
  shows "is_finite (x * y)" "rv (x * y) = rv y"
proof -
  have x: "fv x = 2 ^ 149" and y: "0 \<le> fv y"
    using assms by (simp_all add: rv_def zero_le_divide_iff divide_eq_eq U_def)
  have "rep (nat (fv y))" using finiteE [OF assms(2)] by (metis signed_abs abs_of_nonneg y)
  moreover have nx: "nat (fv x) = 2 ^ 149" by (simp only: x nat_power_eq) simp
  ultimately have r: "rnd (nat (fv x) * nat (fv y)) (2 ^ 149) = nat (fv y)" "nat (fv y) < 2 ^ 277"
    by (simp_all only: nx mult.commute [of "2 ^ 149"] rep_def rnd_exact zero_less_power zero_less_numeral)
  have "0 \<le> fv x" unfolding x by simp
  note m = mul_fin [OF assms(1) this assms(2) y, unfolded r(1), OF r(2)]
  show "is_finite (x * y)" "rv (x * y) = rv y" using m y by (simp_all add: rv_def)
qed

lemma zero_add:
  assumes "is_finite x" "is_finite y" "rv x = 0"
  shows "is_finite (x + y)" "rv (x + y) = rv y"
proof -
  have x: "fv x = 0" using assms by (simp add: rv_def)
  have r: "rz (fv y) = fv y" using finiteE [OF assms(2)] by (metis rz_exact signed_abs)
  then have "\<bar>rz (fv x + fv y)\<bar> < 2 ^ 277" using fv_bound [OF assms(2)] by (simp only: x add_0)
  note a = add_fin [OF assms(1,2) this]
  show "is_finite (x + y)" "rv (x + y) = rv y" using a by (simp_all add: rv_def x r)
qed

lemma one_minus:
  assumes t: "is_finite t" "0 \<le> rv t" "rv t \<le> 1"
  shows "is_finite (lit 1 1 - t)" "0 \<le> rv (lit 1 1 - t)" "\<bar>rv (lit 1 1 - t) - (1 - rv t)\<bar> \<le> ulp"
    "rv (lit 1 1 - t) \<le> 2" "rv t = 1 \<Longrightarrow> rv (lit 1 1 - t) = 0"
proof -
  note s = diff_bounds [OF lits(3) t(1,2), unfolded lits, OF t(3)]
  show "is_finite (lit 1 1 - t)" "0 \<le> rv (lit 1 1 - t)" using s by simp_all
  have "ulp * (1 - rv t) \<le> ulp" using t(2) by (simp add: ulp_def)
  then show e: "\<bar>rv (lit 1 1 - t) - (1 - rv t)\<bar> \<le> ulp" using s by simp
  have "ulp \<le> 1" by (simp add: ulp_def)
  then show "rv (lit 1 1 - t) \<le> 2" using e t(2) by linarith
  show "rv (lit 1 1 - t) = 0" if "rv t = 1" using s(2) that by simp
qed

lemma interpolate_error:
  assumes lo: "ok_point lo" and hi: "ok_point hi"
    and gap: "fst lo < fst hi" "\<not> fabs (fst hi - fst lo) < f32_EPSILON"
    and x: "is_finite x" "rv (fst lo) \<le> rv x" "rv x \<le> rv (fst hi)"
  shows "is_finite (interpolate lo hi x)" "\<bar>rv (interpolate lo hi x) - lerp lo hi (rv x)\<bar> \<le> 1 / 2"
    and "rv x = rv (fst hi) \<Longrightarrow> rv (interpolate lo hi x) = real (unat (snd hi))"
proof -
  note L = ok_pointD [OF lo] and H = ok_pointD [OF hi]
  define t where "t = divide (x - fst lo) (fst hi - fst lo)"
  note t = fraction [OF L(1,2) H(1,3) gap x, folded t_def]
  define s where "s = lit 1 1 - t"
  note s = one_minus [OF t(1-3), folded s_def]
  define a b where "a = f32_of_word (snd lo)" and "b = f32_of_word (snd hi)"
  note A = L(4,5,6) [folded a_def] and B = H(4,5,6) [folded b_def]
  have i: "interpolate lo hi x = s * a + t * b"
    using gap(2) by (simp add: interpolate_def s_def t_def a_def b_def Let_def)
  have ab: "0 \<le> rv a" "rv a \<le> 131072" "0 \<le> rv b" "rv b \<le> 131072" unfolding A B by (rule of_nat_0_le_iff L(6) H(6))+
  have sa: "rv s * rv a \<le> 2 * 131072" and tb: "rv t * rv b \<le> 1 * 131072"
    using s t ab by (intro mult_mono; simp)+
  then have "rv s * rv a \<le> 2 ^ 127" "rv t * rv b \<le> 2 ^ 127" by simp_all
  note p = mul_real [OF s(1,2) A(1) ab(1) this(1)] and q = mul_real [OF t(1,2) B(1) ab(3) this(2)]
  have eta: "eta \<le> 1" "ulp \<le> 1" by (simp_all add: eta_def U_def ulp_def)
  have "ulp * (rv s * rv a) \<le> 2 * 131072" "ulp * (rv t * rv b) \<le> 131072"
    using sa tb s t ab eta mult_mono [of ulp 1] by (simp_all add: ulp_def)
  then have "\<bar>rv (s * a) + rv (t * b)\<bar> \<le> 1000000" using p(2,3) q(2,3) sa tb eta by linarith
  then have pq: "\<bar>rv (s * a) + rv (t * b)\<bar> \<le> 2 ^ 127" by (rule order_trans) simp
  note r = add_real [OF p(1) q(1) pq]
  show "is_finite (interpolate lo hi x)" unfolding i by (rule r)
  show "\<bar>rv (interpolate lo hi x) - lerp lo hi (rv x)\<bar> \<le> 1 / 2"
    unfolding i lerp_def Let_def using lerp_error [OF ab t(2,3) s(2) t(4) s(3) p(3) q(3) r(2)]
    by (simp only: A(2) B(2))
  assume e: "rv x = rv (fst hi)"
  have "rv (s * a) = 0" using rv_eq_zero_mul [OF s(1) A(1)] s(5) t(5) e ab by simp
  moreover have "rv (t * b) = rv b" using mul_one [OF t(1) B(1)] t(5) e ab by simp
  ultimately show "rv (interpolate lo hi x) = real (unat (snd hi))"
    unfolding i using zero_add [OF p(1) q(1)] B(2) by simp
qed

section \<open>The whole curve\<close>

lemma scan_error:
  assumes "list_all ok_point bps" "rising bps" "bps \<noteq> []"
    and "is_finite x" "rv (fst (hd bps)) \<le> rv x" "rv x \<le> rv (fst (last bps))"
  shows "is_finite (scan x bps) \<and> \<bar>rv (scan x bps) - spec_scan (rv x) bps\<bar> \<le> 1 / 2"
  using assms
proof (induction x bps rule: scan.induct)
  case (1 x lo hi bps)
  then have ok: "ok_point lo" "ok_point hi" by simp_all
  have le: "x \<le> fst hi \<longleftrightarrow> rv x \<le> rv (fst hi)" using 1(5) ok_pointD(1) [OF ok(2)] by (rule rv_le)
  show ?case
  proof (cases "x \<le> fst hi")
    case True
    then show ?thesis using le 1(2,3,5,6) interpolate_error [OF ok, of x] by simp
  next
    case False
    then show ?thesis using le 1 by simp
  qed
next
  case (2 x p)
  then show ?case using ok_pointD [of p] by simp
qed simp

lemma rising_less: "rising (lo # hi # bps) \<Longrightarrow> fst lo < fst (last (hi # bps))"
proof (induction bps arbitrary: lo hi)
  case (Cons p bps)
  then have "fst hi < fst (last (p # bps))" by simp
  then show ?case using Cons.prems f32_less_trans [of "fst lo" "fst hi"] by simp
qed simp

lemma wf_curve_cases:
  assumes "wf_curve bps"
  obtains lo hi rest where "bps = lo # hi # rest" "list_all ok_point bps" "rising bps"
    "ok_point (last bps)" "fst lo < fst (last bps)"
proof -
  have "2 \<le> length bps" using assms by (simp add: wf_curve_def)
  then obtain lo hi rest where b: "bps = lo # hi # rest" by (metis Suc_le_length_iff numeral_2_eq_2)
  have "ok_point (last bps)" using assms b unfolding wf_curve_def list_all_iff by (metis last_in_set list.distinct(1))
  then show ?thesis using that [OF b] assms b rising_less by (auto simp: wf_curve_def)
qed

lemma spec_scan_above:
  "bps \<noteq> [] \<Longrightarrow> list_all ok_point bps \<Longrightarrow> rising bps \<Longrightarrow> rv (fst (last bps)) < x \<Longrightarrow>
   spec_scan x bps = real (unat (snd (last bps)))"
proof (induction x bps rule: spec_scan.induct)
  case (1 x lo hi bps)
  have "rv (fst hi) \<le> rv (fst (last (hi # bps)))"
  proof (cases bps)
    case (Cons p ps)
    then have "fst hi < fst (last (p # ps))" using 1(4) by (intro rising_less) simp
    then show ?thesis using 1(3) Cons rv_lt [of "fst hi" "fst (last (p # ps))"]
      by (auto simp: list_all_iff ok_pointD(1))
  qed simp
  then show ?case using 1 by simp
qed simp_all

lemma spec_scan_at_last:
  "bps \<noteq> [] \<Longrightarrow> list_all ok_point bps \<Longrightarrow> rising bps \<Longrightarrow> rv (fst (hd bps)) < rv (fst (last bps)) \<Longrightarrow>
   spec_scan (rv (fst (last bps))) bps = real (unat (snd (last bps)))"
proof (induction bps rule: rising.induct)
  case (1 lo hi bps)
  then have ok: "ok_point lo" "ok_point hi" by simp_all
  show ?case
  proof (cases bps)
    case Nil
    then show ?thesis using 1(5) by (simp add: lerp_def)
  next
    case (Cons p ps)
    then have l: "fst hi < fst (last (p # ps))" using 1(4) by (intro rising_less) simp
    have "ok_point (last (p # ps))" using 1(3) Cons by (simp add: list_all_iff)
    then have "rv (fst hi) < rv (fst (last (p # ps)))" using l ok by (simp add: rv_lt ok_pointD(1))
    then show ?thesis using 1 Cons by simp
  qed
qed simp_all

text \<open>The code follows the exact curve within half an RPM, at every finite temperature.\<close>

lemma evaluate_error:
  assumes wf: "wf_curve bps" and x: "is_finite x"
  shows "is_finite (evaluate bps x) \<and> \<bar>rv (evaluate bps x) - curve_spec bps (rv x)\<bar> \<le> 1 / 2"
proof (rule wf_curve_cases [OF wf])
  fix lo hi rest
  assume b: "bps = lo # hi # rest" "list_all ok_point bps" "rising bps" "ok_point (last bps)"
    "fst lo < fst (last bps)"
  have lo: "ok_point lo" using b by simp
  note L = ok_pointD [OF lo] and E = ok_pointD [OF b(4)]
  have le: "x \<le> fst lo \<longleftrightarrow> rv x \<le> rv (fst lo)" using x L by (simp add: rv_le)
  have ge: "fst (last bps) \<le> x \<longleftrightarrow> rv (fst (last bps)) \<le> rv x" using x E by (simp add: rv_le)
  have lt: "rv (fst lo) < rv (fst (last bps))" using b(5) L E by (simp add: rv_lt)
  consider "x \<le> fst lo" | "\<not> x \<le> fst lo" "fst (last bps) \<le> x" | "\<not> x \<le> fst lo" "\<not> fst (last bps) \<le> x" by blast
  then show ?thesis
  proof cases
    case 1
    then show ?thesis using L le by (simp add: b(1) evaluate_def curve_spec_def)
  next
    case 2
    have "spec_scan (rv x) bps = real (unat (snd (last bps)))"
      using spec_scan_above [of bps "rv x"] spec_scan_at_last [of bps] b lt 2 ge by (cases "rv x = rv (fst (last bps))") auto
    then have "curve_spec bps (rv x) = real (unat (snd (last bps)))" using 2 le by (simp add: b(1) curve_spec_def)
    moreover have "evaluate bps x = f32_of_word (snd (last bps))" using 2 b(1) by (simp add: evaluate_def)
    ultimately show ?thesis using E by simp
  next
    case 3
    have "evaluate bps x = scan x bps" "curve_spec bps (rv x) = spec_scan (rv x) bps"
      using 3 le by (simp_all add: b(1) evaluate_def curve_spec_def)
    then show ?thesis using scan_error [of bps x] b x 3 le ge by simp
  qed
qed

section \<open>What the exact curve guarantees\<close>

lemma lerp_between:
  assumes "rv (fst lo) < rv (fst hi)" "rv (fst lo) \<le> x" "x \<le> rv (fst hi)"
  shows "\<And>m. m \<le> real (unat (snd lo)) \<Longrightarrow> m \<le> real (unat (snd hi)) \<Longrightarrow> m \<le> lerp lo hi x"
    and "\<And>m. real (unat (snd lo)) \<le> m \<Longrightarrow> real (unat (snd hi)) \<le> m \<Longrightarrow> lerp lo hi x \<le> m"
proof -
  define t where "t = (x - rv (fst lo)) / (rv (fst hi) - rv (fst lo))"
  have t: "0 \<le> t" "t \<le> 1" using assms by (simp_all add: t_def divide_le_eq)
  have l: "lerp lo hi x = (1 - t) * real (unat (snd lo)) + t * real (unat (snd hi))"
    by (simp add: lerp_def t_def Let_def)
  have split: "m = (1 - t) * m + t * m" for m by (simp add: algebra_simps)
  show "m \<le> lerp lo hi x" if "m \<le> real (unat (snd lo))" "m \<le> real (unat (snd hi))" for m
    unfolding l using that t by (subst split [of m]) (intro add_mono mult_left_mono; simp)
  show "lerp lo hi x \<le> m" if "real (unat (snd lo)) \<le> m" "real (unat (snd hi)) \<le> m" for m
    unfolding l using that t by (subst split [of m]) (intro add_mono mult_left_mono; simp)
qed

lemma lerp_mono:
  assumes "rv (fst lo) < rv (fst hi)" "x \<le> y" "snd lo \<le> snd hi"
  shows "lerp lo hi x \<le> lerp lo hi y"
proof -
  define T where "T z = (z - rv (fst lo)) / (rv (fst hi) - rv (fst lo))" for z
  have "T x \<le> T y" using assms by (simp add: T_def divide_right_mono)
  moreover have "0 \<le> real (unat (snd hi)) - real (unat (snd lo))"
    using assms(3) unfolding word_le_nat_alt by (simp del: of_nat_unat)
  ultimately have "T x * (real (unat (snd hi)) - real (unat (snd lo)))
      \<le> T y * (real (unat (snd hi)) - real (unat (snd lo)))" by (rule mult_right_mono)
  then show ?thesis unfolding lerp_def T_def Let_def by argo
qed

lemma rising_rv:
  "list_all ok_point (lo # hi # bps) \<Longrightarrow> rising (lo # hi # bps) \<Longrightarrow> rv (fst lo) < rv (fst hi)"
  by (simp add: rv_lt ok_pointD(1))

lemma spec_scan_range:
  assumes "list_all ok_point bps" "rising bps" "bps \<noteq> []" "rv (fst (hd bps)) \<le> x"
    and "\<And>p. p \<in> set bps \<Longrightarrow> m \<le> real (unat (snd p)) \<and> real (unat (snd p)) \<le> M"
  shows "m \<le> spec_scan x bps \<and> spec_scan x bps \<le> M"
  using assms
proof (induction x bps rule: spec_scan.induct)
  case (1 x lo hi bps)
  note lt = rising_rv [OF 1(2,3)]
  show ?case
  proof (cases "x \<le> rv (fst hi)")
    case True
    then show ?thesis using lerp_between [OF lt, of x] 1(5,6) by simp
  qed (use 1 in simp)
qed simp_all

lemma spec_scan_mono:
  assumes "list_all ok_point bps" "rising bps" "bps \<noteq> []" "rv (fst (hd bps)) \<le> x" "x \<le> y"
    and "sorted (map snd bps)"
  shows "spec_scan x bps \<le> spec_scan y bps"
  using assms
proof (induction y bps rule: spec_scan.induct)
  case (1 y lo hi bps)
  note lt = rising_rv [OF 1(2,3)]
  have le: "snd lo \<le> snd hi" using 1(7) by simp
  consider "y \<le> rv (fst hi)" | "x \<le> rv (fst hi)" "rv (fst hi) < y" | "rv (fst hi) < x" by linarith
  then show ?case
  proof cases
    case 1
    then show ?thesis using lerp_mono [OF lt _ le] \<open>x \<le> y\<close> by simp
  next
    case 2
    have "lerp lo hi x \<le> real (unat (snd hi))"
      using lerp_between(2) [OF lt] 1(5) 2(1) le unfolding word_le_nat_alt by (simp del: of_nat_unat)
    also have "real (unat (snd hi)) \<le> spec_scan y (hi # bps)"
    proof -
      have "real (unat (snd hi)) \<le> real (unat (snd p))" if "p \<in> set (hi # bps)" for p
        using that 1(7) by (auto simp: word_le_nat_alt simp del: of_nat_unat)
      moreover have "real (unat (snd p)) \<le> 131072" if "p \<in> set (hi # bps)" for p
        using that 1(2) by (intro ok_pointD(6)) (auto simp: list_all_iff)
      ultimately show ?thesis
        using spec_scan_range [of "hi # bps" y "real (unat (snd hi))" 131072] 1(2,3) 2(2) by simp
    qed
    finally show ?thesis using 2 by simp
  next
    case 3
    then show ?thesis using 1 by simp
  qed
qed simp_all

text \<open>Outside the finite range (infinities, NaN) the code answers with an end of the curve.\<close>

lemma scan_nan: "\<not> is_finite x \<Longrightarrow> bps \<noteq> [] \<Longrightarrow> \<not> (\<exists>p\<in>set bps. x \<le> fst p) \<Longrightarrow>
  scan x bps = f32_of_word (snd (last bps))"
  by (induction x bps rule: scan.induct) auto

lemma infinite_below:
  assumes "\<not> is_finite x" "is_finite a" "is_finite b" "x \<le> b"
  shows "x \<le> a"
  using assms fv_bound [OF assms(2)] fv_bound [OF assms(3)]
  by (auto simp: less_eq_f32_def finite_pos pos_def [of x] is_finite_def [of x]
      split: fview.splits option.splits if_splits)

lemma evaluate_not_finite:
  assumes wf: "wf_curve bps" and x: "\<not> is_finite x"
  shows "evaluate bps x = f32_of_word (snd (hd bps)) \<or> evaluate bps x = f32_of_word (snd (last bps))"
proof (rule wf_curve_cases [OF wf])
  fix lo hi rest
  assume b: "bps = lo # hi # rest" "list_all ok_point bps" "rising bps" "ok_point (last bps)"
    "fst lo < fst (last bps)"
  show ?thesis
  proof (cases "x \<le> fst lo \<or> fst (last bps) \<le> x")
    case True
    then show ?thesis by (auto simp: b(1) evaluate_def)
  next
    case False
    have fin: "is_finite (fst p)" if "p \<in> set bps" for p
      using that b(2) by (simp add: list_all_iff ok_pointD(1))
    have lo: "is_finite (fst lo)" using fin [of lo] b(1) by simp
    have "\<not> (\<exists>p\<in>set bps. x \<le> fst p)"
      using False infinite_below [OF x lo fin] by blast
    then show ?thesis using scan_nan [OF x, of bps] False b(1) by (simp add: evaluate_def)
  qed
qed

lemma evaluate_range:
  assumes wf: "wf_curve bps" and m: "\<And>p. p \<in> set bps \<Longrightarrow> m \<le> unat (snd p) \<and> unat (snd p) \<le> M"
  shows "is_finite (evaluate bps x)" "real m - 1 / 2 \<le> rv (evaluate bps x)"
    "rv (evaluate bps x) \<le> real M + 1 / 2"
proof -
  have mr: "real m \<le> real (unat (snd p)) \<and> real (unat (snd p)) \<le> real M" if "p \<in> set bps" for p
    using m [OF that] by (simp del: of_nat_unat)
  have "is_finite (evaluate bps x) \<and> real m - 1 / 2 \<le> rv (evaluate bps x) \<and> rv (evaluate bps x) \<le> real M + 1 / 2"
  proof (cases "is_finite x")
    case True
    have ne: "bps \<noteq> []" "list_all ok_point bps" "rising bps" using wf by (auto simp: wf_curve_def)
    have "real m \<le> curve_spec bps (rv x) \<and> curve_spec bps (rv x) \<le> real M"
    proof (cases "rv x \<le> rv (fst (hd bps))")
      case True
      then show ?thesis using mr [of "hd bps"] ne by (simp add: curve_spec_def)
    next
      case False
      then show ?thesis using spec_scan_range [of bps "rv x" "real m" "real M"] mr ne by (simp add: curve_spec_def)
    qed
    then show ?thesis using evaluate_error [OF wf True] by linarith
  next
    case False
    have "bps \<noteq> []" using wf by (auto simp: wf_curve_def)
    then have ne: "hd bps \<in> set bps" "last bps \<in> set bps" "list_all ok_point bps"
      using wf by (simp_all add: wf_curve_def)
    then have "ok_point (hd bps)" "ok_point (last bps)" by (simp_all add: list_all_iff)
    then show ?thesis
      using evaluate_not_finite [OF wf False] mr [OF ne(1)] mr [OF ne(2)] ok_pointD(4,5) by fastforce
  qed
  then show "is_finite (evaluate bps x)" "real m - 1 / 2 \<le> rv (evaluate bps x)"
    "rv (evaluate bps x) \<le> real M + 1 / 2" by simp_all
qed

lemma evaluate_mono:
  assumes wf: "wf_curve bps" and s: "sorted (map snd bps)" and x: "is_finite x" "is_finite y" "x \<le> y"
  shows "rv (evaluate bps x) \<le> rv (evaluate bps y) + 1"
proof -
  have ne: "bps \<noteq> []" "list_all ok_point bps" "rising bps" using wf by (auto simp: wf_curve_def)
  have xy: "rv x \<le> rv y" using x by (simp add: rv_le)
  have hd: "real (unat (snd (hd bps))) \<le> real (unat (snd p))" if "p \<in> set bps" for p
    using that s ne(1) by (cases bps) (auto simp: word_le_nat_alt simp del: of_nat_unat)
  have up: "real (unat (snd p)) \<le> 131072" if "p \<in> set bps" for p
    using that ne(2) by (intro ok_pointD(6)) (auto simp: list_all_iff)
  have "curve_spec bps (rv x) \<le> curve_spec bps (rv y)"
  proof (cases "rv x \<le> rv (fst (hd bps))")
    case True
    then show ?thesis
      using spec_scan_range [of bps "rv y" "real (unat (snd (hd bps)))" 131072] hd up ne by (simp add: curve_spec_def)
  next
    case False
    then show ?thesis using spec_scan_mono [OF ne(2,3,1) _ xy s] xy by (simp add: curve_spec_def)
  qed
  then show ?thesis using evaluate_error [OF wf x(1)] evaluate_error [OF wf x(2)] by linarith
qed

text \<open>At a breakpoint the answer is exactly the breakpoint's RPM.\<close>

lemma rising_later:
  "list_all ok_point (q # bps) \<Longrightarrow> rising (q # bps) \<Longrightarrow> p \<in> set bps \<Longrightarrow> fst q < fst p"
proof (induction bps arbitrary: q)
  case (Cons r bps)
  then have qr: "fst q < fst r" by simp
  show ?case
  proof (cases "p = r")
    case False
    then have "fst r < fst p" using Cons by simp
    with qr show ?thesis by (rule f32_less_trans)
  qed (use qr in simp)
qed simp

lemma scan_exact:
  "list_all ok_point bps \<Longrightarrow> rising bps \<Longrightarrow> p \<in> set (tl bps) \<Longrightarrow> t = fst p \<Longrightarrow>
   is_finite (scan t bps) \<and> rv (scan t bps) = real (unat (snd p))"
proof (induction t bps rule: scan.induct)
  case (1 t lo hi bps)
  have ok: "ok_point lo" "ok_point hi" using 1 by simp_all
  have lh: "fst lo < fst hi" "\<not> fabs (fst hi - fst lo) < f32_EPSILON" using 1 by simp_all
  show ?case
  proof (cases "p = hi")
    case True
    then have "t \<le> fst hi" using 1(5) ok(2) by (simp add: f32_le_refl ok_pointD(1))
    moreover have "rv (fst lo) \<le> rv (fst hi)" using rising_rv [OF 1(2,3)] by simp
    ultimately show ?thesis using interpolate_error [OF ok lh, of t] 1(5) True ok_pointD(1) [OF ok(2)] by simp
  next
    case False
    then have p: "p \<in> set bps" using 1(4) by simp
    then have "fst hi < t" using rising_later [of hi bps p] 1(2,3,5) by simp
    then have "\<not> t \<le> fst hi" by (rule f32_less_not_le)
    then show ?thesis using 1 p by simp
  qed
qed simp_all

lemma evaluate_exact:
  assumes wf: "wf_curve bps" and p: "p \<in> set bps"
  shows "is_finite (evaluate bps (fst p)) \<and> rv (evaluate bps (fst p)) = real (unat (snd p))"
proof (rule wf_curve_cases [OF wf])
  fix lo hi rest
  assume b: "bps = lo # hi # rest" "list_all ok_point bps" "rising bps" "ok_point (last bps)"
    "fst lo < fst (last bps)"
  have ok: "ok_point p" using p b(2) by (simp add: list_all_iff)
  have lo: "ok_point lo" using b by simp
  show ?thesis
  proof (cases "p = lo")
    case True
    then have "evaluate bps (fst p) = f32_of_word (snd p)"
      using ok_pointD(1) [OF lo] by (simp add: b(1) evaluate_def f32_le_refl)
    then show ?thesis using ok_pointD(4,5) [OF ok] by simp
  next
    case False
    then have t: "p \<in> set (tl bps)" using p b(1) by simp
    then have "fst lo < fst p" using rising_later [of lo "hi # rest" p] b by simp
    then have n: "\<not> fst p \<le> fst lo" by (rule f32_less_not_le)
    have "p = last bps \<or> fst p < fst (last bps)"
      using p b(2,3)
    proof (induction bps)
      case (Cons q bps)
      then show ?case using rising_later [of q bps "last bps"] by (cases bps) auto
    qed simp
    then show ?thesis
    proof
      assume "p = last bps"
      then show ?thesis using n ok_pointD [OF ok] by (simp add: b(1) evaluate_def f32_le_refl)
    next
      assume "fst p < fst (last bps)"
      then have "evaluate bps (fst p) = scan (fst p) bps"
        using n f32_less_not_le by (auto simp: b(1) evaluate_def)
      then show ?thesis using scan_exact [OF b(2,3) t refl] by simp
    qed
  qed
qed

end
