(* ===== verification/Fusion.thy ===== *)
theory Fusion
  imports F32_Real
begin

text \<open>
  Sensor fusion (\<open>src/control/fusion.rs\<close>) and the exponential moving average
  (\<open>src/control/ema.rs\<close>): which readings take part, what their maximum or mean is, and when the
  last known good temperature is used instead.
\<close>

section \<open>Fusion\<close>

datatype fusion_mode = FMax | FMean

definition from_str_lossy :: "string \<Rightarrow> fusion_mode" where
  "from_str_lossy s = (if s = ''mean'' then FMean else FMax)"

text \<open>The readings without a dropout; \<open>zip\<close> stops at the shorter list.\<close>

definition valid_values :: "f32 list \<Rightarrow> bool list \<Rightarrow> f32 list" where
  "valid_values values dropouts = map fst (filter (\<lambda>(_, d). \<not> d) (zip values dropouts))"

definition fold_max :: "f32 list \<Rightarrow> f32" where
  "fold_max vs = foldl fmax f32_NEG_INFINITY vs"

text \<open>\<open>Iterator::sum\<close> for \<open>f32\<close> starts at negative zero (Rust 1.83 and later).\<close>

definition fsum :: "f32 list \<Rightarrow> f32" where
  "fsum vs = foldl (+) (- lit 0 1) vs"

definition fuse :: "f32 list \<Rightarrow> bool list \<Rightarrow> fusion_mode \<Rightarrow> f32 \<Rightarrow> f32" where
  "fuse values dropouts mode last_known_good =
    (let valid = valid_values values dropouts in
     if valid = [] then last_known_good
     else let r = (case mode of FMax \<Rightarrow> fold_max valid
                     | FMean \<Rightarrow> divide (fsum valid) (f32_of_nat (length valid))) in
       if is_nan r \<or> is_infinite r then last_known_good else r)"

section \<open>Exponential moving average\<close>

definition smooth :: "f32 \<Rightarrow> f32 \<Rightarrow> f32 \<Rightarrow> f32" where
  "smooth prev_smoothed raw alpha = alpha * raw + (lit 1 1 - alpha) * prev_smoothed"

section \<open>Facts about fusion\<close>

lemma guard_finite: "is_finite a \<Longrightarrow> is_finite (if is_nan r \<or> is_infinite r then a else r)"
  using is_finite_iff [of r] by presburger

lemma fuse_finite: "is_finite lkg \<Longrightarrow> is_finite (fuse vs ds m lkg)"
  by (simp add: fuse_def Let_def guard_finite)

lemma fmax_ge: "\<not> is_nan x \<Longrightarrow> x \<le> fmax x y"
  by (auto simp: fmax_def f32_le_refl f32_less_imp_le)

lemma fmax_ge2: "\<not> is_nan y \<Longrightarrow> y \<le> fmax x y"
  by (auto simp: fmax_def f32_le_refl f32_not_less)

lemma fmax_cases: "fmax x y = x \<or> fmax x y = y"
  by (auto simp: fmax_def)

lemma fmax_nan: "is_nan (fmax x y) \<longleftrightarrow> is_nan x \<and> is_nan y"
  by (auto simp: fmax_def)

lemma foldl_max_ge: "\<not> is_nan a \<Longrightarrow> \<not> is_nan (foldl fmax a vs) \<and> a \<le> foldl fmax a vs"
proof (induction vs arbitrary: a)
  case (Cons v vs)
  then have "\<not> is_nan (fmax a v)" by (simp add: fmax_nan)
  with Cons.IH [OF this] fmax_ge [OF Cons.prems, of v] show ?case by (auto intro: f32_le_trans)
qed (simp add: f32_le_refl)

lemma foldl_max_upper:
  "\<not> is_nan a \<Longrightarrow> v \<in> set vs \<Longrightarrow> \<not> is_nan v \<Longrightarrow> v \<le> foldl fmax a vs"
proof (induction vs arbitrary: a)
  case (Cons w vs)
  have n: "\<not> is_nan (fmax a w)" using Cons.prems by (simp add: fmax_nan)
  show ?case
  proof (cases "v = w")
    case True
    then show ?thesis using fmax_ge2 [of v a] foldl_max_ge [OF n, of vs] Cons.prems by (auto intro: f32_le_trans)
  qed (use Cons n in auto)
qed simp

lemma foldl_max_mem: "foldl fmax a vs = a \<or> foldl fmax a vs \<in> set vs"
proof (induction vs arbitrary: a)
  case (Cons v vs)
  then show ?case using Cons.IH [of "fmax a v"] fmax_cases [of a v] by (metis foldl_Cons list.set_intros)
qed simp

lemma neg_inf: "\<not> is_nan f32_NEG_INFINITY" "is_infinite f32_NEG_INFINITY"
  by (simp_all add: f32_NEG_INFINITY_def is_nan_def is_infinite_def view_inf)

lemma valid_values_iff:
  "v \<in> set (valid_values vs ds) \<longleftrightarrow> (\<exists>i < min (length vs) (length ds). vs ! i = v \<and> \<not> ds ! i)"
  by (force simp: valid_values_def set_zip)

text \<open>
  The fused maximum is one of the valid readings and no valid reading is above it, as soon as one
  valid reading is finite and none is an infinity.
\<close>

lemma fuse_max:
  assumes v: "v \<in> set (valid_values vs ds)" "is_finite v"
    and inf: "\<And>w. w \<in> set (valid_values vs ds) \<Longrightarrow> \<not> is_infinite w"
  shows "fuse vs ds FMax lkg \<in> set (valid_values vs ds)"
    and "w \<in> set (valid_values vs ds) \<Longrightarrow> is_finite w \<Longrightarrow> w \<le> fuse vs ds FMax lkg"
proof -
  define r where "r = fold_max (valid_values vs ds)"
  have ge: "w \<le> r" if "w \<in> set (valid_values vs ds)" "\<not> is_nan w" for w
    unfolding r_def fold_max_def using that by (intro foldl_max_upper neg_inf(1))
  have "r \<noteq> f32_NEG_INFINITY"
  proof
    assume "r = f32_NEG_INFINITY"
    then have "v \<le> f32_NEG_INFINITY" using ge [OF v(1)] v(2) by simp
    then show False using v(2) fv_bound [OF v(2)]
      by (simp add: less_eq_f32_def finite_pos pos_def [of "pack _"] f32_NEG_INFINITY_def view_inf)
  qed
  then have mem: "r \<in> set (valid_values vs ds)" using foldl_max_mem unfolding r_def fold_max_def by blast
  then have "\<not> is_infinite r" by (rule inf)
  moreover have "\<not> is_nan r" using ge [OF v(1)] v(2) compare_not_nan(1) [of v r] by simp
  moreover have "valid_values vs ds \<noteq> []" using v(1) by auto
  ultimately have "fuse vs ds FMax lkg = r" by (simp add: fuse_def flip: r_def)
  then show "fuse vs ds FMax lkg \<in> set (valid_values vs ds)"
    "w \<in> set (valid_values vs ds) \<Longrightarrow> is_finite w \<Longrightarrow> w \<le> fuse vs ds FMax lkg"
    using mem ge by simp_all
qed

text \<open>Readings that drop out have no influence.\<close>

lemma valid_values_dropout:
  assumes "i < length ds" "ds ! i" "length vs = length ds"
  shows "valid_values (vs[i := x]) ds = valid_values vs ds"
proof -
  have "filter (\<lambda>(_, d). \<not> d) (zip (vs[i := x]) ds) = filter (\<lambda>(_, d). \<not> d) (zip vs ds)"
    using assms
  proof (induction ds arbitrary: vs i)
    case (Cons d ds)
    then show ?case by (cases vs; cases i) auto
  qed simp
  then show ?thesis by (simp add: valid_values_def)
qed

lemma valid_values_all_dropped: "list_all id ds \<Longrightarrow> valid_values vs ds = []"
  by (auto simp: valid_values_def list_all_iff filter_empty_conv dest: set_zip_rightD)

section \<open>Facts about smoothing\<close>

text \<open>
  Temperatures up to 2048 degrees stay within a thousandth of the exact weighted mean, and hence of
  the interval of the two inputs.
\<close>

lemma smooth_error:
  assumes x: "is_finite p" "is_finite r" "is_finite a" and a: "0 \<le> rv a" "rv a \<le> 1"
    and b: "0 \<le> rv p" "rv p \<le> 2048" "0 \<le> rv r" "rv r \<le> 2048"
  shows "is_finite (smooth p r a)"
    and "\<bar>rv (smooth p r a) - (rv a * rv r + (1 - rv a) * rv p)\<bar> \<le> 1 / 1000"
proof -
  have o: "is_finite (lit 1 1)" "rv (lit 1 1) = 1" by (simp_all add: rv_def fv_def U_def f32_eval)
  have c: "ulp = 1 / 16777216" "eta \<le> 1 / 16777216" by (simp_all add: ulp_def eta_def U_def)
  define s where "s = lit 1 1 - a"
  have "\<bar>rv (lit 1 1) - rv a\<bar> \<le> 2 ^ 127" using a by (simp only: o abs_le_iff) simp
  note s = sub_real [OF o(1) x(3) this, folded s_def, unfolded o(2)]
  have su: "ulp * (1 - rv a) \<le> ulp" using a by (simp add: c)
  have se: "\<bar>rv s - (1 - rv a)\<bar> \<le> ulp" using s(2) su a by simp
  have s0: "0 \<le> rv s"
  proof -
    have "ulp * (1 - rv a) \<le> 1 * (1 - rv a)" using a by (intro mult_right_mono) (simp_all add: c)
    then show ?thesis using s(2) a by (simp add: abs_le_iff)
  qed
  have s2: "rv s \<le> 2" using se a c by linarith
  have ar: "rv a * rv r \<le> 1 * 2048" and sp: "rv s * rv p \<le> 2 * 2048"
    using a b s0 s2 by (intro mult_mono; simp)+
  have ar0: "0 \<le> rv a * rv r" and sp0: "0 \<le> rv s * rv p" using a b s0 by simp_all
  have "rv a * rv r \<le> 2 ^ 127" "rv s * rv p \<le> 2 ^ 127" using ar sp by simp_all
  note m = mul_real [OF x(3) a(1) x(2) b(3) this(1)] and n = mul_real [OF s(1) s0 x(1) b(1) this(2)]
  have "ulp * (rv a * rv r) \<le> 1 / 8192" "ulp * (rv s * rv p) \<le> 1 / 4096" unfolding c(1) using ar sp by (simp_all add: mult.commute)
  then have mr: "\<bar>rv (a * r) - rv a * rv r\<bar> \<le> 1 / 8192" and ns: "\<bar>rv (s * p) - rv s * rv p\<bar> \<le> 1 / 4096"
    using m(3) n(3) c(2) by linarith+
  have t: "\<bar>rv (a * r) + rv (s * p)\<bar> \<le> 6146" using mr ns ar sp ar0 sp0 by linarith
  then have "\<bar>rv (a * r) + rv (s * p)\<bar> \<le> 2 ^ 127" by (rule order_trans) simp
  note q = add_real [OF m(1) n(1) this]
  show "is_finite (smooth p r a)" unfolding smooth_def s_def [symmetric] by (rule q)
  have q2: "\<bar>rv (a * r + s * p) - (rv (a * r) + rv (s * p))\<bar> \<le> 1 / 2048"
    by (rule order_trans [OF q(2)]) (use t in \<open>simp add: c(1)\<close>)
  have "\<bar>(rv s - (1 - rv a)) * rv p\<bar> \<le> ulp * 2048" unfolding abs_mult using se b by (intro mult_mono) simp_all
  then have "\<bar>rv s * rv p - (1 - rv a) * rv p\<bar> \<le> 1 / 8192" by (simp add: c left_diff_distrib)
  then show "\<bar>rv (smooth p r a) - (rv a * rv r + (1 - rv a) * rv p)\<bar> \<le> 1 / 1000"
    unfolding smooth_def s_def [symmetric] using mr ns q2 by linarith
qed

end
