(* ===== verification/Machine.thy ===== *)
theory Machine
  imports Main
begin

text \<open>
  Operations that take a state and an input to a new state and an output, run over a list of inputs.
  The locale \<open>machine\<close> is the contract of such an operation: an invariant it keeps and a relation
  between each input and its output that it guarantees under the invariant. The components interpret
  it on their own operation; the consequences for whole runs are proved here once.
\<close>

fun run :: "('s \<Rightarrow> 'i \<Rightarrow> 's \<times> 'o) \<Rightarrow> 's \<Rightarrow> 'i list \<Rightarrow> 's \<times> 'o list" where
  "run step s [] = (s, [])"
| "run step s (i # is) = (let (s1, out) = step s i; (s2, outs) = run step s1 is in (s2, out # outs))"

lemma run_Cons: "fst (run step s (i # is)) = fst (run step (fst (step s i)) is)"
    "snd (run step s (i # is)) = snd (step s i) # snd (run step (fst (step s i)) is)"
  by (simp_all add: split_beta Let_def)

declare run.simps(2) [simp del] run_Cons [simp]

lemma run_append:
  "fst (run step s (is @ js)) = fst (run step (fst (run step s is)) js)"
  "snd (run step s (is @ js)) = snd (run step s is) @ snd (run step (fst (run step s is)) js)"
  by (induction "is" arbitrary: s) simp_all

lemma run_snoc: "fst (run step s (is @ [i])) = fst (step (fst (run step s is)) i)"
  by (simp add: run_append)

lemma length_run [simp]: "length (snd (run step s is)) = length is"
  by (induction "is" arbitrary: s) simp_all

text \<open>A state no input of the list leaves.\<close>

lemma run_stays:
  "(\<And>i. i \<in> set is \<Longrightarrow> step s i = (s, out)) \<Longrightarrow> run step s is = (s, replicate (length is) out)"
  by (induction "is") (auto simp: run.simps(2))

locale machine =
  fixes step :: "'s \<Rightarrow> 'i \<Rightarrow> 's \<times> 'o" and inv :: "'s \<Rightarrow> bool" and ok :: "'i \<Rightarrow> 'o \<Rightarrow> bool"
  assumes step_inv: "inv s \<Longrightarrow> inv (fst (step s i))"
    and step_ok: "inv s \<Longrightarrow> ok i (snd (step s i))"
begin

lemma run_inv: "inv s \<Longrightarrow> inv (fst (run step s is))"
  by (induction "is" arbitrary: s) (simp_all add: step_inv)

lemma run_ok: "inv s \<Longrightarrow> list_all2 ok is (snd (run step s is))"
  by (induction "is" arbitrary: s) (simp_all add: step_inv step_ok)

lemma reachable_ok: "inv s \<Longrightarrow> ok i (snd (step (fst (run step s is)) i))"
  by (intro step_ok run_inv)

end

end
