(* ===== verification/Hysteresis.thy ===== *)
theory Hysteresis
  imports F32_Laws Machine
begin

text \<open>
  Asymmetric hysteresis (\<open>src/control/hysteresis.rs\<close>): the RPM is held until the smoothed
  temperature has risen by more than the up margin or fallen by more than the down margin since the
  last change.
\<close>

datatype direction = Rising | Falling | Held

record hysteresis_state =
  hold_rpm :: f32
  direction :: direction
  last_temp :: f32

definition hysteresis_new :: "f32 \<Rightarrow> f32 \<Rightarrow> hysteresis_state" where
  "hysteresis_new initial_rpm initial_temp =
     \<lparr> hold_rpm = initial_rpm, direction = Held, last_temp = initial_temp \<rparr>"

definition hysteresis_reinit :: "hysteresis_state \<Rightarrow> f32 \<Rightarrow> f32 \<Rightarrow> hysteresis_state" where
  "hysteresis_reinit st rpm temp = st\<lparr> hold_rpm := rpm, direction := Held, last_temp := temp \<rparr>"

definition should_emit :: "direction \<Rightarrow> f32 \<Rightarrow> f32 \<Rightarrow> f32 \<Rightarrow> bool" where
  "should_emit dir delta up_margin down_margin = (case dir of
     Falling \<Rightarrow> (if delta < - down_margin then True else if up_margin < delta then True else False)
   | _ \<Rightarrow> (if up_margin < delta then True else if delta < - down_margin then True else False))"

definition hyst_apply :: "hysteresis_state \<Rightarrow> f32 \<Rightarrow> f32 \<Rightarrow> f32 \<Rightarrow> f32 \<Rightarrow> hysteresis_state \<times> f32" where
  "hyst_apply st curve_rpm smoothed_temp up_margin down_margin =
    (let delta = smoothed_temp - last_temp st;
         st' = (if should_emit (direction st) delta up_margin down_margin
           then st\<lparr> hold_rpm := curve_rpm, last_temp := smoothed_temp,
                    direction := (if lit 0 1 < delta then Rising else if delta < lit 0 1 then Falling else Held) \<rparr>
           else st)
     in (st', hold_rpm st'))"

section \<open>Behaviour\<close>

text \<open>The direction does not influence the decision: both branches test the same two margins.\<close>

lemma should_emit_iff: "should_emit dir delta up down \<longleftrightarrow> up < delta \<or> delta < - down"
  by (cases dir) (auto simp: should_emit_def)

definition in_band :: "hysteresis_state \<Rightarrow> f32 \<Rightarrow> f32 \<Rightarrow> f32 \<Rightarrow> bool" where
  "in_band st up down temp \<longleftrightarrow>
     \<not> up < temp - last_temp st \<and> \<not> temp - last_temp st < - down"

lemma apply_in_band: "in_band st up down t \<Longrightarrow> hyst_apply st c t up down = (st, hold_rpm st)"
  by (simp add: hyst_apply_def should_emit_iff in_band_def)

lemma apply_out_of_band:
  "\<not> in_band st up down t \<Longrightarrow>
   snd (hyst_apply st c t up down) = c \<and> hold_rpm (fst (hyst_apply st c t up down)) = c
   \<and> last_temp (fst (hyst_apply st c t up down)) = t"
  by (auto simp: hyst_apply_def should_emit_iff in_band_def Let_def)

lemma apply_output: "snd (hyst_apply st c t up down) \<in> {hold_rpm st, c}"
  by (simp add: hyst_apply_def Let_def)

lemma apply_hold: "hold_rpm (fst (hyst_apply st c t up down)) = snd (hyst_apply st c t up down)"
  by (simp add: hyst_apply_def Let_def)

text \<open>Runs over a list of (curve RPM, temperature) samples.\<close>

definition hyst_step :: "f32 \<Rightarrow> f32 \<Rightarrow> hysteresis_state \<Rightarrow> f32 \<times> f32 \<Rightarrow> hysteresis_state \<times> f32" where
  "hyst_step up down st s = (case s of (c, t) \<Rightarrow> hyst_apply st c t up down)"

lemma hyst_run_in_band:
  "\<forall>(c, t)\<in>set xs. in_band st up down t \<Longrightarrow>
   run (hyst_step up down) st xs = (st, replicate (length xs) (hold_rpm st))"
  by (rule run_stays) (auto simp: hyst_step_def apply_in_band)

text \<open>Outputs are the held RPM or RPMs of the curve: hysteresis never makes up a speed.\<close>

lemma hyst_step_output: "snd (hyst_step up down st s) \<in> {hold_rpm st, fst s}"
  using apply_output by (cases s) (auto simp: hyst_step_def)

lemma hyst_step_hold: "hold_rpm (fst (hyst_step up down st s)) = snd (hyst_step up down st s)"
  by (cases s) (simp add: hyst_step_def apply_hold)

lemma hyst_run_outputs:
  "set (snd (run (hyst_step up down) st xs)) \<subseteq> insert (hold_rpm st) (fst ` set xs)"
proof (induction xs arbitrary: st)
  case (Cons s xs)
  let ?st = "fst (hyst_step up down st s)"
  have "hold_rpm ?st \<in> {hold_rpm st, fst s}" using hyst_step_output [of up down st s] by (simp only: hyst_step_hold)
  then show ?case using Cons.IH [of ?st] hyst_step_output [of up down st s] by (auto simp: run_Cons)
qed simp

end
