(* ===== verification/Slew.thy ===== *)
theory Slew
  imports F32_Laws
begin

text \<open>
  The slew limiter (\<open>src/control/slew.rs\<close>): increases pass at once, decreases are limited to the
  ramp rate times the elapsed time, which is capped at one second.
\<close>

definition limit :: "f32 \<Rightarrow> f32 \<Rightarrow> f32 \<Rightarrow> f32 \<Rightarrow> f32" where
  "limit prev_rpm target_rpm ramp_down_rpm_per_s actual_dt_secs =
    (if prev_rpm \<le> target_rpm then target_rpm
     else let clamped_dt = fmin actual_dt_secs (lit 1 1);
              max_down = ramp_down_rpm_per_s * clamped_dt;
              lowest = prev_rpm - max_down in
       fmax target_rpm lowest)"

lemma limit_up: "prev \<le> target \<Longrightarrow> limit prev target ramp dt = target"
  by (simp add: limit_def)

text \<open>The result is never below the target, nor below the floor of the ramp.\<close>

lemma limit_ge_target: "\<not> is_nan target \<Longrightarrow> target \<le> limit prev target ramp dt"
  by (auto simp: limit_def Let_def fmax_def f32_le_refl f32_less_imp_le)

lemma fmax_fin: "is_finite x \<Longrightarrow> is_finite y \<Longrightarrow> is_finite (fmax x y) \<and> fv (fmax x y) = max (fv x) (fv y)"
  by (auto simp: fmax_def lt_fin)

lemma fmin_fin: "is_finite x \<Longrightarrow> is_finite y \<Longrightarrow> is_finite (fmin x y) \<and> fv (fmin x y) = min (fv x) (fv y)"
  by (auto simp: fmin_def lt_fin)

lemma one_fin: "is_finite (lit 1 1)" "fv (lit 1 1) = 2 ^ 149"
  by (simp_all add: fv_def f32_eval)

lemma rz_nonneg: "0 \<le> z \<Longrightarrow> 0 \<le> rz z"
  by (simp add: rz_def)

lemma rz_small_word: "\<bar>z\<bar> \<le> 2 ^ 182 \<Longrightarrow> \<bar>rz z\<bar> \<le> 2 ^ 182"
proof -
  assume z: "\<bar>z\<bar> \<le> 2 ^ 182"
  have "rep (2 ^ 182)" using rep_small [of 1 182] by simp
  then have "rz (2 ^ 182) = 2 ^ 182" "rz (- (2 ^ 182)) = - (2 ^ 182)"
    using rz_exact [of "2 ^ 182"] rz_neg [of "2 ^ 182"] by simp_all
  moreover have "rz z \<le> rz (2 ^ 182)" "rz (- (2 ^ 182)) \<le> rz z"
    using z by (intro rz_mono; linarith)+
  ultimately show ?thesis by (simp add: abs_le_iff)
qed

text \<open>The drop of one step: at most the rounded ramp, and none of it below zero elapsed time.\<close>

definition max_drop :: "f32 \<Rightarrow> f32 \<Rightarrow> f32" where
  "max_drop ramp dt = ramp * fmin dt (lit 1 1)"

lemma max_drop_bounds:
  assumes ramp: "is_finite ramp" "0 \<le> fv ramp" "fv ramp \<le> 2 ^ 181" and dt: "is_finite dt" "0 \<le> fv dt"
  shows "is_finite (max_drop ramp dt)" "0 \<le> fv (max_drop ramp dt)" "fv (max_drop ramp dt) \<le> 2 ^ 181"
proof -
  define c where "c = fmin dt (lit 1 1)"
  have c: "is_finite c" "fv c = min (fv dt) (2 ^ 149)"
    using fmin_fin [OF dt(1) one_fin(1)] unfolding c_def one_fin(2) by blast+
  have c0: "0 \<le> fv c" "fv c \<le> 2 ^ 149" using dt by (simp_all add: c)
  have "nat (fv ramp) * nat (fv c) \<le> 2 ^ 181 * 2 ^ 149"
    using ramp c0 by (intro mult_mono) simp_all
  moreover have "rep (2 ^ 181)" using rep_small [of 1 181] by simp
  ultimately have r: "rnd (nat (fv ramp) * nat (fv c)) (2 ^ 149) \<le> 2 ^ 181"
    by (intro rnd.le_rep) simp_all
  then have "rnd (nat (fv ramp) * nat (fv c)) (2 ^ 149) < 2 ^ 277" by (rule order_le_less_trans) simp
  note m = mul_fin [OF ramp(1,2) c(1) c0(1) this]
  show "is_finite (max_drop ramp dt)" "0 \<le> fv (max_drop ramp dt)"
    using m by (simp_all add: max_drop_def c_def)
  have "int (rnd (nat (fv ramp) * nat (fv c)) (2 ^ 149)) \<le> int (2 ^ 181)" using r by (simp only: of_nat_le_iff)
  then show "fv (max_drop ramp dt) \<le> 2 ^ 181" using m(2) by (simp add: max_drop_def c_def)
qed

lemma limit_down:
  assumes p: "is_finite p" "\<bar>fv p\<bar> \<le> 2 ^ 181" and t: "is_finite t" "t < p"
    and ramp: "is_finite ramp" "0 \<le> fv ramp" "fv ramp \<le> 2 ^ 181" and dt: "is_finite dt" "0 \<le> fv dt"
  shows "is_finite (limit p t ramp dt)" "limit p t ramp dt \<le> p" "p - max_drop ramp dt \<le> limit p t ramp dt"
proof -
  note d = max_drop_bounds [OF ramp dt]
  have "\<bar>fv p - fv (max_drop ramp dt)\<bar> \<le> 2 ^ 182" using p(2) d by (simp add: abs_le_iff)
  then have "\<bar>rz (fv p - fv (max_drop ramp dt))\<bar> \<le> 2 ^ 182" by (rule rz_small_word)
  then have "\<bar>rz (fv p - fv (max_drop ramp dt))\<bar> < 2 ^ 277" by (rule order_le_less_trans) simp
  note s = sub_fin [OF p(1) d(1) this]
  have "rz (fv p - fv (max_drop ramp dt)) \<le> rz (fv p)" using d by (intro rz_mono) simp
  moreover have "rz (fv p) = fv p" using finiteE [OF p(1)] by (metis rz_exact signed_abs)
  ultimately have le: "fv (p - max_drop ramp dt) \<le> fv p" using s by simp
  have l: "limit p t ramp dt = fmax t (p - max_drop ramp dt)"
    using t(2) f32_less_not_le by (auto simp: limit_def Let_def max_drop_def)
  note m = fmax_fin [OF t(1) s(1)]
  show "is_finite (limit p t ramp dt)" using m by (simp add: l)
  show "limit p t ramp dt \<le> p" "p - max_drop ramp dt \<le> limit p t ramp dt"
    unfolding l using m le t p s by (simp_all add: le_fin lt_fin)
qed

end
