(* ===== verification/Panic_Latch.thy ===== *)
theory Panic_Latch
  imports F32_Laws Machine
begin

text \<open>
  The panic latch (\<open>src/control/panic.rs\<close>): two consecutive readings above the threshold latch it;
  it is released by a reading at or below the threshold once the hold time has passed. Instants are
  nanoseconds; \<open>duration_since\<close> saturates at zero.
\<close>

datatype panic_action = ForceFxMx | Passthrough

record panic_state =
  latched :: bool
  consecutive_above :: u8
  entered_at :: "nat option"

definition panic_new :: panic_state where
  "panic_new = \<lparr> latched = False, consecutive_above = 0, entered_at = None \<rparr>"

definition as_secs :: "nat \<Rightarrow> nat" where
  "as_secs ns = ns div 1000000000"

definition count_reading :: "panic_state \<Rightarrow> f32 \<Rightarrow> f32 \<Rightarrow> panic_state" where
  "count_reading st raw threshold = (if threshold < raw
     then st\<lparr> consecutive_above := sat_add (consecutive_above st) 1 \<rparr>
     else st\<lparr> consecutive_above := 0 \<rparr>)"

definition enter_panic :: "panic_state \<Rightarrow> nat \<Rightarrow> panic_state" where
  "enter_panic st now = (if \<not> latched st \<and> 2 \<le> consecutive_above st
     then st\<lparr> latched := True, entered_at := Some now \<rparr> else st)"

definition panic_check ::
  "panic_state \<Rightarrow> f32 \<Rightarrow> f32 \<Rightarrow> u32 \<Rightarrow> nat \<Rightarrow> panic_state \<times> panic_action" where
  "panic_check st0 raw threshold hold_secs now =
    (let st = enter_panic (count_reading st0 raw threshold) now in
     if latched st then
       (if raw \<le> threshold then
          (case entered_at st of
             Some entered \<Rightarrow>
               if unat hold_secs \<le> as_secs (now - entered)
               then (st\<lparr> latched := False, entered_at := None, consecutive_above := 0 \<rparr>, Passthrough)
               else (st, ForceFxMx)
           | None \<Rightarrow> (st, ForceFxMx))
        else (st, ForceFxMx))
     else (st, Passthrough))"

section \<open>Invariant\<close>

text \<open>Latched exactly when the entry time is recorded, and two readings in a row always latch.\<close>

definition panic_inv :: "panic_state \<Rightarrow> bool" where
  "panic_inv st \<longleftrightarrow> (latched st \<longleftrightarrow> entered_at st \<noteq> None) \<and> (2 \<le> consecutive_above st \<longrightarrow> latched st)"

lemma panic_inv_new: "panic_inv panic_new"
  by (simp add: panic_inv_def panic_new_def)

lemma panic_inv_check: "panic_inv st \<Longrightarrow> panic_inv (fst (panic_check st raw th hold now))"
  by (auto simp: panic_inv_def panic_check_def enter_panic_def count_reading_def Let_def split: option.splits)

text \<open>The action tells the latch.\<close>

lemma panic_action_latched:
  "snd (panic_check st raw th hold now) = ForceFxMx \<longleftrightarrow> latched (fst (panic_check st raw th hold now))"
  by (auto simp: panic_check_def Let_def split: option.splits)

section \<open>Runs\<close>

text \<open>A sample is a reading and its instant.\<close>

definition panic_step :: "f32 \<Rightarrow> u32 \<Rightarrow> panic_state \<Rightarrow> f32 \<times> nat \<Rightarrow> panic_state \<times> panic_action" where
  "panic_step th hold st s = (case s of (raw, now) \<Rightarrow> panic_check st raw th hold now)"

interpretation panic: machine "panic_step th hold" panic_inv "\<lambda>_ _. True" for th hold
  by unfold_locales (auto simp: panic_step_def panic_inv_check split: prod.split)

abbreviation panic_run :: "panic_state \<Rightarrow> f32 \<Rightarrow> u32 \<Rightarrow> (f32 \<times> nat) list \<Rightarrow> panic_state" where
  "panic_run st th hold xs \<equiv> fst (run (panic_step th hold) st xs)"

lemma panic_step_simp [simp]: "panic_step th hold st (raw, now) = panic_check st raw th hold now"
  by (simp add: panic_step_def)

definition hot :: "f32 \<Rightarrow> f32 \<Rightarrow> bool" where
  "hot th raw \<longleftrightarrow> th < raw"

lemma two_le_sat: "(2 :: u8) \<le> sat_add c 1 \<longleftrightarrow> 1 \<le> unat c"
  by (simp add: word_le_nat_alt unat_sat_add)

lemma count_hot:
  assumes "hot th raw"
  shows "unat (consecutive_above (fst (panic_check st raw th hold now))) = min (unat (consecutive_above st) + 1) 255"
proof -
  have "\<not> raw \<le> th" using assms f32_less_not_le by (auto simp: hot_def)
  then show ?thesis using assms
    by (simp add: panic_check_def enter_panic_def count_reading_def hot_def Let_def unat_sat_add split: option.splits)
qed

lemma count_cool: "\<not> hot th raw \<Longrightarrow> consecutive_above (fst (panic_check st raw th hold now)) = 0"
  by (auto simp: panic_check_def enter_panic_def count_reading_def hot_def Let_def split: option.splits)

text \<open>The counter is the length of the run of hot readings at the end, capped at 255.\<close>

lemma count_run:
  "unat (consecutive_above (panic_run panic_new th hold xs))
   = min (length (takeWhile (hot th) (rev (map fst xs)))) 255"
proof (induction xs rule: rev_induct)
  case (snoc s xs)
  obtain raw now where s: "s = (raw, now)" by force
  show ?case
    using snoc count_hot [of th raw] count_cool [of th raw] by (cases "hot th raw") (simp_all add: run_snoc s)
qed (simp add: panic_new_def)

text \<open>Two hot readings in a row force the maximum, whatever came before.\<close>

lemma two_hot_latch:
  assumes "hot th1 a" "hot th2 b"
  shows "snd (panic_check (fst (panic_check st a th1 hold1 t1)) b th2 hold2 t2) = ForceFxMx"
proof -
  let ?s = "fst (panic_check st a th1 hold1 t1)"
  have "1 \<le> unat (consecutive_above ?s)" using count_hot [OF assms(1)] by simp
  moreover have "\<not> b \<le> th2" using assms(2) f32_less_not_le by (auto simp: hot_def)
  ultimately show ?thesis using assms(2)
    by (auto simp: panic_check_def [of ?s] enter_panic_def count_reading_def hot_def Let_def two_le_sat split: option.splits)
qed

text \<open>While latched, only a cool reading after the hold time releases.\<close>

lemma latched_step:
  assumes "latched st" "entered_at st = Some e"
  shows "panic_check st raw th hold now =
    (if raw \<le> th \<and> unat hold \<le> as_secs (now - e) then (panic_new, Passthrough)
     else (count_reading st raw th, ForceFxMx))"
  using assms by (auto simp: panic_check_def enter_panic_def count_reading_def panic_new_def Let_def)

definition still_held :: "nat \<Rightarrow> f32 \<Rightarrow> u32 \<Rightarrow> (f32 \<times> nat) \<Rightarrow> bool" where
  "still_held e th hold s \<longleftrightarrow> (case s of (raw, now) \<Rightarrow> \<not> (raw \<le> th \<and> unat hold \<le> as_secs (now - e)))"

lemma latched_run:
  "latched st \<Longrightarrow> entered_at st = Some e \<Longrightarrow> list_all (still_held e th hold) xs \<Longrightarrow>
   latched (panic_run st th hold xs) \<and> entered_at (panic_run st th hold xs) = Some e"
proof (induction xs arbitrary: st)
  case (Cons s xs)
  obtain raw now where s: "s = (raw, now)" by force
  have c: "fst (panic_check st raw th hold now) = count_reading st raw th"
    using latched_step [OF Cons(2,3), of raw th hold now] Cons(4) by (auto simp: still_held_def s)
  have "latched (count_reading st raw th) \<and> entered_at (count_reading st raw th) = Some e"
    using Cons(2,3) by (simp add: count_reading_def)
  then show ?case using Cons.IH [of "count_reading st raw th"] Cons(4) by (simp only: run_Cons s panic_step_simp c) simp
qed simp

lemma latched_outputs:
  "latched st \<Longrightarrow> entered_at st = Some e \<Longrightarrow> list_all (still_held e th hold) xs \<Longrightarrow>
   set (snd (run (panic_step th hold) st xs)) \<subseteq> {ForceFxMx}"
proof (induction xs arbitrary: st)
  case (Cons s xs)
  obtain raw now where s: "s = (raw, now)" by force
  have c: "panic_check st raw th hold now = (count_reading st raw th, ForceFxMx)"
    using latched_step [OF Cons(2,3), of raw th hold now] Cons(4) by (auto simp: still_held_def s)
  have "latched (count_reading st raw th) \<and> entered_at (count_reading st raw th) = Some e"
    using Cons(2,3) by (simp add: count_reading_def)
  then show ?case using Cons.IH [of "count_reading st raw th"] Cons(4) by (simp only: run_Cons s panic_step_simp c) simp
qed simp

text \<open>A single hot reading between cool ones never latches.\<close>

lemma isolated_hot:
  assumes "panic_inv st" "\<not> latched st" "consecutive_above st = 0"
  shows "snd (panic_check st a th hold t) = Passthrough"
proof -
  have "\<not> (2 :: u8) \<le> sat_add 0 1" by (simp add: two_le_sat)
  then show ?thesis using assms by (simp add: panic_check_def enter_panic_def count_reading_def Let_def)
qed

end
