(* ===== verification/Parse_Num.thy ===== *)
theory Parse_Num
  imports F32
begin

text \<open>
  The string operations of the Rust standard library that the sources use: ASCII classes,
  \<open>trim\<close>, \<open>starts_with\<close>, decimal printing, and \<open>str::parse\<close> for unsigned integers and
  for \<open>f32\<close> (correctly rounded, with the \<open>inf\<close>, \<open>infinity\<close> and \<open>nan\<close> spellings).
  A string is the list of its bytes, so the length of a list is Rust's \<open>len\<close>; blanks are the ASCII
  ones (\<open>trim\<close> would also strip non-ASCII blanks, which the model keeps).
\<close>

section \<open>Bytes of a string\<close>

abbreviation code :: "char \<Rightarrow> nat" where
  "code c \<equiv> of_char c"

definition is_digit :: "char \<Rightarrow> bool" where
  "is_digit c \<longleftrightarrow> 48 \<le> code c \<and> code c \<le> 57"

definition digit_val :: "char \<Rightarrow> nat" where
  "digit_val c = code c - 48"

definition digit_char :: "nat \<Rightarrow> char" where
  "digit_char d = char_of (48 + d)"

definition is_space :: "char \<Rightarrow> bool" where
  "is_space c \<longleftrightarrow> code c = 32 \<or> (9 \<le> code c \<and> code c \<le> 13)"

text \<open>Printable and not a blank: \<open>u8::is_ascii_graphic\<close>.\<close>

definition is_graphic :: "char \<Rightarrow> bool" where
  "is_graphic c \<longleftrightarrow> 33 \<le> code c \<and> code c \<le> 126"

definition to_lower :: "char \<Rightarrow> char" where
  "to_lower c = (if 65 \<le> code c \<and> code c \<le> 90 then char_of (code c + 32) else c)"

definition trim_start :: "string \<Rightarrow> string" where
  "trim_start s = dropWhile is_space s"

definition trim :: "string \<Rightarrow> string" where
  "trim s = rev (trim_start (rev (trim_start s)))"

fun starts_with :: "string \<Rightarrow> string \<Rightarrow> bool" where
  "starts_with _ [] = True"
| "starts_with [] (_ # _) = False"
| "starts_with (c # s) (d # t) = (c = d \<and> starts_with s t)"

lemma starts_with_iff: "starts_with s t \<longleftrightarrow> (\<exists>u. s = t @ u)"
  by (induction s t rule: starts_with.induct) auto

section \<open>Decimal numbers\<close>

definition dec :: "string \<Rightarrow> nat" where
  "dec s = foldl (\<lambda>n c. 10 * n + digit_val c) 0 s"

fun show_nat :: "nat \<Rightarrow> string" where
  "show_nat n = (if n < 10 then [digit_char n] else show_nat (n div 10) @ [digit_char (n mod 10)])"

declare show_nat.simps [simp del]

text \<open>\<open>parse\<close> of an unsigned type whose greatest value is \<open>m\<close>: an optional \<open>+\<close>, then digits.\<close>

definition strip_plus :: "string \<Rightarrow> string" where
  "strip_plus s = (case s of c # t \<Rightarrow> if c = CHR ''+'' then t else s | [] \<Rightarrow> [])"

definition parse_uint :: "nat \<Rightarrow> string \<Rightarrow> nat option" where
  "parse_uint m s = (let d = strip_plus s in
     if d = [] \<or> \<not> list_all is_digit d \<or> m < dec d then None else Some (dec d))"

lemma digit_char: "d < 10 \<Longrightarrow> is_digit (digit_char d) \<and> digit_val (digit_char d) = d"
  by (simp add: is_digit_def digit_val_def digit_char_def)

lemma dec_snoc: "dec (s @ [c]) = 10 * dec s + digit_val c"
  by (simp add: dec_def)

lemma dec_show [simp]: "dec (show_nat n) = n"
proof (induction n rule: show_nat.induct)
  case (1 n)
  then show ?case
    by (cases "n < 10") (simp_all add: show_nat.simps [of n] dec_snoc digit_char, simp add: dec_def digit_char)
qed

lemma digits_show [simp]: "list_all is_digit (show_nat n)"
proof (induction n rule: show_nat.induct)
  case (1 n)
  then show ?case by (cases "n < 10") (simp_all add: show_nat.simps [of n] digit_char)
qed

lemma show_nonempty [simp]: "show_nat n \<noteq> []"
  by (subst show_nat.simps) simp

lemma digit_not_plus: "is_digit c \<Longrightarrow> c \<noteq> CHR ''+''"
  by (auto simp: is_digit_def)

lemma strip_plus_digits [simp]: "list_all is_digit s \<Longrightarrow> strip_plus s = s"
  by (cases s) (auto simp: strip_plus_def dest: digit_not_plus)

lemma parse_show: "n \<le> m \<Longrightarrow> parse_uint m (show_nat n) = Some n"
  by (simp add: parse_uint_def)

lemma parse_uint_le: "parse_uint m s = Some n \<Longrightarrow> n \<le> m"
  by (auto simp: parse_uint_def Let_def split: if_splits)

lemma parse_uint_digits:
  "list_all is_digit s \<Longrightarrow> parse_uint m s = (if s = [] \<or> m < dec s then None else Some (dec s))"
  by (simp add: parse_uint_def)

section \<open>Decimal floating point\<close>

definition strip_sign :: "string \<Rightarrow> bool \<times> string" where
  "strip_sign s = (case s of c # t \<Rightarrow>
       if c = CHR ''-'' then (True, t) else if c = CHR ''+'' then (False, t) else (False, s)
     | [] \<Rightarrow> (False, []))"

text \<open>\<open>n * 10^e\<close>, rounded once.\<close>

definition scale10 :: "bool \<Rightarrow> nat \<Rightarrow> int \<Rightarrow> f32" where
  "scale10 neg n e = (if 0 \<le> e then round_to neg (n * 10 ^ nat e * 2 ^ 149) 1
     else round_to neg (n * 2 ^ 149) (10 ^ nat (- e)))"

definition parse_exp :: "string \<Rightarrow> int option" where
  "parse_exp s = (case s of [] \<Rightarrow> Some 0
     | c # t \<Rightarrow> if to_lower c \<noteq> CHR ''e'' then None
        else let (neg, d) = strip_sign t in
          if d = [] \<or> \<not> list_all is_digit d then None
          else Some (if neg then - int (dec d) else int (dec d)))"

definition parse_decimal :: "bool \<Rightarrow> string \<Rightarrow> f32 option" where
  "parse_decimal neg s =
    (let ip = takeWhile is_digit s; r = dropWhile is_digit s;
         (fp, r') = (case r of c # t \<Rightarrow> if c = CHR ''.'' then (takeWhile is_digit t, dropWhile is_digit t)
                                 else ([], r) | [] \<Rightarrow> ([], r)) in
     if ip = [] \<and> fp = [] then None
     else case parse_exp r' of None \<Rightarrow> None
       | Some e \<Rightarrow> Some (scale10 neg (dec (ip @ fp)) (e - int (length fp))))"

definition parse_f32 :: "string \<Rightarrow> f32 option" where
  "parse_f32 s = (let (neg, b) = strip_sign s; l = map to_lower b in
     if l = ''inf'' \<or> l = ''infinity'' then Some (pack (VInf neg))
     else if l = ''nan'' then Some f32_NAN
     else parse_decimal neg b)"

lemma takeWhile_all: "list_all P s \<Longrightarrow> takeWhile P s = s" "list_all P s \<Longrightarrow> dropWhile P s = []"
  by (induction s) auto

lemma to_lower_digit [simp]: "is_digit c \<Longrightarrow> to_lower c = c"
  by (auto simp: to_lower_def is_digit_def)

lemma strip_sign_digit: "is_digit c \<Longrightarrow> strip_sign (c # s) = (False, c # s)"
  by (auto simp: strip_sign_def is_digit_def)

text \<open>A string that starts with a digit is a plain decimal.\<close>

lemma parse_f32_digit:
  assumes "is_digit c"
  shows "parse_f32 (c # s) = parse_decimal False (c # s)"
proof -
  have "c \<noteq> CHR ''i''" "c \<noteq> CHR ''n''" using assms by (auto simp: is_digit_def)
  then show ?thesis using assms by (simp add: parse_f32_def strip_sign_digit)
qed

lemma parse_f32_digits:
  assumes "list_all is_digit s" "s \<noteq> []"
  shows "parse_f32 s = Some (f32_of_nat (dec s))"
  using assms by (cases s)
    (simp_all add: parse_f32_digit parse_decimal_def takeWhile_all parse_exp_def scale10_def f32_of_nat_def)

text \<open>Digits, a point and digits.\<close>

lemma parse_f32_point:
  assumes d: "list_all is_digit ip" "ip \<noteq> []" "list_all is_digit fp"
  shows "parse_f32 (ip @ CHR ''.'' # fp) = Some (round_to False (dec (ip @ fp) * 2 ^ 149) (10 ^ length fp))"
proof -
  have t: "takeWhile is_digit (ip @ CHR ''.'' # fp) = ip"
      "dropWhile is_digit (ip @ CHR ''.'' # fp) = CHR ''.'' # fp"
    using d(1) by (induction ip) (auto simp: is_digit_def)
  have "parse_f32 (ip @ CHR ''.'' # fp) = parse_decimal False (ip @ CHR ''.'' # fp)"
    using d by (cases ip) (simp_all add: parse_f32_digit)
  also have "\<dots> = Some (scale10 False (dec (ip @ fp)) (- int (length fp)))"
    using d by (simp add: parse_decimal_def t takeWhile_all parse_exp_def Let_def)
  finally show ?thesis by (auto simp: scale10_def)
qed

end
