(* ===== verification/Clamp.thy ===== *)
theory Clamp
  imports Parse_Num F32_Laws
begin

text \<open>
  The validated fan target (\<open>src/control/state.rs\<close>): every request is clamped to the range from the
  effective minimum (the hardware's, lifted by the operator's \<open>FAND_SAFE_MIN_RPM\<close>) to the
  maximum, with NaN and infinities sent to the effective minimum, and rounded to an integer. The
  environment variable is an argument: \<open>None\<close> when it is not set.
\<close>

datatype clamped_rpm = ClampedRpm (clamped_value: u32)

definition effective_safe_min :: "string option \<Rightarrow> f32 \<Rightarrow> f32" where
  "effective_safe_min env hardware_min = (case env of None \<Rightarrow> hardware_min
     | Some val \<Rightarrow> (case parse_f32 (trim val) of
         Some safe \<Rightarrow> (if is_finite safe \<and> hardware_min < safe then safe else hardware_min)
       | None \<Rightarrow> hardware_min))"

definition clamp_raw :: "string option \<Rightarrow> f32 \<Rightarrow> f32 \<Rightarrow> f32 \<Rightarrow> f32" where
  "clamp_raw env raw lo hi = (let effective_min = effective_safe_min env lo in
     if \<not> is_finite raw \<or> raw < effective_min then effective_min
     else if hi < raw then hi else raw)"

definition clamped_new :: "string option \<Rightarrow> f32 \<Rightarrow> f32 \<Rightarrow> f32 \<Rightarrow> clamped_rpm" where
  "clamped_new env raw lo hi = ClampedRpm (f32_to_u32 (fround (clamp_raw env raw lo hi)))"

definition as_f32 :: "clamped_rpm \<Rightarrow> f32" where
  "as_f32 r = f32_of_word (clamped_value r)"

definition was_clamped :: "string option \<Rightarrow> f32 \<Rightarrow> f32 \<Rightarrow> f32 \<Rightarrow> bool" where
  "was_clamped env raw lo hi = (let effective_min = effective_safe_min env lo in
     \<not> is_finite raw \<or> raw < effective_min \<or> hi < raw)"

section \<open>The effective minimum\<close>

lemma safe_min_finite: "is_finite lo \<Longrightarrow> is_finite (effective_safe_min env lo)"
  by (simp add: effective_safe_min_def split: option.split)

lemma safe_min_ge: "is_finite lo \<Longrightarrow> lo \<le> effective_safe_min env lo"
  by (auto simp: effective_safe_min_def f32_le_refl f32_less_imp_le split: option.split)

lemma safe_min_unset [simp]: "effective_safe_min None lo = lo"
  by (simp add: effective_safe_min_def)

section \<open>Clamping\<close>

text \<open>RPM limits: finite, from 0 to \<open>2^24\<close>, so that rounding to an integer is exact.\<close>

definition rpm_range :: "f32 \<Rightarrow> bool" where
  "rpm_range x \<longleftrightarrow> is_finite x \<and> 0 \<le> fv x \<and> fv x \<le> 2 ^ 24 * 2 ^ 149"

definition to_rpm :: "f32 \<Rightarrow> nat" where
  "to_rpm x = unat (f32_to_u32 (fround x))"

lemma to_rpm_mono:
  assumes "rpm_range x" "rpm_range y" "x \<le> y"
  shows "to_rpm x \<le> to_rpm y"
  using assms unfolding rpm_range_def to_rpm_def
  by (auto simp: fround_to_u32 le_fin round_int_mono)

lemma clamp_raw_bounds:
  assumes lo: "is_finite lo" and hi: "is_finite hi" and le: "effective_safe_min env lo \<le> hi"
  shows "is_finite (clamp_raw env raw lo hi)" "effective_safe_min env lo \<le> clamp_raw env raw lo hi"
    "clamp_raw env raw lo hi \<le> hi"
proof -
  note s = safe_min_finite [OF lo, of env]
  consider "clamp_raw env raw lo hi = effective_safe_min env lo" | "clamp_raw env raw lo hi = hi"
    | "clamp_raw env raw lo hi = raw" "is_finite raw" "\<not> raw < effective_safe_min env lo" "\<not> hi < raw"
    unfolding clamp_raw_def Let_def by metis
  then have "is_finite (clamp_raw env raw lo hi) \<and> effective_safe_min env lo \<le> clamp_raw env raw lo hi
      \<and> clamp_raw env raw lo hi \<le> hi"
  proof cases
    case 1
    show ?thesis unfolding 1 using s le le_fin [OF s s] by simp
  next
    case 2
    show ?thesis unfolding 2 using hi le le_fin [OF hi hi] by simp
  next
    case 3
    show ?thesis unfolding 3(1)
      using 3(2-4) le_fin [OF s 3(2)] lt_fin [OF 3(2) s] le_fin [OF 3(2) hi] lt_fin [OF hi 3(2)] by linarith
  qed
  then show "is_finite (clamp_raw env raw lo hi)" "effective_safe_min env lo \<le> clamp_raw env raw lo hi"
    "clamp_raw env raw lo hi \<le> hi" by simp_all
qed

lemma rpm_range_between:
  assumes "rpm_range a" "rpm_range b" "a \<le> x" "x \<le> b"
  shows "rpm_range x"
proof -
  have a: "is_finite a" "0 \<le> fv a" and b: "is_finite b" "fv b \<le> 2 ^ 24 * 2 ^ 149"
    using assms(1,2) by (simp_all only: rpm_range_def)
  have x: "is_finite x" using assms(3,4) a(1) b(1) by (rule between_finite)
  have "fv a \<le> fv x" "fv x \<le> fv b" using assms(3,4) le_fin [OF a(1) x] le_fin [OF x b(1)] by simp_all
  then show ?thesis using x order_trans [OF a(2)] order_trans [OF _ b(2)] unfolding rpm_range_def by blast
qed

lemma clamped_bounds:
  assumes lo: "rpm_range lo" and hi: "rpm_range hi" and le: "effective_safe_min env lo \<le> hi"
  shows "to_rpm (effective_safe_min env lo) \<le> unat (clamped_value (clamped_new env raw lo hi))"
    "unat (clamped_value (clamped_new env raw lo hi)) \<le> to_rpm hi"
proof -
  have f: "is_finite lo" "is_finite hi" using lo hi by (simp_all add: rpm_range_def)
  note c = clamp_raw_bounds [OF f le, of raw]
  have e: "rpm_range (effective_safe_min env lo)"
    using rpm_range_between [OF lo hi safe_min_ge [OF f(1)] le] .
  have r: "rpm_range (clamp_raw env raw lo hi)" by (rule rpm_range_between [OF e hi c(2,3)])
  show "to_rpm (effective_safe_min env lo) \<le> unat (clamped_value (clamped_new env raw lo hi))"
    "unat (clamped_value (clamped_new env raw lo hi)) \<le> to_rpm hi"
    using to_rpm_mono [OF e r c(2)] to_rpm_mono [OF r hi c(3)] by (simp_all add: clamped_new_def to_rpm_def)
qed

text \<open>NaN, infinities and everything below the range give the effective minimum.\<close>

lemma clamped_low:
  "\<not> is_finite raw \<or> raw < effective_safe_min env lo \<Longrightarrow>
   unat (clamped_value (clamped_new env raw lo hi)) = to_rpm (effective_safe_min env lo)"
  by (auto simp: clamped_new_def clamp_raw_def to_rpm_def)

text \<open>A request that was not clamped is only rounded.\<close>

lemma clamped_in_range:
  "\<not> was_clamped env raw lo hi \<Longrightarrow> unat (clamped_value (clamped_new env raw lo hi)) = to_rpm raw"
  by (simp add: was_clamped_def clamped_new_def clamp_raw_def to_rpm_def Let_def)

text \<open>Whole RPM values are fixed points.\<close>

lemma to_rpm_word: "unat w \<le> 2 ^ 24 \<Longrightarrow> to_rpm (f32_of_word w) = unat w" for w :: u32
proof -
  assume w: "unat w \<le> 2 ^ 24"
  have v: "fv (f32_of_word w) = int (unat w) * 2 ^ 149"
    using f32_of_nat_exact [OF w] by (simp add: f32_of_word_def)
  have "int (unat w) \<le> int (2 ^ 24)" using w by (simp only: of_nat_le_iff)
  then have "fv (f32_of_word w) \<le> 2 ^ 24 * 2 ^ 149" unfolding v by (intro mult_right_mono) simp_all
  then have "to_rpm (f32_of_word w) = round_int (fv (f32_of_word w))"
    unfolding to_rpm_def using f32_of_word_fin(1,2) by (intro fround_to_u32)
  then show ?thesis by (simp only: v round_int_of_int)
qed

end
