(* ===== verification/Control_Loop.thy ===== *)
theory Control_Loop
  imports Curve Fusion Hysteresis Slew Panic_Latch Clamp
begin

text \<open>
  The per-fan control loop (\<open>src/control/loop.rs\<close>): the state of one fan, the seven-stage
  \<open>tick\<close> (fusion, last known good, smoothing, curve, hysteresis, slew, panic, clamp) and the tick
  statistics of the daemon. The arguments of \<open>tick\<close> are a record; the environment variable that
  \<open>ClampedRpm::new\<close> reads is one of its fields. The shared atomic flags of \<open>DaemonState\<close> are
  plain fields here: the loop that owns them is in \<open>Cli_Run\<close>.
\<close>

section \<open>Daemon statistics\<close>

record daemon_state =
  tick_count :: u64
  tick_latency_us :: "u64 list"
  total_panic_entries :: u32
  total_sensor_dropouts :: u32
  total_reclaim_events :: u32
  last_reload_at :: "nat option"
  last_tick_completed_at :: u64
  shutdown_flag :: bool
  reload_flag :: bool
  sleep_pending :: bool
  wake_pending :: bool
  shutdown_count :: u8

definition daemon_new :: "u64 \<Rightarrow> bool \<Rightarrow> bool \<Rightarrow> bool \<Rightarrow> bool \<Rightarrow> u8 \<Rightarrow> daemon_state" where
  "daemon_new last_tick sd rl sp wp sc =
     \<lparr> tick_count = 0, tick_latency_us = replicate 6 0, total_panic_entries = 0,
       total_sensor_dropouts = 0, total_reclaim_events = 0, last_reload_at = None,
       last_tick_completed_at = last_tick, shutdown_flag = sd, reload_flag = rl,
       sleep_pending = sp, wake_pending = wp, shutdown_count = sc \<rparr>"

definition latency_bucket :: "u64 \<Rightarrow> nat" where
  "latency_bucket us = (if us \<le> 99 then 0 else if us \<le> 999 then 1 else if us \<le> 9999 then 2
     else if us \<le> 99999 then 3 else if us \<le> 499999 then 4 else 5)"

definition record_latency :: "daemon_state \<Rightarrow> u64 \<Rightarrow> daemon_state" where
  "record_latency st us = (let b = latency_bucket us in
     st\<lparr> tick_latency_us := (tick_latency_us st)[b := sat_add (tick_latency_us st ! b) 1] \<rparr>)"

section \<open>One fan\<close>

record fan_state =
  fan_index :: u8
  active :: bool
  min_rpm :: f32
  max_rpm :: f32
  driver_temp_raw :: f32
  driver_temp_smoothed :: f32
  hysteresis :: hysteresis_state
  slew_limited_rpm :: f32
  final_target :: "clamped_rpm option"
  panic_latch :: panic_state
  consecutive_write_errors :: u16
  last_known_good_temp :: f32
  last_known_good_age_ticks :: u32

definition fan_new :: "u8 \<Rightarrow> f32 \<Rightarrow> f32 \<Rightarrow> f32 \<Rightarrow> f32 \<Rightarrow> fan_state" where
  "fan_new index lo hi initial_actual_rpm initial_temp =
     \<lparr> fan_index = index, active = False, min_rpm = lo, max_rpm = hi,
       driver_temp_raw = initial_temp, driver_temp_smoothed = initial_temp,
       hysteresis = hysteresis_new initial_actual_rpm initial_temp,
       slew_limited_rpm = initial_actual_rpm, final_target = None, panic_latch = panic_new,
       consecutive_write_errors = 0, last_known_good_temp = initial_temp,
       last_known_good_age_ticks = 0 \<rparr>"

definition reinit_bumpless :: "fan_state \<Rightarrow> f32 \<Rightarrow> f32 \<Rightarrow> fan_state" where
  "reinit_bumpless st actual_rpm raw_temp =
     st\<lparr> slew_limited_rpm := actual_rpm, driver_temp_smoothed := raw_temp,
         hysteresis := hysteresis_reinit (hysteresis st) actual_rpm raw_temp \<rparr>"

record tick_input =
  sensor_values :: "f32 list"
  sensor_dropouts :: "bool list"
  fusion_mode :: fusion_mode
  breakpoints :: "breakpoint list"
  alpha :: f32
  hyst_up :: f32
  hyst_down :: f32
  ramp_down_rpm_per_s :: f32
  panic_temp_c :: f32
  panic_hold_s :: u32
  actual_dt_secs :: f32
  tick_now :: nat
  safe_min_env :: "string option"

text \<open>Stage 2: fusion and the last known good temperature; the flag says the readings are stale.\<close>

definition fuse_stage :: "fan_state \<Rightarrow> tick_input \<Rightarrow> fan_state \<times> bool" where
  "fuse_stage st i =
    (let raw = fuse (sensor_values i) (sensor_dropouts i) (fusion_mode i) (last_known_good_temp st);
         st1 = st\<lparr> driver_temp_raw := raw \<rparr> in
     if list_ex Not (sensor_dropouts i)
     then (st1\<lparr> last_known_good_temp := raw, last_known_good_age_ticks := 0 \<rparr>, False)
     else let age = sat_add (last_known_good_age_ticks st1) 1 in
       (st1\<lparr> last_known_good_age_ticks := age \<rparr>, 60 < age))"

text \<open>Stages 3 to 6: smoothing, curve, hysteresis, slew.\<close>

definition shape_stage :: "fan_state \<Rightarrow> tick_input \<Rightarrow> fan_state" where
  "shape_stage st i =
    (let smoothed = smooth (driver_temp_smoothed st) (driver_temp_raw st) (alpha i);
         curve_rpm = evaluate (breakpoints i) smoothed;
         (h, hyst_rpm) = hyst_apply (hysteresis st) curve_rpm smoothed (hyst_up i) (hyst_down i);
         slewed = limit (slew_limited_rpm st) hyst_rpm (ramp_down_rpm_per_s i) (actual_dt_secs i)
     in st\<lparr> driver_temp_smoothed := smoothed, hysteresis := h, slew_limited_rpm := slewed \<rparr>)"

text \<open>Stages 7 and 9: panic on the raw temperature, then the clamp.\<close>

definition output_stage :: "fan_state \<Rightarrow> tick_input \<Rightarrow> fan_state \<times> f32" where
  "output_stage st i =
    (let (p, action) = panic_check (panic_latch st) (driver_temp_raw st) (panic_temp_c i)
           (panic_hold_s i) (tick_now i);
         rpm = (case action of ForceFxMx \<Rightarrow> max_rpm st | Passthrough \<Rightarrow> slew_limited_rpm st);
         clamped = clamped_new (safe_min_env i) rpm (min_rpm st) (max_rpm st)
     in (st\<lparr> panic_latch := p, final_target := Some clamped \<rparr>, f32_of_word (clamped_value clamped)))"

definition tick :: "fan_state \<Rightarrow> tick_input \<Rightarrow> fan_state \<times> f32" where
  "tick st i = (let (st1, stale) = fuse_stage st i in
     if stale then (st1, max_rpm st1) else output_stage (shape_stage st1 i) i)"

lemmas tick_defs = tick_def fuse_stage_def shape_stage_def output_stage_def

section \<open>What a tick leaves alone\<close>

lemma fuse_frame [frame_simps]:
  "min_rpm (fst (fuse_stage st i)) = min_rpm st" "max_rpm (fst (fuse_stage st i)) = max_rpm st"
  "panic_latch (fst (fuse_stage st i)) = panic_latch st" "fan_index (fst (fuse_stage st i)) = fan_index st"
  "final_target (fst (fuse_stage st i)) = final_target st"
  "slew_limited_rpm (fst (fuse_stage st i)) = slew_limited_rpm st"
  by (simp_all add: fuse_stage_def Let_def)

lemma shape_frame [frame_simps]:
  "min_rpm (shape_stage st i) = min_rpm st" "max_rpm (shape_stage st i) = max_rpm st"
  "panic_latch (shape_stage st i) = panic_latch st" "fan_index (shape_stage st i) = fan_index st"
  "driver_temp_raw (shape_stage st i) = driver_temp_raw st"
  "last_known_good_temp (shape_stage st i) = last_known_good_temp st"
  "last_known_good_age_ticks (shape_stage st i) = last_known_good_age_ticks st"
  by (simp_all add: shape_stage_def Let_def split: prod.split)

lemma output_frame [frame_simps]:
  "min_rpm (fst (output_stage st i)) = min_rpm st" "max_rpm (fst (output_stage st i)) = max_rpm st"
  "fan_index (fst (output_stage st i)) = fan_index st"
  "driver_temp_raw (fst (output_stage st i)) = driver_temp_raw st"
  "last_known_good_temp (fst (output_stage st i)) = last_known_good_temp st"
  "last_known_good_age_ticks (fst (output_stage st i)) = last_known_good_age_ticks st"
  by (simp_all add: output_stage_def Let_def split: prod.split)

lemma tick_split:
  "tick st i = (if snd (fuse_stage st i) then (fst (fuse_stage st i), max_rpm st)
     else output_stage (shape_stage (fst (fuse_stage st i)) i) i)"
  by (simp add: tick_def frame_simps split: prod.split) (metis frame_simps fst_conv)

lemma tick_frame [frame_simps]:
  "min_rpm (fst (tick st i)) = min_rpm st" "max_rpm (fst (tick st i)) = max_rpm st"
  "fan_index (fst (tick st i)) = fan_index st"
  by (simp_all add: tick_split frame_simps)

section \<open>The contract of a tick\<close>

text \<open>A stale tick: no valid reading, and none for more than 60 ticks in a row.\<close>

definition stale :: "fan_state \<Rightarrow> tick_input \<Rightarrow> bool" where
  "stale st i \<longleftrightarrow> \<not> list_ex Not (sensor_dropouts i) \<and> 60 \<le> last_known_good_age_ticks st"

lemma sat_add_60: "60 < sat_add w 1 \<longleftrightarrow> (60 :: u32) \<le> w"
proof -
  have "unat w < 4294967296" using unsigned_less [of w, where 'a = nat] by simp
  then show ?thesis by (simp add: word_less_nat_alt word_le_nat_alt unat_sat_add min_def) linarith
qed

lemma stale_iff: "snd (fuse_stage st i) \<longleftrightarrow> stale st i"
  by (simp add: fuse_stage_def stale_def Let_def sat_add_60)

lemma tick_stale: "stale st i \<Longrightarrow> snd (tick st i) = max_rpm st"
  by (simp add: tick_split stale_iff)

definition fan_limits :: "fan_state \<Rightarrow> bool" where
  "fan_limits st \<longleftrightarrow> rpm_range (min_rpm st) \<and> rpm_range (max_rpm st)"

text \<open>The result of a tick that is not stale is the clamped target, which is stored.\<close>

lemma tick_target:
  assumes "\<not> stale st i"
  shows "\<exists>c. final_target (fst (tick st i)) = Some c \<and> snd (tick st i) = as_f32 c
    \<and> (\<exists>rpm. c = clamped_new (safe_min_env i) rpm (min_rpm st) (max_rpm st))"
  using assms by (auto simp: tick_split stale_iff output_stage_def Let_def as_f32_def frame_simps split: prod.split)

lemma tick_bounds:
  assumes lim: "fan_limits st" and env: "effective_safe_min (safe_min_env i) (min_rpm st) \<le> max_rpm st"
    and s: "\<not> stale st i" and t: "final_target (fst (tick st i)) = Some c"
  shows "to_rpm (effective_safe_min (safe_min_env i) (min_rpm st)) \<le> unat (clamped_value c)"
    "unat (clamped_value c) \<le> to_rpm (max_rpm st)"
proof -
  obtain rpm where "c = clamped_new (safe_min_env i) rpm (min_rpm st) (max_rpm st)"
    using tick_target [OF s] t by auto
  then show "to_rpm (effective_safe_min (safe_min_env i) (min_rpm st)) \<le> unat (clamped_value c)"
    "unat (clamped_value c) \<le> to_rpm (max_rpm st)"
    using clamped_bounds [OF _ _ env] lim by (auto simp: fan_limits_def)
qed

text \<open>The fused temperature of a tick, which the panic latch sees.\<close>

definition tick_temp :: "fan_state \<Rightarrow> tick_input \<Rightarrow> f32" where
  "tick_temp st i = fuse (sensor_values i) (sensor_dropouts i) (fusion_mode i) (last_known_good_temp st)"

lemma fuse_temp: "driver_temp_raw (fst (fuse_stage st i)) = tick_temp st i"
  by (simp add: fuse_stage_def tick_temp_def Let_def)

lemma tick_panic:
  "\<not> stale st i \<Longrightarrow> panic_latch (fst (tick st i)) =
     fst (panic_check (panic_latch st) (tick_temp st i) (panic_temp_c i) (panic_hold_s i) (tick_now i))"
  by (simp add: tick_split stale_iff output_stage_def Let_def frame_simps fuse_temp split: prod.split)

lemma tick_forced:
  assumes "\<not> stale st i"
    "snd (panic_check (panic_latch st) (tick_temp st i) (panic_temp_c i) (panic_hold_s i) (tick_now i)) = ForceFxMx"
  shows "snd (tick st i) = as_f32 (clamped_new (safe_min_env i) (max_rpm st) (min_rpm st) (max_rpm st))"
  using assms by (auto simp: tick_split stale_iff output_stage_def Let_def frame_simps fuse_temp as_f32_def
      split: prod.split)

lemma clamp_max:
  assumes "is_finite lo" "is_finite hi" "effective_safe_min env lo \<le> hi"
  shows "unat (clamped_value (clamped_new env hi lo hi)) = to_rpm hi"
proof -
  have "\<not> hi < effective_safe_min env lo" "\<not> hi < hi"
    using assms(3) f32_less_not_le by auto
  then show ?thesis using assms by (simp add: clamped_new_def clamp_raw_def to_rpm_def)
qed

text \<open>Two hot ticks in a row, neither stale: the second answers with the maximum.\<close>

lemma tick_two_hot:
  assumes lim: "fan_limits st" and env: "effective_safe_min (safe_min_env j) (min_rpm st) \<le> max_rpm st"
    and s: "\<not> stale st i" "\<not> stale (fst (tick st i)) j"
    and h: "panic_temp_c i < tick_temp st i" "panic_temp_c j < tick_temp (fst (tick st i)) j"
  shows "snd (tick (fst (tick st i)) j) = f32_of_word (word_of_nat (to_rpm (max_rpm st)) :: u32)"
proof -
  let ?st = "fst (tick st i)"
  have "snd (panic_check (panic_latch ?st) (tick_temp ?st j) (panic_temp_c j) (panic_hold_s j) (tick_now j)) = ForceFxMx"
    unfolding tick_panic [OF s(1)] by (rule two_hot_latch) (use h in \<open>auto simp: hot_def\<close>)
  note f = tick_forced [OF s(2) this]
  have "unat (clamped_value (clamped_new (safe_min_env j) (max_rpm st) (min_rpm st) (max_rpm st))) = to_rpm (max_rpm st)"
    using lim env by (intro clamp_max) (auto simp: fan_limits_def rpm_range_def)
  then have "clamped_value (clamped_new (safe_min_env j) (max_rpm st) (min_rpm st) (max_rpm st)) = word_of_nat (to_rpm (max_rpm st))"
    by (metis of_nat_unat ucast_id)
  then show ?thesis by (simp add: f as_f32_def frame_simps)
qed

end
