(* ===== verification/Adapter.thy ===== *)
theory Adapter
  imports Slew Machine
begin

text \<open>
  The write-boundary adapter for Apple Silicon (\<open>src/control/adapter.rs\<close>): the continuous target
  becomes a binary fan mode, with separate engage and disengage thresholds.
\<close>

datatype decision = ForcedMinimum | Auto

fun mode_byte :: "decision \<Rightarrow> u8" where
  "mode_byte ForcedMinimum = 1"
| "mode_byte Auto = 0"

record adapter =
  current :: decision

definition adapter_new :: adapter where
  "adapter_new = \<lparr> current = Auto \<rparr>"

definition engage_threshold :: "f32 \<Rightarrow> f32 \<Rightarrow> f32" where
  "engage_threshold min_rpm max_rpm = min_rpm + (max_rpm - min_rpm) * lit 5 100"

definition disengage_threshold :: "f32 \<Rightarrow> f32 \<Rightarrow> f32" where
  "disengage_threshold min_rpm max_rpm = min_rpm + (max_rpm - min_rpm) * lit 10 100"

definition decide :: "adapter \<Rightarrow> f32 \<Rightarrow> f32 \<Rightarrow> f32 \<Rightarrow> adapter \<times> decision" where
  "decide a target_rpm min_rpm max_rpm =
    (let c = (case current a of
         Auto \<Rightarrow> (if target_rpm \<le> engage_threshold min_rpm max_rpm then ForcedMinimum else Auto)
       | ForcedMinimum \<Rightarrow> (if disengage_threshold min_rpm max_rpm < target_rpm then Auto else ForcedMinimum))
     in (a\<lparr> current := c \<rparr>, c))"

section \<open>Behaviour\<close>

text \<open>The hardware accepts the mode bytes 0 and 1 only.\<close>

lemma mode_byte_range: "mode_byte d \<in> {0, 1}"
  by (cases d) auto

lemma decide_current: "current (fst (decide a t lo hi)) = snd (decide a t lo hi)"
  by (simp add: decide_def Let_def)

definition deadband :: "f32 \<Rightarrow> f32 \<Rightarrow> f32 \<Rightarrow> bool" where
  "deadband lo hi t \<longleftrightarrow> \<not> t \<le> engage_threshold lo hi \<and> \<not> disengage_threshold lo hi < t"

lemma decide_deadband: "deadband lo hi t \<Longrightarrow> decide a t lo hi = (a, current a)"
  by (cases "current a") (simp_all add: decide_def deadband_def Let_def)

definition adapter_step :: "f32 \<Rightarrow> f32 \<Rightarrow> adapter \<Rightarrow> f32 \<Rightarrow> adapter \<times> decision" where
  "adapter_step lo hi a t = decide a t lo hi"

lemma adapter_run_deadband:
  "list_all (deadband lo hi) ts \<Longrightarrow> run (adapter_step lo hi) a ts = (a, replicate (length ts) (current a))"
  by (rule run_stays) (simp add: adapter_step_def decide_deadband list_all_iff)

text \<open>
  For fan limits between 0 and \<open>2^32\<close> RPM the engage threshold lies between the minimum and the
  disengage threshold.
\<close>

lemma percent_fin:
  "is_finite (lit 5 100)" "is_finite (lit 10 100)" "0 \<le> fv (lit 5 100)"
  "fv (lit 5 100) \<le> fv (lit 10 100)" "fv (lit 10 100) \<le> 2 ^ 149"
  by (simp_all add: fv_def f32_eval)

lemma scaled_bounds:
  assumes r: "is_finite r" "0 \<le> fv r" "fv r \<le> 2 ^ 181" and c: "is_finite c" "0 \<le> fv c" "fv c \<le> 2 ^ 149"
  shows "is_finite (r * c)" "fv (r * c) = int (rnd (nat (fv r) * nat (fv c)) (2 ^ 149))"
    "0 \<le> fv (r * c)" "fv (r * c) \<le> 2 ^ 181"
proof -
  have "nat (fv r) * nat (fv c) \<le> 2 ^ 181 * 2 ^ 149"
    using r c by (intro mult_mono) simp_all
  moreover have "rep (2 ^ 181)" using rep_small [of 1 181] by simp
  ultimately have b: "rnd (nat (fv r) * nat (fv c)) (2 ^ 149) \<le> 2 ^ 181"
    by (intro rnd.le_rep) simp_all
  then have "rnd (nat (fv r) * nat (fv c)) (2 ^ 149) < 2 ^ 277" by (rule order_le_less_trans) simp
  note m = mul_fin [OF r(1,2) c(1,2) this]
  show "is_finite (r * c)" "fv (r * c) = int (rnd (nat (fv r) * nat (fv c)) (2 ^ 149))" "0 \<le> fv (r * c)"
    using m by simp_all
  have "int (rnd (nat (fv r) * nat (fv c)) (2 ^ 149)) \<le> int (2 ^ 181)" using b by (simp only: of_nat_le_iff)
  then show "fv (r * c) \<le> 2 ^ 181" unfolding m(2) by simp
qed

lemma thresholds_ordered:
  assumes lo: "is_finite lo" "0 \<le> fv lo" and hi: "is_finite hi" "fv hi \<le> 2 ^ 181" and le: "lo \<le> hi"
  shows "lo \<le> engage_threshold lo hi" "engage_threshold lo hi \<le> disengage_threshold lo hi"
proof -
  have lh: "fv lo \<le> fv hi" using le lo hi by (simp add: le_fin)
  have small: "\<bar>rz z\<bar> < 2 ^ 277" if "\<bar>z\<bar> \<le> 2 ^ 182" for z
    using rz_small_word [OF that] by (rule order_le_less_trans) simp
  have "\<bar>fv hi - fv lo\<bar> \<le> 2 ^ 182" using lh lo hi by (simp add: abs_le_iff)
  note s = sub_fin [OF hi(1) lo(1) small [OF this]]
  have r181: "rz (2 ^ 181) = 2 ^ 181" using rz_exact [of "2 ^ 181"] rep_small [of 1 181] by (simp add: nat_power_eq)
  have r: "0 \<le> fv (hi - lo)" "fv (hi - lo) \<le> 2 ^ 181"
    unfolding s using lh lo hi rz_nonneg [of "fv hi - fv lo"] rz_mono [of "fv hi - fv lo" "2 ^ 181"] r181 by linarith+
  note p = percent_fin
  note e = scaled_bounds [OF s(1) r p(1,3) order_trans [OF p(4,5)]]
    and d = scaled_bounds [OF s(1) r p(2) order_trans [OF p(3,4)] p(5)]
  have ed: "fv ((hi - lo) * lit 5 100) \<le> fv ((hi - lo) * lit 10 100)"
    unfolding e(2) d(2) of_nat_le_iff using p(3,4) r by (intro rnd_mono mult_right_mono mult_left_mono) simp_all
  have b: "\<bar>fv lo + fv ((hi - lo) * lit 5 100)\<bar> \<le> 2 ^ 182" "\<bar>fv lo + fv ((hi - lo) * lit 10 100)\<bar> \<le> 2 ^ 182"
    using lh lo hi e(3,4) d(3,4) by (simp_all add: abs_le_iff)
  note x = add_fin [OF lo(1) e(1) small [OF b(1)]] and y = add_fin [OF lo(1) d(1) small [OF b(2)]]
  have "rz (fv lo) = fv lo" using finiteE [OF lo(1)] by (metis rz_exact signed_abs)
  then have "fv lo \<le> rz (fv lo + fv ((hi - lo) * lit 5 100))"
    using rz_mono [of "fv lo" "fv lo + fv ((hi - lo) * lit 5 100)"] e(3) by simp
  then show "lo \<le> engage_threshold lo hi"
    unfolding engage_threshold_def using x lo by (simp add: le_fin)
  show "engage_threshold lo hi \<le> disengage_threshold lo hi"
    unfolding engage_threshold_def disengage_threshold_def using x y ed by (simp add: le_fin rz_mono)
qed

text \<open>So a run at the minimum engages the forced minimum, and above the disengage threshold releases it.\<close>

lemma decide_at_min: "lo \<le> engage_threshold lo hi \<Longrightarrow> t \<le> lo \<Longrightarrow> engage_threshold lo hi \<le> disengage_threshold lo hi \<Longrightarrow>
    snd (decide a t lo hi) = ForcedMinimum"
  using f32_le_trans [of t lo "engage_threshold lo hi"]
    f32_le_trans [of t "engage_threshold lo hi" "disengage_threshold lo hi"]
    f32_less_not_le [of "disengage_threshold lo hi" t]
  by (auto simp: decide_def Let_def split: decision.split)

lemma decide_above:
  assumes "engage_threshold lo hi \<le> disengage_threshold lo hi" "disengage_threshold lo hi < t"
  shows "snd (decide a t lo hi) = Auto"
proof -
  have "engage_threshold lo hi < t" using assms by (rule f32_le_less_trans)
  then have "\<not> t \<le> engage_threshold lo hi" by (rule f32_less_not_le)
  then show ?thesis using assms(2) by (simp add: decide_def Let_def split: decision.split)
qed

end
