(* ===== verification/Control_Properties.thy ===== *)
theory Control_Properties
  imports Control_Loop Adapter
begin

text \<open>
  The properties of the control path, from the fused temperature to the speed a tick asks for, each
  with an instance at a concrete configuration: a MacBook Pro fan with limits 2317 and 6550 RPM and
  the four-point curve of \<open>src/config\<close>'s examples.
\<close>

section \<open>The instance\<close>

definition demo_curve :: "breakpoint list" where
  "demo_curve = [(lit 40 1, 2317), (lit 60 1, 3500), (lit 80 1, 5000), (lit 95 1, 6550)]"

definition demo_fan :: fan_state where
  "demo_fan = fan_new 0 (lit 2317 1) (lit 6550 1) (lit 2500 1) (lit 50 1)"

definition demo_input :: "f32 \<Rightarrow> nat \<Rightarrow> tick_input" where
  "demo_input temp now = \<lparr> sensor_values = [temp], sensor_dropouts = [False], fusion_mode = FMax,
     breakpoints = demo_curve, alpha = lit 25 100, hyst_up = lit 1 1, hyst_down = lit 2 1,
     ramp_down_rpm_per_s = lit 600 1, panic_temp_c = lit 95 1, panic_hold_s = 10,
     actual_dt_secs = lit 1 2, tick_now = now, safe_min_env = None \<rparr>"

lemma demo_wf: "wf_curve demo_curve"
  by (simp add: wf_curve_def demo_curve_def ok_point_def f32_eval)

lemma demo_limits: "fan_limits demo_fan"
  by (simp add: fan_limits_def demo_fan_def fan_new_def rpm_range_def fv_def f32_eval)

lemma fuse_single:
  assumes "is_finite v" shows "fuse [v] [False] FMax l = v"
proof -
  have m: "set (valid_values [v] [False]) = {v}" by (simp add: valid_values_def)
  then have "fuse [v] [False] FMax l \<in> set (valid_values [v] [False])"
    using assms by (intro fuse_max(1) [of v]) auto
  then show ?thesis using m by simp
qed

lemma demo_temp: "is_finite t \<Longrightarrow> tick_temp st (demo_input t now) = t"
  by (simp add: tick_temp_def demo_input_def fuse_single)

lemma demo_fresh: "\<not> stale st (demo_input t now)"
  by (simp add: stale_def demo_input_def)

lemma demo_rpm:
  "to_rpm (min_rpm demo_fan) = 2317" "to_rpm (max_rpm demo_fan) = 6550" "min_rpm demo_fan \<le> max_rpm demo_fan"
  by (simp_all add: demo_fan_def fan_new_def to_rpm_def f32_eval)

lemma demo_params [simp]:
  "safe_min_env (demo_input t now) = None" "panic_temp_c (demo_input t now) = lit 95 1"
  by (simp_all add: demo_input_def)

lemma demo_temps: "is_finite (lit 99 1)" "is_finite (lit 97 1)" "lit 95 1 < lit 99 1" "lit 95 1 < lit 97 1"
  by (simp_all add: f32_eval)

section \<open>Safety of the tick\<close>

text \<open>C2. Two ticks in a row whose fused temperature is above the panic threshold, neither on stale
  readings: whatever the fan did before, the second one asks for the maximum speed of the fan.\<close>

theorem two_hot_ticks_give_max:
  assumes "fan_limits st" "effective_safe_min (safe_min_env j) (min_rpm st) \<le> max_rpm st"
    "\<not> stale st i" "\<not> stale (fst (tick st i)) j"
    "panic_temp_c i < tick_temp st i" "panic_temp_c j < tick_temp (fst (tick st i)) j"
  shows "snd (tick (fst (tick st i)) j) = f32_of_word (word_of_nat (to_rpm (max_rpm st)) :: u32)"
  by (rule tick_two_hot [OF assms])

theorem two_hot_ticks_give_max_witness:
  "snd (tick (fst (tick demo_fan (demo_input (lit 99 1) 0))) (demo_input (lit 97 1) 500000000)) = lit 6550 1"
proof -
  note f = two_hot_ticks_give_max [OF demo_limits, of "demo_input (lit 97 1) 500000000" "demo_input (lit 99 1) 0"]
  have "f32_of_word (6550 :: u32) = lit 6550 1" by (simp add: f32_eval)
  then show ?thesis using f demo_fresh demo_temp demo_temps demo_rpm by simp
qed

text \<open>C4. The target a tick stores and asks for is between the effective minimum (the fan's, lifted by
  the operator's floor) and the maximum of the fan, both rounded to whole RPM.\<close>

theorem tick_target_in_range:
  assumes "fan_limits st" "effective_safe_min (safe_min_env i) (min_rpm st) \<le> max_rpm st" "\<not> stale st i"
  shows "\<exists>c. final_target (fst (tick st i)) = Some c \<and> snd (tick st i) = as_f32 c
    \<and> unat (clamped_value c) \<in> {to_rpm (effective_safe_min (safe_min_env i) (min_rpm st)) .. to_rpm (max_rpm st)}"
  using tick_target [OF assms(3)] tick_bounds [OF assms] by auto

theorem tick_target_in_range_witness:
  "\<exists>c. final_target (fst (tick demo_fan (demo_input (lit 70 1) 0))) = Some c \<and> unat (clamped_value c) \<in> {2317 .. 6550}"
  using tick_target_in_range [OF demo_limits, of "demo_input (lit 70 1) 0"] demo_rpm demo_fresh by auto


section \<open>The curve\<close>

text \<open>C6. On every well-formed curve (at least two breakpoints, temperatures rising by at least
  \<open>f32::EPSILON\<close>, speeds up to 131072 RPM) and every finite temperature, the interpolation of the
  code in binary32 is finite and within half an RPM of exact piecewise linear interpolation.\<close>

theorem curve_accuracy:
  assumes "wf_curve bps" "is_finite x"
  shows "is_finite (evaluate bps x) \<and> \<bar>rv (evaluate bps x) - curve_spec bps (rv x)\<bar> \<le> 1 / 2"
  by (rule evaluate_error [OF assms])

theorem curve_accuracy_witness:
  "\<bar>rv (evaluate demo_curve (lit 70 1)) - curve_spec demo_curve (rv (lit 70 1))\<bar> \<le> 1 / 2"
  by (rule curve_accuracy [OF demo_wf, THEN conjunct2]) (simp add: f32_eval)

text \<open>C20. When the speeds of a well-formed curve never fall, a hotter reading never asks for a speed
  more than one RPM below that of a cooler one (the tolerance is the rounding of binary32).\<close>

theorem curve_monotone:
  assumes "wf_curve bps" "sorted (map snd bps)" "is_finite x" "is_finite y" "x \<le> y"
  shows "rv (evaluate bps x) \<le> rv (evaluate bps y) + 1"
  by (rule evaluate_mono [OF assms])

theorem curve_monotone_witness:
  "rv (evaluate demo_curve (lit 50 1)) \<le> rv (evaluate demo_curve (lit 88 1)) + 1"
  by (rule curve_monotone [OF demo_wf]) (simp_all add: demo_curve_def f32_eval)

text \<open>C21. The curve of the code passes exactly through every breakpoint.\<close>

theorem curve_exact_at_breakpoints:
  assumes "wf_curve bps" "p \<in> set bps"
  shows "rv (evaluate bps (fst p)) = real (unat (snd p))"
  using evaluate_exact [OF assms] by blast

theorem curve_exact_at_breakpoints_witness: "rv (evaluate demo_curve (lit 80 1)) = 5000"
  using curve_exact_at_breakpoints [OF demo_wf, of "(lit 80 1, 5000)"] by (simp add: demo_curve_def)

text \<open>Whatever the reading is, NaN and the infinities included, the curve answers with a finite
  speed between the lowest and the highest speed of its breakpoints, up to half an RPM.\<close>

lemma curve_in_range:
  assumes "wf_curve bps" "\<forall>p\<in>set bps. m \<le> unat (snd p) \<and> unat (snd p) \<le> M"
  shows "is_finite (evaluate bps x) \<and> rv (evaluate bps x) \<in> {real m - 1 / 2 .. real M + 1 / 2}"
  using evaluate_range [OF assms(1), of m M x] assms(2) by auto

lemma curve_in_range_demo:
  "is_finite (evaluate demo_curve f32_NAN) \<and> rv (evaluate demo_curve f32_NAN) \<in> {2317 - 1 / 2 .. 6550 + 1 / 2}"
  using curve_in_range [OF demo_wf, of 2317 6550 f32_NAN] by (simp add: demo_curve_def)

section \<open>Fusion and smoothing\<close>

text \<open>C22. Fusing by maximum returns one of the readings that did not drop out, and none of those that
  are numbers is above it.\<close>

theorem fusion_max_is_maximum:
  assumes "v \<in> set (valid_values vs ds)" "is_finite v" "\<forall>w\<in>set (valid_values vs ds). \<not> is_infinite w"
  shows "fuse vs ds FMax lkg \<in> set (valid_values vs ds)
    \<and> (\<forall>w\<in>set (valid_values vs ds). is_finite w \<longrightarrow> w \<le> fuse vs ds FMax lkg)"
  using fuse_max [OF assms(1,2)] assms(3) by blast

theorem fusion_max_is_maximum_witness:
  "lit 70 1 \<le> fuse [lit 70 1, f32_NAN, lit 99 1] [False, False, True] FMax (lit 20 1)"
proof -
  have v: "set (valid_values [lit 70 1, f32_NAN, lit 99 1] [False, False, True]) = {lit 70 1, f32_NAN}"
    by (auto simp: valid_values_def)
  have n: "\<not> is_infinite (lit 70 1)" "\<not> is_infinite f32_NAN" "is_finite (lit 70 1)" by (simp_all add: f32_eval)
  show ?thesis
    using fusion_max_is_maximum [of "lit 70 1" "[lit 70 1, f32_NAN, lit 99 1]" "[False, False, True]" "lit 20 1"]
    unfolding v using n by blast
qed

text \<open>C10. A sensor that dropped out has no influence, whatever it reads: the next state and the
  answer of a tick are the same for every value of that sensor.\<close>

theorem dropout_ignored:
  assumes "n < length (sensor_dropouts i)" "sensor_dropouts i ! n" "length (sensor_values i) = length (sensor_dropouts i)"
  shows "tick st (i\<lparr> sensor_values := (sensor_values i)[n := x] \<rparr>) = tick st i"
  using valid_values_dropout [OF assms, of x]
  by (simp add: tick_def fuse_stage_def shape_stage_def output_stage_def fuse_def Let_def cong: if_cong)

definition demo_dropout :: tick_input where
  "demo_dropout = (demo_input (lit 50 1) 0)\<lparr> sensor_values := [lit 50 1, lit 120 1], sensor_dropouts := [False, True] \<rparr>"

theorem dropout_ignored_witness:
  "tick demo_fan (demo_dropout\<lparr> sensor_values := [lit 50 1, f32_NAN] \<rparr>) = tick demo_fan demo_dropout"
  using dropout_ignored [of 1 demo_dropout demo_fan f32_NAN] by (simp add: demo_dropout_def)

text \<open>C23. Smoothing is within a thousandth of a degree of the exact weighted mean of the new reading
  and the smoothed value before it, for readings from 0 to 2048 degrees.\<close>

theorem smoothing_accuracy:
  assumes "is_finite p" "is_finite r" "is_finite a" "0 \<le> rv a" "rv a \<le> 1"
    "0 \<le> rv p" "rv p \<le> 2048" "0 \<le> rv r" "rv r \<le> 2048"
  shows "\<bar>rv (smooth p r a) - (rv a * rv r + (1 - rv a) * rv p)\<bar> \<le> 1 / 1000"
  by (rule smooth_error(2) [OF assms])

theorem smoothing_accuracy_witness:
  "\<bar>rv (smooth (lit 50 1) (lit 90 1) (lit 1 4)) - 60\<bar> \<le> 1 / 1000"
proof -
  have r: "rv (lit 50 1) = 50" "rv (lit 90 1) = 90" "rv (lit 1 4) = 1 / 4"
    by (simp_all add: rv_def fv_def U_def f32_eval)
  have f: "is_finite (lit 50 1)" "is_finite (lit 90 1)" "is_finite (lit 1 4)" by (simp_all add: f32_eval)
  show ?thesis using smoothing_accuracy [OF f] unfolding r by simp
qed


section \<open>Hysteresis and slew\<close>

text \<open>C24. Over any run of samples the hysteresis stage answers only with the speed it held or with a
  speed the curve gave in that run, and a run that stays in the band around the last accepted
  temperature is answered with the held speed throughout, the state unchanged.\<close>

theorem hysteresis_run:
  "set (snd (run (hyst_step up down) st xs)) \<subseteq> insert (hold_rpm st) (fst ` set xs)
   \<and> (list_all (\<lambda>(c, t). in_band st up down t) xs \<longrightarrow>
       run (hyst_step up down) st xs = (st, replicate (length xs) (hold_rpm st)))"
  using hyst_run_outputs hyst_run_in_band by (metis list_all_iff)

definition demo_hyst :: hysteresis_state where
  "demo_hyst = hysteresis_new (lit 2500 1) (lit 50 1)"

theorem hysteresis_run_witness:
  "snd (run (hyst_step (lit 1 1) (lit 2 1)) demo_hyst [(lit 2550 1, lit 101 2), (lit 2450 1, lit 97 2)])
   = [lit 2500 1, lit 2500 1]"
proof -
  have b: "in_band demo_hyst (lit 1 1) (lit 2 1) (lit 101 2)" "in_band demo_hyst (lit 1 1) (lit 2 1) (lit 97 2)"
    by (simp_all add: in_band_def demo_hyst_def hysteresis_new_def f32_eval)
  have h: "hold_rpm demo_hyst = lit 2500 1" by (simp add: demo_hyst_def hysteresis_new_def)
  show ?thesis
    using hysteresis_run [of "lit 1 1" "lit 2 1" demo_hyst "[(lit 2550 1, lit 101 2), (lit 2450 1, lit 97 2)]"] b
    by (simp add: h numeral_2_eq_2)
qed

text \<open>C25. Slowing down, the slew limiter moves from the previous speed towards the target without
  passing the target and by at most \<open>ramp * min(dt, 1s)\<close>, all in binary32.\<close>

theorem slew_descent_bounded:
  assumes "is_finite p" "\<bar>fv p\<bar> \<le> 2 ^ 181" "is_finite t" "t < p"
    "is_finite ramp" "0 \<le> fv ramp" "fv ramp \<le> 2 ^ 181" "is_finite dt" "0 \<le> fv dt"
  shows "t \<le> limit p t ramp dt \<and> limit p t ramp dt \<le> p \<and> p - max_drop ramp dt \<le> limit p t ramp dt"
  using limit_down [OF assms] limit_ge_target assms(3) by simp

theorem slew_descent_bounded_witness:
  "lit 4700 1 \<le> limit (lit 5000 1) (lit 3000 1) (lit 600 1) (lit 1 2)
   \<and> limit (lit 5000 1) (lit 3000 1) (lit 600 1) (lit 1 2) \<le> lit 5000 1"
proof -
  have d: "lit 5000 1 - max_drop (lit 600 1) (lit 1 2) = lit 4700 1" by (simp add: max_drop_def f32_eval)
  show ?thesis
    using slew_descent_bounded [of "lit 5000 1" "lit 3000 1" "lit 600 1" "lit 1 2"]
    unfolding d by (simp add: fv_def f32_eval)
qed

section \<open>The panic latch\<close>

text \<open>C14. From the initial latch, after any list of readings, the counter is the length of the run of
  readings above the threshold at the end of the list (capped at 255), and the latch is closed as soon
  as that run has two readings.\<close>

theorem panic_counts_hot_run:
  "unat (consecutive_above (panic_run panic_new th hold xs))
     = min (length (takeWhile (hot th) (rev (map fst xs)))) 255
   \<and> (latched (panic_run panic_new th hold xs) \<longleftrightarrow> entered_at (panic_run panic_new th hold xs) \<noteq> None)
   \<and> (2 \<le> length (takeWhile (hot th) (rev (map fst xs))) \<longrightarrow> latched (panic_run panic_new th hold xs))"
proof -
  let ?n = "length (takeWhile (hot th) (rev (map fst xs)))"
  have "2 \<le> consecutive_above (panic_run panic_new th hold xs)" if "2 \<le> ?n"
    using count_run [of th hold xs] that by (simp add: word_le_nat_alt)
  then show ?thesis
    using count_run [of th hold xs] panic.run_inv [OF panic_inv_new, of th hold xs] unfolding panic_inv_def by blast
qed

theorem panic_counts_hot_run_witness:
  "latched (panic_run panic_new (lit 95 1) 10 [(lit 50 1, 0), (lit 97 1, 1), (lit 99 1, 2)])"
proof -
  let ?xs = "[(lit 50 1, 0), (lit 97 1, 1), (lit 99 1, 2)]"
  have "2 \<le> length (takeWhile (hot (lit 95 1)) (rev (map fst ?xs)))" using demo_temps by (simp add: hot_def)
  then show ?thesis using panic_counts_hot_run [of "lit 95 1" 10 ?xs] by blast
qed

text \<open>C13. Once latched, the latch stays closed, with the same entry time, and every action forces the
  maximum, until a reading at or below the threshold arrives when the hold time has passed; such a
  reading opens it and resets it to its initial state.\<close>

theorem panic_latch_held_and_released:
  assumes "latched st" "entered_at st = Some e" "list_all (still_held e th hold) xs"
  shows "set (snd (run (panic_step th hold) st xs)) \<subseteq> {ForceFxMx}
    \<and> (raw \<le> th \<and> unat hold \<le> as_secs (now - e) \<longrightarrow>
        panic_check (panic_run st th hold xs) raw th hold now = (panic_new, Passthrough))"
  using latched_outputs [OF assms] latched_run [OF assms] latched_step [of "panic_run st th hold xs" e raw th hold now]
  by simp

definition demo_latch :: panic_state where
  "demo_latch = \<lparr> latched = True, consecutive_above = 2, entered_at = Some 0 \<rparr>"

theorem panic_latch_held_and_released_witness:
  "snd (panic_check (panic_run demo_latch (lit 95 1) 10 [(lit 50 1, 9999999999), (lit 99 1, 10000000000)])
     (lit 95 1) (lit 95 1) 10 10500000000) = Passthrough"
proof -
  have h: "list_all (still_held 0 (lit 95 1) 10) [(lit 50 1, 9999999999), (lit 99 1, 10000000000)]"
    using demo_temps f32_less_not_le by (auto simp: still_held_def as_secs_def)
  have "lit 95 1 \<le> lit 95 1" by (simp add: f32_eval)
  then show ?thesis
    using panic_latch_held_and_released [OF _ _ h, of demo_latch "lit 95 1" 10500000000]
    by (simp add: demo_latch_def as_secs_def)
qed

section \<open>The adapter\<close>

text \<open>C26. For fan limits from 0 up to \<open>2^32\<close> RPM in order, the engage threshold is between the
  minimum and the disengage threshold, a target at or below the minimum always forces the minimum, one
  above the disengage threshold always goes back to automatic, and any run of targets in the dead band
  between them repeats the current decision.\<close>

theorem adapter_hysteresis:
  assumes "is_finite lo" "0 \<le> fv lo" "is_finite hi" "fv hi \<le> 2 ^ 181" "lo \<le> hi"
  shows "lo \<le> engage_threshold lo hi \<and> engage_threshold lo hi \<le> disengage_threshold lo hi
    \<and> (t \<le> lo \<longrightarrow> snd (decide a t lo hi) = ForcedMinimum)
    \<and> (disengage_threshold lo hi < t \<longrightarrow> snd (decide a t lo hi) = Auto)
    \<and> (list_all (deadband lo hi) ts \<longrightarrow>
        run (adapter_step lo hi) a ts = (a, replicate (length ts) (current a)))"
  using thresholds_ordered [OF assms] decide_at_min [of lo hi t a] decide_above [of lo hi t a]
    adapter_run_deadband [of lo hi ts a] by simp

theorem adapter_hysteresis_witness:
  "snd (decide adapter_new (lit 2000 1) (lit 2317 1) (lit 6550 1)) = ForcedMinimum"
  using adapter_hysteresis [of "lit 2317 1" "lit 6550 1" "lit 2000 1" adapter_new] by (simp add: fv_def f32_eval)

section \<open>The clamp\<close>

text \<open>C27. With limits in RPM range and the effective minimum below the maximum, every request, NaN and
  infinities included, is clamped to a whole RPM between them; requests that are not finite or too low
  give exactly the effective minimum, and a request that \<open>was_clamped\<close> clears is only rounded.\<close>

theorem clamp_sound:
  assumes "rpm_range lo" "rpm_range hi" "effective_safe_min env lo \<le> hi"
  shows "unat (clamped_value (clamped_new env raw lo hi)) \<in> {to_rpm (effective_safe_min env lo) .. to_rpm hi}
    \<and> (\<not> is_finite raw \<or> raw < effective_safe_min env lo \<longrightarrow>
        unat (clamped_value (clamped_new env raw lo hi)) = to_rpm (effective_safe_min env lo))
    \<and> (\<not> was_clamped env raw lo hi \<longrightarrow> unat (clamped_value (clamped_new env raw lo hi)) = to_rpm raw)"
  using clamped_bounds [OF assms, of raw] clamped_low clamped_in_range by auto

theorem clamp_sound_witness:
  "unat (clamped_value (clamped_new (Some '' 2500 '') f32_NAN (lit 2317 1) (lit 6550 1))) = 2500"
proof -
  have "parse_f32 (trim '' 2500 '') = Some (lit 2500 1)"
    using parse_f32_digits [of "''2500''"] by (simp add: trim_def trim_start_def is_space_def is_digit_def dec_def digit_val_def f32_eval)
  moreover have "is_finite (lit 2500 1)" "lit 2317 1 < lit 2500 1" by (simp_all add: f32_eval)
  ultimately have e: "effective_safe_min (Some '' 2500 '') (lit 2317 1) = lit 2500 1"
    by (simp add: effective_safe_min_def)
  have r: "rpm_range (lit 2317 1)" "rpm_range (lit 6550 1)" "lit 2500 1 \<le> lit 6550 1" "\<not> is_finite f32_NAN"
    "to_rpm (lit 2500 1) = 2500"
    by (simp_all add: rpm_range_def fv_def to_rpm_def f32_eval)
  show ?thesis using clamp_sound [OF r(1,2), of "Some '' 2500 ''" f32_NAN] r(3-5) unfolding e by simp
qed

end
