(* ===== verification/Smc_Keys.thy ===== *)
theory Smc_Keys
  imports Parse_Num
begin

text \<open>
  Key codes of the system management controller (\<open>src/smc/keys.rs\<close>): four-character codes as
  big-endian words, the command bytes, the type codes, and the whitelist of writable keys. The
  enumerated fan keys (\<open>fan_key\<close> of \<open>src/smc/enumerate.rs\<close>) are built the same way.
\<close>

definition byte :: "char \<Rightarrow> u8" where
  "byte c = word_of_nat (of_char c)"

text \<open>\<open>u32::from_be_bytes(*b"..")\<close> of a string of four characters.\<close>

fun fourcc :: "string \<Rightarrow> u32" where
  "fourcc [a, b, c, d] = u32_from_be (byte a) (byte b) (byte c) (byte d)"
| "fourcc _ = 0"

definition SMC_CMD_READ_KEY :: u8 where "SMC_CMD_READ_KEY = 5"
definition SMC_CMD_WRITE_KEY :: u8 where "SMC_CMD_WRITE_KEY = 6"
definition SMC_CMD_GET_KEY_FROM_IDX :: u8 where "SMC_CMD_GET_KEY_FROM_IDX = 8"
definition SMC_CMD_GET_KEY_INFO :: u8 where "SMC_CMD_GET_KEY_INFO = 9"

definition TYPE_FLT :: u32 where "TYPE_FLT = fourcc ''flt ''"
definition TYPE_UI8 :: u32 where "TYPE_UI8 = fourcc ''ui8 ''"
definition TYPE_UI32 :: u32 where "TYPE_UI32 = fourcc ''ui32''"
definition TYPE_FPE2 :: u32 where "TYPE_FPE2 = fourcc ''fpe2''"
definition TYPE_SP78 :: u32 where "TYPE_SP78 = fourcc ''sp78''"

definition ATTR_READABLE :: u8 where "ATTR_READABLE = 0x80"
definition ATTR_WRITABLE :: u8 where "ATTR_WRITABLE = 0x40"
definition ATTR_FUNCTION :: u8 where "ATTR_FUNCTION = 0x20"

lemmas key_consts = SMC_CMD_READ_KEY_def SMC_CMD_WRITE_KEY_def SMC_CMD_GET_KEY_FROM_IDX_def
  SMC_CMD_GET_KEY_INFO_def

lemma type_codes:
  "TYPE_FLT = 0x666C7420" "TYPE_UI8 = 0x75693820" "TYPE_UI32 = 0x75693332"
  by (simp_all add: TYPE_FLT_def TYPE_UI8_def TYPE_UI32_def u32_from_be_def byte_def)

section \<open>Writable keys\<close>

datatype writable_key = FanMode u8 | FanTarget u8 | FtstKey

text \<open>
  \<open>b'0' + index\<close>: in a debug build the addition panics above index 207, in the release build (the
  one that is shipped, without overflow checks) it wraps; the model is the release build.
\<close>

definition fan_key_fourcc :: "u8 \<Rightarrow> u8 \<Rightarrow> u8 \<Rightarrow> u32" where
  "fan_key_fourcc c3 c4 index = u32_from_be (byte CHR ''F'') (byte CHR ''0'' + index) c3 c4"

fun key_fourcc :: "writable_key \<Rightarrow> u32" where
  "key_fourcc (FanMode i) = fan_key_fourcc (byte CHR ''m'') (byte CHR ''d'') i"
| "key_fourcc (FanTarget i) = fan_key_fourcc (byte CHR ''D'') (byte CHR ''c'') i"
| "key_fourcc FtstKey = fourcc ''Ftst''"

fun key_data_type :: "writable_key \<Rightarrow> u32" where
  "key_data_type (FanMode _) = TYPE_UI8"
| "key_data_type (FanTarget _) = TYPE_FLT"
| "key_data_type FtstKey = TYPE_UI8"

text \<open>The number of variants, from the exhaustive match that the source checks at compile time.\<close>

fun variant_count :: "writable_key \<Rightarrow> nat" where
  "variant_count (FanMode _) = 1"
| "variant_count (FanTarget _) = 2"
| "variant_count FtstKey = 3"

definition fan_key :: "u8 \<Rightarrow> char \<Rightarrow> char \<Rightarrow> u32" where
  "fan_key index c3 c4 = u32_from_be (byte CHR ''F'') (byte CHR ''0'' + index) (byte c3) (byte c4)"

lemma mode_fan_key: "key_fourcc (FanMode i) = fan_key i CHR ''m'' CHR ''d''"
  by (simp add: fan_key_def fan_key_fourcc_def)

text \<open>\<open>fourcc_to_str\<close> of \<open>src/smc/ffi.rs\<close>: unprintable bytes show as a question mark.\<close>

definition fourcc_to_str :: "u32 \<Rightarrow> string" where
  "fourcc_to_str w = map (\<lambda>b. let c = char_of (unat b) in
     if is_graphic c \<or> c = CHR '' '' then c else CHR ''?'') (u32_to_be w)"

section \<open>The whitelist\<close>

lemma u32_from_be_inject:
  "u32_from_be a b c d = u32_from_be a' b' c' d' \<longleftrightarrow> a = a' \<and> b = b' \<and> c = c' \<and> d = d'"
proof
  assume "u32_from_be a b c d = u32_from_be a' b' c' d'"
  then have "[a, b, c, d] = [a', b', c', d']" by (metis u32_be_bytes)
  then show "a = a' \<and> b = b' \<and> c = c' \<and> d = d'" by simp
qed simp

text \<open>The three factories and the fan index determine the key code: no two keys share one.\<close>

lemma key_fourcc_inject: "key_fourcc k = key_fourcc k' \<longleftrightarrow> k = k'"
  by (cases k; cases k') (auto simp: fan_key_fourcc_def u32_from_be_inject byte_def)

lemma byte_to_char: "unat (byte c) = of_char c"
  using nat_of_char_less_256 [of c] by (simp add: byte_def unat_of_nat take_bit_eq_mod)

lemma fourcc_to_str_be:
  "fourcc_to_str (u32_from_be a b c d) = map (\<lambda>b. let c = char_of (unat b) in
     if is_graphic c \<or> c = CHR '' '' then c else CHR ''?'') [a, b, c, d]"
  by (simp only: fourcc_to_str_def u32_be_bytes)

text \<open>A printable four-character code is shown as it is.\<close>

lemma fourcc_roundtrip:
  assumes "length s = 4" "list_all (\<lambda>c. is_graphic c \<or> c = CHR '' '') s"
  shows "fourcc_to_str (fourcc s) = s"
proof -
  obtain a b c d where s: "s = [a, b, c, d]"
    using assms(1) by (auto simp: length_Suc_conv numeral_eq_Suc)
  show ?thesis using assms(2) by (simp add: s fourcc_to_str_be byte_to_char Let_def)
qed

end
