(* ===== verification/Smc_Types.thy ===== *)
theory Smc_Types
  imports Smc_Keys F32_Laws
begin

text \<open>
  Encoding and decoding of key values (\<open>src/smc/types.rs\<close>): \<open>flt\<close> is little-endian, \<open>ui32\<close> is
  big-endian, and NaN or an infinity is refused in both directions.
\<close>

datatype smc_value_error = ValInvalidFloat | ValSizeMismatch nat u32

text \<open>\<open>*bytes.get(i).unwrap_or(&0)\<close>.\<close>

definition byte_at :: "u8 list \<Rightarrow> nat \<Rightarrow> u8" where
  "byte_at bs i = (if i < length bs then bs ! i else 0)"

definition decode_flt :: "u8 list \<Rightarrow> u32 \<Rightarrow> (smc_value_error, f32) result" where
  "decode_flt bs data_size = (if data_size \<noteq> 4 then Inl (ValSizeMismatch 4 data_size)
     else let v = f32_from_le (byte_at bs 0) (byte_at bs 1) (byte_at bs 2) (byte_at bs 3) in
       if is_nan v \<or> is_infinite v then Inl ValInvalidFloat else Inr v)"

definition encode_flt :: "f32 \<Rightarrow> (smc_value_error, u8 list) result" where
  "encode_flt v = (if is_nan v \<or> is_infinite v then Inl ValInvalidFloat else Inr (f32_to_le v))"

definition decode_ui8 :: "u8 list \<Rightarrow> u32 \<Rightarrow> (smc_value_error, u8) result" where
  "decode_ui8 bs data_size = (if data_size \<noteq> 1 then Inl (ValSizeMismatch 1 data_size)
     else Inr (byte_at bs 0))"

definition encode_ui8 :: "u8 \<Rightarrow> u8 list" where
  "encode_ui8 v = [v]"

definition decode_ui32 :: "u8 list \<Rightarrow> u32 \<Rightarrow> (smc_value_error, u32) result" where
  "decode_ui32 bs data_size = (if data_size \<noteq> 4 then Inl (ValSizeMismatch 4 data_size)
     else Inr (u32_from_be (byte_at bs 0) (byte_at bs 1) (byte_at bs 2) (byte_at bs 3)))"

definition encode_ui32 :: "u32 \<Rightarrow> u8 list" where
  "encode_ui32 v = u32_to_be v"

section \<open>Round trips\<close>

lemma byte_at_append [simp]: "i < length bs \<Longrightarrow> byte_at (bs @ xs) i = bs ! i"
  by (simp add: byte_at_def nth_append)

lemma f32_le_roundtrip:
  "f32_from_le (f32_to_le v ! 0) (f32_to_le v ! 1) (f32_to_le v ! 2) (f32_to_le v ! 3) = v"
  by (cases v) (simp add: f32_from_le_def f32_to_le_def u32_from_le_def u32_to_le_def u32_to_be_def u32_be_roundtrip)

lemma length_f32_to_le [simp]: "length (f32_to_le v) = 4"
  by (simp add: f32_to_le_def)

text \<open>The payload may be followed by padding, as in the 32-byte field of the call structure.\<close>

lemma decode_encode_flt: "encode_flt v = Inr bs \<Longrightarrow> decode_flt (bs @ pad) 4 = Inr v"
  by (auto simp: encode_flt_def decode_flt_def Let_def f32_le_roundtrip [unfolded One_nat_def] split: if_splits)

lemma encode_decode_flt:
  assumes "decode_flt bs 4 = Inr v" "length bs = 4"
  shows "encode_flt v = Inr bs"
proof -
  obtain a b c d where bs: "bs = [a, b, c, d]"
    using assms(2) by (auto simp: length_Suc_conv numeral_eq_Suc)
  have "v = f32_from_le a b c d" "\<not> is_nan v" "\<not> is_infinite v"
    using assms(1) by (auto simp: decode_flt_def Let_def byte_at_def bs split: if_splits)
  then show ?thesis
    by (simp add: encode_flt_def bs f32_from_le_def f32_to_le_def u32_from_le_def u32_to_le_def u32_be_bytes)
qed

lemma encode_flt_finite: "(\<exists>bs. encode_flt v = Inr bs) \<longleftrightarrow> is_finite v"
  unfolding encode_flt_def is_finite_iff [of v] by auto

lemma decode_flt_finite: "decode_flt bs n = Inr v \<Longrightarrow> is_finite v"
  unfolding decode_flt_def Let_def by (rule is_finite_iff [THEN iffD2]) (auto split: if_splits)

lemma decode_encode_ui8: "decode_ui8 (encode_ui8 v @ pad) 1 = Inr v"
  by (simp add: decode_ui8_def encode_ui8_def byte_at_def)

lemma decode_encode_ui32: "decode_ui32 (encode_ui32 v @ pad) 4 = Inr v"
  by (simp add: decode_ui32_def encode_ui32_def u32_to_be_def byte_at_def u32_be_roundtrip)

lemma encode_decode_ui32:
  assumes "decode_ui32 bs 4 = Inr v" "length bs = 4"
  shows "encode_ui32 v = bs"
proof -
  obtain a b c d where bs: "bs = [a, b, c, d]"
    using assms(2) by (auto simp: length_Suc_conv numeral_eq_Suc)
  then show ?thesis using assms(1) by (auto simp: decode_ui32_def encode_ui32_def byte_at_def u32_be_bytes)
qed

end
