(* ===== verification/Key_Cache.thy ===== *)
theory Key_Cache
  imports Fand_Prelude
begin

text \<open>
  The key-info cache (\<open>src/smc/cache.rs\<close>): 256 slots indexed by the key code modulo 256. A slot
  does not record which key filled it. The locale \<open>slot_store\<close> is the interface the connection
  uses, with the laws it can rely on: those of a store of slots, not of keys.
\<close>

definition CACHE_SIZE :: nat where
  "CACHE_SIZE = 256"

datatype key_cache = KeyCache (slots: "(u32 \<times> u32) option list")

definition cache_new :: key_cache where
  "cache_new = KeyCache (replicate CACHE_SIZE None)"

definition slot_of :: "u32 \<Rightarrow> nat" where
  "slot_of key = unat key mod CACHE_SIZE"

definition cache_get :: "key_cache \<Rightarrow> u32 \<Rightarrow> (u32 \<times> u32) option" where
  "cache_get c key = slots c ! slot_of key"

definition cache_put :: "key_cache \<Rightarrow> u32 \<Rightarrow> u32 \<Rightarrow> u32 \<Rightarrow> key_cache" where
  "cache_put c key data_size data_type = KeyCache ((slots c)[slot_of key := Some (data_size, data_type)])"

definition cache_invalidate :: "key_cache \<Rightarrow> u32 \<Rightarrow> key_cache" where
  "cache_invalidate c key = KeyCache ((slots c)[slot_of key := None])"

definition cache_wf :: "key_cache \<Rightarrow> bool" where
  "cache_wf c \<longleftrightarrow> length (slots c) = CACHE_SIZE"

section \<open>The interface\<close>

locale slot_store =
  fixes empty :: 'c and get :: "'c \<Rightarrow> u32 \<Rightarrow> (u32 \<times> u32) option"
    and put :: "'c \<Rightarrow> u32 \<Rightarrow> u32 \<Rightarrow> u32 \<Rightarrow> 'c" and drop :: "'c \<Rightarrow> u32 \<Rightarrow> 'c"
    and wf :: "'c \<Rightarrow> bool" and same :: "u32 \<Rightarrow> u32 \<Rightarrow> bool"
  assumes wf_empty: "wf empty" and wf_put: "wf c \<Longrightarrow> wf (put c k s t)" and wf_drop: "wf c \<Longrightarrow> wf (drop c k)"
    and get_empty: "get empty k = None"
    and get_put: "wf c \<Longrightarrow> get (put c k s t) j = (if same k j then Some (s, t) else get c j)"
    and get_drop: "wf c \<Longrightarrow> get (drop c k) j = (if same k j then None else get c j)"
    and same_refl: "same k k"
begin

lemma put_get: "wf c \<Longrightarrow> get (put c k s t) k = Some (s, t)"
  by (simp add: get_put same_refl)

lemma drop_get: "wf c \<Longrightarrow> get (drop c k) k = None"
  by (simp add: get_drop same_refl)

lemma put_put: "wf c \<Longrightarrow> get (put (put c k s t) k s' t') j = get (put c k s' t') j"
  by (simp add: get_put wf_put)

text \<open>Sequences of puts, later ones last.\<close>

fun puts :: "'c \<Rightarrow> (u32 \<times> u32 \<times> u32) list \<Rightarrow> 'c" where
  "puts c [] = c"
| "puts c ((k, s, t) # xs) = puts (put c k s t) xs"

lemma wf_puts: "wf c \<Longrightarrow> wf (puts c xs)"
  by (induction c xs rule: puts.induct) (auto simp: wf_put)

text \<open>What a key sees is the last put to its slot, by whatever key.\<close>

lemma get_puts:
  "wf c \<Longrightarrow> get (puts c xs) j = (case filter (\<lambda>(k, s, t). same k j) xs of
     [] \<Rightarrow> get c j | ys \<Rightarrow> (case last ys of (k, s, t) \<Rightarrow> Some (s, t)))"
  by (induction c xs rule: puts.induct) (auto simp: wf_put get_put split: list.split)

end

lemma slot_less: "slot_of k < CACHE_SIZE"
  by (simp add: slot_of_def CACHE_SIZE_def)

interpretation cache: slot_store cache_new cache_get cache_put cache_invalidate cache_wf
    "\<lambda>k j. slot_of k = slot_of j"
  using slot_less by unfold_locales
    (auto simp: cache_new_def cache_get_def cache_put_def cache_invalidate_def cache_wf_def)

text \<open>The slot is the last byte of the key code.\<close>

lemma slot_last_byte: "slot_of (u32_from_be a b c d) = unat d"
proof -
  let ?w = "u32_from_be a b c d"
  have "ucast ?w = d" using u32_be_bytes [of a b c d] by (simp add: u32_to_be_def)
  then have "unat (ucast ?w :: u8) = unat d" by simp
  then show ?thesis by (simp add: slot_of_def CACHE_SIZE_def unsigned_ucast_eq take_bit_eq_mod)
qed

end
