(* ===== verification/Session_Id.thy ===== *)
theory Session_Id
  imports Parse_Num
begin

text \<open>
  The per-session correlation id (\<open>src/correlation.rs\<close>): a ULID, ten base-32 characters of
  milliseconds followed by sixteen of entropy. The clock and the entropy source are arguments.
\<close>

definition CROCKFORD :: string where
  "CROCKFORD = ''0123456789ABCDEFGHJKMNPQRSTVWXYZ''"

datatype session_id = SessionId (as_bytes: string)

definition crock :: "u64 \<Rightarrow> char" where
  "crock g = CROCKFORD ! unat g"

text \<open>The loop over the ten time characters, last character first.\<close>

fun encode_time :: "nat \<Rightarrow> u64 \<Rightarrow> string" where
  "encode_time 0 time = []"
| "encode_time (Suc n) time = encode_time n (drop_bit 5 time) @ [crock (time AND 0x1F)]"

text \<open>The inner \<open>while\<close>: emit groups of five bits; the result is the bits left and the characters.\<close>

fun emit :: "u64 \<Rightarrow> nat \<Rightarrow> nat \<Rightarrow> nat \<times> string" where
  "emit bit_buf bits_in out_i = (if 5 \<le> bits_in \<and> out_i < 26
     then let bits = bits_in - 5; (left, cs) = emit bit_buf bits (out_i + 1) in
       (left, crock (drop_bit bits bit_buf AND 0x1F) # cs)
     else (bits_in, []))"

declare emit.simps [simp del]

text \<open>The loop over the entropy bytes.\<close>

fun feed :: "u64 \<Rightarrow> nat \<Rightarrow> nat \<Rightarrow> u8 list \<Rightarrow> u64 \<times> nat \<times> string" where
  "feed bit_buf bits_in out_i [] = (bit_buf, bits_in, [])"
| "feed bit_buf bits_in out_i (b # bs) =
    (let buf = push_bit 8 bit_buf OR ucast b; (bits, cs) = emit buf (bits_in + 8) out_i;
         (buf', bits', ds) = feed buf bits (out_i + length cs) bs in
     (buf', bits', cs @ ds))"

text \<open>The final flush of the trailing bits.\<close>

function flush :: "u64 \<Rightarrow> nat \<Rightarrow> nat \<Rightarrow> string" where
  "flush bit_buf bits_in out_i = (if out_i < 26
     then crock (push_bit (5 - bits_in) bit_buf AND 0x1F) # flush bit_buf 0 (out_i + 1) else [])"
  by auto

termination flush
  by (relation "measure (\<lambda>(_, _, i). 26 - i)") auto

declare flush.simps [simp del]

definition session_new :: "u64 \<Rightarrow> u8 list \<Rightarrow> session_id" where
  "session_new ms entropy =
    (let (buf, bits, cs) = feed 0 0 10 entropy in
     SessionId (encode_time 10 ms @ cs @ flush buf bits (10 + length cs)))"

section \<open>Characters\<close>

lemma and_31: "unat (g AND 0x1F :: u64) = unat g mod 32"
proof -
  have "g AND 0x1F = take_bit 5 g" by (simp add: take_bit_eq_mask mask_eq_exp_minus_1)
  then have "unat (g AND 0x1F) = take_bit 5 (unat g)" by (simp only: unsigned_take_bit_eq)
  then show ?thesis by (simp only: take_bit_eq_mod) simp
qed

lemma length_CROCKFORD: "length CROCKFORD = 32"
  by (simp add: CROCKFORD_def)

lemma distinct_CROCKFORD: "distinct CROCKFORD"
  by (simp add: CROCKFORD_def)

lemma crock_mem: "crock (g AND 0x1F) \<in> set CROCKFORD"
  unfolding crock_def and_31 by (rule nth_mem) (simp add: length_CROCKFORD)

lemma crock_nth: "crock (g AND 0x1F) = CROCKFORD ! (unat g mod 32)"
  by (simp add: crock_def and_31)

text \<open>The value of a string of base-32 digits.\<close>

definition digit32 :: "char \<Rightarrow> nat" where
  "digit32 c = length (takeWhile (\<lambda>d. d \<noteq> c) CROCKFORD)"

definition val32 :: "string \<Rightarrow> nat" where
  "val32 cs = foldl (\<lambda>v c. 32 * v + digit32 c) 0 cs"

lemma takeWhile_nth: "distinct xs \<Longrightarrow> n < length xs \<Longrightarrow> length (takeWhile (\<lambda>d. d \<noteq> xs ! n) xs) = n"
proof (induction xs arbitrary: n)
  case (Cons x xs)
  then show ?case by (cases n) auto
qed simp

lemma digit32_nth: "n < 32 \<Longrightarrow> digit32 (CROCKFORD ! n) = n"
  unfolding digit32_def by (rule takeWhile_nth) (simp_all add: length_CROCKFORD distinct_CROCKFORD)

lemma digit32_crock [simp]: "digit32 (crock (g AND 0x1F)) = unat g mod 32"
  by (simp add: crock_nth digit32_nth)

lemma val32_foldl: "foldl (\<lambda>v c. 32 * v + digit32 c) n cs = n * 32 ^ length cs + val32 cs"
proof (induction cs arbitrary: n)
  case (Cons c cs)
  show ?case using Cons [of "32 * n + digit32 c"] Cons [of "digit32 c"]
    by (simp add: val32_def algebra_simps)
qed (simp add: val32_def)

lemma val32_append: "val32 (as @ bs) = val32 as * 32 ^ length bs + val32 bs"
  using val32_foldl [of "val32 as" bs] by (simp add: val32_def)

lemma val32_simps [simp]: "val32 [] = 0" "val32 [c] = digit32 c"
    "val32 (c # cs) = digit32 c * 32 ^ length cs + val32 cs"
  using val32_append [of "[c]" cs] by (simp_all add: val32_def)

section \<open>The time part\<close>

lemma length_time [simp]: "length (encode_time n t) = n"
  by (induction n arbitrary: t) auto

lemma unat_drop5: "unat (drop_bit 5 t :: u64) = unat t div 32"
  unfolding unat_drop_bit_eq by (simp only: drop_bit_eq_div) simp

lemma val_time: "val32 (encode_time n t) = unat t mod 32 ^ n"
proof (induction n arbitrary: t)
  case (Suc n)
  have "unat t mod 32 ^ Suc n = unat t div 32 mod 32 ^ n * 32 + unat t mod 32"
    by (simp add: mod_mult2_eq mult.commute)
  then show ?case by (simp add: val32_append Suc unat_drop5)
qed simp

lemma time_mem: "set (encode_time n t) \<subseteq> set CROCKFORD"
  by (induction n arbitrary: t) (auto simp: crock_mem)

section \<open>The entropy part\<close>

lemma unat_buf: "unat (push_bit 8 buf OR ucast b :: u64) = (unat buf * 256 + unat b) mod 2 ^ 64" for b :: u8
proof -
  have lt: "unat b < 2 ^ 8" using unsigned_less [of b, where 'a = nat] by simp
  have t: "take_bit 8 (unat b) = unat b" "take_bit 64 (unat b) = unat b"
    using lt by (auto simp: take_bit_nat_eq_self_iff)
  have u: "unat (ucast b :: u64) = unat b" by (simp add: unsigned_ucast_eq t)
  have "push_bit 8 (unat buf) + unat b = push_bit 8 (unat buf) OR unat b"
    by (rule disjunctive_add) (metis bit_push_bit_iff bit_take_bit_iff not_le t(1))
  moreover have "unat (push_bit 8 buf OR ucast b :: u64) = take_bit 64 (push_bit 8 (unat buf)) OR unat b"
    by (simp only: unsigned_or_eq unsigned_push_bit_eq u) simp
  ultimately have "unat (push_bit 8 buf OR ucast b :: u64) = take_bit 64 (push_bit 8 (unat buf) + unat b)"
    by (simp only: take_bit_or t)
  then show ?thesis by (simp only: take_bit_eq_mod push_bit_eq_mult) simp
qed

lemma drop_31: "unat (drop_bit n buf AND 0x1F :: u64) = unat buf div 2 ^ n mod 32"
  unfolding and_31 unat_drop_bit_eq by (simp only: drop_bit_eq_div)

lemma pow32: "(32::nat) ^ (k div 5) * 2 ^ (k mod 5) = 2 ^ k"
proof -
  have "(32::nat) ^ (k div 5) = 2 ^ (5 * (k div 5))" by (simp add: power_mult)
  then have "(32::nat) ^ (k div 5) * 2 ^ (k mod 5) = 2 ^ (5 * (k div 5) + k mod 5)"
    by (simp only: power_add)
  then show ?thesis by simp
qed

lemma emit_spec:
  "i + bits div 5 \<le> 26 \<Longrightarrow>
   \<exists>cs. emit buf bits i = (bits mod 5, cs) \<and> length cs = bits div 5 \<and> set cs \<subseteq> set CROCKFORD
     \<and> val32 cs * 2 ^ (bits mod 5) + unat buf mod 2 ^ (bits mod 5) = unat buf mod 2 ^ bits"
proof (induction buf bits i rule: emit.induct)
  case (1 buf bits i)
  show ?case
  proof (cases "5 \<le> bits")
    case False
    then show ?thesis by (subst emit.simps) simp
  next
    case True
    define k where "k = bits - 5"
    have k: "bits = k + 5" using True by (simp add: k_def)
    have i: "i < 26" "i + 1 + k div 5 \<le> 26" using 1(2) by (simp_all add: k)
    obtain cs where cs: "emit buf k (i + 1) = (k mod 5, cs)" "length cs = k div 5" "set cs \<subseteq> set CROCKFORD"
      "val32 cs * 2 ^ (k mod 5) + unat buf mod 2 ^ (k mod 5) = unat buf mod 2 ^ k"
      using 1(1) i True by (auto simp: k)
    have "emit buf bits i = (k mod 5, crock (drop_bit k buf AND 0x1F) # cs)"
      using True i cs(1) by (subst emit.simps) (simp add: k)
    moreover have "val32 (crock (drop_bit k buf AND 0x1F) # cs) * 2 ^ (k mod 5) + unat buf mod 2 ^ (k mod 5)
        = unat buf mod 2 ^ bits"
    proof -
      have "(d * 32 ^ (k div 5) + v) * 2 ^ (k mod 5) + r = d * 2 ^ k + (v * 2 ^ (k mod 5) + r)" for d v r :: nat
        by (simp only: distrib_right mult.assoc pow32 add.assoc)
      then have "val32 (crock (drop_bit k buf AND 0x1F) # cs) * 2 ^ (k mod 5) + unat buf mod 2 ^ (k mod 5)
          = unat buf div 2 ^ k mod 32 * 2 ^ k + unat buf mod 2 ^ k"
        using cs(2,4) by (simp add: drop_31 [unfolded and_31])
      also have "\<dots> = unat buf mod (2 ^ k * 32)" by (simp add: mod_mult2_eq)
      finally show ?thesis by (simp add: k power_add)
    qed
    ultimately show ?thesis using cs crock_mem by (simp add: k)
  qed
qed

text \<open>The big-endian value of the bytes.\<close>

definition val256 :: "u8 list \<Rightarrow> nat" where
  "val256 bs = foldl (\<lambda>v b. 256 * v + unat b) 0 bs"

lemma val256_snoc: "val256 (bs @ [b]) = 256 * val256 bs + unat b"
  by (simp add: val256_def)

text \<open>
  Invariant of \<open>feed\<close>: \<open>n\<close> is the value of the bytes read before, of which the last \<open>bits\<close> bits
  have not been emitted.
\<close>

lemma foldl256: "foldl (\<lambda>v b. 256 * v + unat b) n bs = n * 256 ^ length bs + val256 bs"
proof (induction bs arbitrary: n)
  case (Cons b bs)
  show ?case using Cons [of "256 * n + unat b"] Cons [of "unat b"]
    by (simp add: val256_def algebra_simps)
qed (simp add: val256_def)

lemma val256_Cons: "val256 (b # bs) = unat b * 256 ^ length bs + val256 bs"
  using foldl256 [of "unat b" bs] by (simp add: val256_def)

lemma feed_spec:
  "bits < 5 \<Longrightarrow> i + (bits + 8 * length bs) div 5 \<le> 26 \<Longrightarrow>
   \<exists>buf' cs. feed buf bits i bs = (buf', (bits + 8 * length bs) mod 5, cs)
     \<and> length cs = (bits + 8 * length bs) div 5 \<and> set cs \<subseteq> set CROCKFORD
     \<and> val32 cs * 2 ^ ((bits + 8 * length bs) mod 5) + unat buf' mod 2 ^ ((bits + 8 * length bs) mod 5)
       = unat buf mod 2 ^ bits * 256 ^ length bs + val256 bs"
proof (induction bs arbitrary: buf bits i)
  case Nil
  then show ?case by (simp add: val256_def)
next
  case (Cons b bs)
  define buf1 where "buf1 = (push_bit 8 buf OR ucast b :: u64)"
  have len: "bits + 8 * length (b # bs) = bits + 8 + 8 * length bs" by simp
  have split: "(bits + 8 + 8 * n) div 5 = (bits + 8) div 5 + ((bits + 8) mod 5 + 8 * n) div 5"
    "(bits + 8 + 8 * n) mod 5 = ((bits + 8) mod 5 + 8 * n) mod 5" for n
    by presburger+
  have "i + (bits + 8) div 5 \<le> 26" using Cons.prems(2) unfolding len split(1) by linarith
  then obtain cs where cs: "emit buf1 (bits + 8) i = ((bits + 8) mod 5, cs)" "length cs = (bits + 8) div 5"
    "set cs \<subseteq> set CROCKFORD"
    "val32 cs * 2 ^ ((bits + 8) mod 5) + unat buf1 mod 2 ^ ((bits + 8) mod 5) = unat buf1 mod 2 ^ (bits + 8)"
    using emit_spec [of i "bits + 8" buf1] by blast
  have "i + length cs + ((bits + 8) mod 5 + 8 * length bs) div 5 \<le> 26"
    using Cons.prems(2) unfolding len split(1) cs(2) by linarith
  then obtain buf' ds where ds:
    "feed buf1 ((bits + 8) mod 5) (i + length cs) bs = (buf', ((bits + 8) mod 5 + 8 * length bs) mod 5, ds)"
    "length ds = ((bits + 8) mod 5 + 8 * length bs) div 5" "set ds \<subseteq> set CROCKFORD"
    "val32 ds * 2 ^ (((bits + 8) mod 5 + 8 * length bs) mod 5)
       + unat buf' mod 2 ^ (((bits + 8) mod 5 + 8 * length bs) mod 5)
     = unat buf1 mod 2 ^ ((bits + 8) mod 5) * 256 ^ length bs + val256 bs"
    using Cons.IH [of "(bits + 8) mod 5" "i + length cs" buf1] by auto
  define m where "m = (bits + 8) mod 5"
  have b1: "unat buf1 mod 2 ^ (bits + 8) = unat buf mod 2 ^ bits * 256 + unat b"
  proof -
    have "(2::nat) ^ (bits + 8) dvd 2 ^ 64" using Cons.prems(1) by (intro le_imp_power_dvd) simp
    then have "unat buf1 mod 2 ^ (bits + 8) = (256 * unat buf + unat b) mod (256 * 2 ^ bits)"
      unfolding buf1_def unat_buf by (simp only: mod_mod_cancel) (simp add: power_add mult.commute)
    also have "\<dots> = unat buf mod 2 ^ bits * 256 + unat b"
      using unsigned_less [of b, where 'a = nat] by (simp add: mod_mult2_eq)
    finally show ?thesis .
  qed
  have pw: "(32::nat) ^ length ds * 2 ^ ((m + 8 * length bs) mod 5) = 2 ^ m * 256 ^ length bs"
    unfolding ds(2) m_def [symmetric] pow32 by (simp add: power_add power_mult)
  have "val32 (cs @ ds) * 2 ^ ((m + 8 * length bs) mod 5) + unat buf' mod 2 ^ ((m + 8 * length bs) mod 5)
    = val32 cs * (32 ^ length ds * 2 ^ ((m + 8 * length bs) mod 5))
      + (val32 ds * 2 ^ ((m + 8 * length bs) mod 5) + unat buf' mod 2 ^ ((m + 8 * length bs) mod 5))"
    by (simp add: val32_append algebra_simps)
  also have "\<dots> = (val32 cs * 2 ^ m + unat buf1 mod 2 ^ m) * 256 ^ length bs + val256 bs"
    unfolding pw ds(4) [folded m_def] by (simp add: algebra_simps)
  also have "\<dots> = unat buf mod 2 ^ bits * 256 ^ length (b # bs) + val256 (b # bs)"
    unfolding cs(4) [folded m_def] b1 by (simp add: val256_Cons algebra_simps)
  finally have "val32 (cs @ ds) * 2 ^ ((m + 8 * length bs) mod 5) + unat buf' mod 2 ^ ((m + 8 * length bs) mod 5)
    = unat buf mod 2 ^ bits * 256 ^ length (b # bs) + val256 (b # bs)" .
  moreover have "feed buf bits i (b # bs) = (buf', (m + 8 * length bs) mod 5, cs @ ds)"
    using cs(1) ds(1) by (simp add: buf1_def [symmetric] m_def)
  ultimately show ?case unfolding len split m_def [symmetric] using cs ds by (simp add: m_def)
qed

section \<open>The whole id\<close>

text \<open>Ten bytes of entropy give exactly sixteen characters: the flush never adds any.\<close>

lemma session_new_spec:
  assumes "length entropy = 10"
  shows "\<exists>cs. session_new ms entropy = SessionId (encode_time 10 ms @ cs) \<and> length cs = 16
    \<and> set cs \<subseteq> set CROCKFORD \<and> val32 cs = val256 entropy"
proof -
  obtain buf' cs where f: "feed 0 0 10 entropy = (buf', 0, cs)" "length cs = 16" "set cs \<subseteq> set CROCKFORD"
    "val32 cs = val256 entropy"
    using feed_spec [of 0 10 entropy 0] assms by auto
  then have "session_new ms entropy = SessionId (encode_time 10 ms @ cs)"
    by (simp add: session_new_def flush.simps)
  then show ?thesis using f by blast
qed

text \<open>Reading an id back: the milliseconds (modulo \<open>2^50\<close>) and the value of the entropy.\<close>

definition session_time :: "session_id \<Rightarrow> nat" where
  "session_time s = val32 (take 10 (as_bytes s))"

definition session_entropy :: "session_id \<Rightarrow> nat" where
  "session_entropy s = val32 (drop 10 (as_bytes s))"

lemma session_decode:
  assumes "length entropy = 10"
  shows "session_time (session_new ms entropy) = unat ms mod 2 ^ 50"
    "session_entropy (session_new ms entropy) = val256 entropy"
  using session_new_spec [OF assms, of ms] by (auto simp: session_time_def session_entropy_def val_time)

lemma session_format:
  assumes "length entropy = 10"
  shows "length (as_bytes (session_new ms entropy)) = 26" "set (as_bytes (session_new ms entropy)) \<subseteq> set CROCKFORD"
  using session_new_spec [OF assms, of ms] time_mem [of 10 ms] by auto

lemma val256_inject: "length as = length bs \<Longrightarrow> val256 as = val256 bs \<Longrightarrow> as = bs"
proof (induction as arbitrary: bs rule: rev_induct)
  case (snoc a as)
  obtain b bs' where bs: "bs = bs' @ [b]" using snoc.prems(1) by (cases bs rule: rev_cases) auto
  have lt: "unat a < 256" "unat b < 256"
    using unsigned_less [of a, where 'a = nat] unsigned_less [of b, where 'a = nat] by simp_all
  have e: "256 * val256 as + unat a = 256 * val256 bs' + unat b" using snoc.prems(2) by (simp add: bs val256_snoc)
  then have "(256 * val256 as + unat a) mod 256 = (256 * val256 bs' + unat b) mod 256" by simp
  then have "unat a = unat b" using lt by simp
  then show ?case using e snoc.IH [of bs'] snoc.prems(1) by (simp add: bs word_unat_eq_iff)
qed simp

end
