(* ===== verification/Smc_Error.thy ===== *)
theory Smc_Error
  imports Smc_Keys Session_Id
begin

text \<open>
  The error taxonomy of the SMC layer (\<open>SmcError\<close> in \<open>src/smc/ffi.rs\<close>) and its stable codes.
  Kernel return codes are the bit patterns of the signed 32-bit integers of the sources.
\<close>

type_synonym kern_return = u32

definition KERN_SUCCESS :: kern_return where "KERN_SUCCESS = 0"
definition K_IO_RETURN_NOT_PRIVILEGED :: kern_return where "K_IO_RETURN_NOT_PRIVILEGED = 0xE00002C1"
definition K_IO_RETURN_NOT_PERMITTED :: kern_return where "K_IO_RETURN_NOT_PERMITTED = 0xE00002C2"
definition K_IO_RETURN_NOT_FOUND :: kern_return where "K_IO_RETURN_NOT_FOUND = 0xE00002F0"
definition K_IO_RETURN_BUSY :: kern_return where "K_IO_RETURN_BUSY = 0xE0000229"
definition K_IO_RETURN_TIMEOUT :: kern_return where "K_IO_RETURN_TIMEOUT = 0xE0000306"
definition SMC_ERR_KEY_NOT_FOUND :: u8 where "SMC_ERR_KEY_NOT_FOUND = 0x84"
definition SMC_ERR_SYSTEM_MODE_REJECTS :: u8 where "SMC_ERR_SYSTEM_MODE_REJECTS = 0x82"
definition SMC_SELECTOR :: u32 where "SMC_SELECTOR = 2"

lemmas kern_consts = KERN_SUCCESS_def K_IO_RETURN_BUSY_def K_IO_RETURN_TIMEOUT_def
  K_IO_RETURN_NOT_PRIVILEGED_def K_IO_RETURN_NOT_PERMITTED_def K_IO_RETURN_NOT_FOUND_def

datatype smc_error =
    ServiceNotFound
  | OpenFailed kern_return
  | OpenTimeout
  | CallFailed u32 kern_return u8
  | SmcResult u8 u8
  | KeyNotFound u32
  | TypeMismatch u32 u32 u32
  | DataSizeClamped u32 u32
  | InvalidFloat u32
  | EmptyResponse u32
  | AlreadyClosed
  | Busy bool
  | Timeout bool
  | AttributeDenied u32
  | WriteDenied u32
  | SizeMismatch u32 u32 u32
  | EndiannessUnplausible u32 u32
  | UnlockMismatch u8 u8 session_id u64
  | UnlockRejected u8 session_id
  | WriteRefused u32 u8 string session_id u64
  | WriteReadbackMismatch u32 "u8 list" u8 "u8 list" u8 session_id u64 "u8 option"
  | WatchdogFired u64 session_id
  | ConflictDetected int string
  | EdrDenied "string option"
  | TccDenied
  | LockdownModeSuspected

fun error_code :: "smc_error \<Rightarrow> string" where
  "error_code ServiceNotFound = ''SERVICE_NOT_FOUND''"
| "error_code (OpenFailed _) = ''OPEN_FAILED''"
| "error_code OpenTimeout = ''OPEN_TIMEOUT''"
| "error_code (CallFailed _ _ _) = ''CALL_FAILED''"
| "error_code (SmcResult _ _) = ''SMC_RESULT''"
| "error_code (KeyNotFound _) = ''KEY_NOT_FOUND''"
| "error_code (TypeMismatch _ _ _) = ''TYPE_MISMATCH''"
| "error_code (DataSizeClamped _ _) = ''DATA_SIZE_CLAMPED''"
| "error_code (InvalidFloat _) = ''INVALID_FLOAT''"
| "error_code (EmptyResponse _) = ''EMPTY_RESPONSE''"
| "error_code AlreadyClosed = ''ALREADY_CLOSED''"
| "error_code (Busy _) = ''BUSY''"
| "error_code (Timeout _) = ''TIMEOUT''"
| "error_code (AttributeDenied _) = ''ATTRIBUTE_DENIED''"
| "error_code (WriteDenied _) = ''WRITE_DENIED''"
| "error_code (SizeMismatch _ _ _) = ''SIZE_MISMATCH''"
| "error_code (EndiannessUnplausible _ _) = ''ENDIANNESS_UNPLAUSIBLE''"
| "error_code (UnlockMismatch _ _ _ _) = ''UNLOCK_MISMATCH''"
| "error_code (UnlockRejected _ _) = ''UNLOCK_REJECTED''"
| "error_code (WriteRefused _ _ _ _ _) = ''WRITE_REFUSED''"
| "error_code (WriteReadbackMismatch _ _ _ _ _ _ _ _) = ''WRITE_READBACK_MISMATCH''"
| "error_code (WatchdogFired _ _) = ''WATCHDOG_FIRED''"
| "error_code (ConflictDetected _ _) = ''CONFLICT_DETECTED''"
| "error_code (EdrDenied _) = ''EDR_DENIED''"
| "error_code TccDenied = ''TCC_DENIED''"
| "error_code LockdownModeSuspected = ''LOCKDOWN_MODE_SUSPECTED''"

text \<open>\<open>kern_return_name\<close>.\<close>

definition kern_return_name :: "kern_return \<Rightarrow> string" where
  "kern_return_name kr =
    (if kr = KERN_SUCCESS then ''kIOReturnSuccess''
     else if kr = K_IO_RETURN_NOT_PRIVILEGED then ''kIOReturnNotPrivileged''
     else if kr = K_IO_RETURN_NOT_PERMITTED then ''kIOReturnNotPermitted''
     else if kr = K_IO_RETURN_NOT_FOUND then ''kIOReturnNotFound''
     else if kr = K_IO_RETURN_BUSY then ''kIOReturnBusy''
     else if kr = K_IO_RETURN_TIMEOUT then ''kIOReturnTimeout''
     else ''kIOReturn<unknown>'')"

section \<open>The code identifies the variant\<close>

text \<open>The position of the variant in the declaration.\<close>

fun variant :: "smc_error \<Rightarrow> nat" where
  "variant ServiceNotFound = 0"
| "variant (OpenFailed _) = 1"
| "variant OpenTimeout = 2"
| "variant (CallFailed _ _ _) = 3"
| "variant (SmcResult _ _) = 4"
| "variant (KeyNotFound _) = 5"
| "variant (TypeMismatch _ _ _) = 6"
| "variant (DataSizeClamped _ _) = 7"
| "variant (InvalidFloat _) = 8"
| "variant (EmptyResponse _) = 9"
| "variant AlreadyClosed = 10"
| "variant (Busy _) = 11"
| "variant (Timeout _) = 12"
| "variant (AttributeDenied _) = 13"
| "variant (WriteDenied _) = 14"
| "variant (SizeMismatch _ _ _) = 15"
| "variant (EndiannessUnplausible _ _) = 16"
| "variant (UnlockMismatch _ _ _ _) = 17"
| "variant (UnlockRejected _ _) = 18"
| "variant (WriteRefused _ _ _ _ _) = 19"
| "variant (WriteReadbackMismatch _ _ _ _ _ _ _ _) = 20"
| "variant (WatchdogFired _ _) = 21"
| "variant (ConflictDetected _ _) = 22"
| "variant (EdrDenied _) = 23"
| "variant TccDenied = 24"
| "variant LockdownModeSuspected = 25"

definition all_codes :: "string list" where
  "all_codes = [''SERVICE_NOT_FOUND'', ''OPEN_FAILED'', ''OPEN_TIMEOUT'', ''CALL_FAILED'', ''SMC_RESULT'',
     ''KEY_NOT_FOUND'', ''TYPE_MISMATCH'', ''DATA_SIZE_CLAMPED'', ''INVALID_FLOAT'', ''EMPTY_RESPONSE'',
     ''ALREADY_CLOSED'', ''BUSY'', ''TIMEOUT'', ''ATTRIBUTE_DENIED'', ''WRITE_DENIED'', ''SIZE_MISMATCH'',
     ''ENDIANNESS_UNPLAUSIBLE'', ''UNLOCK_MISMATCH'', ''UNLOCK_REJECTED'', ''WRITE_REFUSED'',
     ''WRITE_READBACK_MISMATCH'', ''WATCHDOG_FIRED'', ''CONFLICT_DETECTED'', ''EDR_DENIED'',
     ''TCC_DENIED'', ''LOCKDOWN_MODE_SUSPECTED'']"

lemma code_of_variant: "error_code e = all_codes ! variant e"
  by (cases e) (simp_all add: all_codes_def)

lemma variant_less: "variant e < length all_codes"
  by (cases e) (simp_all add: all_codes_def)

lemma distinct_codes: "distinct all_codes"
  by (simp add: all_codes_def)

lemma error_code_variant: "error_code e = error_code e' \<longleftrightarrow> variant e = variant e'"
  using variant_less [of e] variant_less [of e'] distinct_codes
  by (simp add: code_of_variant nth_eq_iff_index_eq)

end
