(* ===== verification/Struct_Layout.thy ===== *)
theory Struct_Layout
  imports Main
begin

text \<open>
  The placement of the fields of a \<open>repr(C)\<close> struct, as the sources pin it with \<open>size_of\<close>, \<open>align_of\<close>
  and \<open>offset_of\<close> in constant assertions. A field or a type is its size and its alignment.
\<close>

type_synonym layout = "nat \<times> nat"

definition align_up :: "nat \<Rightarrow> nat \<Rightarrow> nat" where
  "align_up n al = (n + (al - 1)) div al * al"

text \<open>Each field stands at the next offset its alignment allows.\<close>

fun place :: "nat \<Rightarrow> layout list \<Rightarrow> nat list \<times> nat" where
  "place off [] = ([], off)"
| "place off ((sz, al) # fs) = (let o1 = align_up off al; (os, end) = place (o1 + sz) fs in (o1 # os, end))"

definition offsets_of :: "layout list \<Rightarrow> nat list" where
  "offsets_of fs = fst (place 0 fs)"

definition struct_layout :: "layout list \<Rightarrow> layout" where
  "struct_layout fs = (let al = foldr (\<lambda>(_, a) m. max a m) fs 1 in (align_up (snd (place 0 fs)) al, al))"

definition bytes_field :: "nat \<Rightarrow> layout" where
  "bytes_field n = (n, 1)"

definition u32_field :: layout where
  "u32_field = (4, 4)"

definition u64_field :: layout where
  "u64_field = (8, 8)"

lemmas layout_simps = u32_field_def u64_field_def bytes_field_def struct_layout_def offsets_of_def align_up_def

text \<open>All padding is a field of its own, which is what \<open>bytemuck::Pod\<close> asks for.\<close>

definition no_implicit_padding :: "layout list \<Rightarrow> bool" where
  "no_implicit_padding fs \<longleftrightarrow> sum_list (map fst fs) = fst (struct_layout fs)"

text \<open>Placement moves forward only, to multiples of the alignment.\<close>

lemma align_up_ge: "0 < al \<Longrightarrow> n \<le> align_up n al"
proof -
  assume "0 < al"
  then have "n + (al - 1) < (n + (al - 1)) div al * al + al"
    using mod_less_divisor [of al "n + (al - 1)"] div_mult_mod_eq [of "n + (al - 1)" al] by linarith
  then show ?thesis using \<open>0 < al\<close> by (simp add: align_up_def)
qed

lemma align_up_dvd: "al dvd align_up n al"
  by (simp add: align_up_def)

lemma place_aligned:
  "list_all (\<lambda>(_, al). 0 < al) fs \<Longrightarrow> list_all2 (\<lambda>o1 f. snd f dvd o1 \<and> off \<le> o1) (fst (place off fs)) fs"
proof (induction off fs rule: place.induct)
  case (2 off sz al fs)
  have g: "off \<le> align_up off al" using 2(2) by (simp add: align_up_ge)
  have "list_all2 (\<lambda>o1 f. snd f dvd o1 \<and> align_up off al + sz \<le> o1) (fst (place (align_up off al + sz) fs)) fs"
    using 2 by simp
  then have "list_all2 (\<lambda>o1 f. snd f dvd o1 \<and> off \<le> o1) (fst (place (align_up off al + sz) fs)) fs"
    by (rule list_all2_mono) (use g in auto)
  then show ?case using g by (simp add: Let_def split_beta align_up_dvd)
qed simp

end
