(* ===== verification/Round_Trip.thy ===== *)
theory Round_Trip
  imports Smc_Error Struct_Layout
begin

text \<open>
  The bounded history of verified writes (\<open>src/smc/round_trip.rs\<close>): a ring of 256 records with a
  saturating count. It refines the list of all pushes: \<open>recent\<close> is a suffix of it.
\<close>

datatype round_trip_outcome = Match | WriteFailed | ReadbackFailed | Mismatch

record round_trip_record =
  rt_timestamp_ns :: u64
  rt_fourcc :: u32
  written_bytes :: "u8 list"
  readback_bytes :: "u8 list"
  written_len :: u8
  readback_len :: u8
  outcome :: round_trip_outcome

text \<open>The fields with \<open>_pad\<close>, and the assertion on their size.\<close>

definition record_fields :: "layout list" where
  "record_fields = [u64_field, u32_field, bytes_field 4, bytes_field 4, bytes_field 1, bytes_field 1,
     bytes_field 1, bytes_field 1]"

definition record_asserts :: bool where
  "record_asserts \<longleftrightarrow> fst (struct_layout record_fields) = 24"

lemma record_asserted: "record_asserts" "no_implicit_padding record_fields"
  by (simp_all add: record_asserts_def no_implicit_padding_def record_fields_def layout_simps)

text \<open>Copying at most four bytes into a zeroed array of four.\<close>

definition fit4 :: "u8 list \<Rightarrow> u8 list" where
  "fit4 bs = take 4 bs @ replicate (4 - min (length bs) 4) 0"

definition record_new ::
  "u64 \<Rightarrow> u32 \<Rightarrow> u8 list \<Rightarrow> u8 list \<Rightarrow> round_trip_outcome \<Rightarrow> round_trip_record" where
  "record_new ts key written readback out =
     \<lparr> rt_timestamp_ns = ts, rt_fourcc = key, written_bytes = fit4 written, readback_bytes = fit4 readback,
       written_len = word_of_nat (min (length written) 4),
       readback_len = word_of_nat (min (length readback) 4), outcome = out \<rparr>"

definition record_match :: "u64 \<Rightarrow> u32 \<Rightarrow> u8 list \<Rightarrow> u8 list \<Rightarrow> round_trip_record" where
  "record_match ts key written readback = record_new ts key written readback Match"

record ring =
  ring_session :: session_id
  records :: "round_trip_record list"
  ring_next :: nat
  ring_count :: u64

definition empty_record :: round_trip_record where
  "empty_record = \<lparr> rt_timestamp_ns = 0, rt_fourcc = 0, written_bytes = [0, 0, 0, 0],
     readback_bytes = [0, 0, 0, 0], written_len = 0, readback_len = 0, outcome = Match \<rparr>"

definition ring_new :: "session_id \<Rightarrow> ring" where
  "ring_new sid = \<lparr> ring_session = sid, records = replicate 256 empty_record, ring_next = 0, ring_count = 0 \<rparr>"

definition ring_push :: "ring \<Rightarrow> round_trip_record \<Rightarrow> ring" where
  "ring_push r rec = r\<lparr> records := (records r)[ring_next r := rec],
     ring_next := (ring_next r + 1) mod 256, ring_count := sat_add (ring_count r) 1 \<rparr>"

text \<open>The records that \<open>recent(n)\<close> yields, oldest first.\<close>

definition recent :: "ring \<Rightarrow> nat \<Rightarrow> round_trip_record list" where
  "recent r n = (let available = min (unat (ring_count r)) 256; cnt = min n available;
       start = (ring_next r + 256 - cnt) mod 256 in
     map (\<lambda>i. records r ! ((start + i) mod 256)) [0..<cnt])"

text \<open>What the drain prints of each record: the meaningful bytes.\<close>

definition drain_line :: "round_trip_record \<Rightarrow> u64 \<times> u32 \<times> u8 list \<times> u8 list \<times> round_trip_outcome" where
  "drain_line rec = (rt_timestamp_ns rec, rt_fourcc rec,
     take (min (unat (written_len rec)) 4) (written_bytes rec),
     take (min (unat (readback_len rec)) 4) (readback_bytes rec), outcome rec)"

definition drain :: "ring \<Rightarrow> (u64 \<times> u32 \<times> u8 list \<times> u8 list \<times> round_trip_outcome) list" where
  "drain r = map drain_line (recent r 256)"

section \<open>Refinement of the list of pushes\<close>

fun pushes :: "ring \<Rightarrow> round_trip_record list \<Rightarrow> ring" where
  "pushes r [] = r"
| "pushes r (x # xs) = pushes (ring_push r x) xs"

lemma pushes_snoc: "pushes r (xs @ [x]) = ring_push (pushes r xs) x"
  by (induction r xs rule: pushes.induct) auto

text \<open>The abstraction: the ring holds the last 256 of the records pushed so far.\<close>

definition ring_abs :: "ring \<Rightarrow> round_trip_record list \<Rightarrow> bool" where
  "ring_abs r xs \<longleftrightarrow> length (records r) = 256 \<and> ring_next r = length xs mod 256
     \<and> unat (ring_count r) = min (length xs) (2 ^ 64 - 1)
     \<and> (\<forall>k < length xs. length xs \<le> k + 256 \<longrightarrow> records r ! (k mod 256) = xs ! k)"

lemma ring_abs_new: "ring_abs (ring_new sid) []"
  by (simp add: ring_abs_def ring_new_def)

lemma mod_eq_near: "a mod 256 = b mod 256 \<Longrightarrow> b \<le> a \<Longrightarrow> a < b + 256 \<Longrightarrow> a = (b::nat)"
  by (metis add_diff_inverse_nat dvd_imp_le less_diff_conv2 linorder_not_less mod_eq_dvd_iff_nat nat_add_left_cancel_less
      not_less_iff_gr_or_eq zero_less_diff)

lemma ring_abs_push:
  assumes "ring_abs r xs"
  shows "ring_abs (ring_push r x) (xs @ [x])"
proof -
  have "records (ring_push r x) ! (k mod 256) = (xs @ [x]) ! k"
    if k: "k < length (xs @ [x])" "length (xs @ [x]) \<le> k + 256" for k
  proof (cases "k = length xs")
    case True
    then show ?thesis using assms by (simp add: ring_abs_def ring_push_def)
  next
    case False
    then have lt: "k < length xs" "length xs < k + 256" using k by simp_all
    then have "length xs mod 256 \<noteq> k mod 256" using mod_eq_near [of "length xs" k] by auto
    then show ?thesis using assms lt by (simp add: ring_abs_def ring_push_def nth_append)
  qed
  then show ?thesis using assms by (auto simp: ring_abs_def ring_push_def unat_sat_add mod_simps min_def)
qed

lemma ring_abs_pushes: "ring_abs (pushes (ring_new sid) xs) xs"
proof (induction xs rule: rev_induct)
  case (snoc x xs)
  then show ?case by (simp add: pushes_snoc ring_abs_push)
qed (simp add: ring_abs_new)

lemma recent_abs:
  assumes "ring_abs r xs"
  shows "recent r n = drop (length xs - min n 256) xs"
proof -
  define c where "c = min n (min (unat (ring_count r)) 256)"
  have u: "unat (ring_count r) = min (length xs) (2 ^ 64 - 1)" using assms by (simp add: ring_abs_def)
  then have c: "c = min n (min (length xs) 256)" by (auto simp: c_def)
  define d where "d = length xs - c"
  have cl: "c \<le> length xs" "c \<le> 256" "d + c = length xs" by (auto simp: c d_def)
  have start: "(ring_next r + 256 - c) mod 256 = d mod 256"
  proof -
    have "(length xs mod 256 + 256 - c) mod 256 = (length xs mod 256 + (256 - c)) mod 256" using cl by simp
    also have "\<dots> = (length xs + (256 - c)) mod 256" by (simp add: mod_simps)
    also have "length xs + (256 - c) = d + 256" using cl by simp
    finally show ?thesis using assms by (simp add: ring_abs_def)
  qed
  have "recent r n = map (\<lambda>i. records r ! ((d mod 256 + i) mod 256)) [0..<c]"
    by (simp only: recent_def Let_def c_def [symmetric] start)
  also have "\<dots> = map (\<lambda>i. xs ! (d + i)) [0..<c]"
  proof (rule map_cong [OF refl])
    fix i
    assume "i \<in> set [0..<c]"
    then have i: "i < c" by simp
    then have "records r ! ((d + i) mod 256) = xs ! (d + i)"
      using assms cl by (auto simp: ring_abs_def)
    then show "records r ! ((d mod 256 + i) mod 256) = xs ! (d + i)" by (simp add: mod_simps)
  qed
  also have "\<dots> = drop d xs"
    using cl by (intro nth_equalityI) auto
  finally show ?thesis using c by (simp add: d_def min_def)
qed

lemma fit4_length [simp]: "length (fit4 bs) = 4"
  by (simp add: fit4_def)

lemma drain_line_new:
  "length w \<le> 4 \<Longrightarrow> length rb \<le> 4 \<Longrightarrow> drain_line (record_new ts key w rb out) = (ts, key, w, rb, out)"
proof -
  assume l: "length w \<le> 4" "length rb \<le> 4"
  have u: "unat (word_of_nat (length bs) :: u8) = length bs" if "length bs \<le> 4" for bs :: "u8 list"
    using that by (simp add: unat_of_nat take_bit_eq_mod)
  have "take (length bs) (fit4 bs) = bs" if "length bs \<le> 4" for bs
    using that by (simp add: fit4_def)
  then show ?thesis using l by (simp add: drain_line_def record_new_def min_absorb1 u)
qed

end
