(* ===== verification/Result_State.thy ===== *)
theory Result_State
  imports Fand_Prelude
begin

text \<open>
  Fallible operations on a state: \<open>'s \<Rightarrow> ('e, 'a) result \<times> 's\<close>. The state reached so far is
  kept when an error is returned, as in the sources, where \<open>?\<close> leaves the mutated objects behind.
\<close>

type_synonym ('s, 'e, 'a) op = "'s \<Rightarrow> ('e, 'a) result \<times> 's"

definition ret :: "'a \<Rightarrow> ('s, 'e, 'a) op" where
  "ret a s = (Inr a, s)"

definition throw :: "'e \<Rightarrow> ('s, 'e, 'a) op" where
  "throw e s = (Inl e, s)"

definition bindE :: "('s, 'e, 'a) op \<Rightarrow> ('a \<Rightarrow> ('s, 'e, 'b) op) \<Rightarrow> ('s, 'e, 'b) op" where
  "bindE m f s = (case m s of (Inl e, s') \<Rightarrow> (Inl e, s') | (Inr a, s') \<Rightarrow> f a s')"

text \<open>A \<open>match\<close> on the error.\<close>

definition catchE :: "('s, 'e, 'a) op \<Rightarrow> ('e \<Rightarrow> ('s, 'e, 'a) op) \<Rightarrow> ('s, 'e, 'a) op" where
  "catchE m h s = (case m s of (Inl e, s') \<Rightarrow> h e s' | (Inr a, s') \<Rightarrow> (Inr a, s'))"

text \<open>A \<open>for\<close> loop that pushes one result per element and leaves at the first error.\<close>

fun eachE :: "('a \<Rightarrow> ('s, 'e, 'b) op) \<Rightarrow> 'a list \<Rightarrow> ('s, 'e, 'b list) op" where
  "eachE f [] = ret []"
| "eachE f (x # xs) = bindE (f x) (\<lambda>y. bindE (eachE f xs) (\<lambda>ys. ret (y # ys)))"

text \<open>\<open>let _ = op\<close>: the result is dropped.\<close>

definition ignore :: "('s, 'e, 'a) op \<Rightarrow> 's \<Rightarrow> 's" where
  "ignore m s = snd (m s)"

lemmas op_defs = ret_def throw_def bindE_def catchE_def ignore_def

lemma bind_ret [simp]: "bindE (ret a) f = f a"
  by (rule ext) (simp add: op_defs)

section \<open>Invariants of operations\<close>

text \<open>\<open>keeps I m\<close>: the operation keeps the invariant, whether it succeeds or fails.\<close>

definition keeps :: "('s \<Rightarrow> bool) \<Rightarrow> ('s, 'e, 'a) op \<Rightarrow> bool" where
  "keeps I m \<longleftrightarrow> (\<forall>s. I s \<longrightarrow> I (snd (m s)))"

lemma keepsD: "keeps I m \<Longrightarrow> I s \<Longrightarrow> I (snd (m s))"
  by (simp add: keeps_def)

lemma keeps_ret [intro, simp]: "keeps I (ret a)"
  by (simp add: keeps_def ret_def)

lemma keeps_throw [intro, simp]: "keeps I (throw e)"
  by (simp add: keeps_def throw_def)

lemma keeps_bind [intro]: "keeps I m \<Longrightarrow> (\<And>a. keeps I (f a)) \<Longrightarrow> keeps I (bindE m f)"
  unfolding keeps_def bindE_def by (auto split: prod.split sum.split)

lemma keeps_catch [intro]: "keeps I m \<Longrightarrow> (\<And>e. keeps I (h e)) \<Longrightarrow> keeps I (catchE m h)"
  unfolding keeps_def catchE_def by (auto split: prod.split sum.split)

lemma keeps_if [intro]: "(b \<Longrightarrow> keeps I m) \<Longrightarrow> (\<not> b \<Longrightarrow> keeps I n) \<Longrightarrow> keeps I (if b then m else n)"
  by simp

lemma keeps_ignore: "keeps I m \<Longrightarrow> I s \<Longrightarrow> I (ignore m s)"
  by (simp add: keeps_def ignore_def)

lemma keeps_each: "(\<And>x. x \<in> set xs \<Longrightarrow> keeps I (f x)) \<Longrightarrow> keeps I (eachE f xs)"
  by (induction xs) (auto intro!: keeps_bind)

section \<open>Total correctness\<close>

text \<open>\<open>does P m a Q\<close>: from every state in \<open>P\<close> the operation succeeds with \<open>a\<close> in a state in \<open>Q\<close>.\<close>

definition does :: "('s \<Rightarrow> bool) \<Rightarrow> ('s, 'e, 'a) op \<Rightarrow> 'a \<Rightarrow> ('s \<Rightarrow> bool) \<Rightarrow> bool" where
  "does P m a Q \<longleftrightarrow> (\<forall>s. P s \<longrightarrow> (\<exists>s'. m s = (Inr a, s') \<and> Q s'))"

lemma doesD: "does P m a Q \<Longrightarrow> P s \<Longrightarrow> \<exists>s'. m s = (Inr a, s') \<and> Q s'"
  by (simp add: does_def)

lemma does_ret: "does P (ret a) a P"
  by (simp add: does_def ret_def)

lemma does_bind: "does P m a Q \<Longrightarrow> does Q (f a) b R \<Longrightarrow> does P (bindE m f) b R"
  unfolding does_def bindE_def by fastforce

lemma does_catch: "does P m a Q \<Longrightarrow> does P (catchE m h) a Q"
  unfolding does_def catchE_def by fastforce

lemma does_each: "(\<And>x. x \<in> set xs \<Longrightarrow> does P (f x) (g x) P) \<Longrightarrow> does P (eachE f xs) (map g xs) P"
proof (induction xs)
  case (Cons x xs)
  have 1: "does P (f x) (g x) P" "does P (eachE f xs) (map g xs) P" using Cons by auto
  show ?case using does_bind [OF 1(1) does_bind [OF 1(2) does_ret]] by simp
qed (simp add: does_ret)

end
