(* ===== verification/Smc_Conn.thy ===== *)
theory Smc_Conn
  imports Smc_Types Key_Cache Round_Trip Result_State
begin

text \<open>
  The connection to the SMC (\<open>SmcConnection\<close> in \<open>src/smc/ffi.rs\<close>): opening and closing, the
  struct call with its retries, key info with the cache, typed reads, whitelisted writes and the
  writes verified by reading back. The kernel side (IOKit, Mach ports, clocks, entropy) is the record
  \<open>platform\<close>, an argument of every operation: functions on the state \<open>'d\<close> of the outside world.
\<close>

section \<open>Data\<close>

record key_info_data =
  kid_data_size :: u32
  kid_data_type :: u32
  kid_data_attributes :: u8

record smc_param =
  p_key :: u32
  p_vers :: "u8 list"
  p_limit_data :: "u8 list"
  p_key_info :: key_info_data
  p_result :: u8
  p_status :: u8
  p_data8 :: u8
  p_data32 :: u32
  p_bytes :: "u8 list"

definition zeroed :: smc_param where
  "zeroed = \<lparr> p_key = 0, p_vers = replicate 6 0, p_limit_data = replicate 16 0,
     p_key_info = \<lparr> kid_data_size = 0, kid_data_type = 0, kid_data_attributes = 0 \<rparr>,
     p_result = 0, p_status = 0, p_data8 = 0, p_data32 = 0, p_bytes = replicate 32 0 \<rparr>"

record key_info =
  ki_size :: u32
  ki_type :: u32

record smc_connection =
  conn_port :: u32
  key_cache :: key_cache
  connection_open :: bool
  port_guard :: u64

record 'd platform =
  io_call :: "u32 \<Rightarrow> u32 \<Rightarrow> smc_param \<Rightarrow> 'd \<Rightarrow> kern_return \<times> smc_param \<times> 'd"
  io_sleep_ms :: "nat \<Rightarrow> 'd \<Rightarrow> 'd"
  io_wall_ns :: "'d \<Rightarrow> u64"
  io_now_ms :: "'d \<Rightarrow> nat"
  io_matching :: "'d \<Rightarrow> bool \<times> 'd"
  io_get_service :: "'d \<Rightarrow> u32 \<times> 'd"
  io_conforms :: "u32 \<Rightarrow> 'd \<Rightarrow> bool"
  io_service_open :: "u32 \<Rightarrow> 'd \<Rightarrow> kern_return \<times> u32 \<times> 'd"
  io_service_close :: "u32 \<Rightarrow> 'd \<Rightarrow> 'd"
  io_object_release :: "u32 \<Rightarrow> 'd \<Rightarrow> 'd"
  io_entropy :: "nat \<Rightarrow> 'd \<Rightarrow> u8 list \<times> 'd"
  io_port_guard :: "u32 \<Rightarrow> u64 \<Rightarrow> 'd \<Rightarrow> kern_return \<times> 'd"
  io_port_unguard :: "u32 \<Rightarrow> u64 \<Rightarrow> 'd \<Rightarrow> 'd"

type_synonym 'd smc = "smc_connection \<times> 'd"
type_synonym ('d, 'a) smc_op = "('d smc, smc_error, 'a) op"

section \<open>Opening and closing\<close>

text \<open>\<open>u64::from_ne_bytes\<close> on a little-endian machine.\<close>

definition u64_of_bytes :: "u8 list \<Rightarrow> u64" where
  "u64_of_bytes bs = foldr (\<lambda>b w. push_bit 8 w OR ucast b) bs 0"

text \<open>
  \<open>deadline\<close> is 500 ms after the start; each check reads the clock at that point. The service object
  is released on every path once it is held.
\<close>

definition smc_open :: "'d platform \<Rightarrow> 'd \<Rightarrow> (smc_error, smc_connection) result \<times> 'd" where
  "smc_open io d0 =
    (let deadline = io_now_ms io d0 + 500; (null, d1) = io_matching io d0 in
     if null then (Inl ServiceNotFound, d1)
     else let (service, d2) = io_get_service io d1 in
     if service = 0 then (Inl ServiceNotFound, d2)
     else if deadline \<le> io_now_ms io d2 then (Inl OpenTimeout, io_object_release io service d2)
     else if \<not> io_conforms io service d2 then (Inl ServiceNotFound, io_object_release io service d2)
     else let (kr, conn, d3) = io_service_open io service d2; d4 = io_object_release io service d3 in
     if kr \<noteq> KERN_SUCCESS then (Inl (OpenFailed kr), d4)
     else if deadline \<le> io_now_ms io d4 then (Inl OpenTimeout, io_service_close io conn d4)
     else let (entropy, d5) = io_entropy io 8 d4; port_guard = u64_of_bytes entropy;
              (guard_kr, d6) = io_port_guard io conn port_guard d5;
              effective_guard = (if guard_kr = KERN_SUCCESS then port_guard else 0) in
       (Inr \<lparr> conn_port = conn, key_cache = cache_new, connection_open = True,
              port_guard = effective_guard \<rparr>, d6))"

text \<open>The port in its atomic cell: reading it, and swapping it with the null port.\<close>

definition io_connect_raw :: "smc_connection \<Rightarrow> u32" where
  [simp]: "io_connect_raw c = conn_port c"

definition io_connect_take :: "smc_connection \<Rightarrow> u32 \<times> smc_connection" where
  [simp]: "io_connect_take c = (conn_port c, c\<lparr> conn_port := 0 \<rparr>)"

definition is_open :: "smc_connection \<Rightarrow> bool" where
  [simp]: "is_open c = connection_open c"

text \<open>The compare-exchange on \<open>connection_open\<close>: only the first close does anything.\<close>

definition smc_close :: "'d platform \<Rightarrow> 'd smc \<Rightarrow> 'd smc" where
  "smc_close io s = (case s of (c, d) \<Rightarrow>
     if \<not> connection_open c then (c, d)
     else let (raw_conn, c2) = io_connect_take (c\<lparr> connection_open := False \<rparr>) in
       if raw_conn = 0 then (c2, d)
       else let d1 = (if port_guard c2 \<noteq> 0 then io_port_unguard io raw_conn (port_guard c2) d else d) in
         (c2, io_service_close io raw_conn d1))"

section \<open>The struct call\<close>

text \<open>One retry each for a busy and for a timed-out call.\<close>

function call_loop ::
  "'d platform \<Rightarrow> u32 \<Rightarrow> u8 \<Rightarrow> smc_param \<Rightarrow> bool \<Rightarrow> bool \<Rightarrow> 'd \<Rightarrow> (smc_error, smc_param) result \<times> 'd" where
  "call_loop io port cmd input retried_busy retried_timeout d =
    (let (kr, out, d1) = io_call io port SMC_SELECTOR input d in
     if kr = K_IO_RETURN_BUSY \<and> \<not> retried_busy
       then call_loop io port cmd input True retried_timeout (io_sleep_ms io 10 d1)
     else if kr = K_IO_RETURN_TIMEOUT \<and> \<not> retried_timeout
       then call_loop io port cmd input retried_busy True (io_sleep_ms io 50 d1)
     else if kr = K_IO_RETURN_BUSY then (Inl (Busy True), d1)
     else if kr = K_IO_RETURN_TIMEOUT then (Inl (Timeout True), d1)
     else if kr \<noteq> KERN_SUCCESS then (Inl (CallFailed SMC_SELECTOR kr cmd), d1)
     else if p_result out \<noteq> 0 then (Inl (SmcResult cmd (p_result out)), d1)
     else (Inr out, d1))"
  by pat_completeness auto

termination call_loop
  by (relation "measure (\<lambda>(_, _, _, _, b, t, _). (if b then 0 else 1) + (if t then 0 else 1))") auto

declare call_loop.simps [simp del]

definition call_struct :: "'d platform \<Rightarrow> u8 \<Rightarrow> smc_param \<Rightarrow> ('d, smc_param) smc_op" where
  "call_struct io cmd input s = (case s of (c, d) \<Rightarrow>
     if \<not> is_open c then (Inl AlreadyClosed, s)
     else let input1 = input\<lparr> p_data8 := cmd \<rparr>; port = io_connect_raw c in
       if port = 0 then (Inl AlreadyClosed, s)
       else let (r, d1) = call_loop io port cmd input1 False False d in (r, (c, d1)))"

section \<open>Key info and reads\<close>

definition with_cache :: "(key_cache \<Rightarrow> key_cache) \<Rightarrow> ('d, unit) smc_op" where
  "with_cache f s = (case s of (c, d) \<Rightarrow> (Inr (), (c\<lparr> key_cache := f (key_cache c) \<rparr>, d)))"

text \<open>The error arm of the info and read calls: an absent key drops its cache slot.\<close>

definition not_found_arm :: "u32 \<Rightarrow> smc_error \<Rightarrow> ('d, 'a) smc_op" where
  "not_found_arm k e = (case e of
     SmcResult _ b \<Rightarrow> (if b = SMC_ERR_KEY_NOT_FOUND
       then bindE (with_cache (\<lambda>c. cache_invalidate c k)) (\<lambda>_. throw (KeyNotFound k)) else throw e)
   | _ \<Rightarrow> throw e)"

definition read_key_info :: "'d platform \<Rightarrow> u32 \<Rightarrow> ('d, key_info) smc_op" where
  "read_key_info io k s = (case cache_get (key_cache (fst s)) k of
     Some (sz, ty) \<Rightarrow> (Inr \<lparr> ki_size = sz, ki_type = ty \<rparr>, s)
   | None \<Rightarrow>
     bindE (catchE (call_struct io SMC_CMD_GET_KEY_INFO (zeroed\<lparr> p_key := k \<rparr>)) (not_found_arm k)) (\<lambda>out.
       let clamped_size = min (kid_data_size (p_key_info out)) 32; ty = kid_data_type (p_key_info out) in
       if clamped_size = 0 \<and> ty = 0 then throw (EmptyResponse k)
       else bindE (with_cache (\<lambda>c. cache_put c k clamped_size ty)) (\<lambda>_.
         ret \<lparr> ki_size = clamped_size, ki_type = ty \<rparr>)) s)"

text \<open>The key info of an input structure.\<close>

definition with_info :: "smc_param \<Rightarrow> key_info \<Rightarrow> smc_param" where
  "with_info p ki = p\<lparr> p_key_info := (p_key_info p)\<lparr> kid_data_size := ki_size ki, kid_data_type := ki_type ki \<rparr> \<rparr>"

definition read_key :: "'d platform \<Rightarrow> u32 \<Rightarrow> ('d, key_info \<times> u8 list) smc_op" where
  "read_key io k = bindE (read_key_info io k) (\<lambda>ki.
     bindE (catchE (call_struct io SMC_CMD_READ_KEY (with_info (zeroed\<lparr> p_key := k \<rparr>) ki)) (not_found_arm k))
       (\<lambda>out. ret (ki, p_bytes out)))"

definition read_u8 :: "'d platform \<Rightarrow> u32 \<Rightarrow> ('d, u8) smc_op" where
  "read_u8 io k = bindE (read_key io k) (\<lambda>(ki, bs).
     if ki_type ki \<noteq> TYPE_UI8 then throw (TypeMismatch k TYPE_UI8 (ki_type ki))
     else case decode_ui8 bs (ki_size ki) of Inr v \<Rightarrow> ret v
       | Inl _ \<Rightarrow> throw (TypeMismatch k TYPE_UI8 (ki_type ki)))"

definition read_u32 :: "'d platform \<Rightarrow> u32 \<Rightarrow> ('d, u32) smc_op" where
  "read_u32 io k = bindE (read_key io k) (\<lambda>(ki, bs).
     if ki_type ki \<noteq> TYPE_UI32 then throw (TypeMismatch k TYPE_UI32 (ki_type ki))
     else case decode_ui32 bs (ki_size ki) of Inr v \<Rightarrow> ret v
       | Inl _ \<Rightarrow> throw (TypeMismatch k TYPE_UI32 (ki_type ki)))"

definition read_f32 :: "'d platform \<Rightarrow> u32 \<Rightarrow> ('d, f32) smc_op" where
  "read_f32 io k = bindE (read_key io k) (\<lambda>(ki, bs).
     if ki_type ki \<noteq> TYPE_FLT then throw (TypeMismatch k TYPE_FLT (ki_type ki))
     else case decode_flt bs (ki_size ki) of Inr v \<Rightarrow> ret v
       | Inl ValInvalidFloat \<Rightarrow> throw (InvalidFloat k)
       | Inl _ \<Rightarrow> throw (TypeMismatch k TYPE_FLT (ki_type ki)))"

definition read_key_at_index :: "'d platform \<Rightarrow> u32 \<Rightarrow> ('d, u32) smc_op" where
  "read_key_at_index io index = bindE (call_struct io SMC_CMD_GET_KEY_FROM_IDX (zeroed\<lparr> p_data32 := index \<rparr>))
     (\<lambda>out. ret (p_key out))"

definition read_key_info_full :: "'d platform \<Rightarrow> u32 \<Rightarrow> ('d, key_info \<times> u8) smc_op" where
  "read_key_info_full io k =
     bindE (catchE (call_struct io SMC_CMD_GET_KEY_INFO (zeroed\<lparr> p_key := k \<rparr>)) (not_found_arm k)) (\<lambda>out.
       let clamped_size = min (kid_data_size (p_key_info out)) 32; ty = kid_data_type (p_key_info out);
           attrs = kid_data_attributes (p_key_info out) in
       if clamped_size = 0 \<and> ty = 0 then throw (EmptyResponse k)
       else bindE (with_cache (\<lambda>c. cache_put c k clamped_size ty)) (\<lambda>_.
         ret (\<lparr> ki_size = clamped_size, ki_type = ty \<rparr>, attrs)))"

section \<open>Writes\<close>

definition write_param :: "u32 \<Rightarrow> key_info \<Rightarrow> u8 list \<Rightarrow> smc_param" where
  "write_param k ki bs = (with_info (zeroed\<lparr> p_key := k \<rparr>) ki)
     \<lparr> p_bytes := bs @ drop (length bs) (p_bytes zeroed) \<rparr>"

text \<open>The common body of \<open>write_key\<close> and \<open>write_raw_for_research\<close>.\<close>

definition write_bytes :: "'d platform \<Rightarrow> u32 \<Rightarrow> u8 list \<Rightarrow> ('d, unit) smc_op" where
  "write_bytes io k bs = bindE (read_key_info io k) (\<lambda>ki.
     if length bs \<noteq> unat (ki_size ki) then throw (SizeMismatch k (ki_size ki) (word_of_nat (length bs)))
     else if 32 < ki_size ki then throw (SizeMismatch k 32 (ki_size ki))
     else bindE (call_struct io SMC_CMD_WRITE_KEY (write_param k ki bs)) (\<lambda>_. ret ()))"

definition write_key :: "'d platform \<Rightarrow> writable_key \<Rightarrow> u8 list \<Rightarrow> ('d, unit) smc_op" where
  "write_key io key bs = write_bytes io (key_fourcc key) bs"

definition write_u8 :: "'d platform \<Rightarrow> writable_key \<Rightarrow> u8 \<Rightarrow> ('d, unit) smc_op" where
  "write_u8 io key v = (if key_data_type key \<noteq> TYPE_UI8
     then throw (TypeMismatch (key_fourcc key) TYPE_UI8 (key_data_type key))
     else write_key io key [v])"

definition write_f32 :: "'d platform \<Rightarrow> writable_key \<Rightarrow> f32 \<Rightarrow> ('d, unit) smc_op" where
  "write_f32 io key v = (if key_data_type key \<noteq> TYPE_FLT
     then throw (TypeMismatch (key_fourcc key) TYPE_FLT (key_data_type key))
     else case encode_flt v of Inl _ \<Rightarrow> throw (InvalidFloat (key_fourcc key))
       | Inr bs \<Rightarrow> write_key io key bs)"

definition probe_write_ftst_zero :: "'d platform \<Rightarrow> ('d, unit) smc_op" where
  "probe_write_ftst_zero io = write_u8 io FtstKey 0"

definition write_raw_for_research :: "'d platform \<Rightarrow> u32 \<Rightarrow> u8 list \<Rightarrow> ('d, unit) smc_op" where
  "write_raw_for_research io k bs = write_bytes io k bs"

definition force_write_auto_mode :: "'d platform \<Rightarrow> u8 \<Rightarrow> ('d, unit) smc_op" where
  "force_write_auto_mode io fan_idx = write_u8 io (FanMode fan_idx) 0"

definition force_write_ftst_zero :: "'d platform \<Rightarrow> ('d, unit) smc_op" where
  "force_write_ftst_zero io = write_u8 io FtstKey 0"

section \<open>Verified writes\<close>

text \<open>The state of a verified write also holds the ring.\<close>

type_synonym ('d, 'a) ring_op = "(ring \<times> 'd smc, smc_error, 'a) op"

definition refused :: "u32 \<Rightarrow> string \<Rightarrow> session_id \<Rightarrow> u64 \<Rightarrow> smc_error \<Rightarrow> smc_error" where
  "refused k ctx sid ts e = (case e of SmcResult _ b \<Rightarrow> WriteRefused k b ctx sid ts | _ \<Rightarrow> e)"

definition write_u8_verified ::
  "'d platform \<Rightarrow> writable_key \<Rightarrow> u8 \<Rightarrow> string \<Rightarrow> session_id \<Rightarrow> ('d, unit) ring_op" where
  "write_u8_verified io key v ctx sid rs = (case rs of (r, s) \<Rightarrow>
    let k = key_fourcc key; ts = io_wall_ns io (snd s) in
    case write_u8 io key v s of
      (Inl e, s1) \<Rightarrow> (Inl (refused k ctx sid ts e), (ring_push r (record_new ts k [v] [] WriteFailed), s1))
    | (Inr _, s1) \<Rightarrow> (case read_u8 io k s1 of
        (Inl e, s2) \<Rightarrow> (Inl e, (ring_push r (record_new ts k [v] [] ReadbackFailed), s2))
      | (Inr rb, s2) \<Rightarrow>
          if rb \<noteq> v
          then (Inl (WriteReadbackMismatch k [v, 0, 0, 0] 1 [rb, 0, 0, 0] 1 sid ts None),
                (ring_push r (record_new ts k [v] [rb] Mismatch), s2))
          else (Inr (), (ring_push r (record_match ts k [v] [rb]), s2))))"

definition write_f32_verified ::
  "'d platform \<Rightarrow> writable_key \<Rightarrow> f32 \<Rightarrow> string \<Rightarrow> session_id \<Rightarrow> ('d, unit) ring_op" where
  "write_f32_verified io key v ctx sid rs = (case rs of (r, s) \<Rightarrow>
    let k = key_fourcc key; ts = io_wall_ns io (snd s) in
    case encode_flt v of Inl _ \<Rightarrow> (Inl (InvalidFloat k), rs)
    | Inr expected \<Rightarrow> (case write_f32 io key v s of
      (Inl e, s1) \<Rightarrow> (Inl (refused k ctx sid ts e), (ring_push r (record_new ts k expected [] WriteFailed), s1))
    | (Inr _, s1) \<Rightarrow> (case read_f32 io k s1 of
        (Inl e, s2) \<Rightarrow> (Inl e, (ring_push r (record_new ts k expected [] ReadbackFailed), s2))
      | (Inr rb, s2) \<Rightarrow> let got = f32_to_le rb in
          if got \<noteq> expected
          then (Inl (WriteReadbackMismatch k expected 4 got 4 sid ts None),
                (ring_push r (record_new ts k expected got Mismatch), s2))
          else (Inr (), (ring_push r (record_match ts k expected got), s2)))))"

section \<open>What a verified write leaves behind\<close>

definition is_readback_mismatch :: "smc_error \<Rightarrow> bool" where
  "is_readback_mismatch e = (case e of WriteReadbackMismatch _ _ _ _ _ _ _ _ \<Rightarrow> True | _ \<Rightarrow> False)"

text \<open>Exactly one record, whose outcome says what happened; success only after reading the value back.\<close>

lemma write_u8_verified_record:
  assumes "write_u8_verified io key v ctx sid (r, s) = (res, (r', s'))"
  shows "\<exists>rec. r' = ring_push r rec \<and> rt_fourcc rec = key_fourcc key \<and> written_bytes rec = [v, 0, 0, 0]
    \<and> (res = Inr () \<longleftrightarrow> outcome rec = Match)
    \<and> (outcome rec = Mismatch \<longrightarrow> (\<exists>e. res = Inl e \<and> is_readback_mismatch e))
    \<and> (res = Inr () \<longrightarrow> (\<exists>s1. write_u8 io key v s = (Inr (), s1) \<and> read_u8 io (key_fourcc key) s1 = (Inr v, s')))"
  using assms
  by (auto simp: write_u8_verified_def Let_def record_new_def record_match_def fit4_def is_readback_mismatch_def
      numeral_eq_Suc split: prod.splits sum.splits if_splits)

lemma f32_to_le_inject: "f32_to_le a = f32_to_le b \<longleftrightarrow> a = b"
  by (metis f32_le_roundtrip)

lemma fit4_le: "fit4 (f32_to_le v) = f32_to_le v"
  by (simp add: fit4_def)

lemma write_f32_verified_record:
  assumes w: "write_f32_verified io key v ctx sid (r, s) = (res, (r', s'))" and v: "is_finite v"
  shows "\<exists>rec. r' = ring_push r rec \<and> rt_fourcc rec = key_fourcc key \<and> written_bytes rec = f32_to_le v
    \<and> (res = Inr () \<longleftrightarrow> outcome rec = Match)
    \<and> (res = Inr () \<longrightarrow> (\<exists>s1. write_f32 io key v s = (Inr (), s1) \<and> read_f32 io (key_fourcc key) s1 = (Inr v, s')))"
proof -
  have e: "encode_flt v = Inr (f32_to_le v)" using v by (simp add: encode_flt_def)
  show ?thesis using w
    by (auto simp: write_f32_verified_def e Let_def record_new_def record_match_def fit4_le f32_to_le_inject
        split: prod.splits sum.splits if_splits)
qed

end
