(* ===== verification/Smc_Device.thy ===== *)
theory Smc_Device
  imports Smc_Conn
begin

text \<open>
  A device that honours the protocol: the locale \<open>smc_device\<close> states the documented behaviour of
  the struct call on a register file (key to type and payload), and the operations of the connection
  are shown to implement reads and writes of that file. The register file itself, as a platform, is
  an instance.
\<close>

text \<open>A register that holds a float.\<close>

definition holds_flt :: "(u32 \<Rightarrow> (u32 \<times> u8 list) option) \<Rightarrow> u32 \<Rightarrow> f32 \<Rightarrow> bool" where
  "holds_flt r k v \<longleftrightarrow> (\<exists>bs. r k = Some (TYPE_FLT, bs) \<and> length bs = 4 \<and> decode_flt bs 4 = Inr v)"

lemma length_ui32 [simp]: "length (encode_ui32 v) = 4"
  by (simp add: encode_ui32_def u32_to_be_def)

section \<open>The contract\<close>

locale smc_device =
  fixes io :: "'d platform" and reg :: "'d \<Rightarrow> u32 \<Rightarrow> (u32 \<times> u8 list) option"
  assumes info_present: "reg d (p_key p) = Some (ty, bs) \<Longrightarrow> p_data8 p = SMC_CMD_GET_KEY_INFO \<Longrightarrow>
      \<exists>out d'. io_call io port SMC_SELECTOR p d = (KERN_SUCCESS, out, d') \<and> p_result out = 0 \<and> reg d' = reg d
        \<and> kid_data_size (p_key_info out) = word_of_nat (length bs) \<and> kid_data_type (p_key_info out) = ty"
    and read_present: "reg d (p_key p) = Some (ty, bs) \<Longrightarrow> p_data8 p = SMC_CMD_READ_KEY \<Longrightarrow>
      \<exists>out d' pad. io_call io port SMC_SELECTOR p d = (KERN_SUCCESS, out, d') \<and> p_result out = 0
        \<and> reg d' = reg d \<and> p_bytes out = bs @ pad"
    and write_present: "reg d (p_key p) = Some (ty, bs) \<Longrightarrow> p_data8 p = SMC_CMD_WRITE_KEY \<Longrightarrow>
      kid_data_size (p_key_info p) = word_of_nat (length bs) \<Longrightarrow> length bs \<le> length (p_bytes p) \<Longrightarrow>
      \<exists>out d'. io_call io port SMC_SELECTOR p d = (KERN_SUCCESS, out, d') \<and> p_result out = 0
        \<and> reg d' = (reg d)(p_key p \<mapsto> (ty, take (length bs) (p_bytes p)))"
    and absent: "reg d (p_key p) = None \<Longrightarrow>
      p_data8 p \<in> {SMC_CMD_GET_KEY_INFO, SMC_CMD_READ_KEY, SMC_CMD_WRITE_KEY} \<Longrightarrow>
      \<exists>out d'. io_call io port SMC_SELECTOR p d = (KERN_SUCCESS, out, d')
        \<and> p_result out = SMC_ERR_KEY_NOT_FOUND \<and> reg d' = reg d"
    and other_calls: "reg (io_sleep_ms io n d) = reg d" "reg (snd (io_matching io d)) = reg d"
      "reg (snd (io_get_service io d)) = reg d" "reg (snd (snd (io_service_open io sv d))) = reg d"
      "reg (io_service_close io pt d) = reg d" "reg (io_object_release io pt d) = reg d"
      "reg (snd (io_entropy io n d)) = reg d" "reg (snd (io_port_guard io pt g d)) = reg d"
      "reg (io_port_unguard io pt g d) = reg d"
    and size_bound: "reg d k = Some (ty, bs) \<Longrightarrow> 0 < length bs \<and> length bs \<le> 32"
begin

text \<open>The caches that a call on the key may leave: as before, up to the slot of the key, now right.\<close>

definition fills :: "smc_connection \<Rightarrow> u32 \<Rightarrow> u32 \<Rightarrow> nat \<Rightarrow> smc_connection \<Rightarrow> bool" where
  "fills c k ty n c' \<longleftrightarrow> connection_open c' = connection_open c \<and> conn_port c' = conn_port c
     \<and> (cache_wf (key_cache c) \<longrightarrow> cache_wf (key_cache c'))
     \<and> (\<forall>j. cache_get (key_cache c') j = cache_get (key_cache c) j
         \<or> slot_of j = slot_of k \<and> cache_get (key_cache c') j = Some (word_of_nat n, ty))"

lemma fills_refl: "fills c k ty n c"
  by (simp add: fills_def)

lemma fills_trans: "fills c k ty n c1 \<Longrightarrow> fills c1 k ty n c2 \<Longrightarrow> fills c k ty n c2"
  unfolding fills_def by metis

text \<open>A usable connection whose cache slot for the key is empty or right.\<close>

definition usable :: "smc_connection \<Rightarrow> u32 \<Rightarrow> u32 \<Rightarrow> nat \<Rightarrow> bool" where
  "usable c k ty n \<longleftrightarrow> connection_open c \<and> conn_port c \<noteq> 0 \<and> cache_wf (key_cache c)
     \<and> (cache_get (key_cache c) k = None \<or> cache_get (key_cache c) k = Some (word_of_nat n, ty))"

lemma call_struct_reg:
  assumes "usable c k ty n" "io_call io (conn_port c) SMC_SELECTOR (p\<lparr> p_data8 := cmd \<rparr>) d = (KERN_SUCCESS, out, d')"
    "p_result out = 0"
  shows "call_struct io cmd p (c, d) = (Inr out, (c, d'))"
  using assms by (simp add: call_struct_def usable_def Let_def call_loop.simps kern_consts)

lemma read_key_info_reg:
  assumes r: "reg d k = Some (ty, bs)" and u: "usable c k ty (length bs)"
  shows "\<exists>c' d'. read_key_info io k (c, d) = (Inr \<lparr> ki_size = word_of_nat (length bs), ki_type = ty \<rparr>, (c', d'))
    \<and> reg d' = reg d \<and> usable c' k ty (length bs) \<and> fills c k ty (length bs) c'"
proof (cases "cache_get (key_cache c) k")
  case (Some p)
  then show ?thesis using u by (auto simp: read_key_info_def usable_def fills_refl)
next
  case None
  have b: "0 < length bs" "length bs \<le> 32" using size_bound [OF r] by simp_all
  have l: "unat (word_of_nat (length bs) :: u32) = length bs" using b by (simp add: unat_of_nat take_bit_eq_mod)
  then have m: "min (word_of_nat (length bs)) (32 :: u32) = word_of_nat (length bs)" "word_of_nat (length bs) \<noteq> (0 :: u32)"
    using b by (auto simp: min_def word_le_nat_alt)
  obtain out d' where o: "io_call io (conn_port c) SMC_SELECTOR (zeroed\<lparr> p_key := k, p_data8 := SMC_CMD_GET_KEY_INFO \<rparr>) d
      = (KERN_SUCCESS, out, d')" "p_result out = 0" "reg d' = reg d"
    "kid_data_size (p_key_info out) = word_of_nat (length bs)" "kid_data_type (p_key_info out) = ty"
    using info_present [of d "zeroed\<lparr> p_key := k, p_data8 := SMC_CMD_GET_KEY_INFO \<rparr>" ty bs "conn_port c"] r by auto
  have cs: "call_struct io SMC_CMD_GET_KEY_INFO (zeroed\<lparr> p_key := k \<rparr>) (c, d) = (Inr out, (c, d'))"
    using o(1,2) by (intro call_struct_reg [OF u]) simp_all
  let ?c = "c\<lparr> key_cache := cache_put (key_cache c) k (word_of_nat (length bs)) ty \<rparr>"
  have "read_key_info io k (c, d) = (Inr \<lparr> ki_size = word_of_nat (length bs), ki_type = ty \<rparr>, (?c, d'))"
    using None cs m o(4,5) by (simp add: read_key_info_def op_defs with_cache_def Let_def)
  moreover have "usable ?c k ty (length bs)"
    using u by (simp add: usable_def cache.wf_put cache.put_get)
  ultimately show ?thesis using o(3) u by (auto simp: usable_def fills_def cache.get_put cache.wf_put)
qed

lemma read_key_reg:
  assumes r: "reg d k = Some (ty, bs)" and u: "usable c k ty (length bs)"
  shows "\<exists>c' d' pad. read_key io k (c, d) = (Inr (\<lparr> ki_size = word_of_nat (length bs), ki_type = ty \<rparr>, bs @ pad), (c', d'))
    \<and> reg d' = reg d \<and> usable c' k ty (length bs) \<and> fills c k ty (length bs) c'"
proof -
  obtain c1 d1 where i: "read_key_info io k (c, d) = (Inr \<lparr> ki_size = word_of_nat (length bs), ki_type = ty \<rparr>, (c1, d1))"
    "reg d1 = reg d" "usable c1 k ty (length bs)" "fills c k ty (length bs) c1"
    using read_key_info_reg [OF r u] by auto
  let ?p = "with_info (zeroed\<lparr> p_key := k \<rparr>) \<lparr> ki_size = word_of_nat (length bs), ki_type = ty \<rparr>"
  have k: "p_key (?p\<lparr> p_data8 := SMC_CMD_READ_KEY \<rparr>) = k" by (simp add: with_info_def)
  obtain out d2 pad where o: "io_call io (conn_port c1) SMC_SELECTOR (?p\<lparr> p_data8 := SMC_CMD_READ_KEY \<rparr>) d1
      = (KERN_SUCCESS, out, d2)" "p_result out = 0" "reg d2 = reg d1" "p_bytes out = bs @ pad"
    using read_present [of d1 "?p\<lparr> p_data8 := SMC_CMD_READ_KEY \<rparr>" ty bs "conn_port c1"] r i(2) k by auto
  have "call_struct io SMC_CMD_READ_KEY ?p (c1, d1) = (Inr out, (c1, d2))"
    by (rule call_struct_reg [OF i(3) o(1,2)])
  then have "read_key io k (c, d) = (Inr (\<lparr> ki_size = word_of_nat (length bs), ki_type = ty \<rparr>, bs @ pad), (c1, d2))"
    using i(1) o(4) by (simp add: read_key_def op_defs)
  then show ?thesis using i o by auto
qed

lemma read_u8_reg:
  assumes "reg d k = Some (TYPE_UI8, [v])" "usable c k TYPE_UI8 1"
  shows "\<exists>c' d'. read_u8 io k (c, d) = (Inr v, (c', d')) \<and> reg d' = reg d \<and> usable c' k TYPE_UI8 1
    \<and> fills c k TYPE_UI8 1 c'"
proof -
  obtain c' d' pad where "read_key io k (c, d) = (Inr (\<lparr> ki_size = 1, ki_type = TYPE_UI8 \<rparr>, [v] @ pad), (c', d'))"
    "reg d' = reg d" "usable c' k TYPE_UI8 1" "fills c k TYPE_UI8 1 c'"
    using read_key_reg [of d k TYPE_UI8 "[v]" c] assms by auto
  then show ?thesis by (simp add: read_u8_def op_defs decode_ui8_def byte_at_def)
qed

text \<open>A float register is read back as the value its bytes encode.\<close>

lemma read_f32_reg:
  assumes "reg d k = Some (TYPE_FLT, bs)" "length bs = 4" "decode_flt bs 4 = Inr v" "usable c k TYPE_FLT 4"
  shows "\<exists>c' d'. read_f32 io k (c, d) = (Inr v, (c', d')) \<and> reg d' = reg d \<and> usable c' k TYPE_FLT 4
    \<and> fills c k TYPE_FLT 4 c'"
proof -
  obtain c' d' pad where k: "read_key io k (c, d) = (Inr (\<lparr> ki_size = 4, ki_type = TYPE_FLT \<rparr>, bs @ pad), (c', d'))"
    "reg d' = reg d" "usable c' k TYPE_FLT 4" "fills c k TYPE_FLT 4 c'"
    using read_key_reg [of d k TYPE_FLT bs c] assms by auto
  have "encode_flt v = Inr bs" using assms(2,3) by (intro encode_decode_flt)
  then have "decode_flt (bs @ pad) 4 = Inr v" by (rule decode_encode_flt)
  then show ?thesis using k by (simp add: read_f32_def op_defs)
qed

lemma write_bytes_reg:
  assumes r: "reg d k = Some (ty, bs)" and u: "usable c k ty (length bs)" and l: "length ws = length bs"
  shows "\<exists>c' d'. write_bytes io k ws (c, d) = (Inr (), (c', d')) \<and> reg d' = (reg d)(k \<mapsto> (ty, ws))
    \<and> usable c' k ty (length bs) \<and> fills c k ty (length bs) c'"
proof -
  obtain c1 d1 where i: "read_key_info io k (c, d) = (Inr \<lparr> ki_size = word_of_nat (length bs), ki_type = ty \<rparr>, (c1, d1))"
    "reg d1 = reg d" "usable c1 k ty (length bs)" "fills c k ty (length bs) c1"
    using read_key_info_reg [OF r u] by auto
  have b: "length bs \<le> 32" using size_bound [OF r] by simp
  then have n: "unat (word_of_nat (length bs) :: u32) = length bs" by (simp add: unat_of_nat take_bit_eq_mod)
  have le: "\<not> 32 < (word_of_nat (length bs) :: u32)" using b n by (simp add: word_less_nat_alt)
  let ?p = "write_param k \<lparr> ki_size = word_of_nat (length bs), ki_type = ty \<rparr> ws"
  have k: "p_key ?p = k" "kid_data_size (p_key_info ?p) = word_of_nat (length bs)" "take (length bs) (p_bytes ?p) = ws"
    "length bs \<le> length (p_bytes ?p)"
    by (simp_all add: write_param_def with_info_def l)
  obtain out d2 where o: "io_call io (conn_port c1) SMC_SELECTOR (?p\<lparr> p_data8 := SMC_CMD_WRITE_KEY \<rparr>) d1
      = (KERN_SUCCESS, out, d2)" "p_result out = 0" "reg d2 = (reg d1)(k \<mapsto> (ty, ws))"
    using write_present [of d1 "?p\<lparr> p_data8 := SMC_CMD_WRITE_KEY \<rparr>" ty bs "conn_port c1"] r i(2) k by auto
  have "call_struct io SMC_CMD_WRITE_KEY ?p (c1, d1) = (Inr out, (c1, d2))"
    by (rule call_struct_reg [OF i(3) o(1,2)])
  then have "write_bytes io k ws (c, d) = (Inr (), (c1, d2))"
    using i(1) n le l by (simp add: write_bytes_def op_defs)
  then show ?thesis using i(2,3,4) o(3) by auto
qed

lemma write_u8_reg:
  assumes "reg d (key_fourcc key) = Some (TYPE_UI8, [x])" "usable c (key_fourcc key) TYPE_UI8 1"
    "key_data_type key = TYPE_UI8"
  shows "\<exists>c' d'. write_u8 io key v (c, d) = (Inr (), (c', d')) \<and> reg d' = (reg d)(key_fourcc key \<mapsto> (TYPE_UI8, [v]))
    \<and> usable c' (key_fourcc key) TYPE_UI8 1 \<and> fills c (key_fourcc key) TYPE_UI8 1 c'"
  using write_bytes_reg [of d "key_fourcc key" TYPE_UI8 "[x]" c "[v]"] assms
  by (simp add: write_u8_def write_key_def)

text \<open>A verified write of a byte succeeds, sets the register, and records a match.\<close>

lemma write_u8_verified_reg:
  assumes r: "reg d (key_fourcc key) = Some (TYPE_UI8, [x])" and u: "usable c (key_fourcc key) TYPE_UI8 1"
    and t: "key_data_type key = TYPE_UI8"
  shows "\<exists>c' d'. write_u8_verified io key v ctx sid (rg, (c, d))
      = (Inr (), (ring_push rg (record_match (io_wall_ns io d) (key_fourcc key) [v] [v]), (c', d')))
    \<and> reg d' = (reg d)(key_fourcc key \<mapsto> (TYPE_UI8, [v])) \<and> usable c' (key_fourcc key) TYPE_UI8 1
    \<and> fills c (key_fourcc key) TYPE_UI8 1 c'"
proof -
  obtain c1 d1 where w: "write_u8 io key v (c, d) = (Inr (), (c1, d1))"
    "reg d1 = (reg d)(key_fourcc key \<mapsto> (TYPE_UI8, [v]))" "usable c1 (key_fourcc key) TYPE_UI8 1"
    "fills c (key_fourcc key) TYPE_UI8 1 c1"
    using write_u8_reg [OF r u t, of v] by auto
  obtain c2 d2 where "read_u8 io (key_fourcc key) (c1, d1) = (Inr v, (c2, d2))" "reg d2 = reg d1"
    "usable c2 (key_fourcc key) TYPE_UI8 1" "fills c1 (key_fourcc key) TYPE_UI8 1 c2"
    using read_u8_reg [of d1 "key_fourcc key" v c1] w(2,3) by auto
  then show ?thesis using w fills_trans [OF w(4)] by (auto simp: write_u8_verified_def Let_def)
qed

text \<open>
  A set of keys the connection is ready for: each is a register, the cache is right or empty for it,
  and keys that share a cache slot have the same type and size. Calls on keys of the set keep it ready.
\<close>

definition ready :: "u32 set \<Rightarrow> smc_connection \<Rightarrow> 'd \<Rightarrow> bool" where
  "ready Ks c d \<longleftrightarrow> (\<forall>k\<in>Ks. \<exists>ty bs. reg d k = Some (ty, bs) \<and> usable c k ty (length bs)
     \<and> (\<forall>j\<in>Ks. slot_of j = slot_of k \<longrightarrow> (\<exists>bs'. reg d j = Some (ty, bs') \<and> length bs' = length bs)))"

lemma readyD: "ready Ks c d \<Longrightarrow> k \<in> Ks \<Longrightarrow> reg d k = Some (ty, bs) \<Longrightarrow> usable c k ty (length bs)"
  by (auto simp: ready_def)

lemma ready_fills:
  assumes r: "ready Ks c d" and k: "k \<in> Ks" "reg d k = Some (ty, bs)" and f: "fills c k ty (length bs) c'"
    and d': "reg d' = reg d \<or> (\<exists>ws. length ws = length bs \<and> reg d' = (reg d)(k \<mapsto> (ty, ws)))"
  shows "ready Ks c' d'"
  unfolding ready_def
proof
  fix j assume j: "j \<in> Ks"
  then obtain jt jb where jr: "reg d j = Some (jt, jb)" "usable c j jt (length jb)"
    "\<forall>i\<in>Ks. slot_of i = slot_of j \<longrightarrow> (\<exists>bs'. reg d i = Some (jt, bs') \<and> length bs' = length jb)"
    using r by (auto simp: ready_def)
  have same: "\<exists>bs'. reg d' i = Some (it, bs') \<and> length bs' = n" if "\<exists>bs'. reg d i = Some (it, bs') \<and> length bs' = n" for i it n
    using that d' k(2) by auto
  have "usable c' j jt (length jb)"
  proof (cases "slot_of j = slot_of k")
    case True
    then have "jt = ty" "length jb = length bs" using jr(3) k by force+
    then show ?thesis using f jr(2) True unfolding fills_def usable_def by metis
  next
    case False
    then show ?thesis using f jr(2) unfolding fills_def usable_def by metis
  qed
  moreover obtain jb' where "reg d' j = Some (jt, jb')" "length jb' = length jb"
    using same jr(1) by blast
  ultimately show "\<exists>ty bs. reg d' j = Some (ty, bs) \<and> usable c' j ty (length bs)
     \<and> (\<forall>i\<in>Ks. slot_of i = slot_of j \<longrightarrow> (\<exists>bs'. reg d' i = Some (ty, bs') \<and> length bs' = length bs))"
    using jr(3) same by metis
qed

text \<open>The connection is ready for the keys and the registers are \<open>r\<close>.\<close>

definition at_rest :: "u32 set \<Rightarrow> (u32 \<Rightarrow> (u32 \<times> u8 list) option) \<Rightarrow> 'd smc \<Rightarrow> bool" where
  "at_rest Ks r s \<longleftrightarrow> reg (snd s) = r \<and> ready Ks (fst s) (snd s)"

lemma at_rest_step:
  assumes s: "at_rest Ks r (c, d)" and k: "k \<in> Ks" "r k = Some (ty, bs)" and d: "reg d' = reg d"
    and f: "fills c k ty (length bs) c'"
  shows "at_rest Ks r (c', d')"
  using s d ready_fills [of Ks c d k ty bs c' d'] k f by (simp add: at_rest_def)

lemma read_key_info_rest:
  assumes k: "k \<in> Ks" "r k = Some (ty, bs)"
  shows "does (at_rest Ks r) (read_key_info io k) \<lparr> ki_size = word_of_nat (length bs), ki_type = ty \<rparr> (at_rest Ks r)"
  unfolding does_def
proof (intro allI impI)
  fix s assume s: "at_rest Ks r s"
  obtain c d where cd: "s = (c, d)" by force
  have "reg d k = Some (ty, bs)" "usable c k ty (length bs)"
    using s k readyD [of Ks c d k ty bs] by (simp_all add: at_rest_def cd)
  then show "\<exists>s'. read_key_info io k s = (Inr \<lparr> ki_size = word_of_nat (length bs), ki_type = ty \<rparr>, s') \<and> at_rest Ks r s'"
    using read_key_info_reg [of d k ty bs c] at_rest_step [OF s [unfolded cd] k] unfolding cd by blast
qed

lemma read_u8_rest:
  assumes k: "k \<in> Ks" "r k = Some (TYPE_UI8, [v])"
  shows "does (at_rest Ks r) (read_u8 io k) v (at_rest Ks r)"
  unfolding does_def
proof (intro allI impI)
  fix s assume s: "at_rest Ks r s"
  obtain c d where cd: "s = (c, d)" by force
  have "reg d k = Some (TYPE_UI8, [v])" "usable c k TYPE_UI8 1"
    using s k readyD [of Ks c d k TYPE_UI8 "[v]"] by (simp_all add: at_rest_def cd)
  then show "\<exists>s'. read_u8 io k s = (Inr v, s') \<and> at_rest Ks r s'"
    using read_u8_reg [of d k v c] at_rest_step [OF s [unfolded cd] k] unfolding cd by (metis One_nat_def length_Cons list.size(3))
qed

lemma read_f32_rest:
  assumes k: "k \<in> Ks" "holds_flt r k v"
  shows "does (at_rest Ks r) (read_f32 io k) v (at_rest Ks r)"
  unfolding does_def
proof (intro allI impI)
  fix s assume s: "at_rest Ks r s"
  obtain c d where cd: "s = (c, d)" by force
  obtain bs where b: "r k = Some (TYPE_FLT, bs)" "length bs = 4" "decode_flt bs 4 = Inr v"
    using k(2) by (auto simp: holds_flt_def)
  have "reg d k = Some (TYPE_FLT, bs)" "usable c k TYPE_FLT 4"
    using s k b readyD [of Ks c d k TYPE_FLT bs] by (simp_all add: at_rest_def cd)
  then show "\<exists>s'. read_f32 io k s = (Inr v, s') \<and> at_rest Ks r s'"
    using read_f32_reg [of d k bs v c] at_rest_step [OF s [unfolded cd] k(1) b(1)] b unfolding cd by auto
qed

lemma read_u32_rest:
  assumes k: "k \<in> Ks" "r k = Some (TYPE_UI32, encode_ui32 v)"
  shows "does (at_rest Ks r) (read_u32 io k) v (at_rest Ks r)"
  unfolding does_def
proof (intro allI impI)
  fix s assume s: "at_rest Ks r s"
  obtain c d where cd: "s = (c, d)" by force
  have "reg d k = Some (TYPE_UI32, encode_ui32 v)" "usable c k TYPE_UI32 4"
    using s k readyD [of Ks c d k TYPE_UI32 "encode_ui32 v"] by (simp_all add: at_rest_def cd)
  then show "\<exists>s'. read_u32 io k s = (Inr v, s') \<and> at_rest Ks r s'"
    using read_key_reg [of d k TYPE_UI32 "encode_ui32 v" c] at_rest_step [OF s [unfolded cd] k]
    unfolding cd by (fastforce simp: read_u32_def op_defs decode_encode_ui32)
qed

lemma write_u8_rest:
  assumes k: "key_fourcc key \<in> Ks" "r (key_fourcc key) = Some (TYPE_UI8, [x])" and t: "key_data_type key = TYPE_UI8"
  shows "does (at_rest Ks r) (write_u8 io key v) () (at_rest Ks (r(key_fourcc key \<mapsto> (TYPE_UI8, [v]))))"
  unfolding does_def
proof (intro allI impI)
  fix s assume s: "at_rest Ks r s"
  obtain c d where cd: "s = (c, d)" by force
  have r: "reg d (key_fourcc key) = Some (TYPE_UI8, [x])" "reg d = r" "ready Ks c d"
    using s k by (simp_all add: at_rest_def cd)
  have u: "usable c (key_fourcc key) TYPE_UI8 1" using readyD [OF r(3) k(1) r(1)] by simp
  obtain c' d' where w: "write_u8 io key v (c, d) = (Inr (), (c', d'))"
    "reg d' = (reg d)(key_fourcc key \<mapsto> (TYPE_UI8, [v]))" "fills c (key_fourcc key) TYPE_UI8 1 c'"
    using write_u8_reg [OF r(1) u t, of v] by auto
  have "ready Ks c' d'"
  proof (rule ready_fills [OF r(3) k(1) r(1)])
    show "fills c (key_fourcc key) TYPE_UI8 (length [x]) c'" using w(3) by simp
    show "reg d' = reg d \<or> (\<exists>ws. length ws = length [x] \<and> reg d' = (reg d)(key_fourcc key \<mapsto> (TYPE_UI8, ws)))"
      using w(2) by (intro disjI2 exI [of _ "[v]"]) simp
  qed
  then show "\<exists>s'. write_u8 io key v s = (Inr (), s') \<and> at_rest Ks (r(key_fourcc key \<mapsto> (TYPE_UI8, [v]))) s'"
    using w(1,2) r(2) by (auto simp: at_rest_def cd)
qed

text \<open>An absent key: every write of it fails and changes no register.\<close>

lemma call_struct_absent:
  assumes "connection_open c" "conn_port c \<noteq> 0" "reg d (p_key p) = None"
    "cmd \<in> {SMC_CMD_GET_KEY_INFO, SMC_CMD_READ_KEY, SMC_CMD_WRITE_KEY}"
  shows "\<exists>d'. call_struct io cmd p (c, d) = (Inl (SmcResult cmd SMC_ERR_KEY_NOT_FOUND), (c, d')) \<and> reg d' = reg d"
proof -
  obtain out d' where o: "io_call io (conn_port c) SMC_SELECTOR (p\<lparr> p_data8 := cmd \<rparr>) d = (KERN_SUCCESS, out, d')"
    "p_result out = SMC_ERR_KEY_NOT_FOUND" "reg d' = reg d"
    using absent [of d "p\<lparr> p_data8 := cmd \<rparr>" "conn_port c"] assms(3,4) by auto
  then show ?thesis using assms(1,2)
    by (simp add: call_struct_def Let_def call_loop.simps kern_consts SMC_ERR_KEY_NOT_FOUND_def)
qed

lemma write_bytes_absent:
  assumes c: "connection_open c" "conn_port c \<noteq> 0" and r: "reg d k = None"
    and w: "write_bytes io k ws (c, d) = (res, (c', d'))"
  shows "reg d' = reg d \<and> \<not> is_ok res \<and> connection_open c' = connection_open c \<and> conn_port c' = conn_port c"
proof (cases "cache_get (key_cache c) k")
  case None
  obtain d1 where "call_struct io SMC_CMD_GET_KEY_INFO (zeroed\<lparr> p_key := k \<rparr>) (c, d)
      = (Inl (SmcResult SMC_CMD_GET_KEY_INFO SMC_ERR_KEY_NOT_FOUND), (c, d1))" "reg d1 = reg d"
    using call_struct_absent [OF c, of d "zeroed\<lparr> p_key := k \<rparr>" SMC_CMD_GET_KEY_INFO] r by auto
  then show ?thesis using w None
    by (auto simp: write_bytes_def read_key_info_def op_defs not_found_arm_def with_cache_def)
next
  case (Some p)
  obtain sz ty where p: "p = (sz, ty)" by force
  let ?p = "write_param k \<lparr> ki_size = sz, ki_type = ty \<rparr> ws"
  have k: "p_key ?p = k" by (simp add: write_param_def with_info_def)
  obtain d1 where "call_struct io SMC_CMD_WRITE_KEY ?p (c, d)
      = (Inl (SmcResult SMC_CMD_WRITE_KEY SMC_ERR_KEY_NOT_FOUND), (c, d1))" "reg d1 = reg d"
    using call_struct_absent [OF c, of d ?p SMC_CMD_WRITE_KEY] r k by auto
  then show ?thesis using w Some p
    by (auto simp: write_bytes_def read_key_info_def op_defs split: if_splits)
qed

lemma smc_close_reg: "reg (snd (smc_close io s)) = reg (snd s)"
  by (simp add: smc_close_def Let_def other_calls split: prod.split)

lemma smc_open_reg: "reg (snd (smc_open io d)) = reg d"
  by (simp add: smc_open_def Let_def split_beta other_calls)

end

section \<open>The register file as a platform\<close>

type_synonym regfile = "u32 \<Rightarrow> (u32 \<times> u8 list) option"

definition regfile_reg :: "regfile \<Rightarrow> u32 \<Rightarrow> (u32 \<times> u8 list) option" where
  "regfile_reg d k = (case d k of None \<Rightarrow> None
     | Some (ty, bs) \<Rightarrow> if 0 < length bs \<and> length bs \<le> 32 then Some (ty, bs) else None)"

definition regfile_call :: "u32 \<Rightarrow> u32 \<Rightarrow> smc_param \<Rightarrow> regfile \<Rightarrow> kern_return \<times> smc_param \<times> regfile" where
  "regfile_call port sel p d = (case regfile_reg d (p_key p) of
     None \<Rightarrow> (KERN_SUCCESS, zeroed\<lparr> p_result := SMC_ERR_KEY_NOT_FOUND \<rparr>, d)
   | Some (ty, bs) \<Rightarrow>
       if p_data8 p = SMC_CMD_GET_KEY_INFO
       then (KERN_SUCCESS, with_info zeroed \<lparr> ki_size = word_of_nat (length bs), ki_type = ty \<rparr>, d)
       else if p_data8 p = SMC_CMD_READ_KEY
       then (KERN_SUCCESS, zeroed\<lparr> p_bytes := bs @ replicate (32 - length bs) 0 \<rparr>, d)
       else if p_data8 p = SMC_CMD_WRITE_KEY \<and> kid_data_size (p_key_info p) = word_of_nat (length bs)
         \<and> length bs \<le> length (p_bytes p)
       then (KERN_SUCCESS, zeroed, d(p_key p \<mapsto> (ty, take (length bs) (p_bytes p))))
       else (KERN_SUCCESS, zeroed\<lparr> p_result := SMC_ERR_SYSTEM_MODE_REJECTS \<rparr>, d))"

definition regfile_io :: "regfile platform" where
  "regfile_io = \<lparr>
     io_call = regfile_call, io_sleep_ms = (\<lambda>n d. d), io_wall_ns = (\<lambda>d. 0), io_now_ms = (\<lambda>d. 0),
     io_matching = (\<lambda>d. (False, d)), io_get_service = (\<lambda>d. (1, d)), io_conforms = (\<lambda>sv d. True),
     io_service_open = (\<lambda>sv d. (KERN_SUCCESS, 2, d)), io_service_close = (\<lambda>p d. d),
     io_object_release = (\<lambda>p d. d), io_entropy = (\<lambda>n d. (replicate n 7, d)),
     io_port_guard = (\<lambda>p g d. (KERN_SUCCESS, d)), io_port_unguard = (\<lambda>p g d. d) \<rparr>"

lemma regfile_SomeD: "regfile_reg d k = Some (ty, bs) \<Longrightarrow> 0 < length bs \<and> length bs \<le> 32"
  by (auto simp: regfile_reg_def split: option.splits if_splits)

lemma regfile_upd:
  "0 < length bs \<Longrightarrow> length bs \<le> 32 \<Longrightarrow> regfile_reg (d(k \<mapsto> (ty, bs))) = (regfile_reg d)(k \<mapsto> (ty, bs))"
  by (rule ext) (simp add: regfile_reg_def)

lemma cmds_distinct:
  "SMC_CMD_GET_KEY_INFO \<noteq> SMC_CMD_READ_KEY" "SMC_CMD_GET_KEY_INFO \<noteq> SMC_CMD_WRITE_KEY"
  "SMC_CMD_READ_KEY \<noteq> SMC_CMD_WRITE_KEY"
  by (simp_all add: key_consts)

interpretation regfile: smc_device regfile_io regfile_reg
proof
  fix d :: regfile and p :: smc_param and ty bs port
  assume r: "regfile_reg d (p_key p) = Some (ty, bs)" and c: "p_data8 p = SMC_CMD_WRITE_KEY"
    and s: "kid_data_size (p_key_info p) = word_of_nat (length bs)" "length bs \<le> length (p_bytes p)"
  have "length (take (length bs) (p_bytes p)) = length bs" using s(2) by simp
  then show "\<exists>out d'. io_call regfile_io port SMC_SELECTOR p d = (KERN_SUCCESS, out, d') \<and> p_result out = 0
      \<and> regfile_reg d' = (regfile_reg d)(p_key p \<mapsto> (ty, take (length bs) (p_bytes p)))"
    using r c s regfile_SomeD [OF r] cmds_distinct
    by (auto simp: regfile_io_def regfile_call_def zeroed_def intro!: regfile_upd)
qed (auto simp: regfile_io_def regfile_call_def cmds_distinct [symmetric] with_info_def zeroed_def dest: regfile_SomeD)

end
