(* ===== verification/Smc_Writes.thy ===== *)
theory Smc_Writes
  imports Smc_Conn
begin

text \<open>
  Which writes reach the device. The locale \<open>call_guard\<close> is the interface between the operations of
  the connection and an observer of the device: a predicate on the outside world that every kernel
  call keeps as long as each write command carries an allowed key and payload. The platform
  \<open>spy\<close> logs every command, so that a fact proved in the locale becomes a fact about the
  exact writes an operation issues, whatever the device answers.
\<close>

definition write_payload :: "smc_param \<Rightarrow> u8 list" where
  "write_payload p = take (unat (kid_data_size (p_key_info p))) (p_bytes p)"

definition permitted :: "(u32 \<Rightarrow> u8 list \<Rightarrow> bool) \<Rightarrow> smc_param \<Rightarrow> bool" where
  "permitted allow p \<longleftrightarrow> (p_data8 p = SMC_CMD_WRITE_KEY \<longrightarrow> allow (p_key p) (write_payload p))"

lemma call_loop_inv:
  "(\<And>d. I d \<Longrightarrow> I (snd (snd (io_call io port SMC_SELECTOR p d)))) \<Longrightarrow> (\<And>n d. I d \<Longrightarrow> I (io_sleep_ms io n d)) \<Longrightarrow>
   I d \<Longrightarrow> I (snd (call_loop io port cmd p b t d))"
proof (induction io port cmd p b t d rule: call_loop.induct)
  case (1 io port cmd p b t d)
  obtain kr out d1 where c: "io_call io port SMC_SELECTOR p d = (kr, out, d1)" by (metis prod_cases3)
  have d1: "I d1" using 1(3) [OF 1(5)] by (simp add: c)
  show ?case
    using 1(1) [OF c [symmetric] refl refl _ 1(3,4) 1(4) [OF d1]]
      1(2) [OF c [symmetric] refl refl _ _ 1(3,4) 1(4) [OF d1]] d1
    by (subst call_loop.simps) (auto simp: c)
qed

locale call_guard =
  fixes io :: "'d platform" and I :: "'d \<Rightarrow> bool" and allow :: "u32 \<Rightarrow> u8 list \<Rightarrow> bool"
  assumes call_keeps: "I d \<Longrightarrow> permitted allow p \<Longrightarrow> I (snd (snd (io_call io port sel p d)))"
    and sleep_keeps: "I d \<Longrightarrow> I (io_sleep_ms io n d)"
    and matching_keeps: "I d \<Longrightarrow> I (snd (io_matching io d))"
    and service_keeps: "I d \<Longrightarrow> I (snd (io_get_service io d))"
    and open_keeps: "I d \<Longrightarrow> I (snd (snd (io_service_open io sv d)))"
    and close_keeps: "I d \<Longrightarrow> I (io_service_close io pt d)"
    and release_keeps: "I d \<Longrightarrow> I (io_object_release io pt d)"
    and entropy_keeps: "I d \<Longrightarrow> I (snd (io_entropy io n d))"
    and guard_keeps: "I d \<Longrightarrow> I (snd (io_port_guard io pt g d))"
    and unguard_keeps: "I d \<Longrightarrow> I (io_port_unguard io pt g d)"
begin

abbreviation K :: "'d smc \<Rightarrow> bool" where
  "K s \<equiv> I (snd s)"

lemma smc_open_keeps: "I d \<Longrightarrow> I (snd (smc_open io d))"
  by (simp add: smc_open_def Let_def split_beta matching_keeps service_keeps open_keeps entropy_keeps
      guard_keeps release_keeps close_keeps)

lemma smc_close_keeps: "K s \<Longrightarrow> K (smc_close io s)"
  by (auto simp: smc_close_def Let_def close_keeps unguard_keeps split: prod.split)

lemma call_struct_keeps:
  "permitted allow (p\<lparr> p_data8 := cmd \<rparr>) \<Longrightarrow> keeps K (call_struct io cmd p)"
  unfolding keeps_def call_struct_def
  by (auto simp: Let_def split: prod.split)
    (metis call_keeps call_loop_inv sleep_keeps snd_conv)

lemma permitted_read: "cmd \<noteq> SMC_CMD_WRITE_KEY \<Longrightarrow> permitted allow (p\<lparr> p_data8 := cmd \<rparr>)"
  by (simp add: permitted_def)

lemma read_call_keeps: "cmd \<noteq> SMC_CMD_WRITE_KEY \<Longrightarrow> keeps K (call_struct io cmd p)"
  by (intro call_struct_keeps permitted_read)

lemma with_cache_keeps: "keeps K (with_cache f)"
  by (simp add: keeps_def with_cache_def split: prod.split)

lemma not_found_keeps: "keeps K (not_found_arm k e)"
  unfolding not_found_arm_def by (auto intro!: with_cache_keeps split: smc_error.split)

lemma info_call_keeps:
  "cmd \<noteq> SMC_CMD_WRITE_KEY \<Longrightarrow> (\<And>a. keeps K (f a)) \<Longrightarrow>
   keeps K (bindE (catchE (call_struct io cmd p) (not_found_arm k)) f)"
  by (intro keeps_bind keeps_catch read_call_keeps not_found_keeps)

lemma read_key_info_keeps: "keeps K (read_key_info io k)"
  unfolding keeps_def
proof (intro allI impI)
  fix s :: "'d smc"
  assume s: "K s"
  show "K (snd (read_key_info io k s))"
  proof (cases "cache_get (key_cache (fst s)) k")
    case None
    have "keeps K (bindE (catchE (call_struct io SMC_CMD_GET_KEY_INFO (zeroed\<lparr> p_key := k \<rparr>)) (not_found_arm k)) (\<lambda>out.
       let clamped_size = min (kid_data_size (p_key_info out)) 32; ty = kid_data_type (p_key_info out) in
       if clamped_size = 0 \<and> ty = 0 then throw (EmptyResponse k)
       else bindE (with_cache (\<lambda>c. cache_put c k clamped_size ty)) (\<lambda>_.
         ret \<lparr> ki_size = clamped_size, ki_type = ty \<rparr>)))"
      by (rule info_call_keeps) (auto simp: key_consts Let_def intro!: with_cache_keeps)
    from keepsD [OF this s] show ?thesis by (simp add: read_key_info_def None)
  next
    case (Some p)
    then show ?thesis using s by (cases p) (simp add: read_key_info_def)
  qed
qed

lemma read_key_keeps: "keeps K (read_key io k)"
  unfolding read_key_def by (intro keeps_bind read_key_info_keeps info_call_keeps) (simp_all add: key_consts)

lemma read_u8_keeps: "keeps K (read_u8 io k)"
  unfolding read_u8_def by (intro keeps_bind read_key_keeps) (auto split: sum.split)

lemma read_u32_keeps: "keeps K (read_u32 io k)"
  unfolding read_u32_def by (intro keeps_bind read_key_keeps) (auto split: sum.split)

lemma read_f32_keeps: "keeps K (read_f32 io k)"
  unfolding read_f32_def by (intro keeps_bind read_key_keeps) (auto split: sum.split smc_value_error.split)

lemma read_key_at_index_keeps: "keeps K (read_key_at_index io n)"
  unfolding read_key_at_index_def by (intro keeps_bind read_call_keeps) (simp_all add: key_consts)

lemma read_key_info_full_keeps: "keeps K (read_key_info_full io k)"
  unfolding read_key_info_full_def
  by (rule info_call_keeps) (auto simp: key_consts Let_def intro!: with_cache_keeps)

lemma permitted_write:
  "length bs = unat (ki_size ki) \<Longrightarrow> allow k bs \<Longrightarrow>
   permitted allow ((write_param k ki bs)\<lparr> p_data8 := SMC_CMD_WRITE_KEY \<rparr>)"
  by (simp add: permitted_def write_payload_def write_param_def with_info_def zeroed_def)

lemma write_bytes_keeps: "allow k bs \<Longrightarrow> keeps K (write_bytes io k bs)"
  unfolding write_bytes_def
  by (intro keeps_bind read_key_info_keeps keeps_if keeps_throw call_struct_keeps permitted_write keeps_ret) simp_all

lemma write_u8_keeps: "allow (key_fourcc key) [v] \<Longrightarrow> keeps K (write_u8 io key v)"
  unfolding write_u8_def write_key_def by (intro keeps_if keeps_throw write_bytes_keeps)

lemma write_f32_keeps: "allow (key_fourcc key) (f32_to_le v) \<Longrightarrow> keeps K (write_f32 io key v)"
  unfolding write_f32_def write_key_def
  by (auto simp: encode_flt_def intro!: write_bytes_keeps)

abbreviation KR :: "ring \<times> 'd smc \<Rightarrow> bool" where
  "KR rs \<equiv> K (snd rs)"

lemma write_u8_verified_keeps:
  assumes "allow (key_fourcc key) [v]"
  shows "keeps KR (write_u8_verified io key v ctx sid)"
  using keepsD [OF write_u8_keeps [OF assms]] keepsD [OF read_u8_keeps]
  unfolding keeps_def write_u8_verified_def Let_def
  by (auto split: prod.split sum.split) (metis snd_conv)+

lemma write_f32_verified_keeps:
  assumes "allow (key_fourcc key) (f32_to_le v)"
  shows "keeps KR (write_f32_verified io key v ctx sid)"
  using keepsD [OF write_f32_keeps [OF assms]] keepsD [OF read_f32_keeps]
  unfolding keeps_def write_f32_verified_def Let_def
  by (auto split: prod.split sum.split) (metis snd_conv)+

end

section \<open>The spy\<close>

text \<open>A command sent to the device: the command byte, the key, and the payload.\<close>

type_synonym command = "u8 \<times> u32 \<times> u8 list"

text \<open>The platform \<open>io\<close> with a log of the commands, oldest first.\<close>

definition lift_io :: "('d \<Rightarrow> 'a \<times> 'd) \<Rightarrow> 'd \<times> command list \<Rightarrow> 'a \<times> 'd \<times> command list" where
  "lift_io f s = (case f (fst s) of (a, d) \<Rightarrow> (a, d, snd s))"

definition spy :: "'d platform \<Rightarrow> ('d \<times> command list) platform" where
  "spy io = \<lparr>
     io_call = (\<lambda>port sel p s. case io_call io port sel p (fst s) of (kr, out, d) \<Rightarrow>
       (kr, out, d, snd s @ [(p_data8 p, p_key p, write_payload p)])),
     io_sleep_ms = (\<lambda>n s. (io_sleep_ms io n (fst s), snd s)),
     io_wall_ns = (\<lambda>s. io_wall_ns io (fst s)),
     io_now_ms = (\<lambda>s. io_now_ms io (fst s)),
     io_matching = lift_io (io_matching io),
     io_get_service = lift_io (io_get_service io),
     io_conforms = (\<lambda>sv s. io_conforms io sv (fst s)),
     io_service_open = (\<lambda>sv s. case io_service_open io sv (fst s) of (kr, c, d) \<Rightarrow> (kr, c, d, snd s)),
     io_service_close = (\<lambda>p s. (io_service_close io p (fst s), snd s)),
     io_object_release = (\<lambda>p s. (io_object_release io p (fst s), snd s)),
     io_entropy = (\<lambda>n. lift_io (io_entropy io n)),
     io_port_guard = (\<lambda>p g. lift_io (io_port_guard io p g)),
     io_port_unguard = (\<lambda>p g s. (io_port_unguard io p g (fst s), snd s)) \<rparr>"

text \<open>The writes of a log, and the logs whose writes are all allowed.\<close>

definition writes :: "command list \<Rightarrow> (u32 \<times> u8 list) list" where
  "writes l = map snd (filter (\<lambda>(c, _). c = SMC_CMD_WRITE_KEY) l)"

definition log_ok :: "(u32 \<Rightarrow> u8 list \<Rightarrow> bool) \<Rightarrow> 'd \<times> command list \<Rightarrow> bool" where
  "log_ok allow s \<longleftrightarrow> (\<forall>(k, bs)\<in>set (writes (snd s)). allow k bs)"

interpretation spied: call_guard "spy io" "log_ok allow" allow for io :: "'d platform" and allow
  by unfold_locales
    (auto simp: spy_def lift_io_def log_ok_def permitted_def writes_def split: prod.split if_splits)

lemma spy_call: "io_call (spy io) port sel p (d, l) = (case io_call io port sel p d of (kr, out, d') \<Rightarrow>
    (kr, out, d', l @ [(p_data8 p, p_key p, write_payload p)]))"
  by (simp add: spy_def)

lemma spy_sleep: "io_sleep_ms (spy io) n (d, l) = (io_sleep_ms io n d, l)"
  by (simp add: spy_def)

text \<open>A struct call reaches the device at least once and at most three times, with the same command.\<close>

lemma call_loop_log:
  "\<exists>n. 0 < n \<and> n \<le> 1 + (if b then 0 else 1) + (if t then 0 else 1) \<and>
     snd (snd (call_loop (spy io) port cmd p b t (d, l))) = l @ replicate n (p_data8 p, p_key p, write_payload p)"
proof (induction "(if b then 0 else 1) + (if t then 0 else 1) :: nat" arbitrary: b t d l rule: less_induct)
  case less
  let ?e = "(p_data8 p, p_key p, write_payload p)"
  obtain kr out d1 where c: "io_call io port SMC_SELECTOR p d = (kr, out, d1)" by (metis prod_cases3)
  consider (busy) "kr = K_IO_RETURN_BUSY" "\<not> b" | (timeout) "\<not> (kr = K_IO_RETURN_BUSY \<and> \<not> b)" "kr = K_IO_RETURN_TIMEOUT" "\<not> t"
    | (last) "\<not> (kr = K_IO_RETURN_BUSY \<and> \<not> b)" "\<not> (kr = K_IO_RETURN_TIMEOUT \<and> \<not> t)" by blast
  then show ?case
  proof cases
    case busy
    obtain n where n: "0 < n" "n \<le> 1 + (if t then 0 else 1)"
      "snd (snd (call_loop (spy io) port cmd p True t (io_sleep_ms io 10 d1, l @ [?e]))) = (l @ [?e]) @ replicate n ?e"
      using less [of True t "io_sleep_ms io 10 d1" "l @ [?e]"] busy by auto
    then show ?thesis using busy
      by (subst call_loop.simps) (auto simp: c spy_call spy_sleep intro!: exI [of _ "Suc n"])
  next
    case timeout
    obtain n where n: "0 < n" "n \<le> 1 + (if b then 0 else 1)"
      "snd (snd (call_loop (spy io) port cmd p b True (io_sleep_ms io 50 d1, l @ [?e]))) = (l @ [?e]) @ replicate n ?e"
      using less [of b True "io_sleep_ms io 50 d1" "l @ [?e]"] timeout by auto
    then show ?thesis using timeout
      by (subst call_loop.simps) (auto simp: c spy_call spy_sleep intro!: exI [of _ "Suc n"])
  next
    case last
    then show ?thesis
      by (subst call_loop.simps) (auto simp: c spy_call intro!: exI [of _ "Suc 0"])
  qed
qed

end
