(* ===== verification/Enumerate.thy ===== *)
theory Enumerate
  imports Smc_Device Smc_Writes
begin

text \<open>
  Fan enumeration (\<open>src/smc/enumerate.rs\<close>): the key count as an endianness gate, then the limits,
  the safe and actual speed and the mode key of every fan, in the order of the reads of the source.
  On a device that honours the protocol the result is exactly what the registers hold.
\<close>

section \<open>The code\<close>

definition MAX_PLAUSIBLE_KEYS :: u32 where
  "MAX_PLAUSIBLE_KEYS = 8000"

definition KEY_COUNT_KEY :: u32 where
  "KEY_COUNT_KEY = fourcc ''#KEY''"

definition FAN_COUNT_KEY :: u32 where
  "FAN_COUNT_KEY = fourcc ''FNum''"

record fan =
  fan_ix :: u8
  fan_min :: f32
  fan_max :: f32
  fan_safe :: "f32 option"
  fan_actual :: f32
  fan_mode_key :: u32

definition read_key_count :: "'d platform \<Rightarrow> ('d, u32) smc_op" where
  "read_key_count io = bindE (read_u32 io KEY_COUNT_KEY) (\<lambda>count.
     if count = 0 \<or> MAX_PLAUSIBLE_KEYS < count
     then throw (EndiannessUnplausible KEY_COUNT_KEY count) else ret count)"

text \<open>An absent key is not an error for the caller.\<close>

definition optional :: "('d, 'a) smc_op \<Rightarrow> ('d, 'a option) smc_op" where
  "optional m = catchE (bindE m (\<lambda>v. ret (Some v)))
     (\<lambda>e. case e of KeyNotFound _ \<Rightarrow> ret None | _ \<Rightarrow> throw e)"

definition probe_mode_key :: "'d platform \<Rightarrow> u8 \<Rightarrow> ('d, u32) smc_op" where
  "probe_mode_key io i = bindE (optional (read_key_info io (fan_key i CHR ''m'' CHR ''d''))) (\<lambda>r. case r of
     Some _ \<Rightarrow> ret (fan_key i CHR ''m'' CHR ''d'')
   | None \<Rightarrow> bindE (optional (read_key_info io (fan_key i CHR ''M'' CHR ''d''))) (\<lambda>r. case r of
       Some _ \<Rightarrow> ret (fan_key i CHR ''M'' CHR ''d'')
     | None \<Rightarrow> throw (KeyNotFound (fan_key i CHR ''M'' CHR ''d''))))"

definition enumerate_fan :: "'d platform \<Rightarrow> u8 \<Rightarrow> ('d, fan) smc_op" where
  "enumerate_fan io i =
     bindE (read_f32 io (fan_key i CHR ''M'' CHR ''n'')) (\<lambda>lo.
     bindE (read_f32 io (fan_key i CHR ''M'' CHR ''x'')) (\<lambda>hi.
     bindE (optional (read_f32 io (fan_key i CHR ''S'' CHR ''f''))) (\<lambda>safe.
     bindE (read_f32 io (fan_key i CHR ''A'' CHR ''c'')) (\<lambda>actual.
     bindE (probe_mode_key io i) (\<lambda>mode.
     ret \<lparr> fan_ix = i, fan_min = lo, fan_max = hi, fan_safe = safe, fan_actual = actual,
           fan_mode_key = mode \<rparr>)))))"

definition fan_indices :: "u8 \<Rightarrow> u8 list" where
  "fan_indices n = map word_of_nat [0..<unat n]"

definition enumerate_fans :: "'d platform \<Rightarrow> ('d, fan list) smc_op" where
  "enumerate_fans io = bindE (read_key_count io) (\<lambda>_.
     bindE (optional (read_u8 io FAN_COUNT_KEY)) (\<lambda>n.
     let fan_count = (case n of Some n \<Rightarrow> n | None \<Rightarrow> 0) in
     if fan_count = 0 then ret [] else eachE (enumerate_fan io) (fan_indices fan_count)))"

section \<open>Reading only\<close>

context call_guard
begin

lemma optional_keeps: "keeps K m \<Longrightarrow> keeps K (optional m)"
  unfolding optional_def by (auto intro!: keeps_bind keeps_catch split: smc_error.split)

lemma probe_mode_key_keeps: "keeps K (probe_mode_key io i)"
  unfolding probe_mode_key_def
  by (auto intro!: keeps_bind optional_keeps read_key_info_keeps split: option.split)

lemma enumerate_fan_keeps: "keeps K (enumerate_fan io i)"
  unfolding enumerate_fan_def
  by (intro keeps_bind keeps_ret read_f32_keeps optional_keeps probe_mode_key_keeps)

lemma enumerate_fans_keeps: "keeps K (enumerate_fans io)"
  unfolding enumerate_fans_def read_key_count_def Let_def
  by (intro keeps_bind keeps_if keeps_ret keeps_throw read_u32_keeps read_u8_keeps optional_keeps keeps_each
      enumerate_fan_keeps)

end

section \<open>On a device that honours the protocol\<close>

text \<open>The layout of one fan: what its registers hold.\<close>

record fan_regs =
  r_min :: f32
  r_max :: f32
  r_safe :: f32
  r_actual :: f32
  r_mode :: u8

definition fan_keys :: "u8 \<Rightarrow> u32 set" where
  "fan_keys i = {fan_key i CHR ''M'' CHR ''n'', fan_key i CHR ''M'' CHR ''x'', fan_key i CHR ''S'' CHR ''f'',
     fan_key i CHR ''A'' CHR ''c'', fan_key i CHR ''m'' CHR ''d''}"

definition holds_fan :: "(u32 \<Rightarrow> (u32 \<times> u8 list) option) \<Rightarrow> u8 \<Rightarrow> fan_regs \<Rightarrow> bool" where
  "holds_fan r i f \<longleftrightarrow> holds_flt r (fan_key i CHR ''M'' CHR ''n'') (r_min f)
     \<and> holds_flt r (fan_key i CHR ''M'' CHR ''x'') (r_max f) \<and> holds_flt r (fan_key i CHR ''S'' CHR ''f'') (r_safe f)
     \<and> holds_flt r (fan_key i CHR ''A'' CHR ''c'') (r_actual f)
     \<and> r (fan_key i CHR ''m'' CHR ''d'') = Some (TYPE_UI8, [r_mode f])"

definition fan_of :: "u8 \<Rightarrow> fan_regs \<Rightarrow> fan" where
  "fan_of i f = \<lparr> fan_ix = i, fan_min = r_min f, fan_max = r_max f, fan_safe = Some (r_safe f),
     fan_actual = r_actual f, fan_mode_key = fan_key i CHR ''m'' CHR ''d'' \<rparr>"

text \<open>The keys an enumeration reads, and a register file that holds \<open>n\<close> fans with a plausible key count.\<close>

definition enum_keys :: "u8 \<Rightarrow> u32 set" where
  "enum_keys n = {KEY_COUNT_KEY, FAN_COUNT_KEY} \<union> (\<Union>i\<in>set (fan_indices n). fan_keys i)"

definition holds_fans :: "(u32 \<Rightarrow> (u32 \<times> u8 list) option) \<Rightarrow> u32 \<Rightarrow> u8 \<Rightarrow> (u8 \<Rightarrow> fan_regs) \<Rightarrow> bool" where
  "holds_fans r count n fs \<longleftrightarrow> 0 < count \<and> count \<le> MAX_PLAUSIBLE_KEYS
     \<and> r KEY_COUNT_KEY = Some (TYPE_UI32, encode_ui32 count) \<and> r FAN_COUNT_KEY = Some (TYPE_UI8, [n])
     \<and> (\<forall>i\<in>set (fan_indices n). holds_fan r i (fs i))"

context smc_device
begin

lemma optional_rest: "does P m a P \<Longrightarrow> does P (optional m) (Some a) P"
  unfolding optional_def by (intro does_catch does_bind [OF _ does_ret])

lemma enumerate_fan_rest:
  assumes k: "fan_keys i \<subseteq> Ks" and h: "holds_fan r i f"
  shows "does (at_rest Ks r) (enumerate_fan io i) (fan_of i f) (at_rest Ks r)"
proof -
  have ks: "fan_key i CHR ''M'' CHR ''n'' \<in> Ks" "fan_key i CHR ''M'' CHR ''x'' \<in> Ks" "fan_key i CHR ''S'' CHR ''f'' \<in> Ks"
    "fan_key i CHR ''A'' CHR ''c'' \<in> Ks" "fan_key i CHR ''m'' CHR ''d'' \<in> Ks"
    using k unfolding fan_keys_def by blast+
  note hs = h [unfolded holds_fan_def, THEN conjunct1]
    h [unfolded holds_fan_def, THEN conjunct2, THEN conjunct1]
    h [unfolded holds_fan_def, THEN conjunct2, THEN conjunct2, THEN conjunct1]
    h [unfolded holds_fan_def, THEN conjunct2, THEN conjunct2, THEN conjunct2, THEN conjunct1]
    h [unfolded holds_fan_def, THEN conjunct2, THEN conjunct2, THEN conjunct2, THEN conjunct2]
  have m: "does (at_rest Ks r) (probe_mode_key io i) (fan_key i CHR ''m'' CHR ''d'') (at_rest Ks r)"
    unfolding probe_mode_key_def
    by (rule does_bind [OF optional_rest [OF read_key_info_rest [where r = r, OF ks(5) hs(5)]]]) (simp only: option.case does_ret)
  note fl = read_f32_rest [OF ks(1) hs(1)] read_f32_rest [OF ks(2) hs(2)] read_f32_rest [OF ks(3) hs(3)]
    read_f32_rest [OF ks(4) hs(4)]
  have "does (at_rest Ks r) (enumerate_fan io i)
     \<lparr> fan_ix = i, fan_min = r_min f, fan_max = r_max f, fan_safe = Some (r_safe f), fan_actual = r_actual f,
       fan_mode_key = fan_key i CHR ''m'' CHR ''d'' \<rparr> (at_rest Ks r)"
    unfolding enumerate_fan_def
    by (rule does_bind, rule fl(1), rule does_bind, rule fl(2), rule does_bind, rule optional_rest, rule fl(3),
      rule does_bind, rule fl(4), rule does_bind, rule m, rule does_ret)
  then show ?thesis by (simp add: fan_of_def)
qed

lemma enumerate_fans_rest:
  assumes k: "enum_keys n \<subseteq> Ks" and h: "holds_fans r count n fs"
  shows "does (at_rest Ks r) (enumerate_fans io) (map (\<lambda>i. fan_of i (fs i)) (fan_indices n)) (at_rest Ks r)"
proof -
  note h' = h [unfolded holds_fans_def] and k' = k [unfolded enum_keys_def]
  have c: "does (at_rest Ks r) (read_key_count io) count (at_rest Ks r)"
    unfolding read_key_count_def by (rule does_bind [OF read_u32_rest]) (use h' k' in \<open>auto simp: does_ret\<close>)
  have f: "does (at_rest Ks r) (optional (read_u8 io FAN_COUNT_KEY)) (Some n) (at_rest Ks r)"
    by (rule optional_rest [OF read_u8_rest]) (use h' k' in auto)
  have e: "does (at_rest Ks r) (eachE (enumerate_fan io) (fan_indices n)) (map (\<lambda>i. fan_of i (fs i)) (fan_indices n)) (at_rest Ks r)"
    by (rule does_each, rule enumerate_fan_rest) (use h' k' in auto)
  have z: "fan_indices 0 = []" by (simp add: fan_indices_def)
  show ?thesis unfolding enumerate_fans_def
    by (rule does_bind [OF c does_bind [OF f]]) (use e in \<open>simp add: z Let_def does_ret\<close>)
qed

end

end
