(* ===== verification/Unlock.thy ===== *)
theory Unlock
  imports Session_Id Smc_Conn
begin

text \<open>
  The diagnostic unlock session (\<open>src/smc/unlock.rs\<close>) and its watchdog. The flag
  \<open>release_in_progress\<close>, shared with the signal thread, is an argument of the operations that read or
  set it; the watchdog thread is a loop over what it observes at each wake-up (stop flag, release flag,
  clock, last heartbeat). Also the dispatch-queue watchdog of \<open>src/launchd/gcd.rs\<close>.
\<close>

section \<open>The session\<close>

definition WATCHDOG_DEADLINE_MS :: u64 where
  "WATCHDOG_DEADLINE_MS = 4000"

definition WATCHDOG_POLL_INTERVAL_MS :: nat where
  "WATCHDOG_POLL_INTERVAL_MS = 250"

record unlock_session =
  us_session :: session_id
  us_acquired_at :: nat
  last_heartbeat_ns :: u64
  us_released :: bool
  watchdog_running :: bool
  watchdog_stop :: bool

definition unlock_new :: "'d platform \<Rightarrow> session_id \<Rightarrow> 'd \<Rightarrow> unlock_session" where
  "unlock_new io sid d = \<lparr> us_session = sid, us_acquired_at = io_now_ms io d,
     last_heartbeat_ns = io_wall_ns io d, us_released = False, watchdog_running = False,
     watchdog_stop = False \<rparr>"

text \<open>Starting twice is a no-op.\<close>

definition start_watchdog :: "unlock_session \<Rightarrow> unlock_session" where
  "start_watchdog u = (if watchdog_running u then u else u\<lparr> watchdog_running := True \<rparr>)"

definition stop_watchdog :: "unlock_session \<Rightarrow> unlock_session" where
  "stop_watchdog u = u\<lparr> watchdog_stop := True, watchdog_running := False \<rparr>"

definition unlock_heartbeat :: "'d platform \<Rightarrow> 'd \<Rightarrow> unlock_session \<Rightarrow> unlock_session" where
  "unlock_heartbeat io d u = u\<lparr> last_heartbeat_ns := io_wall_ns io d \<rparr>"

definition elapsed_ms :: "u64 \<Rightarrow> u64 \<Rightarrow> u64" where
  "elapsed_ms now since = sat_sub now since div 1000000"

definition ms_since_last_heartbeat :: "'d platform \<Rightarrow> 'd \<Rightarrow> unlock_session \<Rightarrow> u64" where
  "ms_since_last_heartbeat io d u = elapsed_ms (io_wall_ns io d) (last_heartbeat_ns u)"

definition watchdog_fired :: "'d platform \<Rightarrow> 'd \<Rightarrow> unlock_session \<Rightarrow> bool" where
  "watchdog_fired io d u \<longleftrightarrow> WATCHDOG_DEADLINE_MS \<le> ms_since_last_heartbeat io d u"

text \<open>The compare-exchange on the shared flag: the answer, the session and the flag.\<close>

definition try_begin_release :: "unlock_session \<Rightarrow> bool \<Rightarrow> bool \<times> unlock_session \<times> bool" where
  "try_begin_release u flag =
    (if us_released u then (False, u, flag)
     else if flag then (False, u, flag)
     else (True, u\<lparr> us_released := True \<rparr>, True))"

section \<open>The watchdog thread\<close>

text \<open>What the thread sees when a sleep of \<open>WATCHDOG_POLL_INTERVAL\<close> ends.\<close>

record wake =
  w_stop :: bool
  w_release :: bool
  w_now :: u64
  w_last :: u64

text \<open>
  \<open>Watching\<close>: still in the loop when the observations end. \<open>Raised n\<close>: SIGTERM was raised at wake-up
  \<open>n\<close>; the thread then parks for good.
\<close>

datatype watchdog_end = Watching | Stopped nat | Raised nat

fun watchdog_loop :: "nat \<Rightarrow> wake list \<Rightarrow> watchdog_end" where
  "watchdog_loop n [] = Watching"
| "watchdog_loop n (w # ws) =
    (if w_stop w then Stopped n
     else if w_release w then Stopped n
     else if WATCHDOG_DEADLINE_MS \<le> elapsed_ms (w_now w) (w_last w) then Raised n
     else watchdog_loop (Suc n) ws)"

section \<open>The dispatch-queue watchdog\<close>

text \<open>The handler compares \<open>mach_absolute_time\<close> with the deadline; \<open>True\<close> means \<open>on_stall\<close> runs.\<close>

definition watchdog_handler :: "u64 \<Rightarrow> u64 \<Rightarrow> u64 \<Rightarrow> bool" where
  "watchdog_handler last_tick now deadline_ns \<longleftrightarrow> 0 < last_tick \<and> deadline_ns < sat_sub now last_tick"

section \<open>One-shot release\<close>

lemma release_once:
  assumes "try_begin_release u flag = (won, u', flag')"
  shows "won \<longleftrightarrow> \<not> us_released u \<and> \<not> flag" "fst (try_begin_release u' flag') = False \<or> \<not> won"
    "won \<Longrightarrow> flag' \<and> us_released u'" "flag \<Longrightarrow> flag'"
  using assms by (auto simp: try_begin_release_def split: if_splits)

section \<open>When the watchdog fires\<close>

text \<open>A wake-up that raises the signal, and one that ends the thread.\<close>

definition overdue :: "wake \<Rightarrow> bool" where
  "overdue w \<longleftrightarrow> WATCHDOG_DEADLINE_MS \<le> elapsed_ms (w_now w) (w_last w)"

definition ends :: "wake \<Rightarrow> bool" where
  "ends w \<longleftrightarrow> w_stop w \<or> w_release w"

lemma watchdog_loop_skip:
  "list_all (\<lambda>w. \<not> ends w \<and> \<not> overdue w) ws \<Longrightarrow> watchdog_loop n (ws @ vs) = watchdog_loop (n + length ws) vs"
  by (induction ws arbitrary: n) (auto simp: ends_def overdue_def)

lemma watchdog_loop_Raised:
  "watchdog_loop n ws = Raised m \<longleftrightarrow> (\<exists>us w vs. ws = us @ w # vs \<and> m = n + length us
     \<and> list_all (\<lambda>w. \<not> ends w \<and> \<not> overdue w) us \<and> \<not> ends w \<and> overdue w)"
proof
  assume "watchdog_loop n ws = Raised m"
  then show "\<exists>us w vs. ws = us @ w # vs \<and> m = n + length us
     \<and> list_all (\<lambda>w. \<not> ends w \<and> \<not> overdue w) us \<and> \<not> ends w \<and> overdue w"
  proof (induction n ws rule: watchdog_loop.induct)
    case (2 n w ws)
    show ?case
    proof (cases "ends w \<or> overdue w")
      case True
      then have "\<not> ends w" "overdue w" "m = n" using 2(2) by (auto simp: ends_def overdue_def split: if_splits)
      then show ?thesis by (intro exI [of _ "[]"]) auto
    next
      case False
      then obtain us w' vs where "ws = us @ w' # vs" "m = Suc n + length us"
        "list_all (\<lambda>w. \<not> ends w \<and> \<not> overdue w) us" "\<not> ends w'" "overdue w'"
        using 2 by (auto simp: ends_def overdue_def split: if_splits)
      then show ?thesis using False by (intro exI [of _ "w # us"]) auto
    qed
  qed simp
qed (auto simp: watchdog_loop_skip, auto simp: ends_def overdue_def)

text \<open>In milliseconds, as numbers: overdue means at least four seconds since the last heartbeat.\<close>

lemma overdue_iff: "overdue w \<longleftrightarrow> unat (w_last w) + 4000000000 \<le> unat (w_now w)"
proof -
  have "overdue w \<longleftrightarrow> 4000 \<le> (unat (w_now w) - unat (w_last w)) div 1000000"
    by (simp add: overdue_def elapsed_ms_def WATCHDOG_DEADLINE_MS_def word_le_nat_alt unat_div unat_sat_sub)
  also have "\<dots> \<longleftrightarrow> 4000000000 \<le> unat (w_now w) - unat (w_last w)" by linarith
  finally show ?thesis by linarith
qed

end
