(* ===== verification/Teardown.thy ===== *)
theory Teardown
  imports Unlock Smc_Device Smc_Writes
begin

text \<open>
  The three ways back to automatic control: the release loop they share, the signal thread
  (\<open>src/smc/signal.rs\<close>), the panic hook (\<open>src/smc/panic_hook.rs\<close>), and the race of the main thread and
  the signal thread for the flag \<open>release_in_progress\<close> as a step relation over all interleavings.
\<close>

section \<open>The release loop\<close>

text \<open>Errors are dropped: every fan gets its write.\<close>

definition auto_all :: "'d platform \<Rightarrow> u8 list \<Rightarrow> 'd smc \<Rightarrow> 'd smc" where
  "auto_all io fans s = foldl (\<lambda>s i. ignore (force_write_auto_mode io i) s) s fans"

definition release_fans :: "'d platform \<Rightarrow> u8 list \<Rightarrow> 'd smc \<Rightarrow> 'd smc" where
  "release_fans io fans s = ignore (force_write_ftst_zero io) (auto_all io fans s)"

section \<open>The signal thread\<close>

text \<open>What \<open>fstat\<close> and \<open>isatty\<close> say of standard error; \<open>None\<close> when \<open>fstat\<close> fails.\<close>

record stderr_stat =
  st_tty :: bool
  st_mode :: u16
  st_uid :: u32

definition S_IFMT :: u16 where "S_IFMT = 0xF000"
definition S_IFREG :: u16 where "S_IFREG = 0x8000"

definition stderr_is_trusted :: "stderr_stat option \<Rightarrow> bool" where
  "stderr_is_trusted st = (case st of None \<Rightarrow> False | Some st \<Rightarrow>
     if st_tty st then True
     else if st_mode st AND S_IFMT \<noteq> S_IFREG then False
     else if st_uid st \<noteq> 0 then False
     else let perm = st_mode st AND 0x1FF in perm = 0x180 \<or> perm = 0x1A0)"

datatype signal = SigTerm | SigInt | SigHup | SigInfo | SigOther

datatype progress = Continue | Exited int

record signal_thread =
  st_conn :: smc_connection
  st_fans :: "u8 list"
  st_reload :: bool
  st_stderr :: "string list"

definition emit_stderr :: "string \<Rightarrow> signal_thread \<Rightarrow> signal_thread" where
  "emit_stderr m t = t\<lparr> st_stderr := st_stderr t @ [m] \<rparr>"

text \<open>The flag, the thread and the outside world after the teardown; the process exits on both paths.\<close>

definition teardown_and_exit ::
  "'d platform \<Rightarrow> bool \<Rightarrow> signal_thread \<Rightarrow> 'd \<Rightarrow> progress \<times> bool \<times> signal_thread \<times> 'd" where
  "teardown_and_exit io flag t d =
    (if flag then (Exited 1, flag, t, d)
     else let (c, d1) = release_fans io (st_fans t) (st_conn t, d) in
       (Exited 0, True, emit_stderr ''fand: signal teardown complete, exiting\<newline>'' (t\<lparr> st_conn := c \<rparr>), d1))"

definition handle_signal ::
  "'d platform \<Rightarrow> stderr_stat option \<Rightarrow> signal \<Rightarrow> bool \<Rightarrow> signal_thread \<Rightarrow> 'd
   \<Rightarrow> progress \<times> bool \<times> signal_thread \<times> 'd" where
  "handle_signal io st sig flag t d = (case sig of
     SigHup \<Rightarrow> (Continue, flag, t\<lparr> st_reload := True \<rparr>, d)
   | SigInfo \<Rightarrow> (Continue, flag, emit_stderr (if stderr_is_trusted st
         then ''fand: SIGINFO - ring drain not yet wired\<newline>''
         else ''fand: SIGINFO - ring contents suppressed (stderr is not a trusted sink per FR-064)\<newline>'') t, d)
   | SigTerm \<Rightarrow> teardown_and_exit io flag t d
   | SigInt \<Rightarrow> teardown_and_exit io flag t d
   | SigOther \<Rightarrow> (Continue, flag, t, d))"

fun signal_loop ::
  "'d platform \<Rightarrow> stderr_stat option \<Rightarrow> signal list \<Rightarrow> bool \<Rightarrow> signal_thread \<Rightarrow> 'd
   \<Rightarrow> progress \<times> bool \<times> signal_thread \<times> 'd" where
  "signal_loop io st [] flag t d = (Continue, flag, t, d)"
| "signal_loop io st (s # ss) flag t d = (case handle_signal io st s flag t d of
     (Exited n, r) \<Rightarrow> (Exited n, r)
   | (Continue, flag1, t1, d1) \<Rightarrow> signal_loop io st ss flag1 t1 d1)"

text \<open>
  The signal mask of a thread. The main thread blocks the four signals before it spawns the others, which
  inherit its mask; the signal thread unblocks them for itself. When \<open>Signals::new\<close> fails
  (\<open>registered\<close> is false) the thread returns, and no thread is left that could receive them.
\<close>

definition handled_signals :: "signal set" where
  "handled_signals = {SigTerm, SigInt, SigHup, SigInfo}"

definition block_signals :: "signal set \<Rightarrow> signal set" where
  "block_signals blocked = blocked \<union> handled_signals"

definition unblock_signals :: "signal set \<Rightarrow> signal set" where
  "unblock_signals blocked = blocked - handled_signals"

definition signal_thread_body ::
  "'d platform \<Rightarrow> stderr_stat option \<Rightarrow> bool \<Rightarrow> signal set \<Rightarrow> signal list \<Rightarrow> bool \<Rightarrow> signal_thread \<Rightarrow> 'd
   \<Rightarrow> progress \<times> bool \<times> signal_thread \<times> 'd" where
  "signal_thread_body io st registered inherited raised flag t d =
    (let blocked = unblock_signals inherited in
     if \<not> registered then (Continue, flag, emit_stderr ''fand: signal-hook registration failed\<newline>'' t, d)
     else signal_loop io st (filter (\<lambda>s. s \<notin> blocked) raised) flag t d)"

text \<open>
  The thread receives every one of the four signals, whatever it inherited, if it registered; if not, a
  termination request changes nothing, as the mask of the main thread blocks it too.
\<close>

lemma signal_thread_receives:
  assumes "set raised \<subseteq> handled_signals"
  shows "signal_thread_body io st True (block_signals m) raised flag t d = signal_loop io st raised flag t d"
proof -
  have "filter (\<lambda>s. s \<notin> unblock_signals (block_signals m)) raised = raised"
    using assms by (intro filter_True) (auto simp: unblock_signals_def)
  then show ?thesis by (simp add: signal_thread_body_def)
qed

lemma signal_thread_unregistered:
  "signal_thread_body io st False (block_signals m) (SigTerm # raised) flag t d
     = (Continue, flag, emit_stderr ''fand: signal-hook registration failed\<newline>'' t, d)
   \<and> SigTerm \<in> block_signals m \<and> SigInt \<in> block_signals m"
  by (simp add: signal_thread_body_def block_signals_def handled_signals_def)

section \<open>The panic hook\<close>

text \<open>The stack buffer writer: a buffer and a position; what does not fit is dropped.\<close>

record slice_writer =
  sw_buf :: "u8 list"
  sw_pos :: nat

definition write_str :: "u8 list \<Rightarrow> slice_writer \<Rightarrow> slice_writer" where
  "write_str bytes w =
    (let remaining = length (sw_buf w) - sw_pos w; taken = min (length bytes) remaining in
     if 0 < taken
     then w\<lparr> sw_buf := take (sw_pos w) (sw_buf w) @ take taken bytes @ drop (sw_pos w + taken) (sw_buf w),
             sw_pos := sw_pos w + taken \<rparr>
     else w)"

definition bytes_of :: "string \<Rightarrow> u8 list" where
  "bytes_of s = map byte s"

text \<open>The pieces in which the panic message formats itself are an argument.\<close>

definition panic_diagnostic :: "u8 list list \<Rightarrow> u8 list" where
  "panic_diagnostic info =
    (let w = foldl (\<lambda>w p. write_str p w) \<lparr> sw_buf = replicate 512 0, sw_pos = 0 \<rparr>
       (bytes_of ''fand panic: '' # info @ [bytes_of ''\<newline>'']) in take (sw_pos w) (sw_buf w))"

record panic_globals =
  pg_conn :: "smc_connection option"
  pg_fans :: "u8 list option"
  pg_active :: bool
  pg_stderr :: "u8 list list"

text \<open>The \<open>OnceLock\<close>s keep their first value.\<close>

definition seal_for_panic :: "smc_connection \<Rightarrow> u8 list \<Rightarrow> panic_globals \<Rightarrow> panic_globals" where
  "seal_for_panic conn fans g =
     g\<lparr> pg_conn := (case pg_conn g of None \<Rightarrow> Some conn | c \<Rightarrow> c),
        pg_fans := (case pg_fans g of None \<Rightarrow> Some fans | f \<Rightarrow> f) \<rparr>"

definition panic_hook_body :: "'d platform \<Rightarrow> u8 list list \<Rightarrow> panic_globals \<Rightarrow> 'd \<Rightarrow> panic_globals \<times> 'd" where
  "panic_hook_body io info g d =
    (if pg_active g then (g, d)
     else let g1 = g\<lparr> pg_active := True \<rparr>; m = panic_diagnostic info;
              g2 = (if m \<noteq> [] then g1\<lparr> pg_stderr := pg_stderr g1 @ [m] \<rparr> else g1) in
       case (pg_conn g2, pg_fans g2) of
         (Some c, Some fans) \<Rightarrow> let (c1, d1) = release_fans io fans (c, d) in (g2\<lparr> pg_conn := Some c1 \<rparr>, d1)
       | _ \<Rightarrow> (g2, d))"

section \<open>The writer never overflows\<close>

lemma write_str_pos: "sw_pos w \<le> length (sw_buf w) \<Longrightarrow>
    length (sw_buf (write_str bs w)) = length (sw_buf w) \<and> sw_pos (write_str bs w) \<le> length (sw_buf w)
    \<and> take (sw_pos (write_str bs w)) (sw_buf (write_str bs w))
        = take (length (sw_buf w)) (take (sw_pos w) (sw_buf w) @ bs)"
  by (auto simp: write_str_def Let_def min_def)

lemma writes_take:
  "sw_pos w \<le> length (sw_buf w) \<Longrightarrow> w' = foldl (\<lambda>w p. write_str p w) w ps \<Longrightarrow>
   take (sw_pos w') (sw_buf w') = take (length (sw_buf w)) (take (sw_pos w) (sw_buf w) @ concat ps)"
proof (induction ps arbitrary: w)
  case (Cons p ps)
  have "length (take (sw_pos w) (sw_buf w)) = sw_pos w" using Cons.prems(1) by simp
  moreover have "length (sw_buf w) - (sw_pos w + min (length p) (length (sw_buf w) - sw_pos w))
      = length (sw_buf w) - (sw_pos w + length p)" by (simp add: min_def)
  ultimately show ?case
    using write_str_pos [OF Cons.prems(1), of p] Cons.IH [of "write_str p w"] Cons.prems(2) by simp
qed simp

lemma panic_diagnostic_take:
  "panic_diagnostic info = take 512 (bytes_of ''fand panic: '' @ concat info @ bytes_of ''\<newline>'')"
  unfolding panic_diagnostic_def Let_def by (subst writes_take [OF _ refl]) simp_all

section \<open>What the release does to a device\<close>

declare key_fourcc.simps [simp del] key_fourcc_inject [simp]

text \<open>The registers after every fan of the list went back to automatic control.\<close>

fun autos :: "u8 list \<Rightarrow> (u32 \<Rightarrow> (u32 \<times> u8 list) option) \<Rightarrow> u32 \<Rightarrow> (u32 \<times> u8 list) option" where
  "autos [] r = r"
| "autos (i # is) r = autos is (r(key_fourcc (FanMode i) \<mapsto> (TYPE_UI8, [0])))"

lemma autos_other: "k \<notin> (key_fourcc \<circ> FanMode) ` set is \<Longrightarrow> autos is r k = r k"
  by (induction "is" arbitrary: r) auto

lemma autos_fan: "i \<in> set is \<Longrightarrow> autos is r (key_fourcc (FanMode i)) = Some (TYPE_UI8, [0])"
proof (induction "is" arbitrary: r)
  case (Cons j js)
  show ?case
  proof (cases "i \<in> set js")
    case False
    then have j: "i = j" using Cons.prems by simp
    have "key_fourcc (FanMode i) \<notin> (key_fourcc \<circ> FanMode) ` set js" using False by auto
    then show ?thesis by (simp add: autos_other j)
  qed (simp add: Cons.IH)
qed simp

definition ftst_cleared :: "(u32 \<Rightarrow> (u32 \<times> u8 list) option) \<Rightarrow> u32 \<Rightarrow> (u32 \<times> u8 list) option" where
  "ftst_cleared r = (if r (key_fourcc FtstKey) = None then r else r(key_fourcc FtstKey \<mapsto> (TYPE_UI8, [0])))"

lemma autos_ftst: "autos is r (key_fourcc FtstKey) = r (key_fourcc FtstKey)"
  by (rule autos_other) auto

lemma autos_append: "autos (is @ js) r = autos js (autos is r)"
  by (induction "is" arbitrary: r) auto

lemma mode_type [simp]: "key_data_type (FanMode i) = TYPE_UI8" "key_data_type FtstKey = TYPE_UI8"
  by simp_all

definition mode_keys :: "u8 list \<Rightarrow> u32 set" where
  "mode_keys fans = (key_fourcc \<circ> FanMode) ` set fans"

definition holds_modes :: "u8 list \<Rightarrow> (u32 \<Rightarrow> (u32 \<times> u8 list) option) \<Rightarrow> bool" where
  "holds_modes fans r \<longleftrightarrow> (\<forall>i\<in>set fans. \<exists>x. r (key_fourcc (FanMode i)) = Some (TYPE_UI8, [x]))"

lemma holds_modes_upd: "holds_modes fans r \<Longrightarrow> holds_modes fans (r(k \<mapsto> (TYPE_UI8, [x])))"
  by (auto simp: holds_modes_def)

context smc_device
begin

lemma auto_all_rest:
  "mode_keys fans \<subseteq> Ks \<Longrightarrow> holds_modes fans r \<Longrightarrow> at_rest Ks r s \<Longrightarrow> at_rest Ks (autos fans r) (auto_all io fans s)"
proof (induction fans arbitrary: r s)
  case (Cons i fans)
  let ?k = "key_fourcc (FanMode i)"
  obtain x where x: "r ?k = Some (TYPE_UI8, [x])" using Cons.prems(2) by (auto simp: holds_modes_def)
  have k: "?k \<in> Ks" "mode_keys fans \<subseteq> Ks" using Cons.prems(1) by (auto simp: mode_keys_def)
  have "at_rest Ks (r(?k \<mapsto> (TYPE_UI8, [0]))) (ignore (force_write_auto_mode io i) s)"
    using doesD [OF write_u8_rest [where r = r, OF k(1) x mode_type(1), of 0] Cons.prems(3)]
    by (auto simp: ignore_def force_write_auto_mode_def)
  moreover have "holds_modes fans (r(?k \<mapsto> (TYPE_UI8, [0])))"
    using Cons.prems(2) by (intro holds_modes_upd) (simp add: holds_modes_def)
  ultimately show ?case using Cons.IH [OF k(2)] by (simp add: auto_all_def)
qed (simp add: auto_all_def)

lemma ready_usable: "ready Ks c d \<Longrightarrow> Ks \<noteq> {} \<Longrightarrow> connection_open c \<and> conn_port c \<noteq> 0"
  by (fastforce simp: ready_def usable_def)

text \<open>The last write clears the \<open>Ftst\<close> register if there is one, and nothing else.\<close>

definition ftst_ok :: "u32 set \<Rightarrow> (u32 \<Rightarrow> (u32 \<times> u8 list) option) \<Rightarrow> bool" where
  "ftst_ok Ks r \<longleftrightarrow> Ks \<noteq> {} \<and> (r (key_fourcc FtstKey) = None
     \<or> key_fourcc FtstKey \<in> Ks \<and> (\<exists>x. r (key_fourcc FtstKey) = Some (TYPE_UI8, [x])))"

lemma ftst_rest:
  assumes f: "ftst_ok Ks r" and s: "at_rest Ks r s"
  shows "reg (snd (ignore (force_write_ftst_zero io) s)) = ftst_cleared r"
proof -
  obtain c d where cd: "s = (c, d)" by force
  have rd: "reg d = r" "ready Ks c d" using s by (simp_all add: at_rest_def cd)
  show ?thesis
  proof (cases "r (key_fourcc FtstKey)")
    case None
    obtain res c' d' where w: "write_bytes io (key_fourcc FtstKey) [0] (c, d) = (res, (c', d'))" by (metis prod_cases3)
    have "reg d' = reg d"
      using write_bytes_absent [OF _ _ _ w] ready_usable [OF rd(2)] f None rd(1) by (simp add: ftst_ok_def)
    then show ?thesis using None w rd(1)
      by (simp add: cd ignore_def force_write_ftst_zero_def write_u8_def write_key_def ftst_cleared_def)
  next
    case (Some p)
    then obtain x where x: "key_fourcc FtstKey \<in> Ks" "r (key_fourcc FtstKey) = Some (TYPE_UI8, [x])"
      using f by (auto simp: ftst_ok_def)
    from doesD [OF write_u8_rest [where r = r, OF x mode_type(2), of 0] s]
    show ?thesis using Some by (auto simp: ignore_def force_write_ftst_zero_def at_rest_def ftst_cleared_def)
  qed
qed

lemma ftst_ok_autos: "ftst_ok Ks (autos fans r) = ftst_ok Ks r"
  by (simp add: ftst_ok_def autos_ftst)

text \<open>The release sets every mode register to 0, the \<open>Ftst\<close> register too if there is one, and nothing else.\<close>

lemma release_fans_rest:
  assumes k: "mode_keys fans \<subseteq> Ks" and f: "ftst_ok Ks r" and h: "holds_modes fans r" and s: "at_rest Ks r s"
  shows "reg (snd (release_fans io fans s)) = ftst_cleared (autos fans r)"
  unfolding release_fans_def
  by (rule ftst_rest [OF _ auto_all_rest [OF k h s]]) (simp add: ftst_ok_autos f)

end

end
