(* ===== verification/Utf8.thy ===== *)
theory Utf8
  imports Fand_Prelude
begin

text \<open>
  UTF-8 validity as \<open>String::from_utf8\<close> checks it: well-formed sequences of one to four bytes, without
  overlong forms, surrogates and values above \<open>U+10FFFF\<close>. Strings of the model are lists of bytes,
  written as characters.
\<close>

definition in_range :: "nat \<Rightarrow> nat \<Rightarrow> char \<Rightarrow> bool" where
  "in_range lo hi c \<longleftrightarrow> lo \<le> of_char c \<and> of_char c \<le> hi"

definition continuation :: "char \<Rightarrow> bool" where
  "continuation = in_range 0x80 0xBF"

text \<open>The range of the second byte after each leading byte, and how many continuation bytes follow it.\<close>

definition second_range :: "char \<Rightarrow> (nat \<times> nat \<times> nat) option" where
  "second_range c =
    (if in_range 0xC2 0xDF c then Some (0x80, 0xBF, 0)
     else if in_range 0xE0 0xE0 c then Some (0xA0, 0xBF, 1)
     else if in_range 0xE1 0xEC c then Some (0x80, 0xBF, 1)
     else if in_range 0xED 0xED c then Some (0x80, 0x9F, 1)
     else if in_range 0xEE 0xEF c then Some (0x80, 0xBF, 1)
     else if in_range 0xF0 0xF0 c then Some (0x90, 0xBF, 2)
     else if in_range 0xF1 0xF3 c then Some (0x80, 0xBF, 2)
     else if in_range 0xF4 0xF4 c then Some (0x80, 0x8F, 2)
     else None)"

fun valid_utf8 :: "string \<Rightarrow> bool" where
  "valid_utf8 [] = True"
| "valid_utf8 (c # cs) =
    (if in_range 0 0x7F c then valid_utf8 cs
     else case second_range c of None \<Rightarrow> False
       | Some (lo, hi, n) \<Rightarrow> (case cs of [] \<Rightarrow> False
         | d # ds \<Rightarrow> in_range lo hi d \<and> n \<le> length ds \<and> list_all continuation (take n ds)
             \<and> valid_utf8 (drop n ds)))"

definition from_utf8 :: "string \<Rightarrow> string option" where
  "from_utf8 s = (if valid_utf8 s then Some s else None)"

lemma valid_ascii: "list_all (in_range 0 0x7F) s \<Longrightarrow> valid_utf8 s"
  by (induction s) auto

end
