(* ===== verification/Show.thy ===== *)
theory Show
  imports F32 Parse_Num
begin

text \<open>
  The formatting of the standard library that the messages use: decimal, hexadecimal and octal
  numbers, floats to a fixed number of decimals (\<open>{:.1}\<close>, rounded half to even on the exact value) and
  in the shortest form that reads back as the same float (\<open>{}\<close>), and padding. Strings are lists of
  bytes; padding counts characters, so bytes that continue a UTF-8 sequence do not count.
\<close>

definition digit_of :: "nat \<Rightarrow> char" where
  "digit_of d = char_of (if d < 10 then 48 + d else 55 + d)"

fun show_base :: "nat \<Rightarrow> nat \<Rightarrow> string" where
  "show_base b n = (if b < 2 \<or> n < b then [digit_of n] else show_base b (n div b) @ [digit_of (n mod b)])"

declare show_base.simps [simp del]

text \<open>\<open>{:0nX}\<close>, \<open>{:#X}\<close>, \<open>{:#o}\<close>.\<close>

definition zero_pad :: "nat \<Rightarrow> string \<Rightarrow> string" where
  "zero_pad n s = replicate (n - length s) CHR ''0'' @ s"

definition show_hex :: "nat \<Rightarrow> nat \<Rightarrow> string" where
  "show_hex n v = zero_pad n (show_base 16 v)"

definition show_hex_alt :: "nat \<Rightarrow> string" where
  "show_hex_alt v = ''0x'' @ show_base 16 v"

definition show_oct_alt :: "nat \<Rightarrow> string" where
  "show_oct_alt v = ''0o'' @ show_base 8 v"

definition show_u8 :: "u8 \<Rightarrow> string" where
  "show_u8 w = show_nat (unat w)"

definition show_int :: "int \<Rightarrow> string" where
  "show_int i = (if i < 0 then CHR ''-'' # show_nat (nat (- i)) else show_nat (nat i))"

definition show_bool :: "bool \<Rightarrow> string" where
  "show_bool b = (if b then ''true'' else ''false'')"

fun join :: "string \<Rightarrow> string list \<Rightarrow> string" where
  "join sep [] = []"
| "join sep [s] = s"
| "join sep (s # ss) = s @ sep @ join sep ss"

text \<open>\<open>{:02X?}\<close> of a slice of bytes.\<close>

definition show_bytes :: "u8 list \<Rightarrow> string" where
  "show_bytes bs = ''['' @ join '', '' (map (\<lambda>b. show_hex 2 (unat b)) bs) @ '']''"

section \<open>Floats\<close>

definition minus_sign :: "bool \<Rightarrow> string" where
  "minus_sign s = (if s then ''-'' else [])"

fun show_special :: "fview \<Rightarrow> string" where
  "show_special (VInf s) = minus_sign s @ ''inf''"
| "show_special _ = ''NaN''"

text \<open>\<open>m\<close> with a decimal point before its last \<open>n\<close> digits.\<close>

definition show_scaled :: "nat \<Rightarrow> nat \<Rightarrow> string" where
  "show_scaled n m = (if n = 0 then show_nat m
     else show_nat (m div 10 ^ n) @ ''.'' @ zero_pad n (show_nat (m mod 10 ^ n)))"

definition show_fixed :: "nat \<Rightarrow> f32 \<Rightarrow> string" where
  "show_fixed n x = (case view x of
     VFin s k \<Rightarrow> minus_sign s @ show_scaled n (rhe (k * 10 ^ n) (2 ^ 149))
   | v \<Rightarrow> show_special v)"

text \<open>
  The shortest form: of the decimals \<open>m * 10 ^ e / 10 ^ 60\<close> with \<open>d\<close> significant digits next to the
  value, one that rounds to the float, the nearer one if both do, for the least \<open>d\<close>.
\<close>

definition decimal_rounds :: "nat \<Rightarrow> nat \<Rightarrow> nat \<Rightarrow> bool" where
  "decimal_rounds k m e \<longleftrightarrow> rnd (m * 10 ^ e * 2 ^ 149) (10 ^ 60) = k"

definition nearest_decimal :: "nat \<Rightarrow> nat \<Rightarrow> nat option" where
  "nearest_decimal k e = (let m = k * 10 ^ 60 div (10 ^ e * 2 ^ 149); n = Suc m;
       low = k * 10 ^ 60 - m * 10 ^ e * 2 ^ 149; high = n * 10 ^ e * 2 ^ 149 - k * 10 ^ 60 in
     if decimal_rounds k m e \<and> (low \<le> high \<or> \<not> decimal_rounds k n e) then Some m
     else if decimal_rounds k n e then Some n else None)"

text \<open>The exponent of the leading digit, plus 60.\<close>

definition leading_exponent :: "nat \<Rightarrow> nat" where
  "leading_exponent k = length (show_nat (k * 10 ^ 60 div 2 ^ 149)) - 1"

definition shortest :: "nat \<Rightarrow> (nat \<times> nat) option" where
  "shortest k = (let t = leading_exponent k in
     map_option (\<lambda>d. let m = the (nearest_decimal k (Suc t - d)) in if m = 10 ^ d then (1, Suc t) else (m, Suc t - d))
       (List.find (\<lambda>d. nearest_decimal k (Suc t - d) \<noteq> None) [1..<11]))"

definition show_f32 :: "f32 \<Rightarrow> string" where
  "show_f32 x = (case view x of
     VFin s k \<Rightarrow> minus_sign s @ (if k = 0 then ''0'' else case shortest k of
         Some (m, e) \<Rightarrow> if 60 \<le> e then show_nat m @ replicate (e - 60) CHR ''0'' else show_scaled (60 - e) m
       | None \<Rightarrow> [])
   | v \<Rightarrow> show_special v)"

section \<open>Padding\<close>

definition char_count :: "string \<Rightarrow> nat" where
  "char_count s = length (filter (\<lambda>c. \<not> (128 \<le> (of_char c :: nat) \<and> (of_char c :: nat) < 192)) s)"

definition pad_right :: "nat \<Rightarrow> string \<Rightarrow> string" where
  "pad_right n s = s @ replicate (n - char_count s) CHR '' ''"

definition pad_left :: "nat \<Rightarrow> string \<Rightarrow> string" where
  "pad_left n s = replicate (n - char_count s) CHR '' '' @ s"

end
