(* ===== verification/Flock.thy ===== *)
theory Flock
  imports Utf8 Show
begin

text \<open>
  The single-instance lock (\<open>src/smc/single_instance.rs\<close>). The file system and the process are the
  record \<open>os\<close> of functions on the outside world; opening is \<open>O_CREAT | O_WRONLY | O_NOFOLLOW |
  O_CLOEXEC\<close> with mode 0600. Paths are those without a trailing slash or a final dot component, where
  parent and file name are what stands before and after the last slash.
\<close>

section \<open>The operating system\<close>

datatype io_error = IoError (io_errno: "int option") (io_denied: bool) (io_text: string)

record 'd os =
  os_canonicalize :: "string \<Rightarrow> 'd \<Rightarrow> (io_error, string) result"
  os_statfs :: "string \<Rightarrow> 'd \<Rightarrow> string option"
  os_open_lock :: "string \<Rightarrow> 'd \<Rightarrow> (io_error, nat) result \<times> 'd"
  os_close :: "nat \<Rightarrow> 'd \<Rightarrow> 'd"
  os_try_lock :: "nat \<Rightarrow> 'd \<Rightarrow> bool \<times> 'd"
  os_unlock :: "nat \<Rightarrow> 'd \<Rightarrow> 'd"
  os_read_to_string :: "string \<Rightarrow> 'd \<Rightarrow> string option"
  os_set_len :: "nat \<Rightarrow> nat \<Rightarrow> 'd \<Rightarrow> io_error option \<times> 'd"
  os_write :: "nat \<Rightarrow> string \<Rightarrow> 'd \<Rightarrow> io_error option \<times> 'd"
  os_flush :: "nat \<Rightarrow> 'd \<Rightarrow> io_error option \<times> 'd"
  os_pid :: "'d \<Rightarrow> u32"
  os_wall_ms :: "'d \<Rightarrow> u64"

definition ELOOP :: int where "ELOOP = 62"

section \<open>The code\<close>

definition DEFAULT_LOCKFILE_PATH :: string where
  "DEFAULT_LOCKFILE_PATH = ''/var/run/fand-smc.lock''"

definition FLOCK_UNRELIABLE_FS :: "string list" where
  "FLOCK_UNRELIABLE_FS = [''nfs'', ''smbfs'', ''msdos'', ''exfat'', ''cd9660'']"

record flock_guard =
  fg_file :: nat
  fg_path :: string
  fg_holder :: int

datatype flock_error =
    UnreliableFilesystem string
  | CreateFailed io_error
  | AlreadyHeld "int option"
  | SymlinkRejected
  | CanonicalizationFailed io_error
  | WriteFailed io_error

definition path_parent :: "string \<Rightarrow> string" where
  "path_parent p = (let d = dropWhile (\<lambda>c. c \<noteq> CHR ''/'') (rev p) in
     case d of [] \<Rightarrow> [] | [_] \<Rightarrow> ''/'' | _ # e \<Rightarrow> rev e)"

definition path_file_name :: "string \<Rightarrow> string option" where
  "path_file_name p = (let b = rev (takeWhile (\<lambda>c. c \<noteq> CHR ''/'') (rev p)) in
     if b = [] \<or> b = ''..'' then None else Some b)"

definition path_join :: "string \<Rightarrow> string \<Rightarrow> string" where
  "path_join p b = (if p \<noteq> [] \<and> last p = CHR ''/'' then p @ b else p @ CHR ''/'' # b)"

definition NUL :: char where "NUL = CHR 0x00"

text \<open>The type name is a field of 16 bytes; a failing \<open>statfs\<close> does not stop the acquisition.\<close>

definition check_filesystem :: "'d os \<Rightarrow> string \<Rightarrow> 'd \<Rightarrow> (flock_error, unit) result" where
  "check_filesystem os parent d =
    (if NUL \<in> set parent then Inr ()
     else case os_statfs os parent d of None \<Rightarrow> Inr ()
       | Some raw \<Rightarrow> let t = takeWhile (\<lambda>c. c \<noteq> NUL) (take 16 raw) in
           if t \<in> set FLOCK_UNRELIABLE_FS then Inl (UnreliableFilesystem t) else Inr ())"

text \<open>\<open>parse::<i32>\<close>.\<close>

definition parse_i32 :: "string \<Rightarrow> int option" where
  "parse_i32 s = (case s of
     c # t \<Rightarrow> if c = CHR ''-''
       then (if t \<noteq> [] \<and> list_all is_digit t \<and> dec t \<le> 2 ^ 31 then Some (- int (dec t)) else None)
       else map_option int (parse_uint (2 ^ 31 - 1) s)
   | [] \<Rightarrow> None)"

definition read_holder_pid_from_path :: "'d os \<Rightarrow> string \<Rightarrow> 'd \<Rightarrow> int option" where
  "read_holder_pid_from_path os path d = (case os_read_to_string os path d of
     None \<Rightarrow> None | Some s \<Rightarrow> parse_i32 (trim s))"

definition lock_invalid :: "string \<Rightarrow> io_error" where
  "lock_invalid m = IoError None False m"

text \<open>What \<open>CString::new\<close> says of a path with a zero byte.\<close>

definition nul_error :: "string \<Rightarrow> string" where
  "nul_error p = ''nul byte found in provided data at position: '' @ show_nat (length (takeWhile (\<lambda>c. c \<noteq> NUL) p))"

text \<open>Stamping the file once it is locked; on an error the file is closed, which releases the lock.\<close>

definition stamp_pid :: "'d os \<Rightarrow> nat \<Rightarrow> string \<Rightarrow> 'd \<Rightarrow> (flock_error, flock_guard) result \<times> 'd" where
  "stamp_pid os fd path d =
    (let pid = os_pid os d in
     case os_set_len os fd 0 d of
       (Some e, d1) \<Rightarrow> (Inl (WriteFailed e), os_close os fd d1)
     | (None, d1) \<Rightarrow> (case os_write os fd (show_int (sint pid) @ ''\<newline>'') d1 of
         (Some e, d2) \<Rightarrow> (Inl (WriteFailed e), os_close os fd d2)
       | (None, d2) \<Rightarrow> (case os_flush os fd d2 of
           (Some e, d3) \<Rightarrow> (Inl (WriteFailed e), os_close os fd d3)
         | (None, d3) \<Rightarrow> (Inr \<lparr> fg_file = fd, fg_path = path, fg_holder = sint pid \<rparr>, d3))))"

definition try_acquire_at :: "'d os \<Rightarrow> string \<Rightarrow> 'd \<Rightarrow> (flock_error, flock_guard) result \<times> 'd" where
  "try_acquire_at os path d =
    (case os_canonicalize os (path_parent path) d of
       Inl e \<Rightarrow> (Inl (CanonicalizationFailed e), d)
     | Inr parent \<Rightarrow> (case check_filesystem os parent d of
         Inl e \<Rightarrow> (Inl e, d)
       | Inr _ \<Rightarrow> (case path_file_name path of
           None \<Rightarrow> (Inl (CreateFailed (lock_invalid ''lockfile path has no basename'')), d)
         | Some basename \<Rightarrow> let p = path_join parent basename in
             if NUL \<in> set p then (Inl (CreateFailed (lock_invalid (''lockfile path contains NUL: '' @ nul_error p))), d)
             else case os_open_lock os p d of
               (Inl e, d1) \<Rightarrow> (Inl (if io_errno e = Some ELOOP then SymlinkRejected else CreateFailed e), d1)
             | (Inr fd, d1) \<Rightarrow> (case os_try_lock os fd d1 of
                 (False, d2) \<Rightarrow> (Inl (AlreadyHeld (read_holder_pid_from_path os p d2)), os_close os fd d2)
               | (True, d2) \<Rightarrow> stamp_pid os fd p d2))))"

definition try_acquire :: "'d os \<Rightarrow> 'd \<Rightarrow> (flock_error, flock_guard) result \<times> 'd" where
  "try_acquire os d = try_acquire_at os DEFAULT_LOCKFILE_PATH d"

text \<open>\<open>Drop\<close>: an explicit unlock, then the close of the file.\<close>

definition drop_guard :: "'d os \<Rightarrow> flock_guard \<Rightarrow> 'd \<Rightarrow> 'd" where
  "drop_guard os g d = os_close os (fg_file g) (os_unlock os (fg_file g) d)"

section \<open>The contract of an advisory lock\<close>

text \<open>
  \<open>holder d\<close> is the descriptor that holds the lock of the file, \<open>text d\<close> the content of the file: the
  lock is granted only when it is free, opening, closing another descriptor and locking do not change
  the content, and closing or unlocking the holder frees the lock.
\<close>

locale advisory_lock =
  fixes os :: "'d os" and holder :: "'d \<Rightarrow> nat option" and content :: "'d \<Rightarrow> string"
  assumes open_lock: "os_open_lock os p d = (r, d') \<Longrightarrow> holder d' = holder d \<and> content d' = content d
      \<and> (\<forall>fd. r = Inr fd \<longrightarrow> holder d \<noteq> Some fd)"
    and grant: "os_try_lock os fd d = (True, d') \<Longrightarrow> holder d = None \<and> holder d' = Some fd \<and> content d' = content d"
    and refuse: "os_try_lock os fd d = (False, d') \<Longrightarrow> holder d' = holder d \<and> content d' = content d"
    and close_lock: "holder (os_close os fd d) = (if holder d = Some fd then None else holder d)
      \<and> content (os_close os fd d) = content d"
    and unlock_lock: "holder (os_unlock os fd d) = (if holder d = Some fd then None else holder d)
      \<and> content (os_unlock os fd d) = content d"
    and set_len_lock: "os_set_len os fd 0 d = (e, d') \<Longrightarrow> holder d' = holder d \<and> (e = None \<longrightarrow> content d' = [])"
    and write_lock: "os_write os fd t d = (e, d') \<Longrightarrow> holder d' = holder d \<and> (e = None \<longrightarrow> content d' = content d @ t)"
    and flush_lock: "os_flush os fd d = (e, d') \<Longrightarrow> holder d' = holder d \<and> content d' = content d"
begin

lemma stamp_ok:
  assumes "stamp_pid os fd p d = (Inr g, d')" "holder d = Some fd"
  shows "holder d' = Some fd \<and> fg_file g = fd \<and> fg_path g = p \<and> content d' = show_int (sint (os_pid os d)) @ ''\<newline>''"
  using assms set_len_lock write_lock flush_lock
  by (auto simp: stamp_pid_def Let_def split: prod.splits option.splits)

lemma stamp_fails:
  assumes "stamp_pid os fd p d = (Inl e, d')" "holder d = Some fd"
  shows "holder d' = None"
  using assms set_len_lock write_lock flush_lock close_lock
  by (auto simp: stamp_pid_def Let_def split: prod.splits option.splits)

lemma check_filesystem_cases: "check_filesystem os p d = Inl e \<Longrightarrow> \<exists>t. e = UnreliableFilesystem t \<and> t \<in> set FLOCK_UNRELIABLE_FS"
  by (auto simp: check_filesystem_def Let_def split: if_splits option.splits)

text \<open>An acquisition that succeeds found the lock free and owns it, with the process's PID in the file.\<close>

lemma acquire_ok:
  assumes "try_acquire_at os path d = (Inr g, d')"
  shows "holder d = None \<and> holder d' = Some (fg_file g) \<and> (\<exists>d1. content d' = show_int (sint (os_pid os d1)) @ ''\<newline>'')"
proof -
  obtain parent basename fd d1 d2 where o: "os_open_lock os (path_join parent basename) d = (Inr fd, d1)"
    "os_try_lock os fd d1 = (True, d2)" "stamp_pid os fd (path_join parent basename) d2 = (Inr g, d')"
    using assms by (auto simp: try_acquire_at_def Let_def split: sum.splits option.splits if_splits prod.splits bool.splits)
  then show ?thesis using open_lock [OF o(1)] grant [OF o(2)] stamp_ok [OF o(3)] by auto
qed

text \<open>While another holds the lock nothing is acquired, and neither the lock nor the file changes.\<close>

lemma acquire_held:
  assumes h: "holder d = Some other" and t: "try_acquire_at os path d = (r, d')"
  shows "(\<exists>e. r = Inl e) \<and> holder d' = holder d \<and> content d' = content d"
proof -
  consider (same) e where "r = Inl e" "d' = d"
    | (open_failed) p e e' where "os_open_lock os p d = (Inl e, d')" "r = Inl e'"
    | (opened) p fd d1 where "os_open_lock os p d = (Inr fd, d1)"
        "(case os_try_lock os fd d1 of (False, d2) \<Rightarrow> (Inl (AlreadyHeld (read_holder_pid_from_path os p d2)), os_close os fd d2)
         | (True, d2) \<Rightarrow> stamp_pid os fd p d2) = (r, d')"
    using t by (auto simp: try_acquire_at_def Let_def split: sum.splits option.splits if_splits prod.splits)
  then show ?thesis
  proof cases
    case same
    then show ?thesis by simp
  next
    case open_failed
    then show ?thesis using open_lock by blast
  next
    case opened
    obtain b d2 where l: "os_try_lock os fd d1 = (b, d2)" by force
    have o: "holder d1 = Some other" "content d1 = content d" "other \<noteq> fd" using open_lock [OF opened(1)] h by auto
    have "\<not> b" using grant [of fd d1 d2] l o(1) by (cases b) auto
    then have "r = Inl (AlreadyHeld (read_holder_pid_from_path os p d2))" "d' = os_close os fd d2"
      using opened(2) l by simp_all
    then show ?thesis using refuse [of fd d1 d2] l o close_lock [of fd d2] h \<open>\<not> b\<close> by auto
  qed
qed

text \<open>An acquisition that fails never leaves the lock with a descriptor of its own.\<close>

lemma acquire_fails:
  assumes t: "try_acquire_at os path d = (Inl e, d')" and h: "holder d = None"
  shows "holder d' = None"
proof -
  consider (same) "d' = d"
    | (open_failed) p e0 where "os_open_lock os p d = (Inl e0, d')"
    | (refused) p fd d1 d2 where "os_open_lock os p d = (Inr fd, d1)" "os_try_lock os fd d1 = (False, d2)" "d' = os_close os fd d2"
    | (stamp) p fd d1 d2 where "os_open_lock os p d = (Inr fd, d1)" "os_try_lock os fd d1 = (True, d2)"
        "stamp_pid os fd p d2 = (Inl e, d')"
    using t by (auto simp: try_acquire_at_def Let_def split: sum.splits option.splits if_splits prod.splits bool.splits)
  then show ?thesis
  proof cases
    case refused
    then show ?thesis using open_lock [OF refused(1)] refuse [OF refused(2)] close_lock h by simp
  next
    case stamp
    then show ?thesis using grant [OF stamp(2)] stamp_fails by blast
  qed (use h open_lock in auto)
qed

lemma drop_releases: "holder d = Some (fg_file g) \<Longrightarrow> holder (drop_guard os g d) = None"
  by (simp add: drop_guard_def close_lock unlock_lock)

end

section \<open>A lock table\<close>

text \<open>One lock file, its holder, its content, and the last descriptor handed out.\<close>

record lock_table =
  lt_holder :: "nat option"
  lt_content :: string
  lt_last :: nat

definition fresh_fd :: "lock_table \<Rightarrow> nat" where
  "fresh_fd t = Suc (max (lt_last t) (case lt_holder t of None \<Rightarrow> 0 | Some h \<Rightarrow> h))"

definition free_fd :: "nat \<Rightarrow> lock_table \<Rightarrow> lock_table" where
  "free_fd fd t = (if lt_holder t = Some fd then t\<lparr> lt_holder := None \<rparr> else t)"

definition lock_table_os :: "u32 \<Rightarrow> lock_table os" where
  "lock_table_os pid = \<lparr>
     os_canonicalize = (\<lambda>p t. Inr p), os_statfs = (\<lambda>p t. Some ''apfs''),
     os_open_lock = (\<lambda>p t. (Inr (fresh_fd t), t\<lparr> lt_last := fresh_fd t \<rparr>)),
     os_close = free_fd,
     os_try_lock = (\<lambda>fd t. if lt_holder t = None then (True, t\<lparr> lt_holder := Some fd \<rparr>) else (False, t)),
     os_unlock = free_fd,
     os_read_to_string = (\<lambda>p t. Some (lt_content t)),
     os_set_len = (\<lambda>fd n t. (None, t\<lparr> lt_content := take n (lt_content t) \<rparr>)),
     os_write = (\<lambda>fd s t. (None, t\<lparr> lt_content := lt_content t @ s \<rparr>)),
     os_flush = (\<lambda>fd t. (None, t)), os_pid = (\<lambda>t. pid), os_wall_ms = (\<lambda>t. 0) \<rparr>"

interpretation table: advisory_lock "lock_table_os pid" lt_holder lt_content for pid
  by unfold_locales (auto simp: lock_table_os_def free_fd_def fresh_fd_def split: if_splits option.splits)

end
