(* ===== verification/Selftest.thy ===== *)
theory Selftest
  imports Result_State F32_Real "HOL-Library.Multiset"
begin

text \<open>
  The arithmetic of the self-test (\<open>src/smc/selftest.rs\<close>): medians, per-iteration and per-fan
  classification, the aggregate report and the exit codes. Samples are finite: the connection rejects
  NaN and infinities, and a failed read counts as 0.
\<close>

section \<open>Data\<close>

definition DEFAULT_ITERATIONS :: u8 where "DEFAULT_ITERATIONS = 5"
definition SAMPLES_PER_HOLD :: nat where "SAMPLES_PER_HOLD = 5"
definition SAMPLE_INTERVAL_MS :: nat where "SAMPLE_INTERVAL_MS = 200"
definition DELTA_THRESHOLD_RPM :: f32 where "DELTA_THRESHOLD_RPM = lit 500 1"

record iteration_sample =
  it_index :: u8
  it_auto_samples :: "f32 list"
  it_min_samples :: "f32 list"
  it_auto_median :: f32
  it_min_median :: f32
  it_delta :: f32

datatype selftest_result = Pass | Inconclusive | Fail | WatchdogTimeout | SelftestConflict

fun selftest_exit_code :: "selftest_result \<Rightarrow> int" where
  "selftest_exit_code Pass = 0"
| "selftest_exit_code Inconclusive = 3"
| "selftest_exit_code Fail = 1"
| "selftest_exit_code WatchdogTimeout = 4"
| "selftest_exit_code SelftestConflict = 5"

fun selftest_as_str :: "selftest_result \<Rightarrow> string" where
  "selftest_as_str Pass = ''pass''"
| "selftest_as_str Inconclusive = ''inconclusive''"
| "selftest_as_str Fail = ''fail''"
| "selftest_as_str WatchdogTimeout = ''watchdog_timeout''"
| "selftest_as_str SelftestConflict = ''conflict''"

record fan_report =
  fr_index :: u8
  fr_completed :: u8
  fr_requested :: u8
  fr_round_trips :: u64
  fr_mismatches :: u64
  fr_samples :: "iteration_sample list"
  fr_median_min :: f32
  fr_median_auto :: f32
  fr_delta :: f32
  fr_result :: selftest_result

record selftest_report =
  sr_per_fan :: "fan_report list"
  sr_iterations :: u32
  sr_round_trips :: u64
  sr_mismatches :: u64
  sr_wall_ms :: u64
  sr_overall :: selftest_result

section \<open>The code\<close>

text \<open>The stable sort by \<open>partial_cmp\<close>.\<close>

fun insert_f32 :: "f32 \<Rightarrow> f32 list \<Rightarrow> f32 list" where
  "insert_f32 x [] = [x]"
| "insert_f32 x (y # ys) = (if x \<le> y then x # y # ys else y # insert_f32 x ys)"

definition sort_f32 :: "f32 list \<Rightarrow> f32 list" where
  "sort_f32 xs = foldr insert_f32 xs []"

definition median_f32 :: "f32 list \<Rightarrow> f32" where
  "median_f32 values = (if values = [] then lit 0 1
     else let sorted = sort_f32 values; len = length sorted in
       if len mod 2 = 1 then sorted ! (len div 2)
       else divide (sorted ! (len div 2 - 1) + sorted ! (len div 2)) (lit 2 1))"

text \<open>The hold window: sleep, then sample, five times. \<open>sleep\<close> and \<open>sample\<close> act on the state.\<close>

fun hold_loop :: "nat \<Rightarrow> ('s \<Rightarrow> 's) \<Rightarrow> ('s \<Rightarrow> f32 \<times> 's) \<Rightarrow> 's \<Rightarrow> f32 list \<times> 's" where
  "hold_loop 0 sleep sample s = ([], s)"
| "hold_loop (Suc n) sleep sample s =
    (let (v, s1) = sample (sleep s); (vs, s2) = hold_loop n sleep sample s1 in (v # vs, s2))"

definition hold_and_sample :: "('s \<Rightarrow> 's) \<Rightarrow> ('s \<Rightarrow> f32 \<times> 's) \<Rightarrow> 's \<Rightarrow> f32 list \<times> 's" where
  "hold_and_sample = hold_loop SAMPLES_PER_HOLD"

definition classify_iteration :: "u8 \<Rightarrow> f32 list \<Rightarrow> f32 list \<Rightarrow> iteration_sample" where
  "classify_iteration iteration auto_samples min_samples =
    (let auto_median = median_f32 auto_samples; min_median = median_f32 min_samples in
     \<lparr> it_index = iteration, it_auto_samples = auto_samples, it_min_samples = min_samples,
       it_auto_median = auto_median, it_min_median = min_median, it_delta = auto_median - min_median \<rparr>)"

definition classify_fan ::
  "u8 \<Rightarrow> u8 \<Rightarrow> u8 \<Rightarrow> u64 \<Rightarrow> u64 \<Rightarrow> iteration_sample list \<Rightarrow> fan_report" where
  "classify_fan fan_index completed requested round_trips mismatches samples =
    (let median_min = median_f32 (concat (map it_min_samples samples));
         median_auto = median_f32 (concat (map it_auto_samples samples));
         delta = median_auto - median_min in
     \<lparr> fr_index = fan_index, fr_completed = completed, fr_requested = requested,
       fr_round_trips = round_trips, fr_mismatches = mismatches, fr_samples = samples,
       fr_median_min = median_min, fr_median_auto = median_auto, fr_delta = delta,
       fr_result = (if 0 < mismatches then Fail else if completed < requested then Fail
         else if DELTA_THRESHOLD_RPM \<le> delta then Pass else Inconclusive) \<rparr>)"

text \<open>The aggregate; the sums are machine integers.\<close>

definition classify_report :: "fan_report list \<Rightarrow> u64 \<Rightarrow> selftest_report" where
  "classify_report per_fan wall_ms =
    (let mismatches = sum_list (map fr_mismatches per_fan) in
     \<lparr> sr_per_fan = per_fan, sr_iterations = sum_list (map (ucast \<circ> fr_completed) per_fan),
       sr_round_trips = sum_list (map fr_round_trips per_fan), sr_mismatches = mismatches,
       sr_wall_ms = wall_ms,
       sr_overall = (if 0 < mismatches then Fail
         else if list_ex (\<lambda>f. fr_result f = Inconclusive) per_fan then Inconclusive
         else Pass) \<rparr>)"

section \<open>The sort\<close>

lemma mset_insert [simp]: "mset (insert_f32 x ys) = add_mset x (mset ys)"
  by (induction ys) auto

lemma mset_sort [simp]: "mset (sort_f32 xs) = mset xs"
  unfolding sort_f32_def by (induction xs) auto

lemma set_sort [simp]: "set (sort_f32 xs) = set xs"
  by (metis mset_sort set_mset_mset)

lemma length_sort [simp]: "length (sort_f32 xs) = length xs"
  by (metis mset_sort size_mset)

lemma set_insert [simp]: "set (insert_f32 x ys) = insert x (set ys)"
  by (induction ys) auto

text \<open>On finite values the order is that of the exact values.\<close>

lemma sorted_insert:
  assumes "is_finite x" "list_all is_finite ys" "sorted (map rv ys)"
  shows "sorted (map rv (insert_f32 x ys))"
  using assms
proof (induction ys)
  case (Cons y ys)
  show ?case
  proof (cases "x \<le> y")
    case True
    then have "rv x \<le> rv y" using Cons.prems by (simp add: rv_le)
    then show ?thesis using True Cons.prems by fastforce
  next
    case False
    then have "rv y \<le> rv x" using Cons.prems by (simp add: rv_le)
    then show ?thesis using False Cons by auto
  qed
qed simp

lemma sorted_sort: "list_all is_finite xs \<Longrightarrow> sorted (map rv (sort_f32 xs))"
proof (induction xs)
  case (Cons x xs)
  have "list_all is_finite (sort_f32 xs)" using Cons.prems by (simp add: list_all_iff)
  then show ?case using Cons sorted_insert by (simp add: sort_f32_def)
qed (simp add: sort_f32_def)

section \<open>The median\<close>

lemma filter_sort: "length (filter P (sort_f32 xs)) = length (filter P xs)"
  by (metis mset_filter mset_sort size_mset)

lemma rank:
  assumes "list_all is_finite ys" "sorted (map rv ys)" "m < length ys"
  shows "Suc m \<le> length (filter (\<lambda>v. v \<le> ys ! m) ys)" "length ys - m \<le> length (filter (\<lambda>v. ys ! m \<le> v) ys)"
proof -
  have le: "ys ! i \<le> ys ! j" if "i \<le> j" "j < length ys" for i j
    using that assms(1) sorted_nth_mono [OF assms(2), of i j] by (simp add: rv_le list_all_length)
  have "filter (\<lambda>v. v \<le> ys ! m) (take (Suc m) ys) = take (Suc m) ys"
    using assms(3) le by (auto simp: filter_id_conv in_set_conv_nth)
  then have "Suc m = length (filter (\<lambda>v. v \<le> ys ! m) (take (Suc m) ys))" using assms(3) by simp
  also have "\<dots> \<le> length (filter (\<lambda>v. v \<le> ys ! m) (take (Suc m) ys @ drop (Suc m) ys))"
    unfolding filter_append by simp
  finally show "Suc m \<le> length (filter (\<lambda>v. v \<le> ys ! m) ys)" by simp
  have "filter (\<lambda>v. ys ! m \<le> v) (drop m ys) = drop m ys"
    using assms(3) le by (auto simp: filter_id_conv in_set_conv_nth)
  then have "length ys - m = length (filter (\<lambda>v. ys ! m \<le> v) (drop m ys))" by simp
  also have "\<dots> \<le> length (filter (\<lambda>v. ys ! m \<le> v) (take m ys @ drop m ys))"
    unfolding filter_append by simp
  finally show "length ys - m \<le> length (filter (\<lambda>v. ys ! m \<le> v) ys)" by simp
qed

text \<open>Of an odd number of samples, more than half are at most the median and more than half at least it.\<close>

lemma median_odd:
  assumes f: "list_all is_finite xs" and o: "odd (length xs)"
  shows "median_f32 xs \<in> set xs" "Suc (length xs div 2) \<le> length (filter (\<lambda>v. v \<le> median_f32 xs) xs)"
    "Suc (length xs div 2) \<le> length (filter (\<lambda>v. median_f32 xs \<le> v) xs)"
proof -
  have ne: "xs \<noteq> []" using o by auto
  then have l: "length xs div 2 < length xs" by (cases xs) auto
  have m: "median_f32 xs = sort_f32 xs ! (length xs div 2)"
    using o ne by (simp add: median_f32_def Let_def odd_iff_mod_2_eq_one)
  have fs: "list_all is_finite (sort_f32 xs)" using f by (simp add: list_all_iff)
  have h: "length xs - length xs div 2 = Suc (length xs div 2)" using o by presburger
  show "median_f32 xs \<in> set xs" using m l by (metis length_sort nth_mem set_sort)
  note r = rank [OF fs sorted_sort [OF f], of "length xs div 2", unfolded length_sort filter_sort, OF l]
  show "Suc (length xs div 2) \<le> length (filter (\<lambda>v. v \<le> median_f32 xs) xs)"
    "Suc (length xs div 2) \<le> length (filter (\<lambda>v. median_f32 xs \<le> v) xs)"
    using r h by (simp_all add: m)
qed

section \<open>The verdict\<close>

lemma fan_verdict:
  "fr_result (classify_fan i done requested trips mismatches samples) = Pass \<longleftrightarrow>
     mismatches = 0 \<and> requested \<le> done
     \<and> lit 500 1 \<le> median_f32 (concat (map it_auto_samples samples)) - median_f32 (concat (map it_min_samples samples))"
  by (auto simp: classify_fan_def Let_def DELTA_THRESHOLD_RPM_def word_gt_0 not_less)

lemma hold_loop_length: "length (fst (hold_loop n sleep sample s)) = n"
  by (induction n arbitrary: s) (simp_all add: Let_def split_beta)

end
