(* ===== verification/Smc_Display.thy ===== *)
theory Smc_Display
  imports Show Smc_Error Smc_Types Clamp Session_Id
begin

text \<open>
  The messages of the SMC errors (\<open>Display for SmcError\<close> in \<open>src/smc/ffi.rs\<close>), and the texts of the
  codec errors, of a clamped target and of a session id. The strings are the bytes
  of the UTF-8 text, so a dash of the source is three bytes here.
\<close>

definition em_dash :: string where "em_dash = [CHR 0xE2, CHR 0x80, CHR 0x94]"
definition quote :: string where "quote = [CHR 0x27]"

definition show_kr :: "kern_return \<Rightarrow> string" where
  "show_kr kr = show_hex_alt (unat kr)"

definition show_res :: "u8 \<Rightarrow> string" where
  "show_res b = ''0x'' @ show_hex 2 (unat b)"

definition kern_return_name :: "kern_return \<Rightarrow> string" where
  "kern_return_name kr = (if kr = KERN_SUCCESS then ''kIOReturnSuccess''
     else if kr = K_IO_RETURN_NOT_PRIVILEGED then ''kIOReturnNotPrivileged''
     else if kr = K_IO_RETURN_NOT_PERMITTED then ''kIOReturnNotPermitted''
     else if kr = K_IO_RETURN_NOT_FOUND then ''kIOReturnNotFound''
     else if kr = K_IO_RETURN_BUSY then ''kIOReturnBusy''
     else if kr = K_IO_RETURN_TIMEOUT then ''kIOReturnTimeout''
     else ''kIOReturn<unknown>'')"

definition show_open_failed :: "kern_return \<Rightarrow> string" where
  "show_open_failed kr = ''IOServiceOpen failed: '' @ kern_return_name kr @ '' ('' @ show_kr kr @ '')'' @
     (if kr = K_IO_RETURN_NOT_PRIVILEGED then '' '' @ em_dash @ '' not root, run with sudo''
      else if kr = K_IO_RETURN_NOT_PERMITTED then '' '' @ em_dash @
        '' permission denied. Possible causes: (a) a future macOS version added an entitlement gate to AppleSMC, (b) macOS Lockdown Mode is enabled, (c) an EndpointSecurity client (EDR/MDM such as CrowdStrike Falcon, SentinelOne, Jamf Protect) denied the AUTH_IOKIT_OPEN event''
      else [])"

definition show_mismatch :: "u8 list \<Rightarrow> u8 \<Rightarrow> string" where
  "show_mismatch bs n = show_bytes (take (min (unat n) 4) bs)"

fun show_smc_error :: "smc_error \<Rightarrow> string" where
  "show_smc_error ServiceNotFound =
     ''AppleSMC user client not found '' @ em_dash @ '' this tool requires Apple Silicon macOS 14+''"
| "show_smc_error (OpenFailed kr) = show_open_failed kr"
| "show_smc_error OpenTimeout = ''SmcConnection::open() exceeded 500ms deadline''"
| "show_smc_error (CallFailed selector kr cmd) = ''IOConnectCallStructMethod(selector='' @ show_nat (unat selector)
     @ '', cmd='' @ show_u8 cmd @ '') failed: '' @ kern_return_name kr @ '' ('' @ show_kr kr @ '')''"
| "show_smc_error (SmcResult cmd b) = ''SMC cmd '' @ show_u8 cmd @
     (if b = SMC_ERR_KEY_NOT_FOUND then '': key not found ('' @ show_res b @ '')''
      else if b = SMC_ERR_SYSTEM_MODE_REJECTS
      then '': system mode rejects write ('' @ show_res b @ '') '' @ em_dash @ '' Ftst unlock required''
      else '': result byte '' @ show_res b)"
| "show_smc_error (KeyNotFound k) = ''SMC key '' @ fourcc_to_str k @ '' not found''"
| "show_smc_error (TypeMismatch k e g) = ''SMC key '' @ fourcc_to_str k @ '' type mismatch: expected ''
     @ fourcc_to_str e @ '', got '' @ fourcc_to_str g"
| "show_smc_error (DataSizeClamped k n) = ''SMC key '' @ fourcc_to_str k @ '' returned data_size=''
     @ show_nat (unat n) @ '' (clamped to 32)''"
| "show_smc_error (InvalidFloat k) = ''SMC key '' @ fourcc_to_str k @ '' decoded as NaN or infinity''"
| "show_smc_error (EmptyResponse k) = ''SMC key '' @ fourcc_to_str k
     @ '' returned empty response (kern_return=0, result=0, data_size=0)''"
| "show_smc_error AlreadyClosed = ''SmcConnection already closed''"
| "show_smc_error (Busy r) = ''SMC kIOReturnBusy (retried: '' @ show_bool r @ '')''"
| "show_smc_error (Timeout r) = ''SMC kIOReturnTimeout (retried: '' @ show_bool r @ '')''"
| "show_smc_error (AttributeDenied k) = ''SMC key '' @ fourcc_to_str k
     @ '' attribute bits forbid read (WRITE-only or FUNCTION)''"
| "show_smc_error (WriteDenied k) = ''SMC key '' @ fourcc_to_str k @ '' not in write whitelist''"
| "show_smc_error (SizeMismatch k e g) = ''SMC key '' @ fourcc_to_str k @ '' size mismatch: expected ''
     @ show_nat (unat e) @ '' bytes, got '' @ show_nat (unat g)"
| "show_smc_error (EndiannessUnplausible k g) = ''SMC key '' @ fourcc_to_str k @ '' decoded to implausible value ''
     @ show_nat (unat g) @ '' (0x'' @ show_hex 8 (unat g) @ '') '' @ em_dash @
     '' ui32 decoder endianness is almost certainly inverted. See src/smc/types.rs::decode_ui32 and FR-042/FR-061''"
| "show_smc_error (UnlockMismatch e g s _) = ''session '' @ as_bytes s @ '': diagnostic unlock readback mismatch: wrote Ftst=''
     @ show_u8 e @ '', read Ftst='' @ show_u8 g @ '' '' @ em_dash
     @ '' CRITICAL, fan may remain in manual mode indefinitely''"
| "show_smc_error (UnlockRejected b s) = ''session '' @ as_bytes s @ '': SMC rejected Ftst=1 with result byte '' @ show_res b
     @ '' '' @ em_dash @ '' diagnostic unlock failed, write path is unavailable''"
| "show_smc_error (WriteRefused k b ctx s _) = ''session '' @ as_bytes s @ '': write refused on '' @ fourcc_to_str k
     @ '' ('' @ ctx @ '') with SMC result byte '' @ show_res b"
| "show_smc_error (WriteReadbackMismatch k e el g gl s _ iter) = ''session '' @ as_bytes s
     @ (case iter of Some i \<Rightarrow> '' iter '' @ show_u8 i | None \<Rightarrow> []) @ '': round-trip mismatch on '' @ fourcc_to_str k
     @ '': wrote '' @ show_mismatch e el @ '', read back '' @ show_mismatch g gl"
| "show_smc_error (WatchdogFired ms s) = ''session '' @ as_bytes s @ '': userspace watchdog fired after '' @ show_nat (unat ms)
     @ '' ms without a successful round-trip '' @ em_dash @ '' fans returned to auto control''"
| "show_smc_error (ConflictDetected pid path) = ''another fand instance holds '' @ path @ '' (PID '' @
     show_int pid @ '', untrusted '' @ em_dash
     @ '' verify with ps before acting). Wait for it to finish or investigate if stuck''"
| "show_smc_error (EdrDenied agent) = ''IOServiceOpen denied '' @ em_dash @ (case agent of
       Some name \<Rightarrow> '' EndpointSecurity agent '' @ quote @ name @ quote
         @ '' appears to be blocking AUTH_IOKIT_OPEN on com.apple.AppleSMC. Contact your fleet administrator or allowlist fand''
     | None \<Rightarrow> '' an EndpointSecurity agent appears to be blocking AUTH_IOKIT_OPEN on com.apple.AppleSMC (agent not identified)'')"
| "show_smc_error TccDenied = ''IOServiceOpen denied '' @ em_dash @
     '' TCC (Privacy & Security) appears to be gating com.apple.AppleSMC. Grant Developer Tools or Full Disk Access to fand in System Settings''"
| "show_smc_error LockdownModeSuspected = ''IOServiceOpen denied '' @ em_dash @
     '' macOS Lockdown Mode appears to be active and blocking com.apple.AppleSMC user client open''"

fun show_value_error :: "smc_value_error \<Rightarrow> string" where
  "show_value_error ValInvalidFloat = ''NaN or infinity in flt decode''"
| "show_value_error (ValSizeMismatch e g) = ''expected '' @ show_nat e @ '' bytes, got '' @ show_nat (unat g)"

definition show_clamped :: "clamped_rpm \<Rightarrow> string" where
  "show_clamped r = show_nat (unat (clamped_value r)) @ '' RPM''"

definition show_session :: "session_id \<Rightarrow> string" where
  "show_session s = as_bytes s"

definition debug_session :: "session_id \<Rightarrow> string" where
  "debug_session s = ''SessionId('' @ as_bytes s @ '')''"

end
