(* ===== verification/Write_Session.thy ===== *)
theory Write_Session
  imports Enumerate Teardown Flock Selftest Clamp Smc_Display
begin

text \<open>
  The owner of the write path (\<open>src/smc/write_session.rs\<close>): acquisition with its three connections,
  commits, the diagnostic unlock, the self-test and the teardown. The state of an operation is the
  session and the outside world; acquisition also acts on the state of the process (panic hook, signal
  mask, signal thread). The log line for an absent \<open>Ftst\<close> key is left out.
\<close>

section \<open>The session\<close>

record write_session =
  ws_conn :: smc_connection
  ws_fans :: "u8 list"
  ws_envelopes :: "fan list"
  ws_lock :: flock_guard
  ws_ring :: ring
  ws_unlock :: "unlock_session option"
  ws_flag :: bool
  ws_signal_thread :: bool
  ws_session :: session_id
  ws_drained :: "(u64 \<times> u32 \<times> u8 list \<times> u8 list \<times> round_trip_outcome) list option"

type_synonym 'd ws = "write_session \<times> 'd"
type_synonym ('d, 'a) ws_op = "('d ws, smc_error, 'a) op"

text \<open>Operations of the main connection, and of the connection with the ring.\<close>

definition on_conn :: "('d, 'a) smc_op \<Rightarrow> ('d, 'a) ws_op" where
  "on_conn m s = (case s of (w, d) \<Rightarrow> case m (ws_conn w, d) of (r, (c, d1)) \<Rightarrow> (r, (w\<lparr> ws_conn := c \<rparr>, d1)))"

definition on_ring :: "('d, 'a) ring_op \<Rightarrow> ('d, 'a) ws_op" where
  "on_ring m s = (case s of (w, d) \<Rightarrow> case m (ws_ring w, (ws_conn w, d)) of (r, (g, (c, d1))) \<Rightarrow>
     (r, (w\<lparr> ws_conn := c, ws_ring := g \<rparr>, d1)))"

section \<open>Acquisition\<close>

definition flock_error_to_smc_error :: "flock_error \<Rightarrow> smc_error" where
  "flock_error_to_smc_error e = (let path = DEFAULT_LOCKFILE_PATH in case e of
     AlreadyHeld pid \<Rightarrow> ConflictDetected (case pid of None \<Rightarrow> 0 | Some p \<Rightarrow> p) path
   | SymlinkRejected \<Rightarrow> ConflictDetected 0 (path @ '' (rejected '' @ em_dash @ '' path is a symlink, FR-050 O_NOFOLLOW)'')
   | UnreliableFilesystem fs \<Rightarrow> ConflictDetected 0
       (path @ '' (refused '' @ em_dash @ '' filesystem '' @ quote @ fs @ quote @ '' unreliable for flock, FR-102)'')
   | CreateFailed io \<Rightarrow> (if io_denied io then ServiceNotFound
       else ConflictDetected 0 (path @ '' (create failed: '' @ io_text io @ '')''))
   | CanonicalizationFailed io \<Rightarrow> ConflictDetected 0 (path @ '' (realpath failed: '' @ io_text io @ '')'')
   | WriteFailed io \<Rightarrow> ConflictDetected 0 (path @ '' (write failed: '' @ io_text io @ '')''))"

text \<open>The parts of the process that the acquisition sets up.\<close>

record process =
  pr_panic :: panic_globals
  pr_hook :: bool
  pr_blocked :: bool
  pr_thread :: "signal_thread option"

definition install_panic_hook :: "process \<Rightarrow> process" where
  "install_panic_hook p = p\<lparr> pr_hook := True \<rparr>"

definition block_signals_on_non_signal_threads :: "process \<Rightarrow> process" where
  "block_signals_on_non_signal_threads p = p\<lparr> pr_blocked := True \<rparr>"

definition spawn_signal_thread :: "smc_connection \<Rightarrow> u8 list \<Rightarrow> process \<Rightarrow> process" where
  "spawn_signal_thread conn fans p =
     p\<lparr> pr_thread := Some \<lparr> st_conn = conn, st_fans = fans, st_reload = False, st_stderr = [] \<rparr> \<rparr>"

text \<open>The connections that an early return drops are closed, last opened first, then the lock is released.\<close>

definition drop_conns :: "'d platform \<Rightarrow> 'd os \<Rightarrow> flock_guard \<Rightarrow> smc_connection list \<Rightarrow> 'd \<Rightarrow> 'd" where
  "drop_conns io os g cs d = drop_guard os g (foldl (\<lambda>d c. snd (smc_close io (c, d))) d cs)"

definition acquire :: "'d platform \<Rightarrow> 'd os \<Rightarrow> process \<Rightarrow> 'd \<Rightarrow> (smc_error, write_session) result \<times> process \<times> 'd" where
  "acquire io os p d =
    (let (entropy, d1) = io_entropy io 10 d; sid = session_new (os_wall_ms os d) entropy in
     case try_acquire os d1 of
       (Inl e, d2) \<Rightarrow> (Inl (flock_error_to_smc_error e), p, d2)
     | (Inr g, d2) \<Rightarrow> (case smc_open io d2 of
         (Inl e, d3) \<Rightarrow> (Inl e, p, drop_conns io os g [] d3)
       | (Inr main, d3) \<Rightarrow> (case smc_open io d3 of
           (Inl e, d4) \<Rightarrow> (Inl e, p, drop_conns io os g [main] d4)
         | (Inr teardown_conn, d4) \<Rightarrow> (case smc_open io d4 of
             (Inl e, d5) \<Rightarrow> (Inl e, p, drop_conns io os g [teardown_conn, main] d5)
           | (Inr panic_conn, d5) \<Rightarrow> (case enumerate_fans io (main, d5) of
               (Inl e, (main1, d6)) \<Rightarrow> (Inl e, p, drop_conns io os g [panic_conn, teardown_conn, main1] d6)
             | (Inr envelopes, (main1, d6)) \<Rightarrow>
                 let fans = map fan_ix envelopes;
                     p1 = install_panic_hook (p\<lparr> pr_panic := seal_for_panic panic_conn fans (pr_panic p) \<rparr>);
                     p2 = spawn_signal_thread teardown_conn fans (block_signals_on_non_signal_threads p1) in
                 (Inr \<lparr> ws_conn = main1, ws_fans = fans, ws_envelopes = envelopes, ws_lock = g,
                        ws_ring = ring_new sid, ws_unlock = None, ws_flag = False, ws_signal_thread = True,
                        ws_session = sid, ws_drained = None \<rparr>, p2, d6))))))"

section \<open>Access\<close>

definition fan_envelope :: "write_session \<Rightarrow> u8 \<Rightarrow> fan option" where
  "fan_envelope w index = List.find (\<lambda>f. fan_ix f = index) (ws_envelopes w)"

definition read_actual_rpm :: "'d platform \<Rightarrow> u8 \<Rightarrow> ('d, f32) ws_op" where
  "read_actual_rpm io i = on_conn (read_f32 io (fan_key i CHR ''A'' CHR ''c''))"

definition heartbeat :: "'d platform \<Rightarrow> 'd ws \<Rightarrow> 'd ws" where
  "heartbeat io s = (case s of (w, d) \<Rightarrow> (w\<lparr> ws_unlock := map_option (unlock_heartbeat io d) (ws_unlock w) \<rparr>, d))"

section \<open>The diagnostic unlock\<close>

definition ftst_verify :: "'d platform \<Rightarrow> ('d, unit) ws_op" where
  "ftst_verify io = bindE (on_conn (read_u8 io (key_fourcc FtstKey))) (\<lambda>readback (w, d).
     if readback \<noteq> 1 then (Inl (UnlockMismatch 1 readback (ws_session w) (io_wall_ns io d)), (w, d))
     else (Inr (), (w\<lparr> ws_ring := ring_push (ws_ring w) (record_match (io_wall_ns io d) (key_fourcc FtstKey) [1] [1]) \<rparr>, d)))"

definition install_unlock :: "'d platform \<Rightarrow> ('d, unit) ws_op" where
  "install_unlock io s = (case s of (w, d) \<Rightarrow>
     (Inr (), (w\<lparr> ws_unlock := Some (start_watchdog (unlock_heartbeat io d (unlock_new io (ws_session w) d))) \<rparr>, d)))"

text \<open>The write of 1 to \<open>Ftst\<close>: \<open>False\<close> when the key is absent.\<close>

definition ftst_engage :: "'d platform \<Rightarrow> ('d, bool) ws_op" where
  "ftst_engage io = catchE (bindE (on_conn (write_u8 io FtstKey 1)) (\<lambda>_. ret True))
     (\<lambda>e s. case e of
        KeyNotFound _ \<Rightarrow> (Inr False, s)
      | SmcResult _ b \<Rightarrow> (Inl (UnlockRejected b (ws_session (fst s))), s)
      | _ \<Rightarrow> (Inl e, s))"

definition begin_diagnostic_unlock :: "'d platform \<Rightarrow> ('d, unit) ws_op" where
  "begin_diagnostic_unlock io s = (if ws_unlock (fst s) \<noteq> None then (Inr (), s)
     else bindE (ftst_engage io) (\<lambda>present.
       bindE (if present then ftst_verify io else ret ()) (\<lambda>_. install_unlock io)) s)"

section \<open>Committing a speed\<close>

definition is_minimum_request :: "fan \<Rightarrow> clamped_rpm \<Rightarrow> bool" where
  "is_minimum_request f target \<longleftrightarrow> fabs (as_f32 target - fan_min f) \<le> (fan_max f - fan_min f) * lit 5 100"

text \<open>A verified write of a fan's mode, then the heartbeat.\<close>

definition write_mode :: "'d platform \<Rightarrow> u8 \<Rightarrow> u8 \<Rightarrow> string \<Rightarrow> ('d, unit) ws_op" where
  "write_mode io i v ctx = (\<lambda>s. bindE (on_ring (write_u8_verified io (FanMode i) v ctx (ws_session (fst s))))
     (\<lambda>_ s1. (Inr (), heartbeat io s1)) s)"

definition commit_set_fan :: "'d platform \<Rightarrow> u8 \<Rightarrow> clamped_rpm \<Rightarrow> ('d, unit) ws_op" where
  "commit_set_fan io i target s =
    (if length (ws_envelopes (fst s)) \<le> unat i then (Inl (KeyNotFound (fan_key i CHR ''T'' CHR ''g'')), s)
     else bindE (begin_diagnostic_unlock io) (\<lambda>_ s1.
       let s2 = ignore (read_actual_rpm io i) s1 in
       if \<not> is_minimum_request (ws_envelopes (fst s2) ! unat i) target
       then (Inl (WriteRefused (fan_key i CHR ''m'' CHR ''d'') 0x86 ''apple_silicon_m_series_only_supports_min_mode''
               (ws_session (fst s2)) (io_wall_ns io (snd s2))), s2)
       else write_mode io i 1 ''fan_mode_force_min'' s2) s)"

section \<open>The self-test\<close>

text \<open>A failed read counts as 0.\<close>

definition sample_actual :: "'d platform \<Rightarrow> u8 \<Rightarrow> 'd ws \<Rightarrow> f32 \<times> 'd ws" where
  "sample_actual io i s = (case read_actual_rpm io i s of
     (Inr v, s1) \<Rightarrow> (v, s1) | (Inl _, s1) \<Rightarrow> (lit 0 1, s1))"

definition sleep_ms :: "'d platform \<Rightarrow> nat \<Rightarrow> 'd ws \<Rightarrow> 'd ws" where
  "sleep_ms io n s = (case s of (w, d) \<Rightarrow> (w, io_sleep_ms io n d))"

definition hold_samples :: "'d platform \<Rightarrow> u8 \<Rightarrow> ('d, f32 list) ws_op" where
  "hold_samples io i s = (case hold_and_sample (sleep_ms io SAMPLE_INTERVAL_MS) (sample_actual io i) s of
     (vs, s1) \<Rightarrow> (Inr vs, s1))"

definition selftest_iteration :: "'d platform \<Rightarrow> u8 \<Rightarrow> u8 \<Rightarrow> ('d, iteration_sample) ws_op" where
  "selftest_iteration io i iter =
     bindE (write_mode io i 1 ''selftest_force_min'') (\<lambda>_.
     bindE (hold_samples io i) (\<lambda>min_samples.
     bindE (write_mode io i 0 ''selftest_return_auto'') (\<lambda>_.
     bindE (hold_samples io i) (\<lambda>auto_samples.
     ret (classify_iteration iter auto_samples min_samples)))))"

text \<open>
  A fan is reported only when all its iterations succeeded, so each of them made two round trips and no
  mismatch is ever counted: the first one leaves the loop with its error.
\<close>

definition selftest_fan :: "'d platform \<Rightarrow> u8 \<Rightarrow> u8 \<Rightarrow> ('d, fan_report) ws_op" where
  "selftest_fan io iterations i =
     bindE (eachE (selftest_iteration io i) (map word_of_nat [0..<unat iterations])) (\<lambda>samples.
     ret (classify_fan i iterations iterations (word_of_nat (2 * unat iterations)) 0 samples))"

definition run_selftest :: "'d platform \<Rightarrow> u8 \<Rightarrow> ('d, selftest_report) ws_op" where
  "run_selftest io iterations s = (let started_at = io_now_ms io (snd s) in
     bindE (eachE (selftest_fan io iterations) (map fan_ix (ws_envelopes (fst s)))) (\<lambda>per_fan s1.
       (Inr (classify_report per_fan (word_of_nat (io_now_ms io (snd s1) - started_at))), s1)) s)"

section \<open>Teardown\<close>

definition release_diagnostic_unlock :: "'d platform \<Rightarrow> 'd ws \<Rightarrow> 'd ws" where
  "release_diagnostic_unlock io s = (case ws_unlock (fst s) of
     None \<Rightarrow> s
   | Some u \<Rightarrow> (case s of (w, d) \<Rightarrow>
       let s1 = (w\<lparr> ws_unlock := Some (stop_watchdog u) \<rparr>, d);
           s2 = ignore (on_ring (write_u8_verified io FtstKey 0 ''diagnostic_unlock_release'' (ws_session w))) s1 in
       (case s2 of (w2, d2) \<Rightarrow> (w2\<lparr> ws_unlock := None \<rparr>, d2))))"

text \<open>Running the loop and the last write of the release on the main connection.\<close>

definition through_conn :: "('d smc \<Rightarrow> 'd smc) \<Rightarrow> 'd ws \<Rightarrow> 'd ws" where
  "through_conn f s = (case s of (w, d) \<Rightarrow> case f (ws_conn w, d) of (c, d1) \<Rightarrow> (w\<lparr> ws_conn := c \<rparr>, d1))"

definition teardown :: "'d platform \<Rightarrow> 'd ws \<Rightarrow> 'd ws" where
  "teardown io s = (if ws_flag (fst s) then s
     else let s0 = ((fst s)\<lparr> ws_flag := True \<rparr>, snd s);
              s1 = through_conn (auto_all io (ws_fans (fst s))) s0;
              s2 = release_diagnostic_unlock io s1;
              s3 = through_conn (ignore (force_write_ftst_zero io)) s2;
              s4 = ((fst s3)\<lparr> ws_drained := Some (drain (ws_ring (fst s3))) \<rparr>, snd s3);
              s5 = through_conn (smc_close io) s4
          in ((fst s5)\<lparr> ws_signal_thread := False \<rparr>, snd s5))"

text \<open>\<open>Drop\<close>: the teardown, then the fields: the connection again, and the lock.\<close>

definition drop_session :: "'d platform \<Rightarrow> 'd os \<Rightarrow> 'd ws \<Rightarrow> 'd" where
  "drop_session io os s = (case through_conn (smc_close io) (teardown io s) of (w, d) \<Rightarrow> drop_guard os (ws_lock w) d)"

end
