(* ===== verification/Session_Device.thy ===== *)
theory Session_Device
  imports Write_Session
begin

text \<open>
  The session on a device that honours the protocol: a commit engages forced minimum and changes no
  other register than \<open>Ftst\<close>, a refused commit changes no fan register, and a teardown brings every
  fan back to automatic control, whatever the state of the session.
\<close>

text \<open>The register file once the unlock is engaged.\<close>

definition ftst_engaged :: "(u32 \<Rightarrow> (u32 \<times> u8 list) option) \<Rightarrow> u32 \<Rightarrow> (u32 \<times> u8 list) option" where
  "ftst_engaged r = (if r (key_fourcc FtstKey) = None then r else r(key_fourcc FtstKey \<mapsto> (TYPE_UI8, [1])))"

declare key_fourcc.simps [simp del] key_fourcc_inject [simp]

definition slot_free :: "u32 \<Rightarrow> smc_connection \<Rightarrow> bool" where
  "slot_free k c \<longleftrightarrow> cache_get (key_cache c) k = None"

lemma fan_key_not_ftst: "fan_key i CHR ''A'' CHR ''c'' \<noteq> key_fourcc FtstKey"
  by (simp add: fan_key_def key_fourcc.simps u32_from_be_inject byte_def)

context smc_device
begin

definition ws_rest :: "u32 set \<Rightarrow> (u32 \<Rightarrow> (u32 \<times> u8 list) option) \<Rightarrow> (write_session \<Rightarrow> bool) \<Rightarrow> 'd ws \<Rightarrow> bool" where
  "ws_rest Ks r F s \<longleftrightarrow> at_rest Ks r (ws_conn (fst s), snd s) \<and> F (fst s)"

text \<open>Facts about the session that the connection and the ring do not bear on.\<close>

definition framed :: "(write_session \<Rightarrow> bool) \<Rightarrow> bool" where
  "framed F \<longleftrightarrow> (\<forall>w c g. F (w\<lparr> ws_conn := c, ws_ring := g \<rparr>) = F w)"

lemma framed_conn: "framed F \<Longrightarrow> F (w\<lparr> ws_conn := c \<rparr>) = F w"
proof -
  assume F: "framed F"
  have "w\<lparr> ws_conn := c \<rparr> = w\<lparr> ws_conn := c, ws_ring := ws_ring w \<rparr>" by simp
  then show ?thesis using F unfolding framed_def by metis
qed

lemma framed_ring: "framed F \<Longrightarrow> F (w\<lparr> ws_ring := g \<rparr>) = F w"
proof -
  assume F: "framed F"
  have "w\<lparr> ws_ring := g \<rparr> = w\<lparr> ws_conn := ws_conn w, ws_ring := g \<rparr>" by simp
  then show ?thesis using F unfolding framed_def by metis
qed

lemma on_conn_rest:
  assumes m: "does (at_rest Ks r) m a (at_rest Ks r')" and F: "framed F"
  shows "does (ws_rest Ks r F) (on_conn m) a (ws_rest Ks r' F)"
  unfolding does_def
proof (intro allI impI)
  fix s assume s: "ws_rest Ks r F s"
  obtain w d where wd: "s = (w, d)" by force
  obtain c' d' where "m (ws_conn w, d) = (Inr a, (c', d'))" "at_rest Ks r' (c', d')"
    using doesD [OF m, of "(ws_conn w, d)"] s by (auto simp: ws_rest_def wd)
  then show "\<exists>s'. on_conn m s = (Inr a, s') \<and> ws_rest Ks r' F s'"
    using s by (simp add: on_conn_def wd ws_rest_def framed_conn [OF F])
qed

lemma verified_rest:
  assumes k: "key_fourcc key \<in> Ks" "r (key_fourcc key) = Some (TYPE_UI8, [x])" and t: "key_data_type key = TYPE_UI8"
    and F: "framed F"
  shows "does (ws_rest Ks r F) (on_ring (write_u8_verified io key v ctx sid)) ()
    (ws_rest Ks (r(key_fourcc key \<mapsto> (TYPE_UI8, [v]))) F)"
  unfolding does_def
proof (intro allI impI)
  fix s assume s: "ws_rest Ks r F s"
  obtain w d where wd: "s = (w, d)" by force
  let ?k = "key_fourcc key"
  have a: "reg d = r" "ready Ks (ws_conn w) d" using s by (simp_all add: ws_rest_def at_rest_def wd)
  have rk: "reg d ?k = Some (TYPE_UI8, [x])" using a(1) k(2) by simp
  have u: "usable (ws_conn w) ?k TYPE_UI8 1" using readyD [OF a(2) k(1) rk] by simp
  obtain c' d' g' where w': "write_u8_verified io key v ctx sid (ws_ring w, (ws_conn w, d)) = (Inr (), (g', (c', d')))"
    "reg d' = (reg d)(?k \<mapsto> (TYPE_UI8, [v]))" "fills (ws_conn w) ?k TYPE_UI8 1 c'"
    using write_u8_verified_reg [OF rk u t] by metis
  have "ready Ks c' d'"
  proof (rule ready_fills [OF a(2) k(1) rk])
    show "fills (ws_conn w) ?k TYPE_UI8 (length [x]) c'" using w'(3) by simp
    show "reg d' = reg d \<or> (\<exists>ws. length ws = length [x] \<and> reg d' = (reg d)(?k \<mapsto> (TYPE_UI8, ws)))"
      using w'(2) by (intro disjI2 exI [of _ "[v]"]) simp
  qed
  then show "\<exists>s'. on_ring (write_u8_verified io key v ctx sid) s = (Inr (), s')
      \<and> ws_rest Ks (r(?k \<mapsto> (TYPE_UI8, [v]))) F s'"
    using s w' a(1) F by (simp add: on_ring_def wd ws_rest_def at_rest_def framed_def)
qed

text \<open>The heartbeat and the watchdog change only the unlock session.\<close>

definition unlock_framed :: "(write_session \<Rightarrow> bool) \<Rightarrow> bool" where
  "unlock_framed F \<longleftrightarrow> framed F \<and> (\<forall>w u. F (w\<lparr> ws_unlock := u \<rparr>) = F w)"

lemma write_mode_rest:
  assumes "key_fourcc (FanMode i) \<in> Ks" "r (key_fourcc (FanMode i)) = Some (TYPE_UI8, [x])" "unlock_framed F"
  shows "does (ws_rest Ks r F) (write_mode io i v ctx) () (ws_rest Ks (r(key_fourcc (FanMode i) \<mapsto> (TYPE_UI8, [v]))) F)"
proof -
  have F: "framed F" "F (w\<lparr> ws_unlock := u \<rparr>) = F w" for w u using assms(3) by (auto simp: unlock_framed_def)
  have h: "does (ws_rest Ks r' F) (\<lambda>s1. (Inr (), heartbeat io s1)) () (ws_rest Ks r' F)" for r'
    by (auto simp: does_def ws_rest_def heartbeat_def F(2))
  have "does (ws_rest Ks r F) (bindE (on_ring (write_u8_verified io (FanMode i) v ctx sid)) (\<lambda>_ s1. (Inr (), heartbeat io s1))) ()
      (ws_rest Ks (r(key_fourcc (FanMode i) \<mapsto> (TYPE_UI8, [v]))) F)" for sid
    by (rule does_bind, rule verified_rest [where r = r, OF assms(1,2) mode_type(1) F(1)], rule h)
  then show ?thesis unfolding does_def write_mode_def by metis
qed

text \<open>An absent \<open>Ftst\<close> key with an empty cache slot: the write says so and leaves the connection ready.\<close>

lemma ready_drop:
  assumes "ready Ks c d" "slot_free k c" "Ks \<noteq> {}" "reg d' = reg d"
  shows "ready Ks (c\<lparr> key_cache := cache_invalidate (key_cache c) k \<rparr>) d'"
proof -
  have "usable (c\<lparr> key_cache := cache_invalidate (key_cache c) k \<rparr>) j ty n" if "usable c j ty n" for j ty n
    using that by (auto simp: usable_def cache.wf_drop cache.get_drop)
  then show ?thesis using assms(1,4) unfolding ready_def by metis
qed

lemma write_absent_fresh:
  assumes "at_rest Ks r s" "r (key_fourcc FtstKey) = None" "slot_free (key_fourcc FtstKey) (fst s)" "Ks \<noteq> {}"
  shows "\<exists>s'. write_u8 io FtstKey v s = (Inl (KeyNotFound (key_fourcc FtstKey)), s') \<and> at_rest Ks r s'"
proof -
  obtain c d where cd: "s = (c, d)" by force
  let ?k = "key_fourcc FtstKey"
  have a: "reg d = r" "ready Ks c d" using assms(1) by (simp_all add: at_rest_def cd)
  obtain d1 where "call_struct io SMC_CMD_GET_KEY_INFO (zeroed\<lparr> p_key := ?k \<rparr>) (c, d)
      = (Inl (SmcResult SMC_CMD_GET_KEY_INFO SMC_ERR_KEY_NOT_FOUND), (c, d1))" "reg d1 = reg d"
    using call_struct_absent [of c d "zeroed\<lparr> p_key := ?k \<rparr>" SMC_CMD_GET_KEY_INFO] ready_usable [OF a(2) assms(4)] a(1) assms(2)
    by auto
  moreover have "ready Ks (c\<lparr> key_cache := cache_invalidate (key_cache c) ?k \<rparr>) d1"
    using assms(3,4) calculation(2) by (intro ready_drop [OF a(2)]) (simp_all add: cd)
  ultimately show ?thesis using a(1) assms(3)
    by (simp add: cd write_u8_def write_key_def write_bytes_def read_key_info_def slot_free_def op_defs
        not_found_arm_def with_cache_def at_rest_def)
qed

lemma begin_unlock_rest:
  assumes F: "unlock_framed F" and f: "ftst_ok Ks r" and s: "ws_rest Ks r F s"
    and fresh: "r (key_fourcc FtstKey) = None \<Longrightarrow> ws_unlock (fst s) \<noteq> None \<or> slot_free (key_fourcc FtstKey) (ws_conn (fst s))"
  shows "\<exists>s'. begin_diagnostic_unlock io s = (Inr (), s')
    \<and> ws_rest Ks (if ws_unlock (fst s) = None then ftst_engaged r else r) F s' \<and> ws_unlock (fst s') \<noteq> None"
proof (cases "ws_unlock (fst s)")
  case (Some u)
  then show ?thesis using s by (simp add: begin_diagnostic_unlock_def)
next
  case None
  have fr: "framed F" "F (w\<lparr> ws_unlock := u \<rparr>) = F w" for w u using F by (auto simp: unlock_framed_def)
  have inst: "install_unlock io t = (Inr (), t') \<Longrightarrow> ws_rest Ks r' F t \<Longrightarrow> ws_rest Ks r' F t' \<and> ws_unlock (fst t') \<noteq> None"
    for t t' r' by (auto simp: install_unlock_def ws_rest_def fr(2) split: prod.splits)
  let ?k = "key_fourcc FtstKey"
  show ?thesis
  proof (cases "r ?k")
    case (Some p)
    then obtain x where x: "?k \<in> Ks" "r ?k = Some (TYPE_UI8, [x])" using f by (auto simp: ftst_ok_def)
    let ?r = "r(?k \<mapsto> (TYPE_UI8, [1]))"
    have e: "does (ws_rest Ks r F) (ftst_engage io) True (ws_rest Ks ?r F)"
      unfolding ftst_engage_def
      by (rule does_catch, rule does_bind, rule on_conn_rest [OF write_u8_rest [where r = r, OF x mode_type(2)] fr(1)], rule does_ret)
    have rb: "does (ws_rest Ks ?r F) (on_conn (read_u8 io ?k)) 1 (ws_rest Ks ?r F)"
      by (rule on_conn_rest [OF read_u8_rest [where r = ?r, OF x(1)] fr(1)]) simp
    have v: "does (ws_rest Ks ?r F) (ftst_verify io) () (ws_rest Ks ?r F)"
      unfolding ftst_verify_def
      by (rule does_bind, rule rb) (auto simp: does_def ws_rest_def framed_ring [OF fr(1)])
    obtain t where "bindE (ftst_engage io) (\<lambda>present. if present then ftst_verify io else ret ()) s = (Inr (), t)"
      "ws_rest Ks ?r F t"
      using doesD [OF does_bind [where f = "\<lambda>present. if present then ftst_verify io else ret ()", OF e] s] v by fastforce
    moreover obtain t' where t': "install_unlock io t = (Inr (), t')"
      by (cases t) (simp add: install_unlock_def)
    ultimately have "begin_diagnostic_unlock io s = (Inr (), t')"
      using None by (auto simp: begin_diagnostic_unlock_def bindE_def split: prod.splits sum.splits)
    then show ?thesis using inst [OF t' \<open>ws_rest Ks ?r F t\<close>] None Some by (simp add: ftst_engaged_def)
  next
    case None': None
    obtain w d where wd: "s = (w, d)" by force
    have ne: "Ks \<noteq> {}" using f by (simp add: ftst_ok_def)
    have a: "at_rest Ks r (ws_conn w, d)" "F w" using s by (simp_all add: ws_rest_def wd)
    obtain c1 d1 where "write_u8 io FtstKey 1 (ws_conn w, d) = (Inl (KeyNotFound ?k), (c1, d1))" "at_rest Ks r (c1, d1)"
      using write_absent_fresh [OF a(1) None', of 1] fresh [OF None'] ne None by (auto simp: wd)
    then have e: "ftst_engage io s = (Inr False, (w\<lparr> ws_conn := c1 \<rparr>, d1))" "ws_rest Ks r F (w\<lparr> ws_conn := c1 \<rparr>, d1)"
      using a(2) by (simp_all add: ftst_engage_def on_conn_def wd op_defs ws_rest_def framed_conn [OF fr(1)])
    obtain t' where t': "install_unlock io (w\<lparr> ws_conn := c1 \<rparr>, d1) = (Inr (), t')" by (simp add: install_unlock_def)
    have "begin_diagnostic_unlock io s = (Inr (), t')"
      using None e(1) t' by (simp add: begin_diagnostic_unlock_def op_defs)
    then show ?thesis using inst [OF t' e(2)] None None' by (simp add: ftst_engaged_def)
  qed
qed

text \<open>The steps of a commit up to its check: the unlock, and a read of the actual speed.\<close>

definition unlocked :: "write_session \<Rightarrow> (u32 \<Rightarrow> (u32 \<times> u8 list) option) \<Rightarrow> u32 \<Rightarrow> (u32 \<times> u8 list) option" where
  "unlocked w r = (if ws_unlock w = None then ftst_engaged r else r)"

lemma ftst_engaged_other: "k \<noteq> key_fourcc FtstKey \<Longrightarrow> ftst_engaged r k = r k"
  by (simp add: ftst_engaged_def)

lemma commit_pre:
  assumes F: "unlock_framed F" and f: "ftst_ok Ks r" and s: "ws_rest Ks r F s"
    and fresh: "r (key_fourcc FtstKey) = None \<Longrightarrow> ws_unlock (fst s) \<noteq> None \<or> slot_free (key_fourcc FtstKey) (ws_conn (fst s))"
    and ac: "fan_key i CHR ''A'' CHR ''c'' \<in> Ks" "holds_flt r (fan_key i CHR ''A'' CHR ''c'') v"
  shows "\<exists>s1. begin_diagnostic_unlock io s = (Inr (), s1)
    \<and> ws_rest Ks (unlocked (fst s) r) F (ignore (read_actual_rpm io i) s1)"
proof -
  obtain s1 where s1: "begin_diagnostic_unlock io s = (Inr (), s1)" "ws_rest Ks (unlocked (fst s) r) F s1"
    using begin_unlock_rest [OF F f s fresh] by (auto simp: unlocked_def)
  let ?a = "fan_key i CHR ''A'' CHR ''c''"
  have "?a \<noteq> key_fourcc FtstKey" by (rule fan_key_not_ftst)
  then have "holds_flt (unlocked (fst s) r) ?a v"
    using ac(2) by (simp add: unlocked_def holds_flt_def ftst_engaged_other)
  then have "does (ws_rest Ks (unlocked (fst s) r) F) (read_actual_rpm io i) v (ws_rest Ks (unlocked (fst s) r) F)"
    unfolding read_actual_rpm_def using F ac(1)
    by (intro on_conn_rest read_f32_rest) (auto simp: unlock_framed_def)
  from doesD [OF this s1(2)] show ?thesis using s1 by (auto simp: ignore_def)
qed

text \<open>A commit at the minimum engages forced minimum; any other speed is refused, and no fan register changes.\<close>

lemma commit_min_rest:
  assumes F: "unlock_framed F" and f: "ftst_ok Ks r" and s: "ws_rest Ks r F s"
    and fresh: "r (key_fourcc FtstKey) = None \<Longrightarrow> ws_unlock (fst s) \<noteq> None \<or> slot_free (key_fourcc FtstKey) (ws_conn (fst s))"
    and ac: "fan_key i CHR ''A'' CHR ''c'' \<in> Ks" "holds_flt r (fan_key i CHR ''A'' CHR ''c'') v"
    and md: "key_fourcc (FanMode i) \<in> Ks" "r (key_fourcc (FanMode i)) = Some (TYPE_UI8, [x])"
    and i: "unat i < length E" and E: "\<And>w. F w \<Longrightarrow> ws_envelopes w = E" and m: "is_minimum_request (E ! unat i) target"
  shows "\<exists>s'. commit_set_fan io i target s = (Inr (), s')
    \<and> ws_rest Ks ((unlocked (fst s) r)(key_fourcc (FanMode i) \<mapsto> (TYPE_UI8, [1]))) F s'"
proof -
  obtain s1 where s1: "begin_diagnostic_unlock io s = (Inr (), s1)"
    "ws_rest Ks (unlocked (fst s) r) F (ignore (read_actual_rpm io i) s1)"
    using commit_pre [OF F f s fresh ac] by auto
  have e: "ws_envelopes (fst s) = E" "ws_envelopes (fst (ignore (read_actual_rpm io i) s1)) = E"
    using s s1(2) by (simp_all add: ws_rest_def E)
  have "unlocked (fst s) r (key_fourcc (FanMode i)) = Some (TYPE_UI8, [x])"
    using md(2) by (simp add: unlocked_def ftst_engaged_other)
  from doesD [OF write_mode_rest [where r = "unlocked (fst s) r", OF md(1) this F, of 1 "''fan_mode_force_min''"] s1(2)]
  show ?thesis using e i m s1(1) by (auto simp: commit_set_fan_def bindE_def Let_def)
qed

lemma commit_refused_rest:
  assumes F: "unlock_framed F" and f: "ftst_ok Ks r" and s: "ws_rest Ks r F s"
    and fresh: "r (key_fourcc FtstKey) = None \<Longrightarrow> ws_unlock (fst s) \<noteq> None \<or> slot_free (key_fourcc FtstKey) (ws_conn (fst s))"
    and ac: "fan_key i CHR ''A'' CHR ''c'' \<in> Ks" "holds_flt r (fan_key i CHR ''A'' CHR ''c'') v"
    and i: "unat i < length E" and E: "\<And>w. F w \<Longrightarrow> ws_envelopes w = E" and m: "\<not> is_minimum_request (E ! unat i) target"
  shows "\<exists>s' sid t. commit_set_fan io i target s
      = (Inl (WriteRefused (key_fourcc (FanMode i)) 0x86 ''apple_silicon_m_series_only_supports_min_mode'' sid t), s')
    \<and> ws_rest Ks (unlocked (fst s) r) F s'"
proof -
  obtain s1 where s1: "begin_diagnostic_unlock io s = (Inr (), s1)"
    "ws_rest Ks (unlocked (fst s) r) F (ignore (read_actual_rpm io i) s1)"
    using commit_pre [OF F f s fresh ac] by auto
  have e: "ws_envelopes (fst s) = E" "ws_envelopes (fst (ignore (read_actual_rpm io i) s1)) = E"
    using s s1(2) by (simp_all add: ws_rest_def E)
  show ?thesis using e i m s1 by (auto simp: commit_set_fan_def bindE_def Let_def mode_fan_key)
qed

end

end
