(* ===== verification/Session_Teardown.thy ===== *)
theory Session_Teardown
  imports Session_Device
begin

text \<open>
  The teardown of a session on a device that honours the protocol: every fan is back in automatic
  control, \<open>Ftst\<close> is cleared, and the connection is closed, with or without an unlock in force and
  whether the machine has the \<open>Ftst\<close> key or not. The host, device and lock file together, gives back
  the lock when the session is dropped.
\<close>

declare key_fourcc.simps [simp del] key_fourcc_inject [simp]

lemma ftst_cleared_idem [simp]: "ftst_cleared (ftst_cleared r) = ftst_cleared r"
  by (auto simp: ftst_cleared_def)

context smc_device
begin

text \<open>The connection is usable, and ready for \<open>Ftst\<close> and the fans when there is such a key.\<close>

definition settled :: "u32 set \<Rightarrow> (u32 \<Rightarrow> (u32 \<times> u8 list) option) \<Rightarrow> smc_connection \<Rightarrow> 'd \<Rightarrow> bool" where
  "settled Ks r c d \<longleftrightarrow> reg d = r \<and> connection_open c \<and> conn_port c \<noteq> 0
     \<and> (r (key_fourcc FtstKey) \<noteq> None \<longrightarrow> ready Ks c d)"

lemma settled_rest: "at_rest Ks r (c, d) \<Longrightarrow> Ks \<noteq> {} \<Longrightarrow> settled Ks r c d"
  using ready_usable [of Ks c d] by (auto simp: settled_def at_rest_def)

text \<open>The write of 0 to \<open>Ftst\<close> clears it if it is there.\<close>

lemma ftst_zero_settled:
  assumes f: "ftst_ok Ks r" and s: "settled Ks r c d" and w: "write_u8 io FtstKey 0 (c, d) = (res, (c', d'))"
  shows "settled Ks (ftst_cleared r) c' d' \<and> (r (key_fourcc FtstKey) = None \<longrightarrow> \<not> is_ok res)"
proof (cases "r (key_fourcc FtstKey)")
  case None
  have "write_bytes io (key_fourcc FtstKey) [0] (c, d) = (res, (c', d'))"
    using w by (simp add: write_u8_def write_key_def)
  from write_bytes_absent [OF _ _ _ this] show ?thesis
    using s None by (simp add: settled_def ftst_cleared_def)
next
  case (Some p)
  then obtain x where x: "key_fourcc FtstKey \<in> Ks" "r (key_fourcc FtstKey) = Some (TYPE_UI8, [x])"
    using f by (auto simp: ftst_ok_def)
  have "at_rest Ks r (c, d)" using s Some by (simp add: settled_def at_rest_def)
  from doesD [OF write_u8_rest [where r = r, OF x mode_type(2), of 0] this] w Some
  have "at_rest Ks (ftst_cleared r) (c', d')" by (auto simp: ftst_cleared_def)
  then show ?thesis using settled_rest [of Ks "ftst_cleared r" c' d'] x Some by auto
qed

lemma ftst_verified_settled:
  assumes f: "ftst_ok Ks r" and s: "settled Ks r c d"
    and w: "write_u8_verified io FtstKey 0 ctx sid (g, (c, d)) = (res, (g', (c', d')))"
  shows "settled Ks (ftst_cleared r) c' d'"
proof -
  obtain r1 c1 d1 where w1: "write_u8 io FtstKey 0 (c, d) = (r1, (c1, d1))" by (metis prod_cases3)
  note s1 = ftst_zero_settled [OF f s w1]
  show ?thesis
  proof (cases r1)
    case (Inl e)
    then show ?thesis using w w1 s1 by (auto simp: write_u8_verified_def Let_def)
  next
    case (Inr u)
    then obtain x where x: "key_fourcc FtstKey \<in> Ks" "ftst_cleared r (key_fourcc FtstKey) = Some (TYPE_UI8, [0])"
      using s1 f by (auto simp: ftst_ok_def ftst_cleared_def)
    have "at_rest Ks (ftst_cleared r) (c1, d1)" using s1 x(2) by (simp add: settled_def at_rest_def)
    from doesD [OF read_u8_rest [where r = "ftst_cleared r", OF x] this]
    obtain c2 d2 where rd: "read_u8 io (key_fourcc FtstKey) (c1, d1) = (Inr 0, (c2, d2))" "at_rest Ks (ftst_cleared r) (c2, d2)"
      by auto
    then have "c' = c2" "d' = d2" using w w1 Inr by (simp_all add: write_u8_verified_def)
    then show ?thesis using settled_rest [OF rd(2)] x(1) by auto
  qed
qed

lemma release_unlock_settled:
  assumes f: "ftst_ok Ks r" and s: "settled Ks r (ws_conn w) d" and e: "release_diagnostic_unlock io (w, d) = (w', d')"
  shows "settled Ks (if ws_unlock w = None then r else ftst_cleared r) (ws_conn w') d'"
proof (cases "ws_unlock w")
  case (Some u)
  obtain res g' c' d'' where v: "write_u8_verified io FtstKey 0 ''diagnostic_unlock_release'' (ws_session w)
      (ws_ring w, (ws_conn w, d)) = (res, (g', (c', d'')))" by (metis prod_cases4)
  then have "ws_conn w' = c'" "d' = d''"
    using e Some by (auto simp: release_diagnostic_unlock_def ignore_def on_ring_def)
  then show ?thesis using ftst_verified_settled [OF f s v] Some by simp
qed (use s e in \<open>simp add: release_diagnostic_unlock_def\<close>)

lemma through_close_reg: "through_conn (smc_close io) (w, d) = (w', d') \<Longrightarrow> reg d' = reg d"
  using smc_close_reg [of "(ws_conn w, d)"] by (auto simp: through_conn_def split: prod.splits)

lemma ftst_ok_cleared: "ftst_ok Ks r \<Longrightarrow> ftst_ok Ks (ftst_cleared r)"
  by (auto simp: ftst_ok_def ftst_cleared_def)

text \<open>The teardown leaves every fan in automatic control and \<open>Ftst\<close> cleared, and changes nothing else.\<close>

lemma teardown_rest:
  assumes k: "mode_keys (ws_fans w) \<subseteq> Ks" and f: "ftst_ok Ks r" and h: "holds_modes (ws_fans w) r"
    and s: "at_rest Ks r (ws_conn w, d)" and fl: "\<not> ws_flag w"
  shows "reg (snd (teardown io (w, d))) = ftst_cleared (autos (ws_fans w) r)"
proof -
  let ?r = "autos (ws_fans w) r"
  have ne: "Ks \<noteq> {}" and fk: "ftst_ok Ks ?r" using f by (simp_all add: ftst_ok_def autos_ftst)
  obtain c1 d1 where a: "auto_all io (ws_fans w) (ws_conn w, d) = (c1, d1)" by force
  let ?w1 = "w\<lparr> ws_flag := True, ws_conn := c1 \<rparr>"
  have s1: "settled Ks ?r (ws_conn ?w1) d1" using auto_all_rest [OF k h s] settled_rest [of Ks ?r c1 d1] ne by (simp add: a)
  obtain w2 d2 where b: "release_diagnostic_unlock io (?w1, d1) = (w2, d2)" by force
  obtain r2 where r2: "settled Ks r2 (ws_conn w2) d2" "ftst_ok Ks r2" "ftst_cleared r2 = ftst_cleared ?r"
    using release_unlock_settled [OF fk s1 b] fk ftst_ok_cleared [OF fk]
    by (intro that [of "if ws_unlock w = None then ?r else ftst_cleared ?r"]) simp_all
  obtain res c3 d3 where z: "write_u8 io FtstKey 0 (ws_conn w2, d2) = (res, (c3, d3))" by (metis prod_cases3)
  have s3: "settled Ks (ftst_cleared ?r) c3 d3" using ftst_zero_settled [OF r2(2,1) z] r2(3) by simp
  let ?w3 = "w2\<lparr> ws_conn := c3 \<rparr>"
  let ?w4 = "?w3\<lparr> ws_drained := Some (drain (ws_ring ?w3)) \<rparr>"
  obtain w5 d5 where c: "through_conn (smc_close io) (?w4, d3) = (w5, d5)" by force
  have e1: "through_conn (auto_all io (ws_fans w)) (w\<lparr> ws_flag := True \<rparr>, d) = (?w1, d1)" using a by (simp add: through_conn_def)
  have e3: "through_conn (ignore (force_write_ftst_zero io)) (w2, d2) = (w2\<lparr> ws_conn := c3 \<rparr>, d3)"
    using z by (simp add: through_conn_def ignore_def force_write_ftst_zero_def)
  have "snd (teardown io (w, d)) = d5"
    using fl c by (simp only: teardown_def Let_def fst_conv snd_conv if_False e1 b e3)
  then show ?thesis using through_close_reg [OF c] s3 by (simp add: settled_def)
qed

end

section \<open>The session after a teardown\<close>

lemma close_closed: "\<not> connection_open (fst (smc_close io s))"
  by (simp add: smc_close_def Let_def split_beta)

text \<open>A teardown happens once: a second one is without effect, and the flag stays up.\<close>

lemma teardown_flag: "ws_flag (fst (teardown io s))"
  by (simp add: teardown_def Let_def through_conn_def release_diagnostic_unlock_def ignore_def on_ring_def split_beta split: option.split)

lemma teardown_once: "teardown io (teardown io s) = teardown io s"
  by (subst teardown_def) (simp add: teardown_flag)

lemma teardown_closes: "\<not> ws_flag (fst s) \<Longrightarrow> \<not> connection_open (ws_conn (fst (teardown io s)))"
  by (simp add: teardown_def Let_def through_conn_def [of "smc_close io"] close_closed split_beta)

lemma teardown_lock: "ws_lock (fst (teardown io s)) = ws_lock (fst s)"
  by (simp add: teardown_def Let_def through_conn_def release_diagnostic_unlock_def ignore_def on_ring_def split_beta split: option.split)

end
