(* ===== verification/Session_Writes.thy ===== *)
theory Session_Writes
  imports Write_Session
begin

text \<open>
  Which writes the session operations can issue: on every platform, whatever the device answers, only
  0 or 1 to a fan's mode key or to \<open>Ftst\<close>, and only 1 outside the self-test and the teardown. The
  locales \<open>engage_guard\<close> and \<open>mode_guard\<close> are the observer's interface with these whitelists; the spy
  of \<open>Smc_Writes\<close> interprets them.
\<close>

section \<open>Engaging\<close>

locale engage_guard = call_guard io I allow for io :: "'d platform" and I :: "'d \<Rightarrow> bool" and allow :: "u32 \<Rightarrow> u8 list \<Rightarrow> bool" +
  assumes mode_engage: "allow (key_fourcc (FanMode i)) [1]"
    and ftst_engage_allowed: "allow (key_fourcc FtstKey) [1]"
begin

definition KW :: "'d ws \<Rightarrow> bool" where
  "KW s \<longleftrightarrow> I (snd s)"

lemma on_conn_keeps: "keeps K m \<Longrightarrow> keeps KW (on_conn m)"
  by (auto simp: keeps_def KW_def on_conn_def split_beta)

lemma on_ring_keeps: "keeps KR m \<Longrightarrow> keeps KW (on_ring m)"
  by (auto simp: keeps_def KW_def on_ring_def split_beta)

lemma through_conn_keeps: "(\<And>s. K s \<Longrightarrow> K (f s)) \<Longrightarrow> KW s \<Longrightarrow> KW (through_conn f s)"
  by (auto simp: KW_def through_conn_def split_beta)

lemma heartbeat_keeps: "KW s \<Longrightarrow> KW (heartbeat io s)"
  by (simp add: KW_def heartbeat_def split_beta)

lemma read_actual_keeps: "keeps KW (read_actual_rpm io i)"
  unfolding read_actual_rpm_def by (intro on_conn_keeps read_f32_keeps)

lemma ftst_engage_keeps: "keeps KW (ftst_engage io)"
  unfolding ftst_engage_def
  by (intro keeps_catch keeps_bind keeps_ret on_conn_keeps write_u8_keeps ftst_engage_allowed)
    (auto simp: keeps_def split: smc_error.split)

lemma ftst_verify_keeps: "keeps KW (ftst_verify io)"
  unfolding ftst_verify_def
  by (intro keeps_bind on_conn_keeps read_u8_keeps) (auto simp: keeps_def KW_def)

lemma install_unlock_keeps: "keeps KW (install_unlock io)"
  by (auto simp: install_unlock_def keeps_def KW_def)

lemma begin_unlock_keeps: "keeps KW (begin_diagnostic_unlock io)"
proof -
  have "keeps KW (bindE (ftst_engage io) (\<lambda>present. bindE (if present then ftst_verify io else ret ()) (\<lambda>_. install_unlock io)))"
    by (intro keeps_bind ftst_engage_keeps keeps_if ftst_verify_keeps keeps_ret install_unlock_keeps)
  then show ?thesis by (simp add: keeps_def begin_diagnostic_unlock_def)
qed

lemma write_mode_keeps: "allow (key_fourcc (FanMode i)) [v] \<Longrightarrow> keeps KW (write_mode io i v ctx)"
proof -
  assume v: "allow (key_fourcc (FanMode i)) [v]"
  have "keeps KW (bindE (on_ring (write_u8_verified io (FanMode i) v ctx sid)) (\<lambda>_ s1. (Inr (), heartbeat io s1)))" for sid
    by (intro keeps_bind on_ring_keeps write_u8_verified_keeps v) (auto simp: keeps_def heartbeat_keeps)
  then show ?thesis by (auto simp: write_mode_def keeps_def)
qed

lemma commit_set_fan_keeps: "keeps KW (commit_set_fan io i target)"
proof -
  have "keeps KW (bindE (begin_diagnostic_unlock io) (\<lambda>_ s1.
       let s2 = ignore (read_actual_rpm io i) s1 in
       if \<not> is_minimum_request (ws_envelopes (fst s2) ! unat i) target
       then (Inl (WriteRefused (fan_key i CHR ''m'' CHR ''d'') 0x86 ''apple_silicon_m_series_only_supports_min_mode''
               (ws_session (fst s2)) (io_wall_ns io (snd s2))), s2)
       else write_mode io i 1 ''fan_mode_force_min'' s2))"
    by (intro keeps_bind begin_unlock_keeps)
      (auto simp: keeps_def Let_def intro!: keepsD [OF write_mode_keeps [OF mode_engage]] keeps_ignore [OF read_actual_keeps])
  then show ?thesis by (simp add: keeps_def commit_set_fan_def)
qed

lemma hold_loop_keeps:
  "(\<And>s. P s \<Longrightarrow> P (sleep s)) \<Longrightarrow> (\<And>s. P s \<Longrightarrow> P (snd (sample s))) \<Longrightarrow> P s \<Longrightarrow> P (snd (hold_loop n sleep sample s))"
  by (induction n arbitrary: s) (auto simp: Let_def split_beta)

lemma hold_samples_keeps: "keeps KW (hold_samples io i)"
proof -
  have "KW (snd (sample_actual io i s))" if "KW s" for s
    using keepsD [OF read_actual_keeps that, of i] by (auto simp: sample_actual_def split: prod.split sum.split)
  moreover have "KW (sleep_ms io n s)" if "KW s" for n s
    using that by (auto simp: sleep_ms_def KW_def sleep_keeps split: prod.split)
  ultimately have k: "KW (snd (hold_and_sample (sleep_ms io SAMPLE_INTERVAL_MS) (sample_actual io i) s))" if "KW s" for s
    unfolding hold_and_sample_def using that by (intro hold_loop_keeps [where P = KW]) simp_all
  show ?thesis
    unfolding keeps_def
  proof (intro allI impI)
    fix s assume "KW s"
    obtain vs s1 where e: "hold_and_sample (sleep_ms io SAMPLE_INTERVAL_MS) (sample_actual io i) s = (vs, s1)" by (rule prod.exhaust)
    show "KW (snd (hold_samples io i s))" using k [OF \<open>KW s\<close>] by (simp add: hold_samples_def e)
  qed
qed

end

section \<open>Self-test and teardown\<close>

locale mode_guard = engage_guard io I allow for io :: "'d platform" and I :: "'d \<Rightarrow> bool" and allow :: "u32 \<Rightarrow> u8 list \<Rightarrow> bool" +
  assumes mode_release: "allow (key_fourcc (FanMode i)) [0]"
    and ftst_release: "allow (key_fourcc FtstKey) [0]"
begin

lemma run_selftest_keeps: "keeps KW (run_selftest io iterations)"
proof -
  have i: "keeps KW (selftest_iteration io i iter)" for i iter
    unfolding selftest_iteration_def by (intro keeps_bind keeps_ret write_mode_keeps hold_samples_keeps mode_engage mode_release)
  have f: "keeps KW (selftest_fan io iterations i)" for i
    unfolding selftest_fan_def by (intro keeps_bind keeps_ret keeps_each i)
  have "keeps KW (bindE (eachE (selftest_fan io iterations) xs) (\<lambda>per_fan s1. (Inr (g per_fan s1), s1)))"
    for xs and g :: "fan_report list \<Rightarrow> 'd ws \<Rightarrow> selftest_report"
    by (intro keeps_bind keeps_each f) (simp add: keeps_def)
  then show ?thesis unfolding run_selftest_def Let_def by (auto simp: keeps_def)
qed

lemma auto_all_keeps: "K s \<Longrightarrow> K (auto_all io fans s)"
proof (induction fans arbitrary: s)
  case (Cons i fans)
  have "keeps K (force_write_auto_mode io i)"
    unfolding force_write_auto_mode_def by (intro write_u8_keeps mode_release)
  then have "K (ignore (force_write_auto_mode io i) s)" using Cons.prems by (rule keeps_ignore)
  then show ?case using Cons.IH by (simp add: auto_all_def)
qed (simp add: auto_all_def)

lemma ftst_zero_keeps: "K s \<Longrightarrow> K (ignore (force_write_ftst_zero io) s)"
  unfolding force_write_ftst_zero_def 
  by (rule keeps_ignore [where I = K]) (auto intro: write_u8_keeps ftst_release)

lemma release_unlock_keeps: "KW s \<Longrightarrow> KW (release_diagnostic_unlock io s)"
proof -
  assume s: "KW s"
  have w: "keeps KW (on_ring (write_u8_verified io FtstKey 0 ctx sid))" for ctx sid
    by (intro on_ring_keeps write_u8_verified_keeps ftst_release)
  have i: "KW (ignore (on_ring (write_u8_verified io FtstKey 0 ctx sid)) (wd', snd s))" for ctx sid wd'
    using s by (intro keeps_ignore [OF w]) (simp add: KW_def)
  obtain wd d where wd: "s = (wd, d)" by force
  show ?thesis
  proof (cases "ws_unlock wd")
    case None
    then show ?thesis using s by (simp add: release_diagnostic_unlock_def wd)
  next
    case (Some u)
    let ?m = "on_ring (write_u8_verified io FtstKey 0 ''diagnostic_unlock_release'' (ws_session wd))"
    obtain w2 d2 where e: "ignore ?m (wd\<lparr> ws_unlock := Some (stop_watchdog u) \<rparr>, d) = (w2, d2)" by force
    have "KW (w2, d2)" using i [of "''diagnostic_unlock_release''" "ws_session wd" "wd\<lparr> ws_unlock := Some (stop_watchdog u) \<rparr>"]
      by (simp add: wd e)
    then show ?thesis by (simp add: release_diagnostic_unlock_def wd Some Let_def e KW_def)
  qed
qed

lemma teardown_keeps: "KW s \<Longrightarrow> KW (teardown io s)"
proof -
  assume s: "KW s"
  have up: "KW (w, snd t)" if "KW t" for w t using that by (simp add: KW_def)
  show ?thesis
  proof (cases "ws_flag (fst s)")
    case True
    then show ?thesis using s by (simp add: teardown_def)
  next
    case False
    show ?thesis
      unfolding teardown_def Let_def if_not_P [OF False]
      by (rule up, rule through_conn_keeps, erule smc_close_keeps, rule up, rule through_conn_keeps, erule ftst_zero_keeps,
          rule release_unlock_keeps, rule through_conn_keeps, erule auto_all_keeps, rule up, rule s)
  qed
qed

end

section \<open>The whitelist\<close>

text \<open>The only writes: 0 or 1 to \<open>Ftst\<close> or to the mode key of a fan.\<close>

definition whitelisted :: "u32 \<Rightarrow> u8 list \<Rightarrow> bool" where
  "whitelisted k bs \<longleftrightarrow> bs \<in> {[0], [1]}
     \<and> (k = key_fourcc FtstKey \<or> k \<in> set (map (\<lambda>n. key_fourcc (FanMode (word_of_nat n))) [0..<256]))"

lemma whitelisted_mode: "v = 0 \<or> v = 1 \<Longrightarrow> whitelisted (key_fourcc (FanMode i)) [v]"
proof -
  have "unat i < 256" using unsigned_less [of i, where 'a = nat] by simp
  then have "key_fourcc (FanMode i) \<in> set (map (\<lambda>n. key_fourcc (FanMode (word_of_nat n))) [0..<256])"
    by (auto simp: image_iff intro!: bexI [of _ "unat i"])
  then show "v = 0 \<or> v = 1 \<Longrightarrow> whitelisted (key_fourcc (FanMode i)) [v]" by (auto simp: whitelisted_def)
qed

lemma whitelisted_ftst: "v = 0 \<or> v = 1 \<Longrightarrow> whitelisted (key_fourcc FtstKey) [v]"
  by (auto simp: whitelisted_def)

interpretation spied_modes: mode_guard "spy io" "log_ok whitelisted" whitelisted for io :: "'d platform"
  by unfold_locales (simp_all add: whitelisted_mode whitelisted_ftst del: key_fourcc.simps)

text \<open>The writes that engage: 1 only.\<close>

definition engaging :: "u32 \<Rightarrow> u8 list \<Rightarrow> bool" where
  "engaging k bs \<longleftrightarrow> whitelisted k bs \<and> bs = [1]"

interpretation spied_engage: engage_guard "spy io" "log_ok engaging" engaging for io :: "'d platform"
  by unfold_locales (simp_all add: engaging_def whitelisted_mode whitelisted_ftst del: key_fourcc.simps)

end
