(* ===== verification/Session_Host.thy ===== *)
theory Session_Host
  imports Session_Teardown Session_Writes
begin

text \<open>
  The host: a platform for the controller and the operating system with the lock file, on one outside
  world. What the one does leaves the other alone, so a session holds the lock from its acquisition to
  its drop, a second process is turned away before it touches the controller, and an acquisition that
  fails gives the lock back. The register file with the lock table is an instance.
\<close>

section \<open>The contract\<close>

locale host = smc_device io reg + advisory_lock os holder content
  for io :: "'d platform" and reg and os :: "'d os" and holder content +
  assumes io_holder: "holder (snd (snd (io_call io port sel p d))) = holder d"
      "holder (io_sleep_ms io n d) = holder d" "holder (snd (io_matching io d)) = holder d"
      "holder (snd (io_get_service io d)) = holder d" "holder (snd (snd (io_service_open io sv d))) = holder d"
      "holder (io_service_close io pt d) = holder d" "holder (io_object_release io pt d) = holder d"
      "holder (snd (io_entropy io k d)) = holder d" "holder (snd (io_port_guard io pt g d)) = holder d"
      "holder (io_port_unguard io pt g d) = holder d"
    and os_reg: "os_open_lock os path d = (r1, d') \<Longrightarrow> reg d' = reg d"
      "reg (os_close os fd d) = reg d" "os_try_lock os fd d = (b, d') \<Longrightarrow> reg d' = reg d"
      "reg (os_unlock os fd d) = reg d" "os_set_len os fd k d = (e, d') \<Longrightarrow> reg d' = reg d"
      "os_write os fd t d = (e, d') \<Longrightarrow> reg d' = reg d" "os_flush os fd d = (e, d') \<Longrightarrow> reg d' = reg d"

sublocale host \<subseteq> holding: mode_guard io "\<lambda>d. holder d = h" "\<lambda>_ _. True" for h
  by unfold_locales (simp_all add: io_holder)

context host
begin

lemma try_acquire_reg:
  assumes "try_acquire os d = (r, d')"
  shows "reg d' = reg d"
  using assms
  by (auto simp: try_acquire_def try_acquire_at_def stamp_pid_def Let_def os_reg(2)
      dest!: os_reg(1,3,5,6,7) split: sum.splits option.splits if_splits prod.splits bool.splits)

text \<open>The lock during a session.\<close>

lemma teardown_holder: "holder (snd (teardown io s)) = holder (snd s)"
  using holding.teardown_keeps [of "holder (snd s)" s] by (simp add: holding.KW_def)

lemma close_holder: "holder (snd (smc_close io s)) = holder (snd s)"
  using holding.smc_close_keeps [of s "holder (snd s)"] by simp

lemma drop_holder:
  assumes "holder d = Some (fg_file (ws_lock w))"
  shows "holder (drop_session io os (w, d)) = None"
proof -
  obtain w1 d1 where t: "teardown io (w, d) = (w1, d1)" by force
  obtain c d2 where c: "smc_close io (ws_conn w1, d1) = (c, d2)" by force
  have "ws_lock w1 = ws_lock w" using teardown_lock [of io "(w, d)"] by (simp add: t)
  moreover have "holder d2 = Some (fg_file (ws_lock w))"
    using teardown_holder [of "(w, d)"] close_holder [of "(ws_conn w1, d1)"] assms by (simp add: t c)
  ultimately show ?thesis by (simp add: drop_session_def t through_conn_def c drop_releases)
qed

lemma drop_reg: "reg (drop_session io os (w, d)) = reg (snd (teardown io (w, d)))"
proof -
  obtain w1 d1 where t: "teardown io (w, d) = (w1, d1)" by force
  obtain c d2 where c: "smc_close io (ws_conn w1, d1) = (c, d2)" by force
  show ?thesis using smc_close_reg [of "(ws_conn w1, d1)"]
    by (simp add: drop_session_def t through_conn_def c drop_guard_def os_reg)
qed

lemma drop_conns_holder:
  "holder d = Some (fg_file g) \<Longrightarrow> holder (drop_conns io os g cs d) = None"
proof -
  assume h: "holder d = Some (fg_file g)"
  have "holder (foldl (\<lambda>d c. snd (smc_close io (c, d))) d cs) = holder d" for d
    using close_holder by (induction cs arbitrary: d) auto
  then show ?thesis using h by (simp add: drop_conns_def drop_releases)
qed

text \<open>Acquisition while another process holds the lock: no step after the lock is taken.\<close>

lemma acquire_conflict:
  assumes h: "holder d = Some other"
  shows "\<exists>e d'. acquire io os p d = (Inl (flock_error_to_smc_error e), p, d') \<and> holder d' = holder d \<and> reg d' = reg d"
proof -
  obtain en d1 where e: "io_entropy io 10 d = (en, d1)" by force
  have d1: "holder d1 = Some other" "reg d1 = reg d"
    using io_holder(8) [of 10 d] other_calls(7) [of 10 d] h by (simp_all add: e)
  obtain r d2 where t: "try_acquire os d1 = (r, d2)" by force
  show ?thesis using acquire_held [OF d1(1), of DEFAULT_LOCKFILE_PATH r d2] try_acquire_reg [OF t] t d1 h
    by (auto simp: acquire_def Let_def e try_acquire_def)
qed

text \<open>A successful acquisition owns the lock, which was free; a failed one leaves it free.\<close>

lemma open_holder: "holder (snd (smc_open io d)) = holder d"
  using holding.smc_open_keeps [of d "holder d"] by simp

lemma enumerate_holder: "holder (snd (snd (enumerate_fans io s))) = holder (snd s)"
  using keepsD [OF holding.enumerate_fans_keeps [of "holder (snd s)"], of s] by simp

lemma acquire_lock:
  assumes h: "holder d = None" and a: "acquire io os p d = (r, p', d')"
  shows "case r of Inl _ \<Rightarrow> holder d' = None \<and> p' = p | Inr w \<Rightarrow> holder d' = Some (fg_file (ws_lock w))"
proof -
  obtain en d1 where e: "io_entropy io 10 d = (en, d1)" by force
  have d1: "holder d1 = None" using io_holder(8) [of 10 d] h by (simp add: e)
  obtain r0 d2 where t: "try_acquire os d1 = (r0, d2)" by force
  show ?thesis
  proof (cases r0)
    case (Inl x)
    have "holder d2 = None" using acquire_fails [of DEFAULT_LOCKFILE_PATH d1 x d2] t d1 Inl by (simp add: try_acquire_def)
    then show ?thesis using a Inl by (auto simp: acquire_def Let_def e t)
  next
    case (Inr g)
    have g: "holder d2 = Some (fg_file g)"
      using acquire_ok [of DEFAULT_LOCKFILE_PATH d1 g d2] t Inr by (simp add: try_acquire_def)
    obtain r3 d3 r4 d4 r5 d5 where o: "smc_open io d2 = (r3, d3)" "smc_open io d3 = (r4, d4)" "smc_open io d4 = (r5, d5)"
      by (metis prod.exhaust)
    have k: "holder d3 = Some (fg_file g)" "holder d4 = Some (fg_file g)" "holder d5 = Some (fg_file g)"
      using open_holder [of d2] open_holder [of d3] open_holder [of d4] g by (simp_all add: o)
    obtain r6 m1 d6 where n: "enumerate_fans io (projr r3, d5) = (r6, (m1, d6))" by (metis prod_cases3)
    have "holder d6 = Some (fg_file g)" using enumerate_holder [of "(projr r3, d5)"] k by (simp add: n)
    then show ?thesis using a Inr k drop_conns_holder n
      by (auto simp: acquire_def Let_def e t o split: sum.splits prod.splits)
  qed
qed

end

section \<open>A register file with a lock file\<close>

text \<open>Platforms and systems on either half of a pair.\<close>

definition on_fst :: "('a \<Rightarrow> 'r \<times> 'a) \<Rightarrow> 'a \<times> 'b \<Rightarrow> 'r \<times> 'a \<times> 'b" where
  "on_fst f s = (case f (fst s) of (r, a) \<Rightarrow> (r, a, snd s))"

definition on_snd :: "('b \<Rightarrow> 'r \<times> 'b) \<Rightarrow> 'a \<times> 'b \<Rightarrow> 'r \<times> 'a \<times> 'b" where
  "on_snd f s = (case f (snd s) of (r, b) \<Rightarrow> (r, fst s, b))"

definition host_io :: "(regfile \<times> lock_table) platform" where
  "host_io = \<lparr>
     io_call = (\<lambda>port sel p s. case io_call regfile_io port sel p (fst s) of (kr, out, d) \<Rightarrow> (kr, out, (d, snd s))),
     io_sleep_ms = (\<lambda>n s. s), io_wall_ns = (\<lambda>s. 0), io_now_ms = (\<lambda>s. 0),
     io_matching = on_fst (io_matching regfile_io), io_get_service = on_fst (io_get_service regfile_io),
     io_conforms = (\<lambda>sv s. True),
     io_service_open = (\<lambda>sv s. (KERN_SUCCESS, 2, s)), io_service_close = (\<lambda>p s. s),
     io_object_release = (\<lambda>p s. s), io_entropy = (\<lambda>n s. (replicate n 7, s)),
     io_port_guard = (\<lambda>p g s. (KERN_SUCCESS, s)), io_port_unguard = (\<lambda>p g s. s) \<rparr>"

definition host_os :: "u32 \<Rightarrow> (regfile \<times> lock_table) os" where
  "host_os pid = (let t = lock_table_os pid in \<lparr>
     os_canonicalize = (\<lambda>p s. os_canonicalize t p (snd s)), os_statfs = (\<lambda>p s. os_statfs t p (snd s)),
     os_open_lock = (\<lambda>p. on_snd (os_open_lock t p)), os_close = (\<lambda>fd s. (fst s, os_close t fd (snd s))),
     os_try_lock = (\<lambda>fd. on_snd (os_try_lock t fd)), os_unlock = (\<lambda>fd s. (fst s, os_unlock t fd (snd s))),
     os_read_to_string = (\<lambda>p s. os_read_to_string t p (snd s)),
     os_set_len = (\<lambda>fd n. on_snd (os_set_len t fd n)), os_write = (\<lambda>fd x. on_snd (os_write t fd x)),
     os_flush = (\<lambda>fd. on_snd (os_flush t fd)), os_pid = (\<lambda>s. pid), os_wall_ms = (\<lambda>s. 0) \<rparr>)"

lemma host_call: "io_call host_io port sel p s = (case io_call regfile_io port sel p (fst s) of (kr, out, d) \<Rightarrow> (kr, out, (d, snd s)))"
  by (simp add: host_io_def)

lemma host_device: "smc_device host_io (\<lambda>s. regfile_reg (fst s))"
proof
  fix d :: "regfile \<times> lock_table" and p :: smc_param and ty bs port
  assume r: "regfile_reg (fst d) (p_key p) = Some (ty, bs)"
  show "p_data8 p = SMC_CMD_GET_KEY_INFO \<Longrightarrow> \<exists>out d'. io_call host_io port SMC_SELECTOR p d = (KERN_SUCCESS, out, d')
      \<and> p_result out = 0 \<and> regfile_reg (fst d') = regfile_reg (fst d)
      \<and> kid_data_size (p_key_info out) = word_of_nat (length bs) \<and> kid_data_type (p_key_info out) = ty"
    using regfile.info_present [OF r, of port] by (auto simp: host_call)
  show "p_data8 p = SMC_CMD_READ_KEY \<Longrightarrow> \<exists>out d' pad. io_call host_io port SMC_SELECTOR p d = (KERN_SUCCESS, out, d')
      \<and> p_result out = 0 \<and> regfile_reg (fst d') = regfile_reg (fst d) \<and> p_bytes out = bs @ pad"
    using regfile.read_present [OF r, of port] by (auto simp: host_call)
  show "p_data8 p = SMC_CMD_WRITE_KEY \<Longrightarrow> kid_data_size (p_key_info p) = word_of_nat (length bs) \<Longrightarrow>
      length bs \<le> length (p_bytes p) \<Longrightarrow> \<exists>out d'. io_call host_io port SMC_SELECTOR p d = (KERN_SUCCESS, out, d')
      \<and> p_result out = 0 \<and> regfile_reg (fst d') = (regfile_reg (fst d))(p_key p \<mapsto> (ty, take (length bs) (p_bytes p)))"
    using regfile.write_present [OF r, of port] by (auto simp: host_call)
next
  fix d :: "regfile \<times> lock_table" and p :: smc_param and port
  assume "regfile_reg (fst d) (p_key p) = None" "p_data8 p \<in> {SMC_CMD_GET_KEY_INFO, SMC_CMD_READ_KEY, SMC_CMD_WRITE_KEY}"
  then show "\<exists>out d'. io_call host_io port SMC_SELECTOR p d = (KERN_SUCCESS, out, d')
      \<and> p_result out = SMC_ERR_KEY_NOT_FOUND \<and> regfile_reg (fst d') = regfile_reg (fst d)"
    using regfile.absent [of "fst d" p port] by (auto simp: host_call)
qed (auto simp: host_io_def on_fst_def split_beta regfile.other_calls dest: regfile_SomeD)

lemma host_lock: "advisory_lock (host_os pid) (\<lambda>s. lt_holder (snd s)) (\<lambda>s. lt_content (snd s))"
  by unfold_locales (auto simp: host_os_def lock_table_os_def on_snd_def free_fd_def fresh_fd_def Let_def split: if_splits option.splits)

interpretation paired: host host_io "\<lambda>s. regfile_reg (fst s)" "host_os pid" "\<lambda>s. lt_holder (snd s)" "\<lambda>s. lt_content (snd s)" for pid
proof (intro host.intro host_device host_lock host_axioms.intro)
qed (auto simp: host_io_def host_os_def lock_table_os_def on_fst_def on_snd_def free_fd_def split_beta Let_def)

end
