(* ===== verification/Session_Lifecycle.thy ===== *)
theory Session_Lifecycle
  imports Session_Host
begin

text \<open>
  A whole session on a host: acquired, any sequence of commits, dropped. From the register file of a
  machine with its fans, nothing is assumed of the session beyond its acquisition.
\<close>

declare key_fourcc.simps [simp del] key_fourcc_inject [simp]

section \<open>A machine with its fans\<close>

text \<open>The keys of a session: those of the enumeration, and \<open>Ftst\<close> where there is one.\<close>

definition session_keys :: "(u32 \<Rightarrow> (u32 \<times> u8 list) option) \<Rightarrow> u8 \<Rightarrow> u32 set" where
  "session_keys r n = enum_keys n \<union> (if r (key_fourcc FtstKey) = None then {} else {key_fourcc FtstKey})"

definition machine_ok :: "(u32 \<Rightarrow> (u32 \<times> u8 list) option) \<Rightarrow> u32 \<Rightarrow> u8 \<Rightarrow> (u8 \<Rightarrow> fan_regs) \<Rightarrow> bool" where
  "machine_ok r nkeys n fs \<longleftrightarrow> holds_fans r nkeys n fs
     \<and> (case r (key_fourcc FtstKey) of None \<Rightarrow> True | Some (ty, bs) \<Rightarrow> ty = TYPE_UI8 \<and> length bs = 1)"

text \<open>Keys with the same last byte have the same type and size: the cache does not mix them up.\<close>

definition slot_type :: "nat \<Rightarrow> u32 \<times> nat" where
  "slot_type s = (if s = of_char CHR ''Y'' then (TYPE_UI32, 4)
     else if s \<in> {of_char CHR ''m'', of_char CHR ''d'', of_char CHR ''t''} then (TYPE_UI8, 1) else (TYPE_FLT, 4))"

lemma fan_key_slot: "slot_of (fan_key i a b) = of_char b"
  by (simp add: fan_key_def slot_last_byte byte_to_char)

lemma const_slots: "slot_of KEY_COUNT_KEY = of_char CHR ''Y''" "slot_of FAN_COUNT_KEY = of_char CHR ''m''"
  "slot_of (key_fourcc FtstKey) = of_char CHR ''t''"
  by (simp_all add: KEY_COUNT_KEY_def FAN_COUNT_KEY_def key_fourcc.simps slot_last_byte byte_to_char)

lemma machine_types:
  assumes m: "machine_ok r nkeys n fs" and k: "k \<in> session_keys r n"
  shows "\<exists>bs. r k = Some (fst (slot_type (slot_of k)), bs) \<and> length bs = snd (slot_type (slot_of k))"
proof -
  have h: "holds_fans r nkeys n fs" using m by (simp add: machine_ok_def)
  consider "k = KEY_COUNT_KEY" | "k = FAN_COUNT_KEY" | (ft) "k = key_fourcc FtstKey" "r k \<noteq> None"
    | (fan) i where "i \<in> set (fan_indices n)" "k \<in> fan_keys i"
    using k by (auto simp: session_keys_def enum_keys_def split: if_splits)
  then show ?thesis
  proof cases
    case fan
    then have "holds_fan r i (fs i)" using h by (simp add: holds_fans_def)
    then show ?thesis using fan(2) by (auto simp: holds_fan_def fan_keys_def holds_flt_def fan_key_slot slot_type_def)
  qed (use h m in \<open>auto simp: holds_fans_def const_slots slot_type_def machine_ok_def split: option.splits\<close>)
qed

lemma session_keys_modes:
  "mode_keys (fan_indices n) \<subseteq> session_keys r n" "enum_keys n \<subseteq> session_keys r n"
  by (auto simp: mode_keys_def session_keys_def enum_keys_def fan_keys_def mode_fan_key)

lemma machine_modes: "machine_ok r nkeys n fs \<Longrightarrow> holds_modes (fan_indices n) r"
  by (auto simp: machine_ok_def holds_fans_def holds_modes_def holds_fan_def mode_fan_key)

section \<open>Acquisition\<close>

lemma smc_open_fresh: "smc_open io d = (Inr c, d') \<Longrightarrow> connection_open c \<and> key_cache c = cache_new"
  by (auto simp: smc_open_def Let_def split: prod.splits if_splits)

lemma no_port_fails:
  assumes "conn_port c = 0" "key_cache c = cache_new"
  shows "\<not> is_ok (fst (enumerate_fans io (c, d)))"
proof -
  have "cache_get cache_new k = None" for k by (rule cache.get_empty)
  then show ?thesis using assms
    by (simp add: enumerate_fans_def read_key_count_def read_u32_def read_key_def read_key_info_def bindE_def catchE_def
        call_struct_def not_found_arm_def throw_def)
qed

context smc_device
begin

lemma ready_fresh:
  assumes m: "machine_ok (reg d) nkeys n fs" and c: "connection_open c" "conn_port c \<noteq> 0" "key_cache c = cache_new"
  shows "ready (session_keys (reg d) n) c d"
  unfolding ready_def
proof
  fix k assume k: "k \<in> session_keys (reg d) n"
  have u: "usable c k ty l" for ty l using c by (simp add: usable_def cache.wf_empty cache.get_empty)
  show "\<exists>ty bs. reg d k = Some (ty, bs) \<and> usable c k ty (length bs)
      \<and> (\<forall>j\<in>session_keys (reg d) n. slot_of j = slot_of k \<longrightarrow> (\<exists>bs'. reg d j = Some (ty, bs') \<and> length bs' = length bs))"
    using machine_types [OF m k] machine_types [OF m] u by metis
qed

lemma machine_ftst: "machine_ok r nkeys n fs \<Longrightarrow> ftst_ok (session_keys r n) r"
  by (cases "r (key_fourcc FtstKey)") (auto simp: ftst_ok_def session_keys_def machine_ok_def enum_keys_def length_Suc_conv)

end

text \<open>A read leaves the cache slots of other last bytes alone.\<close>

definition slot_clear :: "u32 \<Rightarrow> 'd smc \<Rightarrow> bool" where
  "slot_clear k s \<longleftrightarrow> cache_wf (key_cache (fst s)) \<and> slot_free k (fst s)"

lemma call_clear: "keeps (slot_clear k) (call_struct io cmd p)"
  by (auto simp: keeps_def slot_clear_def call_struct_def Let_def split: prod.split)

lemma not_found_clear: "slot_of j \<noteq> slot_of k \<Longrightarrow> keeps (slot_clear k) (not_found_arm j e)"
  by (auto simp: not_found_arm_def keeps_def slot_clear_def slot_free_def with_cache_def op_defs cache.wf_drop cache.get_drop
      split: smc_error.split)

lemma put_clear: "slot_of j \<noteq> slot_of k \<Longrightarrow> keeps (slot_clear k) (with_cache (\<lambda>c. cache_put c j sz ty))"
  by (auto simp: keeps_def slot_clear_def slot_free_def with_cache_def cache.wf_put cache.get_put)

lemma info_clear:
  assumes "slot_of j \<noteq> slot_of k"
  shows "keeps (slot_clear k) (read_key_info io j)"
proof -
  have "keeps (slot_clear k) (bindE (catchE (call_struct io SMC_CMD_GET_KEY_INFO (zeroed\<lparr> p_key := j \<rparr>)) (not_found_arm j)) (\<lambda>out.
       let clamped_size = min (kid_data_size (p_key_info out)) 32; ty = kid_data_type (p_key_info out) in
       if clamped_size = 0 \<and> ty = 0 then throw (EmptyResponse j)
       else bindE (with_cache (\<lambda>c. cache_put c j clamped_size ty)) (\<lambda>_.
         ret \<lparr> ki_size = clamped_size, ki_type = ty \<rparr>)))"
    unfolding Let_def
    by (intro keeps_bind keeps_catch call_clear not_found_clear put_clear keeps_if keeps_ret keeps_throw assms)
  then show ?thesis by (auto simp: keeps_def read_key_info_def split: option.split)
qed

lemma read_clear:
  assumes "slot_of j \<noteq> slot_of k"
  shows "keeps (slot_clear k) (read_key io j)" "keeps (slot_clear k) (read_u8 io j)"
    "keeps (slot_clear k) (read_u32 io j)" "keeps (slot_clear k) (read_f32 io j)"
proof -
  show r: "keeps (slot_clear k) (read_key io j)"
    unfolding read_key_def by (intro keeps_bind keeps_catch info_clear call_clear not_found_clear keeps_ret assms)
  show "keeps (slot_clear k) (read_u8 io j)"
    unfolding read_u8_def by (intro keeps_bind r) (auto split: sum.split)
  show "keeps (slot_clear k) (read_u32 io j)"
    unfolding read_u32_def by (intro keeps_bind r) (auto split: sum.split)
  show "keeps (slot_clear k) (read_f32 io j)"
    unfolding read_f32_def by (intro keeps_bind r) (auto split: sum.split smc_value_error.split)
qed

lemma optional_clear: "keeps (slot_clear k) m \<Longrightarrow> keeps (slot_clear k) (optional m)"
  unfolding optional_def by (auto intro!: keeps_bind keeps_catch split: smc_error.split)

lemma enumerate_clear: "keeps (slot_clear (key_fourcc FtstKey)) (enumerate_fans io)"
proof -
  have fs: "slot_of (fan_key i a b) \<noteq> slot_of (key_fourcc FtstKey)" if "b \<in> {CHR ''n'', CHR ''x'', CHR ''f'', CHR ''c'', CHR ''d''}" for i a b
    using that by (auto simp: fan_key_slot const_slots)
  have m: "keeps (slot_clear (key_fourcc FtstKey)) (probe_mode_key io i)" for i
    unfolding probe_mode_key_def
    by (intro keeps_bind optional_clear info_clear fs) (auto intro!: keeps_bind optional_clear info_clear fs split: option.split)
  have "keeps (slot_clear (key_fourcc FtstKey)) (enumerate_fan io i)" for i
    unfolding enumerate_fan_def by (intro keeps_bind read_clear(4) optional_clear m keeps_ret fs) simp_all
  then show ?thesis
    unfolding enumerate_fans_def read_key_count_def Let_def
    by (intro keeps_bind read_clear(2,3) optional_clear keeps_if keeps_throw keeps_ret keeps_each)
      (simp_all add: const_slots)
qed

context host
begin

text \<open>What a successful acquisition hands over.\<close>

definition fresh_session :: "(u32 \<Rightarrow> (u32 \<times> u8 list) option) \<Rightarrow> u8 \<Rightarrow> (u8 \<Rightarrow> fan_regs) \<Rightarrow> write_session \<Rightarrow> 'd \<Rightarrow> bool" where
  "fresh_session r n fs w d \<longleftrightarrow> at_rest (session_keys r n) r (ws_conn w, d)
     \<and> ws_envelopes w = map (\<lambda>i. fan_of i (fs i)) (fan_indices n) \<and> ws_fans w = fan_indices n
     \<and> ws_unlock w = None \<and> \<not> ws_flag w \<and> slot_free (key_fourcc FtstKey) (ws_conn w)"

lemma acquire_fresh:
  assumes m: "machine_ok (reg d) nkeys n fs" and a: "acquire io os p d = (Inr w, p', d')"
  shows "fresh_session (reg d) n fs w d'"
proof -
  obtain en d1 where e: "io_entropy io 10 d = (en, d1)" by force
  obtain r0 d2 where t: "try_acquire os d1 = (r0, d2)" by force
  obtain r3 d3 r4 d4 r5 d5 where o: "smc_open io d2 = (r3, d3)" "smc_open io d3 = (r4, d4)" "smc_open io d4 = (r5, d5)"
    by (metis prod.exhaust)
  have rg: "reg d5 = reg d"
    using other_calls(7) [of 10 d] try_acquire_reg [OF t] smc_open_reg [of d2] smc_open_reg [of d3] smc_open_reg [of d4]
    by (simp add: e o)
  obtain main where main: "r3 = Inr main" using a by (auto simp: acquire_def Let_def e t o split: sum.splits)
  obtain r6 m1 d6 where nm: "enumerate_fans io (main, d5) = (r6, (m1, d6))" by (metis prod_cases3)
  have mo: "connection_open main" "key_cache main = cache_new" using smc_open_fresh [of io d2 main] o(1) main by auto
  obtain fans where fans: "r6 = Inr fans" "d' = d6" "ws_conn w = m1" "ws_envelopes w = fans" "ws_fans w = map fan_ix fans"
    "ws_unlock w = None" "\<not> ws_flag w"
    using a main by (auto simp: acquire_def Let_def e t o nm split: sum.splits)
  have "conn_port main \<noteq> 0" using no_port_fails [of main io d5] mo(2) fans(1) by (auto simp: nm)
  then have rd: "ready (session_keys (reg d) n) main d5" using ready_fresh [of d5 nkeys n fs main] m mo by (simp add: rg)
  have "holds_fans (reg d) nkeys n fs" using m by (simp add: machine_ok_def)
  from doesD [OF enumerate_fans_rest [OF session_keys_modes(2) this, of "reg d"], of "(main, d5)"]
  have "fans = map (\<lambda>i. fan_of i (fs i)) (fan_indices n)" "at_rest (session_keys (reg d) n) (reg d) (m1, d6)"
    using rd rg nm fans(1) by (auto simp: at_rest_def)
  moreover have "slot_free (key_fourcc FtstKey) m1"
    using keepsD [OF enumerate_clear [of io], of "(main, d5)"] nm mo(2)
    by (simp add: slot_clear_def slot_free_def cache.wf_empty cache.get_empty)
  ultimately show ?thesis using fans by (simp add: fresh_session_def comp_def fan_of_def)
qed

end

section \<open>Commits\<close>

text \<open>What a commit does to the registers.\<close>

definition commit_regs :: "fan list \<Rightarrow> u8 \<times> clamped_rpm \<Rightarrow> (u32 \<Rightarrow> (u32 \<times> u8 list) option) \<Rightarrow> u32 \<Rightarrow> (u32 \<times> u8 list) option" where
  "commit_regs E c r = (case c of (i, target) \<Rightarrow>
     if length E \<le> unat i then r
     else if is_minimum_request (E ! unat i) target then (ftst_engaged r)(key_fourcc (FanMode i) \<mapsto> (TYPE_UI8, [1]))
     else ftst_engaged r)"

definition commits :: "'d platform \<Rightarrow> (u8 \<times> clamped_rpm) list \<Rightarrow> 'd ws \<Rightarrow> 'd ws" where
  "commits io cs s = foldl (\<lambda>s (i, target). ignore (commit_set_fan io i target) s) s cs"

text \<open>Once engaged, the unlock stays until the teardown.\<close>

definition unlocking :: "'d ws \<Rightarrow> bool" where
  "unlocking s \<longleftrightarrow> ws_unlock (fst s) \<noteq> None"

lemma on_conn_unlocking: "keeps unlocking (on_conn m)"
  by (auto simp: keeps_def unlocking_def on_conn_def split: prod.split)

lemma on_ring_unlocking: "keeps unlocking (on_ring m)"
  by (auto simp: keeps_def unlocking_def on_ring_def split: prod.split)

lemma write_mode_unlocking: "keeps unlocking (write_mode io i v ctx)"
proof -
  have "keeps unlocking (bindE (on_ring (write_u8_verified io (FanMode i) v ctx sid)) (\<lambda>_ s1. (Inr (), heartbeat io s1)))" for sid
    by (intro keeps_bind on_ring_unlocking) (auto simp: keeps_def unlocking_def heartbeat_def split: prod.split)
  then show ?thesis by (simp add: keeps_def write_mode_def)
qed

lemma commit_unlocking:
  assumes "unat i < length (ws_envelopes (fst s))" "begin_diagnostic_unlock io s = (Inr (), s1)" "unlocking s1"
  shows "unlocking (ignore (commit_set_fan io i target) s)"
proof -
  let ?s2 = "snd (on_conn (read_f32 io (fan_key i CHR ''A'' CHR ''c'')) s1)"
  have u: "unlocking ?s2" by (rule keepsD [OF on_conn_unlocking assms(3)])
  have "unlocking (snd (write_mode io i 1 ''fan_mode_force_min'' ?s2))" by (rule keepsD [OF write_mode_unlocking u])
  then show ?thesis using assms(1,2) u by (simp add: commit_set_fan_def ignore_def bindE_def Let_def read_actual_rpm_def)
qed

text \<open>The lock of a session is the one it was acquired with.\<close>

definition lock_is :: "flock_guard \<Rightarrow> 'd ws \<Rightarrow> bool" where
  "lock_is g s \<longleftrightarrow> ws_lock (fst s) = g"

lemma lock_parts:
  "keeps (lock_is g) (on_conn m)" "keeps (lock_is g) (on_ring m')" "lock_is g s \<Longrightarrow> lock_is g (heartbeat io s)"
  "keeps (lock_is g) (install_unlock io)"
  by (auto simp: keeps_def lock_is_def on_conn_def on_ring_def heartbeat_def install_unlock_def split: prod.split)

lemma begin_unlock_lock: "keeps (lock_is g) (begin_diagnostic_unlock io)"
proof -
  have v: "keeps (lock_is g) (ftst_verify io)"
    unfolding ftst_verify_def by (intro keeps_bind lock_parts) (auto simp: keeps_def lock_is_def)
  have e: "keeps (lock_is g) (ftst_engage io)"
    unfolding ftst_engage_def
    by (intro keeps_catch keeps_bind keeps_ret lock_parts) (auto simp: keeps_def split: smc_error.split)
  have "keeps (lock_is g) (bindE (ftst_engage io) (\<lambda>present. bindE (if present then ftst_verify io else ret ()) (\<lambda>_. install_unlock io)))"
    by (intro keeps_bind e keeps_if v keeps_ret lock_parts)
  then show ?thesis by (simp add: keeps_def begin_diagnostic_unlock_def)
qed

lemma write_mode_lock: "keeps (lock_is g) (write_mode io i v ctx)"
proof -
  have "keeps (lock_is g) (bindE (on_ring (write_u8_verified io (FanMode i) v ctx sid)) (\<lambda>_ s1. (Inr (), heartbeat io s1)))" for sid
    by (intro keeps_bind lock_parts) (simp add: keeps_def lock_parts)
  then show ?thesis by (simp add: keeps_def write_mode_def)
qed

lemma commit_lock: "ws_lock (fst (ignore (commit_set_fan io i target) s)) = ws_lock (fst s)"
proof -
  have "keeps (lock_is g) (bindE (begin_diagnostic_unlock io) (\<lambda>_ s1.
       let s2 = ignore (read_actual_rpm io i) s1 in
       if \<not> is_minimum_request (ws_envelopes (fst s2) ! unat i) target
       then (Inl (WriteRefused (fan_key i CHR ''m'' CHR ''d'') 0x86 ''apple_silicon_m_series_only_supports_min_mode''
               (ws_session (fst s2)) (io_wall_ns io (snd s2))), s2)
       else write_mode io i 1 ''fan_mode_force_min'' s2))" for g
    unfolding read_actual_rpm_def
    by (intro keeps_bind begin_unlock_lock)
      (auto simp: keeps_def Let_def intro!: keepsD [OF write_mode_lock] keeps_ignore [OF lock_parts(1)])
  from keepsD [OF this, of "ws_lock (fst s)" s] show ?thesis
    by (simp add: commit_set_fan_def ignore_def lock_is_def)
qed

lemma commit_out_of_range:
  "length (ws_envelopes (fst s)) \<le> unat i \<Longrightarrow> ignore (commit_set_fan io i target) s = s"
  by (simp add: commit_set_fan_def ignore_def)

lemma ftst_engaged_idem [simp]: "ftst_engaged (ftst_engaged r) = ftst_engaged r"
  by (auto simp: ftst_engaged_def)

lemma ftst_engaged_upd: "ftst_engaged (r(key_fourcc (FanMode i) \<mapsto> x)) = (ftst_engaged r)(key_fourcc (FanMode i) \<mapsto> x)"
  by (auto simp: ftst_engaged_def fun_upd_twist)

context smc_device
begin

text \<open>A session between its acquisition and its teardown, with the registers it has left.\<close>

definition live :: "u32 set \<Rightarrow> (u32 \<Rightarrow> (u32 \<times> u8 list) option) \<Rightarrow> fan list \<Rightarrow> 'd ws \<Rightarrow> bool" where
  "live Ks r E s \<longleftrightarrow> ws_rest Ks r (\<lambda>w. ws_envelopes w = E \<and> ws_fans w = map fan_ix E \<and> \<not> ws_flag w) s
     \<and> (if unlocking s then ftst_engaged r = r else slot_free (key_fourcc FtstKey) (ws_conn (fst s)))"

lemma live_frame: "unlock_framed (\<lambda>w. ws_envelopes w = E \<and> ws_fans w = map fan_ix E \<and> \<not> ws_flag w)"
  by (simp add: unlock_framed_def framed_def)

lemma commit_live:
  assumes l: "live Ks r E s" and f: "ftst_ok Ks r"
    and i: "unat i < length E" and ac: "fan_key i CHR ''A'' CHR ''c'' \<in> Ks" "holds_flt r (fan_key i CHR ''A'' CHR ''c'') v"
    and md: "key_fourcc (FanMode i) \<in> Ks" "r (key_fourcc (FanMode i)) = Some (TYPE_UI8, [x])"
  shows "live Ks (commit_regs E (i, target) r) E (ignore (commit_set_fan io i target) s)
    \<and> (is_ok (fst (commit_set_fan io i target s)) \<longleftrightarrow> is_minimum_request (E ! unat i) target)"
proof -
  let ?F = "\<lambda>w. ws_envelopes w = E \<and> ws_fans w = map fan_ix E \<and> \<not> ws_flag w"
  have s: "ws_rest Ks r ?F s" using l by (simp add: live_def)
  have u: "unlocked (fst s) r = ftst_engaged r" using l by (auto simp: live_def unlocked_def unlocking_def split: if_splits)
  have fresh: "r (key_fourcc FtstKey) = None \<Longrightarrow> ws_unlock (fst s) \<noteq> None \<or> slot_free (key_fourcc FtstKey) (ws_conn (fst s))"
    using l by (auto simp: live_def unlocking_def split: if_splits)
  obtain s1 where b: "begin_diagnostic_unlock io s = (Inr (), s1)" "ws_unlock (fst s1) \<noteq> None"
    using begin_unlock_rest [OF live_frame f s fresh] by auto
  have e: "ws_envelopes (fst s) = E" using s by (simp add: ws_rest_def)
  have k: "unlocking (ignore (commit_set_fan io i target) s)"
    using b i e by (intro commit_unlocking) (auto simp: unlocking_def)
  show ?thesis
  proof (cases "is_minimum_request (E ! unat i) target")
    case True
    obtain s' where "commit_set_fan io i target s = (Inr (), s')"
      "ws_rest Ks ((unlocked (fst s) r)(key_fourcc (FanMode i) \<mapsto> (TYPE_UI8, [1]))) ?F s'"
      using commit_min_rest [OF live_frame f s fresh ac md i _ True] by auto
    then show ?thesis using k i True u by (simp add: live_def ignore_def commit_regs_def ftst_engaged_upd)
  next
    case False
    obtain s' sid t where "commit_set_fan io i target s
        = (Inl (WriteRefused (key_fourcc (FanMode i)) 0x86 ''apple_silicon_m_series_only_supports_min_mode'' sid t), s')"
      "ws_rest Ks (unlocked (fst s) r) ?F s'"
      using commit_refused_rest [OF live_frame f s fresh ac i _ False] by auto
    then show ?thesis using k i False u by (simp add: live_def ignore_def commit_regs_def)
  qed
qed

end

section \<open>Sequences of commits\<close>

text \<open>The registers a session can leave behind: only modes and \<open>Ftst\<close> differ from what it found.\<close>

definition session_regs :: "(u32 \<Rightarrow> (u32 \<times> u8 list) option) \<Rightarrow> u8 \<Rightarrow> (u32 \<Rightarrow> (u32 \<times> u8 list) option) \<Rightarrow> bool" where
  "session_regs r0 n r \<longleftrightarrow> (\<forall>k. k \<notin> mode_keys (fan_indices n) \<longrightarrow> k \<noteq> key_fourcc FtstKey \<longrightarrow> r k = r0 k)
     \<and> holds_modes (fan_indices n) r
     \<and> (case r0 (key_fourcc FtstKey) of None \<Rightarrow> r (key_fourcc FtstKey) = None
        | Some _ \<Rightarrow> \<exists>x. r (key_fourcc FtstKey) = Some (TYPE_UI8, [x]))"

definition found_fans :: "u8 \<Rightarrow> (u8 \<Rightarrow> fan_regs) \<Rightarrow> fan list" where
  "found_fans n fs = map (\<lambda>i. fan_of i (fs i)) (fan_indices n)"

lemma found_length: "length (found_fans n fs) = unat n"
  by (simp add: found_fans_def fan_indices_def)

lemma found_nth: "unat i < unat n \<Longrightarrow> found_fans n fs ! unat i = fan_of i (fs i) \<and> i \<in> set (fan_indices n)"
  by (auto simp: found_fans_def fan_indices_def image_iff intro!: bexI [of _ "unat i"])

lemma session_regs_start: "machine_ok r nkeys n fs \<Longrightarrow> session_regs r n r"
  using machine_modes [of r nkeys n fs]
  by (auto simp: session_regs_def machine_ok_def length_Suc_conv split: option.split)

lemma mode_not_ftst: "key_fourcc FtstKey \<notin> mode_keys fans"
  by (auto simp: mode_keys_def)

lemma session_regs_engaged: "session_regs r0 n r \<Longrightarrow> session_regs r0 n (ftst_engaged r)"
  by (auto simp: session_regs_def ftst_engaged_def holds_modes_def split: option.splits)

lemma session_regs_mode:
  "session_regs r0 n r \<Longrightarrow> i \<in> set (fan_indices n) \<Longrightarrow> session_regs r0 n (r(key_fourcc (FanMode i) \<mapsto> (TYPE_UI8, [v])))"
  by (auto simp: session_regs_def holds_modes_def mode_keys_def split: option.splits)

lemma session_regs_commit:
  assumes "session_regs r0 n r"
  shows "session_regs r0 n (commit_regs (found_fans n fs) c r)"
proof (cases c)
  case (Pair i target)
  show ?thesis using session_regs_engaged [OF assms] found_nth [of i n fs] assms
    by (auto simp: commit_regs_def Pair found_length intro: session_regs_mode)
qed

lemma ac_not_mode: "fan_key i CHR ''A'' CHR ''c'' \<notin> mode_keys fans"
  by (auto simp: mode_keys_def mode_fan_key fan_key_def u32_from_be_inject byte_def)

lemma session_ac:
  assumes "machine_ok r0 nkeys n fs" "session_regs r0 n r" "i \<in> set (fan_indices n)"
  shows "holds_flt r (fan_key i CHR ''A'' CHR ''c'') (r_actual (fs i))"
proof -
  have "r (fan_key i CHR ''A'' CHR ''c'') = r0 (fan_key i CHR ''A'' CHR ''c'')"
    using assms(2) ac_not_mode fan_key_not_ftst unfolding session_regs_def by blast
  then show ?thesis using assms(1,3) by (simp add: machine_ok_def holds_fans_def holds_fan_def holds_flt_def)
qed

context smc_device
begin

lemma session_ftst: "session_regs r0 n r \<Longrightarrow> ftst_ok (session_keys r0 n) r"
  by (auto simp: session_regs_def ftst_ok_def session_keys_def enum_keys_def split: option.splits)

lemma commits_live:
  assumes m: "machine_ok r0 nkeys n fs"
  shows "live (session_keys r0 n) r (found_fans n fs) s \<Longrightarrow> session_regs r0 n r \<Longrightarrow>
     live (session_keys r0 n) (foldl (\<lambda>r c. commit_regs (found_fans n fs) c r) r cs) (found_fans n fs) (commits io cs s)
     \<and> session_regs r0 n (foldl (\<lambda>r c. commit_regs (found_fans n fs) c r) r cs)"
proof (induction cs arbitrary: r s)
  case (Cons c cs)
  obtain i target where c: "c = (i, target)" by force
  let ?r = "commit_regs (found_fans n fs) c r" and ?s = "ignore (commit_set_fan io i target) s"
  have "live (session_keys r0 n) ?r (found_fans n fs) ?s"
  proof (cases "unat i < unat n")
    case True
    have i: "i \<in> set (fan_indices n)" using found_nth [OF True] by simp
    obtain x where x: "r (key_fourcc (FanMode i)) = Some (TYPE_UI8, [x])"
      using Cons.prems(2) i by (auto simp: session_regs_def holds_modes_def)
    have ks: "fan_key i CHR ''A'' CHR ''c'' \<in> session_keys r0 n" "key_fourcc (FanMode i) \<in> session_keys r0 n"
      using i by (auto simp: session_keys_def enum_keys_def fan_keys_def mode_fan_key)
    show ?thesis
      using commit_live [OF Cons.prems(1) session_ftst [OF Cons.prems(2)] _ ks(1) session_ac [OF m Cons.prems(2) i] ks(2) x] True
      by (simp add: found_length c)
  next
    case False
    have "ws_envelopes (fst s) = found_fans n fs" using Cons.prems(1) by (simp add: live_def ws_rest_def)
    then show ?thesis using False Cons.prems(1) commit_out_of_range [of s i io target]
      by (simp add: found_length c commit_regs_def)
  qed
  from Cons.IH [OF this session_regs_commit [OF Cons.prems(2)]] show ?case by (simp add: commits_def c)
qed (simp add: commits_def)

end

lemma autos_eq:
  "(\<And>k. k \<notin> mode_keys fans \<Longrightarrow> r k = r' k) \<Longrightarrow> autos fans r = autos fans r'"
proof
  fix k assume a: "\<And>k. k \<notin> mode_keys fans \<Longrightarrow> r k = r' k"
  show "autos fans r k = autos fans r' k"
  proof (cases "k \<in> mode_keys fans")
    case True
    then show ?thesis by (auto simp: mode_keys_def autos_fan)
  next
    case False
    then show ?thesis using a by (simp add: autos_other mode_keys_def)
  qed
qed

lemma session_regs_cleared:
  assumes "session_regs r0 n r"
  shows "ftst_cleared (autos (fan_indices n) r) = ftst_cleared (autos (fan_indices n) r0)"
proof -
  let ?k = "key_fourcc FtstKey"
  have a: "autos (fan_indices n) (r(?k := x)) = autos (fan_indices n) (r0(?k := x))" for x
    using assms by (intro autos_eq) (auto simp: session_regs_def)
  have u: "(autos fans q)(?k := x) = autos fans (q(?k := x))" for fans q x
  proof (induction fans arbitrary: q)
    case (Cons j js)
    have "(q(?k := x))(key_fourcc (FanMode j) := y) = (q(key_fourcc (FanMode j) := y))(?k := x)" for y
      by (rule fun_upd_twist) simp
    then show ?case by (simp only: autos.simps Cons.IH)
  qed simp
  show ?thesis
  proof (cases "r0 ?k")
    case None
    then have "r ?k = None" using assms by (simp add: session_regs_def)
    then show ?thesis using a [of None] None by (simp add: ftst_cleared_def autos_ftst fun_upd_idem)
  next
    case (Some p)
    then obtain q where "r ?k = Some q" using assms by (auto simp: session_regs_def)
    then show ?thesis using a Some by (simp add: ftst_cleared_def autos_ftst u)
  qed
qed

context host
begin

lemma commits_frame: "ws_lock (fst (commits io cs s)) = ws_lock (fst s) \<and> holder (snd (commits io cs s)) = holder (snd s)"
proof (induction cs arbitrary: s)
  case (Cons c cs)
  obtain i target where c: "c = (i, target)" by force
  have "holder (snd (ignore (commit_set_fan io i target) s)) = holder (snd s)"
    using keepsD [OF holding.commit_set_fan_keeps [of "holder (snd s)" i target], of s] by (simp add: holding.KW_def ignore_def)
  moreover have "ws_lock (fst (ignore (commit_set_fan io i target) s)) = ws_lock (fst s)" by (rule commit_lock)
  ultimately show ?case using Cons.IH by (simp add: commits_def c)
qed (simp add: commits_def)

text \<open>
  The life of a session on a machine with fans: after its commits only modes and \<open>Ftst\<close> can differ,
  in the way \<open>commit_regs\<close> says, and after its drop every fan is automatic, \<open>Ftst\<close> is cleared, all
  other registers are as they were, and the lock is free.
\<close>

lemma session_life:
  assumes m: "machine_ok (reg d) nkeys n fs" and h: "holder d = None"
    and a: "acquire io os p d = (Inr w, p', d1)" and c: "commits io cs (w, d1) = (w2, d2)"
  shows "reg d2 = foldl (\<lambda>r c. commit_regs (found_fans n fs) c r) (reg d) cs"
    "reg (drop_session io os (w2, d2)) = ftst_cleared (autos (fan_indices n) (reg d))"
    "holder (drop_session io os (w2, d2)) = None"
proof -
  have f: "fresh_session (reg d) n fs w d1" by (rule acquire_fresh [OF m a])
  then have "live (session_keys (reg d) n) (reg d) (found_fans n fs) (w, d1)"
    by (simp add: fresh_session_def live_def ws_rest_def unlocking_def found_fans_def comp_def fan_of_def)
  from commits_live [OF m this session_regs_start [OF m], of cs]
  have l: "live (session_keys (reg d) n) (reg d2) (found_fans n fs) (w2, d2)" "session_regs (reg d) n (reg d2)"
    "reg d2 = foldl (\<lambda>r c. commit_regs (found_fans n fs) c r) (reg d) cs"
    using c by (auto simp: live_def ws_rest_def at_rest_def)
  show "reg d2 = foldl (\<lambda>r c. commit_regs (found_fans n fs) c r) (reg d) cs" by (rule l(3))
  have w2: "ws_fans w2 = fan_indices n" "at_rest (session_keys (reg d) n) (reg d2) (ws_conn w2, d2)" "\<not> ws_flag w2"
    using l(1) by (simp_all add: live_def ws_rest_def found_fans_def comp_def fan_of_def)
  have hm: "holds_modes (ws_fans w2) (reg d2)" using l(2) w2(1) by (simp add: session_regs_def)
  show "reg (drop_session io os (w2, d2)) = ftst_cleared (autos (fan_indices n) (reg d))"
    using teardown_rest [OF _ session_ftst [OF l(2)] hm w2(2,3)] session_keys_modes(1) session_regs_cleared [OF l(2)]
    by (simp add: drop_reg w2(1))
  have "holder d1 = Some (fg_file (ws_lock w))" using acquire_lock [OF h a] by simp
  moreover have "ws_lock w2 = ws_lock w \<and> holder d2 = holder d1" using commits_frame [of cs "(w, d1)"] c by simp
  ultimately show "holder (drop_session io os (w2, d2)) = None" using drop_holder by simp
qed

end

end
