(* ===== verification/One_Fan.thy ===== *)
theory One_Fan
  imports Session_Lifecycle
begin

text \<open>
  A concrete machine: the registers of a controller with one fan (1200 to 5000 RPM, running at 1300 in
  automatic mode) and no \<open>Ftst\<close> key, on the register file and lock table of the library. It satisfies
  what the lifecycle of a session assumes, and a session on it is acquired.
\<close>

declare key_fourcc.simps [simp del]

definition one_fan_list :: "(u32 \<times> u32 \<times> u8 list) list" where
  "one_fan_list = [(KEY_COUNT_KEY, TYPE_UI32, encode_ui32 100), (FAN_COUNT_KEY, TYPE_UI8, [1]),
     (fan_key 0 CHR ''M'' CHR ''n'', TYPE_FLT, f32_to_le (lit 1200 1)),
     (fan_key 0 CHR ''M'' CHR ''x'', TYPE_FLT, f32_to_le (lit 5000 1)),
     (fan_key 0 CHR ''S'' CHR ''f'', TYPE_FLT, f32_to_le (lit 1500 1)),
     (fan_key 0 CHR ''A'' CHR ''c'', TYPE_FLT, f32_to_le (lit 1300 1)),
     (fan_key 0 CHR ''m'' CHR ''d'', TYPE_UI8, [0])]"

definition one_fan :: regfile where
  "one_fan = map_of one_fan_list"

definition one_fan_regs :: "u8 \<Rightarrow> fan_regs" where
  "one_fan_regs i = \<lparr> r_min = lit 1200 1, r_max = lit 5000 1, r_safe = lit 1500 1, r_actual = lit 1300 1, r_mode = 0 \<rparr>"

lemma one_fan_names: "map fst one_fan_list = [KEY_COUNT_KEY, FAN_COUNT_KEY, fan_key 0 CHR ''M'' CHR ''n'',
     fan_key 0 CHR ''M'' CHR ''x'', fan_key 0 CHR ''S'' CHR ''f'', fan_key 0 CHR ''A'' CHR ''c'', fan_key 0 CHR ''m'' CHR ''d'']"
  by (simp add: one_fan_list_def)

lemma one_fan_keys: "distinct (map fst one_fan_list)" "key_fourcc FtstKey \<notin> set (map fst one_fan_list)"
  unfolding one_fan_names by code_simp+

lemma one_fan_at: "(k, x) \<in> set one_fan_list \<Longrightarrow> one_fan k = Some x"
  unfolding one_fan_def by (intro map_of_is_SomeI one_fan_keys)

lemma one_fan_lengths: "(k, ty, bs) \<in> set one_fan_list \<Longrightarrow> length bs = 1 \<or> length bs = 4"
  by (auto simp: one_fan_list_def)

lemma one_fan_reg: "regfile_reg one_fan = one_fan"
proof
  fix k
  show "regfile_reg one_fan k = one_fan k"
  proof (cases "one_fan k")
    case (Some x)
    then have "(k, fst x, snd x) \<in> set one_fan_list" by (simp add: one_fan_def map_of_SomeD)
    then show ?thesis using one_fan_lengths [of k "fst x" "snd x"] Some by (auto simp: regfile_reg_def split_beta)
  qed (simp add: regfile_reg_def)
qed

lemma holds_le: "r k = Some (TYPE_FLT, f32_to_le v) \<Longrightarrow> is_finite v \<Longrightarrow> holds_flt r k v"
  using decode_encode_flt [of v "f32_to_le v" "[]"] by (auto simp: holds_flt_def encode_flt_def)

lemma one_fan_finite: "is_finite (lit 1200 1)" "is_finite (lit 5000 1)" "is_finite (lit 1500 1)" "is_finite (lit 1300 1)"
  by (simp_all add: f32_eval fv_def)

lemma one_fan_machine: "machine_ok one_fan 100 1 one_fan_regs"
proof -
  have i: "fan_indices 1 = [0]" by (simp add: fan_indices_def)
  have "holds_fan one_fan 0 (one_fan_regs 0)"
    unfolding holds_fan_def one_fan_regs_def fan_regs.simps
    by (intro conjI holds_le one_fan_at one_fan_finite) (simp_all add: one_fan_list_def)
  moreover have "one_fan KEY_COUNT_KEY = Some (TYPE_UI32, encode_ui32 100)" "one_fan FAN_COUNT_KEY = Some (TYPE_UI8, [1])"
    by (intro one_fan_at; simp add: one_fan_list_def)+
  moreover have "one_fan (key_fourcc FtstKey) = None"
    using one_fan_keys(2) unfolding one_fan_def map_of_eq_None_iff by simp
  ultimately show ?thesis by (simp add: machine_ok_def holds_fans_def i MAX_PLAUSIBLE_KEYS_def)
qed

text \<open>The host holding these registers, with the lock free.\<close>

definition one_fan_host :: "regfile \<times> lock_table" where
  "one_fan_host = (one_fan, \<lparr> lt_holder = None, lt_content = [], lt_last = 0 \<rparr>)"

text \<open>The connection that opening either platform gives: port 2, an empty cache.\<close>

definition opened :: smc_connection where
  "opened = \<lparr> conn_port = 2, key_cache = cache_new, connection_open = True, port_guard = u64_of_bytes (replicate 8 7) \<rparr>"

lemma regfile_opens: "smc_open regfile_io d = (Inr opened, d)"
  by (simp add: smc_open_def regfile_io_def Let_def opened_def)

lemma opened_ready: "regfile.ready (session_keys (regfile_reg one_fan) 1) opened one_fan"
  using regfile.ready_fresh [of one_fan 100 1 one_fan_regs opened] one_fan_machine by (simp add: one_fan_reg opened_def)

lemma host_opens: "smc_open host_io d = (Inr opened, d)"
  by (cases d) (simp add: smc_open_def host_io_def regfile_io_def on_fst_def Let_def opened_def)

lemma host_locks:
  "\<exists>g t. try_acquire (host_os pid) one_fan_host = (Inr g, (one_fan, t))"
  by (simp add: try_acquire_def try_acquire_at_def host_os_def lock_table_os_def one_fan_host_def on_snd_def Let_def
      path_parent_def path_file_name_def path_join_def DEFAULT_LOCKFILE_PATH_def check_filesystem_def NUL_def
      FLOCK_UNRELIABLE_FS_def stamp_pid_def)

lemma one_fan_acquires: "\<exists>w p' d'. acquire host_io (host_os pid) p one_fan_host = (Inr w, p', d')"
proof -
  obtain g t where g: "try_acquire (host_os pid) one_fan_host = (Inr g, (one_fan, t))" using host_locks by blast
  have e: "io_entropy host_io n d = (replicate n 7, d)" for n d by (simp add: host_io_def)
  have r: "regfile_reg (fst (one_fan, t)) = one_fan" by (simp add: one_fan_reg)
  have "paired.ready (session_keys one_fan 1) opened (one_fan, t)"
    using paired.ready_fresh [of "(one_fan, t)" 100 1 one_fan_regs opened] one_fan_machine r by (simp add: opened_def)
  then have "paired.at_rest (session_keys one_fan 1) one_fan (opened, (one_fan, t))"
    using r by (simp add: paired.at_rest_def)
  moreover have "holds_fans one_fan 100 1 one_fan_regs" using one_fan_machine by (simp add: machine_ok_def)
  ultimately obtain es s where "enumerate_fans host_io (opened, (one_fan, t)) = (Inr es, s)"
    using doesD [OF paired.enumerate_fans_rest [OF session_keys_modes(2)]] by blast
  then show ?thesis by (cases s) (simp add: acquire_def e Let_def g host_opens)
qed

end
