(* ===== verification/Smc_Wire.thy ===== *)
theory Smc_Wire
  imports Smc_Device
begin

text \<open>
  The call structure as the 80 bytes that cross the IOKit boundary (\<open>SMCParamStruct\<close> in
  \<open>src/smc/ffi.rs\<close>): the \<open>repr(C)\<close> placement of its fields with the assertions the source makes at
  compile time, its byte image on a little-endian machine and back, and the struct call on byte
  buffers. The locale \<open>wire_device\<close> states the protocol on the bytes; it gives the contract
  \<open>smc_device\<close>, so what is proved of the connection over that contract holds down to the bytes.
\<close>

section \<open>Placement of the fields\<close>

text \<open>\<open>data_size\<close>, \<open>data_type\<close>, \<open>data_attributes\<close> and \<open>_pad\<close>.\<close>

definition key_info_fields :: "layout list" where
  "key_info_fields = [u32_field, u32_field, bytes_field 1, bytes_field 3]"

text \<open>\<open>key\<close>, \<open>vers\<close>, \<open>_pad_head\<close>, \<open>p_limit_data\<close>, \<open>key_info\<close>, \<open>result\<close>, \<open>status\<close>, \<open>data8\<close>,
  \<open>_pad_mid\<close>, \<open>data32\<close> and \<open>bytes\<close>.\<close>

definition param_fields :: "layout list" where
  "param_fields = [u32_field, bytes_field 6, bytes_field 2, bytes_field 16, struct_layout key_info_fields,
     bytes_field 1, bytes_field 1, bytes_field 1, bytes_field 1, u32_field, bytes_field 32]"

text \<open>The \<open>const _: () = assert!(...)\<close> lines.\<close>

definition layout_asserts :: bool where
  "layout_asserts \<longleftrightarrow> struct_layout param_fields = (80, 4) \<and> fst (struct_layout key_info_fields) = 12
    \<and> (let os = offsets_of param_fields in os ! 0 = 0 \<and> os ! 1 = 4 \<and> os ! 3 = 12 \<and> os ! 4 = 28
         \<and> os ! 5 = 40 \<and> os ! 6 = 41 \<and> os ! 7 = 42 \<and> os ! 9 = 44 \<and> os ! 10 = 48)"

lemmas layout_defs = param_fields_def key_info_fields_def layout_simps

lemma key_info_layout: "struct_layout key_info_fields = (12, 4)"
  by (simp add: layout_defs)

lemma param_offsets: "offsets_of param_fields = [0, 4, 10, 12, 28, 40, 41, 42, 43, 44, 48]"
  by (simp add: layout_defs)

lemma layout_asserted: layout_asserts
  unfolding layout_asserts_def param_offsets Let_def by (simp add: layout_defs)

text \<open>No padding is implicit, so the memory image is the concatenation of the fields.\<close>

lemma param_packed: "no_implicit_padding param_fields" "no_implicit_padding key_info_fields"
  by (simp_all add: no_implicit_padding_def layout_defs)

section \<open>The byte image\<close>

text \<open>An array field has a fixed width.\<close>

definition fit :: "nat \<Rightarrow> u8 list \<Rightarrow> u8 list" where
  "fit n bs = take n bs @ replicate (n - length bs) 0"

lemma length_fit [simp]: "length (fit n bs) = n"
  by (simp add: fit_def)

lemma fit_id [simp]: "length bs = n \<Longrightarrow> fit n bs = bs"
  by (simp add: fit_def)

lemma take_fit: "m \<le> n \<Longrightarrow> m \<le> length bs \<Longrightarrow> take m (fit n bs) = take m bs"
  by (simp add: fit_def)

definition key_info_bytes :: "key_info_data \<Rightarrow> u8 list" where
  "key_info_bytes ki = u32_to_le (kid_data_size ki) @ u32_to_le (kid_data_type ki)
     @ [kid_data_attributes ki] @ [0, 0, 0]"

definition param_parts :: "smc_param \<Rightarrow> u8 list list" where
  "param_parts p = [u32_to_le (p_key p), fit 6 (p_vers p), [0, 0], fit 16 (p_limit_data p),
     key_info_bytes (p_key_info p), [p_result p], [p_status p], [p_data8 p], [0],
     u32_to_le (p_data32 p), fit 32 (p_bytes p)]"

definition param_bytes :: "smc_param \<Rightarrow> u8 list" where
  "param_bytes p = concat (param_parts p)"

text \<open>Reading a buffer: the fields at their offsets, whatever the padding holds.\<close>

definition part_at :: "nat \<Rightarrow> nat \<Rightarrow> u8 list \<Rightarrow> u8 list" where
  "part_at off n bs = take n (drop off bs)"

definition u32_at :: "nat \<Rightarrow> u8 list \<Rightarrow> u32" where
  "u32_at off bs = u32_from_le (bs ! off) (bs ! (off + 1)) (bs ! (off + 2)) (bs ! (off + 3))"

definition param_of_bytes :: "u8 list \<Rightarrow> smc_param" where
  "param_of_bytes bs = \<lparr> p_key = u32_at 0 bs, p_vers = part_at 4 6 bs, p_limit_data = part_at 12 16 bs,
     p_key_info = \<lparr> kid_data_size = u32_at 28 bs, kid_data_type = u32_at 32 bs,
       kid_data_attributes = bs ! 36 \<rparr>,
     p_result = bs ! 40, p_status = bs ! 41, p_data8 = bs ! 42, p_data32 = u32_at 44 bs,
     p_bytes = part_at 48 32 bs \<rparr>"

text \<open>The array fields have the lengths of their types.\<close>

definition param_wf :: "smc_param \<Rightarrow> bool" where
  "param_wf p \<longleftrightarrow> length (p_vers p) = 6 \<and> length (p_limit_data p) = 16 \<and> length (p_bytes p) = 32"

lemma zeroed_wf [simp]: "param_wf zeroed"
  by (simp add: param_wf_def zeroed_def)

lemma length_key_info_bytes [simp]: "length (key_info_bytes ki) = 12"
  by (simp add: key_info_bytes_def)

lemma parts_fit: "map length (param_parts p) = map fst param_fields"
  by (simp add: param_parts_def layout_defs)

lemma length_param_bytes [simp]: "length (param_bytes p) = 80"
  by (simp add: param_bytes_def param_parts_def)

text \<open>The image holds each field at the offset the struct gives it.\<close>

lemma part_at_concat:
  "i < length xss \<Longrightarrow> part_at (sum_list (map length (take i xss))) (length (xss ! i)) (concat xss) = xss ! i"
proof (induction xss arbitrary: i)
  case (Cons xs xss)
  then show ?case by (cases i) (auto simp: part_at_def)
qed simp

lemma offsets_are_sums: "list_all (\<lambda>i. sum_list (map fst (take i param_fields)) = offsets_of param_fields ! i) [0..<11]"
  by code_simp

lemma param_bytes_field:
  assumes i: "i < 11"
  shows "part_at (offsets_of param_fields ! i) (fst (param_fields ! i)) (param_bytes p) = param_parts p ! i"
proof -
  have l: "length (param_parts p) = 11" "length param_fields = 11" by (simp_all add: param_parts_def param_fields_def)
  have "sum_list (map fst (take i param_fields)) = offsets_of param_fields ! i"
    using offsets_are_sums i by (simp add: list_all_iff)
  then have "sum_list (map length (take i (param_parts p))) = offsets_of param_fields ! i"
    by (simp add: parts_fit take_map [symmetric])
  moreover have "length (param_parts p ! i) = fst (param_fields ! i)"
    using arg_cong [OF parts_fit [of p], of "\<lambda>xs. xs ! i"] i l by simp
  ultimately show ?thesis
    using part_at_concat [of i "param_parts p"] i l(1) by (simp add: param_bytes_def)
qed

section \<open>Image and back\<close>

lemma part_at_part_at: "i + n \<le> m \<Longrightarrow> part_at i n (part_at off m bs) = part_at (off + i) n bs"
  by (simp add: part_at_def drop_take add.commute)

lemma part_at_byte: "part_at off 1 bs = [b] \<Longrightarrow> bs ! off = b"
  by (cases "off < length bs") (auto simp: part_at_def take_Suc_conv_app_nth Cons_nth_drop_Suc [symmetric])

lemma part_at_4:
  assumes "off + 4 \<le> length bs"
  shows "part_at off 4 bs = [bs ! off, bs ! (off + 1), bs ! (off + 2), bs ! (off + 3)]"
  using assms by (simp add: part_at_def numeral_eq_Suc Cons_nth_drop_Suc [symmetric])

lemma u32_at_bytes: "off + 4 \<le> length bs \<Longrightarrow> u32_to_le (u32_at off bs) = part_at off 4 bs"
  by (simp add: part_at_4 u32_at_def u32_from_le_def u32_to_le_def u32_be_bytes)

lemma u32_at_part_at: "part_at off 4 bs = u32_to_le w \<Longrightarrow> off + 4 \<le> length bs \<Longrightarrow> u32_at off bs = w"
  by (simp add: part_at_4 u32_at_def u32_to_le_def u32_to_be_def u32_from_le_def u32_be_roundtrip)

lemma key_info_parts_at:
  "part_at 0 4 (key_info_bytes ki) = u32_to_le (kid_data_size ki)"
  "part_at 4 4 (key_info_bytes ki) = u32_to_le (kid_data_type ki)"
  "part_at 8 1 (key_info_bytes ki) = [kid_data_attributes ki]"
  by (simp_all add: key_info_bytes_def part_at_def)

lemma param_sizes: "map fst param_fields = [4, 6, 2, 16, 12, 1, 1, 1, 1, 4, 32]"
  by (simp add: param_fields_def key_info_layout u32_field_def bytes_field_def)

lemma field_at:
  assumes "i < 11" "[0, 4, 10, 12, 28, 40, 41, 42, 43, 44, 48] ! i = off" "[4, 6, 2, 16, 12, 1, 1, 1, 1, 4, 32] ! i = n"
    "param_parts p ! i = bs"
  shows "part_at off n (param_bytes p) = bs"
proof -
  have "fst (param_fields ! i) = n"
    using assms(1,3) nth_map [of i param_fields fst] unfolding param_sizes by (simp add: param_fields_def)
  then show ?thesis using param_bytes_field [OF assms(1), of p] assms(2,4) by (simp add: param_offsets)
qed

lemma param_parts_at:
  "part_at 0 4 (param_bytes p) = u32_to_le (p_key p)" "part_at 4 6 (param_bytes p) = fit 6 (p_vers p)"
  "part_at 12 16 (param_bytes p) = fit 16 (p_limit_data p)"
  "part_at 28 12 (param_bytes p) = key_info_bytes (p_key_info p)"
  "part_at 40 1 (param_bytes p) = [p_result p]" "part_at 41 1 (param_bytes p) = [p_status p]"
  "part_at 42 1 (param_bytes p) = [p_data8 p]" "part_at 44 4 (param_bytes p) = u32_to_le (p_data32 p)"
  "part_at 48 32 (param_bytes p) = fit 32 (p_bytes p)"
  by (rule field_at [of 0] field_at [of 1] field_at [of 3] field_at [of 4] field_at [of 5] field_at [of 6]
      field_at [of 7] field_at [of 9] field_at [of 10]; simp add: param_parts_def; fail)+

lemma param_info_parts_at:
  "part_at 28 4 (param_bytes p) = u32_to_le (kid_data_size (p_key_info p))"
  "part_at 32 4 (param_bytes p) = u32_to_le (kid_data_type (p_key_info p))"
  "part_at 36 1 (param_bytes p) = [kid_data_attributes (p_key_info p)]"
  using part_at_part_at [of 0 4 12 28 "param_bytes p"] part_at_part_at [of 4 4 12 28 "param_bytes p"]
    part_at_part_at [of 8 1 12 28 "param_bytes p"] by (simp_all add: param_parts_at(4) key_info_parts_at del: One_nat_def)

text \<open>What a reader of the image sees, whatever the lengths of the lists.\<close>

lemma param_of_param_bytes:
  "param_of_bytes (param_bytes p)
    = p\<lparr> p_vers := fit 6 (p_vers p), p_limit_data := fit 16 (p_limit_data p), p_bytes := fit 32 (p_bytes p) \<rparr>"
  by (simp add: param_of_bytes_def param_parts_at param_info_parts_at(1,2) [THEN u32_at_part_at]
      param_parts_at(1,8) [THEN u32_at_part_at] param_parts_at(5-7) [THEN part_at_byte] param_info_parts_at(3) [THEN part_at_byte])

lemma param_roundtrip: "param_wf p \<Longrightarrow> param_of_bytes (param_bytes p) = p"
  by (simp add: param_of_param_bytes param_wf_def)

text \<open>The other way: a buffer is its image with the padding cleared.\<close>

definition clear_padding :: "u8 list \<Rightarrow> u8 list" where
  "clear_padding bs = part_at 0 10 bs @ [0, 0] @ part_at 12 25 bs @ [0, 0, 0] @ part_at 40 3 bs @ [0] @ part_at 44 36 bs"

lemma part_at_append: "part_at off m bs @ part_at (off + m) n bs = part_at off (m + n) bs"
  by (simp add: part_at_def take_add add.commute)

lemma part_at_1: "off < length bs \<Longrightarrow> part_at off 1 bs = [bs ! off]"
  by (simp add: part_at_def Cons_nth_drop_Suc [symmetric])

lemma length_part_at [simp]: "off + n \<le> length bs \<Longrightarrow> length (part_at off n bs) = n"
  by (simp add: part_at_def)

lemma param_of_bytes_wf: "length bs = 80 \<Longrightarrow> param_wf (param_of_bytes bs)"
  by (simp add: param_wf_def param_of_bytes_def)

lemma buffer_roundtrip:
  assumes l: "length bs = 80"
  shows "param_bytes (param_of_bytes bs) = clear_padding bs"
proof -
  have h: "part_at 0 4 bs @ part_at 4 6 bs @ r = part_at 0 10 bs @ r" for r using part_at_append [of 0 4 bs 6] by simp
  have k: "part_at 12 16 bs @ part_at 28 4 bs @ part_at 32 4 bs @ part_at 36 1 bs @ r = part_at 12 25 bs @ r" for r
    using part_at_append [of 12 16 bs 4] part_at_append [of 12 20 bs 4] part_at_append [of 12 24 bs 1]
    by (simp flip: append_assoc)
  have s: "part_at 40 1 bs @ part_at 41 1 bs @ part_at 42 1 bs @ r = part_at 40 3 bs @ r" for r
    using part_at_append [of 40 1 bs 1] part_at_append [of 40 2 bs 1] by (simp flip: append_assoc del: One_nat_def)
  have t: "part_at 44 4 bs @ part_at 48 32 bs = part_at 44 36 bs" using part_at_append [of 44 4 bs 32] by simp
  have b: "[bs ! 36] = part_at 36 1 bs" "[bs ! 40] = part_at 40 1 bs" "[bs ! 41] = part_at 41 1 bs" "[bs ! 42] = part_at 42 1 bs"
    by (simp_all only: part_at_1 l)
  have "param_bytes (param_of_bytes bs) = part_at 0 4 bs @ part_at 4 6 bs @ [0, 0] @ part_at 12 16 bs @ part_at 28 4 bs
      @ part_at 32 4 bs @ [bs ! 36] @ [0, 0, 0] @ [bs ! 40] @ [bs ! 41] @ [bs ! 42] @ [0] @ part_at 44 4 bs @ part_at 48 32 bs"
    using l by (simp add: param_bytes_def param_parts_def param_of_bytes_def key_info_bytes_def u32_at_bytes)
  then show ?thesis unfolding b h k s t clear_padding_def by simp
qed

section \<open>The struct call on buffers\<close>

text \<open>
  \<open>IOConnectCallStructMethod\<close> as the sources call it: the image of the input and a zeroed output
  buffer, both of 80 bytes, and the output read back from the buffer. The function \<open>raw\<close> is the kernel:
  port, selector, input bytes and output buffer to a return code and the buffer after the call.
\<close>

type_synonym 'd raw_call = "u32 \<Rightarrow> u32 \<Rightarrow> u8 list \<Rightarrow> u8 list \<Rightarrow> 'd \<Rightarrow> kern_return \<times> u8 list \<times> 'd"

definition wire_call :: "'d raw_call \<Rightarrow> u32 \<Rightarrow> u32 \<Rightarrow> smc_param \<Rightarrow> 'd \<Rightarrow> kern_return \<times> smc_param \<times> 'd" where
  "wire_call raw port sel p d =
    (let (kr, out, d1) = raw port sel (param_bytes p) (param_bytes zeroed) d in (kr, param_of_bytes out, d1))"

definition wire_platform :: "'d raw_call \<Rightarrow> 'd platform \<Rightarrow> 'd platform" where
  "wire_platform raw io = io\<lparr> io_call := wire_call raw \<rparr>"

text \<open>The protocol on the bytes: key at 0, size at 28, type at 32, result at 40, command at 42, value at 48.\<close>

locale wire_device =
  fixes raw :: "'d raw_call" and io :: "'d platform" and reg :: "'d \<Rightarrow> u32 \<Rightarrow> (u32 \<times> u8 list) option"
  assumes raw_info: "length inp = 80 \<Longrightarrow> length buf = 80 \<Longrightarrow> reg d (u32_at 0 inp) = Some (ty, bs) \<Longrightarrow>
      inp ! 42 = SMC_CMD_GET_KEY_INFO \<Longrightarrow>
      \<exists>out d'. raw port SMC_SELECTOR inp buf d = (KERN_SUCCESS, out, d') \<and> out ! 40 = 0 \<and> reg d' = reg d
        \<and> u32_at 28 out = word_of_nat (length bs) \<and> u32_at 32 out = ty"
    and raw_read: "length inp = 80 \<Longrightarrow> length buf = 80 \<Longrightarrow> reg d (u32_at 0 inp) = Some (ty, bs) \<Longrightarrow>
      inp ! 42 = SMC_CMD_READ_KEY \<Longrightarrow>
      \<exists>out d'. raw port SMC_SELECTOR inp buf d = (KERN_SUCCESS, out, d') \<and> out ! 40 = 0 \<and> reg d' = reg d
        \<and> part_at 48 (length bs) out = bs"
    and raw_write: "length inp = 80 \<Longrightarrow> length buf = 80 \<Longrightarrow> reg d (u32_at 0 inp) = Some (ty, bs) \<Longrightarrow>
      inp ! 42 = SMC_CMD_WRITE_KEY \<Longrightarrow> u32_at 28 inp = word_of_nat (length bs) \<Longrightarrow>
      \<exists>out d'. raw port SMC_SELECTOR inp buf d = (KERN_SUCCESS, out, d') \<and> out ! 40 = 0
        \<and> reg d' = (reg d)(u32_at 0 inp \<mapsto> (ty, part_at 48 (length bs) inp))"
    and raw_absent: "length inp = 80 \<Longrightarrow> length buf = 80 \<Longrightarrow> reg d (u32_at 0 inp) = None \<Longrightarrow>
      inp ! 42 \<in> {SMC_CMD_GET_KEY_INFO, SMC_CMD_READ_KEY, SMC_CMD_WRITE_KEY} \<Longrightarrow>
      \<exists>out d'. raw port SMC_SELECTOR inp buf d = (KERN_SUCCESS, out, d')
        \<and> out ! 40 = SMC_ERR_KEY_NOT_FOUND \<and> reg d' = reg d"
    and raw_other: "reg (io_sleep_ms io n d) = reg d" "reg (snd (io_matching io d)) = reg d"
      "reg (snd (io_get_service io d)) = reg d" "reg (snd (snd (io_service_open io sv d))) = reg d"
      "reg (io_service_close io pt d) = reg d" "reg (io_object_release io pt d) = reg d"
      "reg (snd (io_entropy io n d)) = reg d" "reg (snd (io_port_guard io pt g d)) = reg d"
      "reg (io_port_unguard io pt g d) = reg d"
    and raw_bound: "reg d k = Some (ty, bs) \<Longrightarrow> 0 < length bs \<and> length bs \<le> 32"

lemma param_key_at: "u32_at 0 (param_bytes p) = p_key p"
  and param_size_at: "u32_at 28 (param_bytes p) = kid_data_size (p_key_info p)"
  and param_type_at: "u32_at 32 (param_bytes p) = kid_data_type (p_key_info p)"
  and param_result_at: "param_bytes p ! 40 = p_result p" and param_cmd_at: "param_bytes p ! 42 = p_data8 p"
  by (simp_all add: param_parts_at(1) [THEN u32_at_part_at] param_info_parts_at(1,2) [THEN u32_at_part_at]
      param_parts_at(5,7) [THEN part_at_byte])

lemma param_value_at: "n \<le> 32 \<Longrightarrow> part_at 48 n (param_bytes p) = take n (fit 32 (p_bytes p))"
  using part_at_part_at [of 0 n 32 48 "param_bytes p"] by (simp add: param_parts_at(9)) (simp add: part_at_def)

lemmas param_at = param_key_at param_size_at param_type_at param_result_at param_cmd_at

lemma p_bytes_prefix: "n \<le> 32 \<Longrightarrow> part_at 48 n out = bs \<Longrightarrow> \<exists>pad. p_bytes (param_of_bytes out) = bs @ pad"
  using part_at_append [of 48 n out "32 - n"] by (auto simp: param_of_bytes_def intro: exI [of _ "part_at (48 + n) (32 - n) out"])

text \<open>A device that honours the protocol on the bytes honours it on the structures.\<close>

sublocale wire_device \<subseteq> wire: smc_device "wire_platform raw io" reg
proof
  fix p :: smc_param and d ty bs port
  assume r: "reg d (p_key p) = Some (ty, bs)"
  have b: "length bs \<le> 32" using raw_bound [OF r] by simp
  have r': "reg d (u32_at 0 (param_bytes p)) = Some (ty, bs)" by (simp add: r param_at)
  show "\<exists>out d'. io_call (wire_platform raw io) port SMC_SELECTOR p d = (KERN_SUCCESS, out, d') \<and> p_result out = 0
      \<and> reg d' = reg d \<and> kid_data_size (p_key_info out) = word_of_nat (length bs) \<and> kid_data_type (p_key_info out) = ty"
    if "p_data8 p = SMC_CMD_GET_KEY_INFO"
    using raw_info [OF _ _ r', of "param_bytes zeroed" port] that
    by (fastforce simp: wire_platform_def wire_call_def param_at param_of_bytes_def)
  show "\<exists>out d' pad. io_call (wire_platform raw io) port SMC_SELECTOR p d = (KERN_SUCCESS, out, d') \<and> p_result out = 0
      \<and> reg d' = reg d \<and> p_bytes out = bs @ pad"
    if c: "p_data8 p = SMC_CMD_READ_KEY"
  proof -
    obtain out d' where "raw port SMC_SELECTOR (param_bytes p) (param_bytes zeroed) d = (KERN_SUCCESS, out, d')"
      "out ! 40 = 0" "reg d' = reg d" "part_at 48 (length bs) out = bs"
      using raw_read [OF _ _ r', of "param_bytes zeroed" port] c by (auto simp: param_at)
    then show ?thesis using p_bytes_prefix [OF b, of out bs]
      by (auto simp: wire_platform_def wire_call_def) (simp add: param_of_bytes_def)
  qed
  show "\<exists>out d'. io_call (wire_platform raw io) port SMC_SELECTOR p d = (KERN_SUCCESS, out, d') \<and> p_result out = 0
      \<and> reg d' = (reg d)(p_key p \<mapsto> (ty, take (length bs) (p_bytes p)))"
    if "p_data8 p = SMC_CMD_WRITE_KEY" "kid_data_size (p_key_info p) = word_of_nat (length bs)"
      "length bs \<le> length (p_bytes p)"
    using raw_write [OF _ _ r', of "param_bytes zeroed" port] that b
    by (auto simp: wire_platform_def wire_call_def param_at param_value_at take_fit) (simp add: param_of_bytes_def)
next
  fix p :: smc_param and d port
  assume r: "reg d (p_key p) = None" and c: "p_data8 p \<in> {SMC_CMD_GET_KEY_INFO, SMC_CMD_READ_KEY, SMC_CMD_WRITE_KEY}"
  show "\<exists>out d'. io_call (wire_platform raw io) port SMC_SELECTOR p d = (KERN_SUCCESS, out, d')
      \<and> p_result out = SMC_ERR_KEY_NOT_FOUND \<and> reg d' = reg d"
    using raw_absent [of "param_bytes p" "param_bytes zeroed" d port] r c
    by (fastforce simp: wire_platform_def wire_call_def param_at param_of_bytes_def)
next
  fix d k ty bs
  assume "reg d k = Some (ty, bs)"
  then show "0 < length bs \<and> length bs \<le> 32" by (rule raw_bound)
qed (simp_all add: wire_platform_def raw_other)

context wire_device
begin

lemma axioms_smc: "smc_device (wire_platform raw io) reg"
  by (rule wire.smc_device_axioms)

end

section \<open>The requests of the connection\<close>

text \<open>The 80 bytes of a request: everything the connection does not set is zero.\<close>

definition request :: "u8 \<Rightarrow> u32 \<Rightarrow> u32 \<Rightarrow> u32 \<Rightarrow> u8 list \<Rightarrow> u8 list" where
  "request cmd k sz ty bs = u32_to_le k @ replicate 24 0 @ u32_to_le sz @ u32_to_le ty @ replicate 6 0
     @ [cmd] @ replicate 5 0 @ bs @ replicate (32 - length bs) 0"

lemma u32_to_le_0: "u32_to_le 0 = [0, 0, 0, 0]"
  by (simp add: u32_to_le_def u32_to_be_def)

lemma zero_runs: "replicate 24 (0 :: u8) = replicate 6 0 @ [0, 0] @ replicate 16 0"
  "replicate 6 (0 :: u8) = [0, 0, 0, 0, 0, 0]" "replicate 5 (0 :: u8) = [0, 0, 0, 0, 0]"
  by (simp_all add: numeral_eq_Suc)

lemma request_images:
  "param_bytes (zeroed\<lparr> p_key := k, p_data8 := cmd \<rparr>) = request cmd k 0 0 []"
  "param_bytes ((with_info (zeroed\<lparr> p_key := k \<rparr>) ki)\<lparr> p_data8 := cmd \<rparr>) = request cmd k (ki_size ki) (ki_type ki) []"
  "length bs \<le> 32 \<Longrightarrow>
     param_bytes ((write_param k ki bs)\<lparr> p_data8 := cmd \<rparr>) = request cmd k (ki_size ki) (ki_type ki) bs"
  by (simp_all add: param_bytes_def param_parts_def key_info_bytes_def with_info_def write_param_def zeroed_def
      request_def u32_to_le_0 fit_def zero_runs)

text \<open>An observer of the transfers: a part of the state that lists the input of every call.\<close>

definition records_inputs :: "'d raw_call \<Rightarrow> ('d \<Rightarrow> u8 list list) \<Rightarrow> bool" where
  "records_inputs raw obs \<longleftrightarrow> (\<forall>port sel inp buf d. obs (snd (snd (raw port sel inp buf d))) = obs d @ [inp])"

context wire_device
begin

abbreviation W :: "'d platform" where
  "W \<equiv> wire_platform raw io"

lemma call_observed:
  assumes "records_inputs raw obs" "io_call W port sel p d = (kr, out, d')"
  shows "obs d' = obs d @ [param_bytes p]"
  using assms unfolding records_inputs_def
  by (auto simp: wire_platform_def wire_call_def split: prod.splits) (metis snd_conv)

lemma info_observed:
  assumes o: "records_inputs raw obs" and r: "reg d k = Some (ty, bs)" and u: "wire.usable c k ty (length bs)"
    and n: "cache_get (key_cache c) k = None"
  shows "\<exists>c' d'. read_key_info W k (c, d) = (Inr \<lparr> ki_size = word_of_nat (length bs), ki_type = ty \<rparr>, (c', d'))
    \<and> reg d' = reg d \<and> wire.usable c' k ty (length bs) \<and> cache_get (key_cache c') k = Some (word_of_nat (length bs), ty)
    \<and> obs d' = obs d @ [request SMC_CMD_GET_KEY_INFO k 0 0 []]"
proof -
  have b: "0 < length bs" "length bs \<le> 32" using raw_bound [OF r] by simp_all
  have l: "unat (word_of_nat (length bs) :: u32) = length bs" using b by (simp add: unat_of_nat take_bit_eq_mod)
  then have m: "min (word_of_nat (length bs)) (32 :: u32) = word_of_nat (length bs)" "word_of_nat (length bs) \<noteq> (0 :: u32)"
    using b by (auto simp: min_def word_le_nat_alt)
  obtain out d' where q: "io_call W (conn_port c) SMC_SELECTOR (zeroed\<lparr> p_key := k, p_data8 := SMC_CMD_GET_KEY_INFO \<rparr>) d
      = (KERN_SUCCESS, out, d')" "p_result out = 0" "reg d' = reg d"
    "kid_data_size (p_key_info out) = word_of_nat (length bs)" "kid_data_type (p_key_info out) = ty"
    using wire.info_present [of d "zeroed\<lparr> p_key := k, p_data8 := SMC_CMD_GET_KEY_INFO \<rparr>" ty bs "conn_port c"] r by auto
  have "call_struct W SMC_CMD_GET_KEY_INFO (zeroed\<lparr> p_key := k \<rparr>) (c, d) = (Inr out, (c, d'))"
    using q(1,2) by (intro wire.call_struct_reg [OF u]) simp_all
  moreover have "obs d' = obs d @ [request SMC_CMD_GET_KEY_INFO k 0 0 []]"
    using call_observed [OF o q(1)] by (simp add: request_images)
  moreover have "wire.usable (c\<lparr> key_cache := cache_put (key_cache c) k (word_of_nat (length bs)) ty \<rparr>) k ty (length bs)"
    using u by (simp add: wire.usable_def cache.wf_put cache.put_get)
  ultimately show ?thesis using n m q(3-5) u
    by (auto simp: read_key_info_def op_defs with_cache_def Let_def wire.usable_def cache.put_get)
qed

lemma read_observed:
  assumes o: "records_inputs raw obs" and r: "reg d k = Some (ty, bs)" and u: "wire.usable c k ty (length bs)"
    and n: "cache_get (key_cache c) k = Some (word_of_nat (length bs), ty)"
  shows "\<exists>d' pad. read_key W k (c, d) = (Inr (\<lparr> ki_size = word_of_nat (length bs), ki_type = ty \<rparr>, bs @ pad), (c, d'))
    \<and> reg d' = reg d \<and> obs d' = obs d @ [request SMC_CMD_READ_KEY k (word_of_nat (length bs)) ty []]"
proof -
  let ?p = "with_info (zeroed\<lparr> p_key := k \<rparr>) \<lparr> ki_size = word_of_nat (length bs), ki_type = ty \<rparr>"
  have k: "p_key (?p\<lparr> p_data8 := SMC_CMD_READ_KEY \<rparr>) = k" by (simp add: with_info_def)
  obtain out d' pad where q: "io_call W (conn_port c) SMC_SELECTOR (?p\<lparr> p_data8 := SMC_CMD_READ_KEY \<rparr>) d
      = (KERN_SUCCESS, out, d')" "p_result out = 0" "reg d' = reg d" "p_bytes out = bs @ pad"
    using wire.read_present [of d "?p\<lparr> p_data8 := SMC_CMD_READ_KEY \<rparr>" ty bs "conn_port c"] r k by auto
  have "call_struct W SMC_CMD_READ_KEY ?p (c, d) = (Inr out, (c, d'))"
    by (rule wire.call_struct_reg [OF u q(1,2)])
  then show ?thesis using n q(3,4) call_observed [OF o q(1)]
    by (auto simp: read_key_def read_key_info_def op_defs request_images)
qed

lemma write_observed:
  assumes o: "records_inputs raw obs" and r: "reg d k = Some (ty, bs)" and u: "wire.usable c k ty (length bs)"
    and n: "cache_get (key_cache c) k = Some (word_of_nat (length bs), ty)" and l: "length ws = length bs"
  shows "\<exists>d'. write_bytes W k ws (c, d) = (Inr (), (c, d')) \<and> reg d' = (reg d)(k \<mapsto> (ty, ws))
    \<and> obs d' = obs d @ [request SMC_CMD_WRITE_KEY k (word_of_nat (length bs)) ty ws]"
proof -
  have b: "length bs \<le> 32" using raw_bound [OF r] by simp
  then have un: "unat (word_of_nat (length bs) :: u32) = length bs" by (simp add: unat_of_nat take_bit_eq_mod)
  have le: "\<not> 32 < (word_of_nat (length bs) :: u32)" using b un by (simp add: word_less_nat_alt)
  let ?p = "write_param k \<lparr> ki_size = word_of_nat (length bs), ki_type = ty \<rparr> ws"
  have k: "p_key ?p = k" "kid_data_size (p_key_info ?p) = word_of_nat (length bs)" "take (length bs) (p_bytes ?p) = ws"
    "length bs \<le> length (p_bytes ?p)"
    by (simp_all add: write_param_def with_info_def l)
  obtain out d' where q: "io_call W (conn_port c) SMC_SELECTOR (?p\<lparr> p_data8 := SMC_CMD_WRITE_KEY \<rparr>) d
      = (KERN_SUCCESS, out, d')" "p_result out = 0" "reg d' = (reg d)(k \<mapsto> (ty, ws))"
    using wire.write_present [of d "?p\<lparr> p_data8 := SMC_CMD_WRITE_KEY \<rparr>" ty bs "conn_port c"] r k by auto
  have "call_struct W SMC_CMD_WRITE_KEY ?p (c, d) = (Inr out, (c, d'))"
    by (rule wire.call_struct_reg [OF u q(1,2)])
  then show ?thesis using n q(3) un le l b call_observed [OF o q(1)]
    by (auto simp: write_bytes_def read_key_info_def op_defs request_images)
qed

text \<open>A verified write of a byte with an empty cache slot: three transfers.\<close>

lemma verified_observed:
  assumes o: "records_inputs raw obs" and r: "reg d (key_fourcc key) = Some (TYPE_UI8, [x])"
    and u: "wire.usable c (key_fourcc key) TYPE_UI8 1" and t: "key_data_type key = TYPE_UI8"
    and n: "cache_get (key_cache c) (key_fourcc key) = None"
  shows "\<exists>c' d'. write_u8_verified W key v ctx sid (rg, (c, d))
      = (Inr (), (ring_push rg (record_match (io_wall_ns io d) (key_fourcc key) [v] [v]), (c', d')))
    \<and> reg d' = (reg d)(key_fourcc key \<mapsto> (TYPE_UI8, [v]))
    \<and> obs d' = obs d @ [request SMC_CMD_GET_KEY_INFO (key_fourcc key) 0 0 [],
        request SMC_CMD_WRITE_KEY (key_fourcc key) 1 TYPE_UI8 [v], request SMC_CMD_READ_KEY (key_fourcc key) 1 TYPE_UI8 []]"
proof -
  let ?k = "key_fourcc key" let ?ki = "\<lparr> ki_size = 1, ki_type = TYPE_UI8 \<rparr>"
  obtain c1 d1 where i: "read_key_info W ?k (c, d) = (Inr ?ki, (c1, d1))"
    "reg d1 = reg d" "wire.usable c1 ?k TYPE_UI8 1" "cache_get (key_cache c1) ?k = Some (1, TYPE_UI8)"
    "obs d1 = obs d @ [request SMC_CMD_GET_KEY_INFO ?k 0 0 []]"
    using info_observed [OF o r, of c] u n by auto
  obtain d2 where w: "write_bytes W ?k [v] (c1, d1) = (Inr (), (c1, d2))" "reg d2 = (reg d)(?k \<mapsto> (TYPE_UI8, [v]))"
    "obs d2 = obs d1 @ [request SMC_CMD_WRITE_KEY ?k 1 TYPE_UI8 [v]]"
    using write_observed [OF o, of d1 ?k TYPE_UI8 "[x]" c1 "[v]"] r i by auto
  obtain d3 pad where q: "read_key W ?k (c1, d2) = (Inr (?ki, [v] @ pad), (c1, d3))" "reg d3 = reg d2"
    "obs d3 = obs d2 @ [request SMC_CMD_READ_KEY ?k 1 TYPE_UI8 []]"
    using read_observed [OF o, of d2 ?k TYPE_UI8 "[v]" c1] w(2) i(3,4) by auto
  have "read_key_info W ?k (c1, d1) = (Inr ?ki, (c1, d1))" using i(4) by (simp add: read_key_info_def)
  then have "write_u8 W key v (c, d) = (Inr (), (c1, d2))"
    using w(1) i(1) t by (simp add: write_u8_def write_key_def write_bytes_def bindE_def)
  moreover have "read_u8 W ?k (c1, d2) = (Inr v, (c1, d3))"
    using q(1) by (simp add: read_u8_def op_defs decode_ui8_def byte_at_def)
  moreover have "io_wall_ns W d = io_wall_ns io d" by (simp add: wire_platform_def)
  ultimately show ?thesis using w(2,3) q(2,3) i(5) by (simp add: write_u8_verified_def Let_def)
qed

end

section \<open>Devices of structures as devices of buffers\<close>

text \<open>A platform of structures as a kernel that takes buffers: the two contracts say the same.\<close>

definition raw_of :: "'d platform \<Rightarrow> 'd raw_call" where
  "raw_of io port sel inp buf d =
    (let (kr, out, d1) = io_call io port sel (param_of_bytes inp) d in (kr, param_bytes out, d1))"

lemma of_bytes_fields: "p_key (param_of_bytes inp) = u32_at 0 inp" "p_data8 (param_of_bytes inp) = inp ! 42"
  "kid_data_size (p_key_info (param_of_bytes inp)) = u32_at 28 inp" "p_bytes (param_of_bytes inp) = part_at 48 32 inp"
  by (simp_all add: param_of_bytes_def)

lemma taken_at: "n \<le> 32 \<Longrightarrow> take n (part_at 48 32 bs) = part_at 48 n bs"
  by (simp add: part_at_def)

context smc_device
begin

lemma wire_of: "wire_device (raw_of io) io reg"
proof
  fix inp buf :: "u8 list" and d ty bs port
  assume l: "length inp = 80" and r: "reg d (u32_at 0 inp) = Some (ty, bs)"
  have b: "length bs \<le> 32" using size_bound [OF r] by simp
  note laws = info_present read_present write_present
  note laws = laws [where p = "param_of_bytes inp", unfolded of_bytes_fields, OF r]
  show "\<exists>out d'. raw_of io port SMC_SELECTOR inp buf d = (KERN_SUCCESS, out, d') \<and> out ! 40 = 0
      \<and> reg d' = reg d \<and> u32_at 28 out = word_of_nat (length bs) \<and> u32_at 32 out = ty"
    if "inp ! 42 = SMC_CMD_GET_KEY_INFO"
    using laws(1) [of port] that by (fastforce simp: raw_of_def param_at)
  show "\<exists>out d'. raw_of io port SMC_SELECTOR inp buf d = (KERN_SUCCESS, out, d') \<and> out ! 40 = 0
      \<and> reg d' = reg d \<and> part_at 48 (length bs) out = bs"
    if "inp ! 42 = SMC_CMD_READ_KEY"
    using laws(2) [of port] that b by (fastforce simp: raw_of_def param_at param_value_at take_fit)
  show "\<exists>out d'. raw_of io port SMC_SELECTOR inp buf d = (KERN_SUCCESS, out, d') \<and> out ! 40 = 0
      \<and> reg d' = (reg d)(u32_at 0 inp \<mapsto> (ty, part_at 48 (length bs) inp))"
    if "inp ! 42 = SMC_CMD_WRITE_KEY" "u32_at 28 inp = word_of_nat (length bs)"
    using laws(3) [of port] that b l by (fastforce simp: raw_of_def param_at taken_at)
next
  fix inp buf :: "u8 list" and d port
  assume "reg d (u32_at 0 inp) = None" "inp ! 42 \<in> {SMC_CMD_GET_KEY_INFO, SMC_CMD_READ_KEY, SMC_CMD_WRITE_KEY}"
  then show "\<exists>out d'. raw_of io port SMC_SELECTOR inp buf d = (KERN_SUCCESS, out, d')
      \<and> out ! 40 = SMC_ERR_KEY_NOT_FOUND \<and> reg d' = reg d"
    using absent [of d "param_of_bytes inp" port, unfolded of_bytes_fields] by (fastforce simp: raw_of_def param_at)
next
  fix d k ty bs
  assume "reg d k = Some (ty, bs)"
  then show "0 < length bs \<and> length bs \<le> 32" by (rule size_bound)
qed (rule other_calls)+

end

section \<open>The register file on the wire\<close>

text \<open>The register file with a tape of the requests, as a kernel that takes buffers.\<close>

definition taped_raw :: "(regfile \<times> u8 list list) raw_call" where
  "taped_raw port sel inp buf s =
    (let (kr, out, d) = raw_of regfile_io port sel inp buf (fst s) in (kr, out, (d, snd s @ [inp])))"

definition taped_io :: "(regfile \<times> u8 list list) platform" where
  "taped_io = \<lparr>
     io_call = wire_call taped_raw, io_sleep_ms = (\<lambda>n s. s), io_wall_ns = (\<lambda>s. 0), io_now_ms = (\<lambda>s. 0),
     io_matching = (\<lambda>s. (False, s)), io_get_service = (\<lambda>s. (1, s)), io_conforms = (\<lambda>sv s. True),
     io_service_open = (\<lambda>sv s. (KERN_SUCCESS, 2, s)), io_service_close = (\<lambda>p s. s),
     io_object_release = (\<lambda>p s. s), io_entropy = (\<lambda>n s. (replicate n 7, s)),
     io_port_guard = (\<lambda>p g s. (KERN_SUCCESS, s)), io_port_unguard = (\<lambda>p g s. s) \<rparr>"

lemma taped_records: "records_inputs taped_raw snd"
  by (simp add: records_inputs_def taped_raw_def split_beta Let_def)

interpretation taped: wire_device taped_raw taped_io "\<lambda>s. regfile_reg (fst s)"
proof
  fix s :: "regfile \<times> u8 list list" and inp buf :: "u8 list" and ty bs port
  assume l: "length inp = 80" "length buf = 80" and r: "regfile_reg (fst s) (u32_at 0 inp) = Some (ty, bs)"
  note laws = regfile.wire_of [THEN wire_device.raw_info, OF l r] regfile.wire_of [THEN wire_device.raw_read, OF l r]
    regfile.wire_of [THEN wire_device.raw_write, OF l r]
  show "\<exists>out d'. taped_raw port SMC_SELECTOR inp buf s = (KERN_SUCCESS, out, d') \<and> out ! 40 = 0
      \<and> regfile_reg (fst d') = regfile_reg (fst s) \<and> u32_at 28 out = word_of_nat (length bs) \<and> u32_at 32 out = ty"
    if "inp ! 42 = SMC_CMD_GET_KEY_INFO"
    using laws(1) [OF that, of port] by (auto simp: taped_raw_def)
  show "\<exists>out d'. taped_raw port SMC_SELECTOR inp buf s = (KERN_SUCCESS, out, d') \<and> out ! 40 = 0
      \<and> regfile_reg (fst d') = regfile_reg (fst s) \<and> part_at 48 (length bs) out = bs"
    if "inp ! 42 = SMC_CMD_READ_KEY"
    using laws(2) [OF that, of port] by (auto simp: taped_raw_def)
  show "\<exists>out d'. taped_raw port SMC_SELECTOR inp buf s = (KERN_SUCCESS, out, d') \<and> out ! 40 = 0
      \<and> regfile_reg (fst d') = (regfile_reg (fst s))(u32_at 0 inp \<mapsto> (ty, part_at 48 (length bs) inp))"
    if "inp ! 42 = SMC_CMD_WRITE_KEY" "u32_at 28 inp = word_of_nat (length bs)"
    using laws(3) [OF that, of port] by (auto simp: taped_raw_def)
next
  fix s :: "regfile \<times> u8 list list" and inp buf :: "u8 list" and port
  assume "length inp = 80" "length buf = 80" "regfile_reg (fst s) (u32_at 0 inp) = None"
    "inp ! 42 \<in> {SMC_CMD_GET_KEY_INFO, SMC_CMD_READ_KEY, SMC_CMD_WRITE_KEY}"
  from regfile.wire_of [THEN wire_device.raw_absent, OF this, of port]
  show "\<exists>out d'. taped_raw port SMC_SELECTOR inp buf s = (KERN_SUCCESS, out, d')
      \<and> out ! 40 = SMC_ERR_KEY_NOT_FOUND \<and> regfile_reg (fst d') = regfile_reg (fst s)"
    by (auto simp: taped_raw_def)
qed (auto simp: taped_io_def dest: regfile_SomeD)

end
