(* ===== verification/Smc_Properties.thy ===== *)
theory Smc_Properties
  imports One_Fan Round_Trip Session_Id Smc_Wire
begin


section \<open>Codecs and identifiers\<close>

text \<open>C29. The float codec of the controller round-trips: the four bytes that \<open>encode_flt\<close> writes for a
  value are read back by \<open>decode_flt\<close> as exactly that value, whatever padding follows them, and four
  bytes that \<open>decode_flt\<close> accepts are the bytes \<open>encode_flt\<close> writes.
\<close>

theorem flt_codec_roundtrip:
  assumes "length bs = 4"
  shows "decode_flt (bs @ pad) 4 = Inr v \<longleftrightarrow> encode_flt v = Inr bs"
proof
  assume d: "decode_flt (bs @ pad) 4 = Inr v"
  obtain a b c e where bs: "bs = [a, b, c, e]" using assms by (auto simp: length_Suc_conv numeral_eq_Suc)
  have "decode_flt bs 4 = decode_flt (bs @ pad) 4" by (simp add: decode_flt_def byte_at_def bs Let_def)
  then show "encode_flt v = Inr bs" using d assms by (intro encode_decode_flt) simp_all
qed (rule decode_encode_flt)

theorem flt_codec_roundtrip_witness:
  "decode_flt ([0, 0, 0x80, 0x3F] @ [7, 7]) 4 = Inr (F32 0x3F800000) \<longleftrightarrow> encode_flt (F32 0x3F800000) = Inr [0, 0, 0x80, 0x3F]"
  by (rule flt_codec_roundtrip) simp

text \<open>C28. The call structure on the wire: the layout asserted at compile time holds and has no implicit
  padding; every field of the 80-byte image stands at its offset; a structure reads back from its image
  as itself, and any 80 bytes the kernel returns are the image of the structure read from them, up to
  the padding.
\<close>

theorem wire_layout_roundtrip:
  assumes "param_wf p" "length buf = 80"
  shows "layout_asserts \<and> no_implicit_padding param_fields \<and> length (param_bytes p) = 80
    \<and> list_all (\<lambda>i. part_at (offsets_of param_fields ! i) (fst (param_fields ! i)) (param_bytes p) = param_parts p ! i)
        [0 ..< length param_fields]
    \<and> param_of_bytes (param_bytes p) = p
    \<and> param_wf (param_of_bytes buf) \<and> param_bytes (param_of_bytes buf) = clear_padding buf"
proof -
  have "length param_fields = 11" by (simp add: param_fields_def)
  then show ?thesis
    using assms param_bytes_field [of _ p]
    by (simp add: layout_asserted param_packed param_roundtrip param_of_bytes_wf buffer_roundtrip list_all_iff)
qed

theorem wire_layout_roundtrip_witness:
  "param_of_bytes (param_bytes (zeroed\<lparr> p_key := 7, p_data8 := 5 \<rparr>)) = zeroed\<lparr> p_key := 7, p_data8 := 5 \<rparr>"
  using wire_layout_roundtrip [of "zeroed\<lparr> p_key := 7, p_data8 := 5 \<rparr>" "replicate 80 1"]
  by (simp add: param_wf_def zeroed_def)

text \<open>C30. A session id is always 26 characters of the Crockford alphabet, and nothing of its sources is
  lost: the characters read back in base 32 give the milliseconds (modulo \<open>2^50\<close>) and all 80 bits of
  entropy, so two ids made from different entropy differ.
\<close>

theorem session_id_wellformed:
  assumes "length entropy = 10"
  shows "length (as_bytes (session_new ms entropy)) = 26 \<and> set (as_bytes (session_new ms entropy)) \<subseteq> set CROCKFORD
    \<and> session_time (session_new ms entropy) = unat ms mod 2 ^ 50
    \<and> session_entropy (session_new ms entropy) = val256 entropy"
  using session_format [OF assms] session_decode [OF assms] by simp

theorem session_id_wellformed_witness:
  "length (as_bytes (session_new 5 (replicate 10 7))) = 26 \<and> set (as_bytes (session_new 5 (replicate 10 7))) \<subseteq> set CROCKFORD
    \<and> session_time (session_new 5 (replicate 10 7)) = unat (5 :: u64) mod 2 ^ 50
    \<and> session_entropy (session_new 5 (replicate 10 7)) = val256 (replicate 10 7)"
  by (rule session_id_wellformed) simp

section \<open>Cache and ring\<close>

text \<open>C31. What the key info cache returns for a key after any sequence of insertions: the last insertion
  whose key has the same last byte, whatever its other bytes, or nothing. So two keys that end in the
  same letter overwrite each other's entry, and a lookup may return another key's type and size.
\<close>

theorem cache_last_byte_wins:
  "cache_get (foldl (\<lambda>c (k, s, t). cache_put c k s t) cache_new xs) (u32_from_be a b c d) =
    (case filter (\<lambda>(k, s, t). unat (u32_to_be k ! 3) = unat d) xs of
       [] \<Rightarrow> None | ys \<Rightarrow> (case last ys of (k, s, t) \<Rightarrow> Some (s, t)))"
proof -
  have f: "foldl (\<lambda>c (k, s, t). cache_put c k s t) c0 xs = cache.puts c0 xs" for c0
    by (induction xs arbitrary: c0) auto
  have s: "slot_of k = unat (u32_to_be k ! 3)" for k :: u32
    by (simp add: slot_of_def u32_to_be_def CACHE_SIZE_def unsigned_ucast_eq take_bit_eq_mod)
  show ?thesis unfolding f cache.get_puts [OF cache.wf_empty]
    by (simp add: s slot_last_byte cache.get_empty u32_be_bytes [unfolded u32_to_be_def] u32_to_be_def split: list.split)
qed

text \<open>C32. The round-trip ring refines the list of all records pushed in the session: \<open>recent n\<close> returns
  the last \<open>n\<close> of them, oldest first and never more than 256, and the count is their number (saturating).
\<close>

theorem ring_refines_list:
  "recent (pushes (ring_new sid) xs) n = drop (length xs - min n 256) xs
    \<and> unat (ring_count (pushes (ring_new sid) xs)) = min (length xs) (2 ^ 64 - 1)"
  using recent_abs [OF ring_abs_pushes] ring_abs_pushes [of sid xs] by (simp add: ring_abs_def)

section \<open>Calls and verified writes\<close>

text \<open>C33. A struct call on an open connection sends its command to the device at least once and at most
  three times, always the same command with the same key and payload, whatever the device answers:
  one retry for a busy answer and one for a timeout.
\<close>

theorem struct_call_bounded:
  assumes "connection_open c" "conn_port c \<noteq> 0"
  shows "\<exists>n. 1 \<le> n \<and> n \<le> 3 \<and> snd (snd (snd (call_struct (spy io) cmd p (c, (d, l)))))
    = l @ replicate n (cmd, p_key p, write_payload p)"
proof -
  obtain n where "0 < n" "n \<le> 3" "snd (snd (call_loop (spy io) (conn_port c) cmd (p\<lparr> p_data8 := cmd \<rparr>) False False (d, l)))
      = l @ replicate n (cmd, p_key p, write_payload p)"
    using call_loop_log [of False False io "conn_port c" cmd "p\<lparr> p_data8 := cmd \<rparr>" d l]
    by (auto simp: write_payload_def)
  then show ?thesis using assms by (auto simp: call_struct_def Let_def split_beta Suc_le_eq)
qed

theorem struct_call_bounded_witness:
  "\<exists>n. 1 \<le> n \<and> n \<le> 3 \<and> snd (snd (snd (call_struct (spy regfile_io) SMC_CMD_READ_KEY zeroed
      (\<lparr> conn_port = 2, key_cache = cache_new, connection_open = True, port_guard = 0 \<rparr>, (Map.empty, [])))))
    = [] @ replicate n (SMC_CMD_READ_KEY, p_key zeroed, write_payload zeroed)"
  by (rule struct_call_bounded) simp_all





end
