(* ===== verification/Config_Schema.thy ===== *)
theory Config_Schema
  imports Show Curve
begin

text \<open>
  The configuration (\<open>src/config/schema.rs\<close>): its records, the defaults of absent fields, and the
  validation errors with their messages. The TOML reader is the \<open>toml\<close> crate and a parameter of
  \<open>load_config\<close>; it delivers a \<open>raw_config\<close>, in which the fields that have a default are optional.
\<close>

section \<open>The schema\<close>

datatype sensor_ref = Name string | Smc string

record power_source_override =
  ov_curve :: "breakpoint list option"
  ov_hysteresis_up :: "f32 option"
  ov_hysteresis_down :: "f32 option"
  ov_smoothing_alpha :: "f32 option"
  ov_ramp_down_rpm_per_s :: "u32 option"
  ov_panic_temp_c :: "f32 option"
  ov_panic_hold_s :: "u32 option"

record fan_binding =
  fb_index :: u8
  fb_sensors :: "sensor_ref list"
  fb_fusion :: string
  fb_curve :: "breakpoint list"
  fb_hysteresis_up :: f32
  fb_hysteresis_down :: f32
  fb_smoothing_alpha :: f32
  fb_ramp_down_rpm_per_s :: u32
  fb_panic_temp_c :: f32
  fb_panic_hold_s :: u32
  fb_min_start_rpm :: "u32 option"
  fb_low_power_attenuation :: "f32 option"
  fb_ac :: "power_source_override option"
  fb_battery :: "power_source_override option"

record config =
  config_version :: u32
  poll_interval_ms :: u32
  cfg_log_level :: string
  control_socket_path :: string
  control_socket_mode :: u16
  low_power_attenuation_default :: f32
  cfg_fans :: "fan_binding list"

section \<open>Defaults\<close>

definition default_config_version :: u32 where "default_config_version = 1"
definition default_poll_interval :: u32 where "default_poll_interval = 500"
definition default_log_level :: string where "default_log_level = ''info''"
definition default_socket_path :: string where "default_socket_path = ''/var/run/fand.sock''"
definition default_socket_mode :: u16 where "default_socket_mode = 0x180"
definition default_lp_attenuation :: f32 where "default_lp_attenuation = lit 1 1"
definition default_fusion :: string where "default_fusion = ''max''"
definition default_hysteresis_up :: f32 where "default_hysteresis_up = lit 1 1"
definition default_hysteresis_down :: f32 where "default_hysteresis_down = lit 3 1"
definition default_smoothing_alpha :: f32 where "default_smoothing_alpha = lit 25 100"
definition default_ramp_down :: u32 where "default_ramp_down = 600"
definition default_panic_temp :: f32 where "default_panic_temp = lit 95 1"
definition default_panic_hold :: u32 where "default_panic_hold = 10"

text \<open>What the reader delivers: \<open>None\<close> for a field with a default that the file leaves out.\<close>

record raw_fan =
  rf_index :: u8
  rf_sensors :: "sensor_ref list"
  rf_fusion :: "string option"
  rf_curve :: "breakpoint list"
  rf_hysteresis_up :: "f32 option"
  rf_hysteresis_down :: "f32 option"
  rf_smoothing_alpha :: "f32 option"
  rf_ramp_down_rpm_per_s :: "u32 option"
  rf_panic_temp_c :: "f32 option"
  rf_panic_hold_s :: "u32 option"
  rf_min_start_rpm :: "u32 option"
  rf_low_power_attenuation :: "f32 option"
  rf_ac :: "power_source_override option"
  rf_battery :: "power_source_override option"

record raw_config =
  rc_config_version :: "u32 option"
  rc_poll_interval_ms :: "u32 option"
  rc_log_level :: "string option"
  rc_control_socket_path :: "string option"
  rc_control_socket_mode :: "u16 option"
  rc_low_power_attenuation_default :: "f32 option"
  rc_fan :: "raw_fan list"

definition default_to :: "'a \<Rightarrow> 'a option \<Rightarrow> 'a" where
  "default_to d x = (case x of None \<Rightarrow> d | Some v \<Rightarrow> v)"

definition fan_defaults :: "raw_fan \<Rightarrow> fan_binding" where
  "fan_defaults f = \<lparr>
     fb_index = rf_index f, fb_sensors = rf_sensors f, fb_fusion = default_to default_fusion (rf_fusion f),
     fb_curve = rf_curve f, fb_hysteresis_up = default_to default_hysteresis_up (rf_hysteresis_up f),
     fb_hysteresis_down = default_to default_hysteresis_down (rf_hysteresis_down f),
     fb_smoothing_alpha = default_to default_smoothing_alpha (rf_smoothing_alpha f),
     fb_ramp_down_rpm_per_s = default_to default_ramp_down (rf_ramp_down_rpm_per_s f),
     fb_panic_temp_c = default_to default_panic_temp (rf_panic_temp_c f),
     fb_panic_hold_s = default_to default_panic_hold (rf_panic_hold_s f),
     fb_min_start_rpm = rf_min_start_rpm f, fb_low_power_attenuation = rf_low_power_attenuation f,
     fb_ac = rf_ac f, fb_battery = rf_battery f \<rparr>"

definition config_defaults :: "raw_config \<Rightarrow> config" where
  "config_defaults c = \<lparr>
     config_version = default_to default_config_version (rc_config_version c),
     poll_interval_ms = default_to default_poll_interval (rc_poll_interval_ms c),
     cfg_log_level = default_to default_log_level (rc_log_level c),
     control_socket_path = default_to default_socket_path (rc_control_socket_path c),
     control_socket_mode = default_to default_socket_mode (rc_control_socket_mode c),
     low_power_attenuation_default = default_to default_lp_attenuation (rc_low_power_attenuation_default c),
     cfg_fans = map fan_defaults (rc_fan c) \<rparr>"

section \<open>Validation errors\<close>

datatype validation_error =
    TomlSyntax nat nat string
  | MissingRequired string "u8 option"
  | DuplicateFanIndex u8
  | UnknownFanIndex u8 "u8 list"
  | EmptySensors u8
  | UnknownSensor string "string list"
  | CurveTooShort u8 nat
  | CurveTooLong u8 nat
  | NonMonotoneTemp u8 nat f32 f32
  | NonMonotoneRpm u8 nat u32 u32
  | RpmOutOfRange u8 nat u32 f32
  | HysteresisInverted u8 f32 f32
  | SmoothingAlphaRange u8 f32
  | PanicTempTooLow u8 f32 f32
  | LowPowerRange f32
  | InvalidSocketMode u16
  | FileTooLarge u64
  | NestingTooDeep nat
  | UnknownField string string
  | UnsafePermissions string u32 u32

definition fan_at :: "u8 \<Rightarrow> string" where
  "fan_at i = ''fan['' @ show_u8 i @ '']''"

definition quoted :: "string \<Rightarrow> string" where
  "quoted s = CHR 0x27 # s @ [CHR 0x27]"

text \<open>\<open>{:?}\<close> of a list of numbers, and of a list of strings of printable ASCII.\<close>

definition debug_nats :: "u8 list \<Rightarrow> string" where
  "debug_nats xs = ''['' @ join '', '' (map show_u8 xs) @ '']''"

definition debug_str :: "string \<Rightarrow> string" where
  "debug_str s = CHR 0x22 # concat (map (\<lambda>c. if c = CHR 0x22 \<or> c = CHR 0x5C then [CHR 0x5C, c] else [c]) s) @ [CHR 0x22]"

definition debug_strs :: "string list \<Rightarrow> string" where
  "debug_strs xs = ''['' @ join '', '' (map debug_str xs) @ '']''"

text \<open>The bytes of the signs for "at most", "at least" and "degrees Celsius".\<close>

definition le_sign :: string where "le_sign = [CHR 0xE2, CHR 0x89, CHR 0xA4]"
definition ge_sign :: string where "ge_sign = [CHR 0xE2, CHR 0x89, CHR 0xA5]"
definition celsius :: string where "celsius = [CHR 0xC2, CHR 0xB0, CHR ''C'']"

fun show_validation_error :: "validation_error \<Rightarrow> string" where
  "show_validation_error (TomlSyntax l c m) =
     ''line '' @ show_nat l @ '':'' @ show_nat c @ '': TOML syntax error: '' @ m"
| "show_validation_error (MissingRequired field ix) = (case ix of
     Some i \<Rightarrow> fan_at i @ '': missing required field '' @ quoted field
   | None \<Rightarrow> ''missing required field '' @ quoted field)"
| "show_validation_error (DuplicateFanIndex i) = ''duplicate fan index '' @ show_u8 i"
| "show_validation_error (UnknownFanIndex i av) =
     ''fan index '' @ show_u8 i @ '' not found; available: '' @ debug_nats av"
| "show_validation_error (EmptySensors i) = fan_at i @ '': sensors list is empty''"
| "show_validation_error (UnknownSensor s av) =
     ''sensor '' @ quoted s @ '' not found; available: '' @ debug_strs av"
| "show_validation_error (CurveTooShort i n) =
     fan_at i @ '': curve has '' @ show_nat n @ '' breakpoints (minimum 2)''"
| "show_validation_error (CurveTooLong i n) =
     fan_at i @ '': curve has '' @ show_nat n @ '' breakpoints (maximum 100)''"
| "show_validation_error (NonMonotoneTemp i bp prev t) = fan_at i @ '': breakpoint '' @ show_nat bp @ '' temp (''
     @ show_f32 t @ celsius @ '') '' @ le_sign @ '' previous ('' @ show_f32 prev @ celsius @ '')''"
| "show_validation_error (NonMonotoneRpm i bp prev rpm) = fan_at i @ '': breakpoint '' @ show_nat bp @ '' RPM (''
     @ show_nat (unat rpm) @ '') < previous ('' @ show_nat (unat prev) @ '')''"
| "show_validation_error (RpmOutOfRange i bp rpm m) = fan_at i @ '': breakpoint '' @ show_nat bp @ '' RPM (''
     @ show_nat (unat rpm) @ '') exceeds max ('' @ show_f32 m @ '')''"
| "show_validation_error (HysteresisInverted i up down) = fan_at i @ '': hysteresis_down ('' @ show_f32 down
     @ '') must be '' @ ge_sign @ '' hysteresis_up ('' @ show_f32 up @ '')''"
| "show_validation_error (SmoothingAlphaRange i a) =
     fan_at i @ '': smoothing_alpha ('' @ show_f32 a @ '') must be in (0.0, 1.0]''"
| "show_validation_error (PanicTempTooLow i p t) = fan_at i @ '': panic_temp_c ('' @ show_f32 p
     @ '') must be > last curve temp ('' @ show_f32 t @ '')''"
| "show_validation_error (LowPowerRange v) = ''low_power_attenuation ('' @ show_f32 v @ '') must be in [0.3, 1.0]''"
| "show_validation_error (InvalidSocketMode m) =
     ''control_socket_mode ('' @ show_oct_alt (unat m) @ '') must be 0o600 or 0o660''"
| "show_validation_error (FileTooLarge n) =
     ''config file too large ('' @ show_nat (unat n) @ '' bytes, max 65536)''"
| "show_validation_error (NestingTooDeep d) = ''TOML nesting too deep ('' @ show_nat d @ '' levels, max 32)''"
| "show_validation_error (UnknownField k ctx) = ''unknown field '' @ quoted k @ '' in '' @ ctx"
| "show_validation_error (UnsafePermissions p owner m) = p @ '': unsafe permissions (owner uid ''
     @ show_nat (unat owner) @ '', mode '' @ show_oct_alt (unat m) @ '')''"

end
