(* ===== verification/Config_Validate.thy ===== *)
theory Config_Validate
  imports Config_Schema
begin

text \<open>
  Semantic validation of a parsed configuration (\<open>src/config/validate.rs\<close>): every violation is
  collected, in the order of the checks. What an empty list of errors guarantees is the predicate
  \<open>accepted\<close>.
\<close>

section \<open>The checks\<close>

definition sensor_name :: "sensor_ref \<Rightarrow> string" where
  "sensor_name s = (case s of Name n \<Rightarrow> n | Smc n \<Rightarrow> n)"

definition fourcc_name :: "string \<Rightarrow> bool" where
  "fourcc_name n \<longleftrightarrow> length n = 4 \<and> list_all (\<lambda>b. is_graphic b \<or> b = CHR '' '') n"

text \<open>The errors of breakpoint \<open>i\<close>.\<close>

definition point_errors :: "u8 \<Rightarrow> breakpoint list \<Rightarrow> nat \<Rightarrow> validation_error list" where
  "point_errors idx curve i = (case curve ! i of (temp, rpm) \<Rightarrow>
     (if \<not> is_finite temp \<or> temp < lit 0 1 then [NonMonotoneTemp idx i (lit 0 1) temp] else []) @
     (if \<not> is_finite (f32_of_word rpm)
      then [MissingRequired (fan_at idx @ '' curve['' @ show_nat i @ ''] RPM is not finite'') (Some idx)] else []) @
     (if 0 < i \<and> temp \<le> fst (curve ! (i - 1)) then [NonMonotoneTemp idx i (fst (curve ! (i - 1))) temp] else []))"

definition validate_fan :: "fan_binding \<Rightarrow> validation_error list" where
  "validate_fan fan = (let idx = fb_index fan in
     (if fb_sensors fan = [] then [EmptySensors idx] else []) @
     concat (map (\<lambda>s. let name = sensor_name s in
       if \<not> fourcc_name name then [UnknownSensor name [''must be exactly 4 printable ASCII bytes'']] else [])
       (fb_sensors fan)) @
     (if length (fb_curve fan) < 2 then [CurveTooShort idx (length (fb_curve fan))]
      else concat (map (point_errors idx (fb_curve fan)) [0..<length (fb_curve fan)]) @
        (if fb_hysteresis_down fan < lit 0 1 \<or> lit 10 1 < fb_hysteresis_down fan
         then [HysteresisInverted idx (fb_hysteresis_up fan) (fb_hysteresis_down fan)] else [])))"

text \<open>The set of indices seen so far: an index that is already in it is a duplicate.\<close>

fun duplicates :: "u8 list \<Rightarrow> fan_binding list \<Rightarrow> validation_error list" where
  "duplicates seen [] = []"
| "duplicates seen (f # fs) = (if fb_index f \<in> set seen then [DuplicateFanIndex (fb_index f)] else [])
     @ duplicates (List.insert (fb_index f) seen) fs"

definition validate :: "config \<Rightarrow> validation_error list" where
  "validate c =
     (if poll_interval_ms c < 100 \<or> 5000 < poll_interval_ms c
      then [MissingRequired (''poll_interval_ms must be in [100, 5000], got '' @ show_nat (unat (poll_interval_ms c))) None] else []) @
     (if cfg_log_level c \<in> {''error'', ''warn'', ''info'', ''debug''} then []
      else [MissingRequired (''log_level must be error|warn|info|debug, got '' @ quoted (cfg_log_level c)) None]) @
     (if cfg_fans c = [] then [MissingRequired ''fan: at least one [[fan]] section required'' None]
      else duplicates [] (cfg_fans c) @ concat (map validate_fan (cfg_fans c)))"

definition validate_or_exit :: "config \<Rightarrow> (validation_error list, unit) result" where
  "validate_or_exit c = (let errors = validate c in if errors = [] then Inr () else Inl errors)"

section \<open>What validation guarantees\<close>

text \<open>A curve of strictly rising, finite, non-negative temperatures.\<close>

fun ascending :: "breakpoint list \<Rightarrow> bool" where
  "ascending (lo # hi # bps) = (\<not> fst hi \<le> fst lo \<and> ascending (hi # bps))"
| "ascending _ = True"

definition good_temp :: "breakpoint \<Rightarrow> bool" where
  "good_temp p \<longleftrightarrow> is_finite (fst p) \<and> \<not> fst p < lit 0 1"

definition accepted_fan :: "fan_binding \<Rightarrow> bool" where
  "accepted_fan f \<longleftrightarrow> fb_sensors f \<noteq> [] \<and> list_all (fourcc_name \<circ> sensor_name) (fb_sensors f)
     \<and> 2 \<le> length (fb_curve f) \<and> list_all good_temp (fb_curve f) \<and> ascending (fb_curve f)
     \<and> \<not> (fb_hysteresis_down f < lit 0 1 \<or> lit 10 1 < fb_hysteresis_down f)"

definition accepted :: "config \<Rightarrow> bool" where
  "accepted c \<longleftrightarrow> 100 \<le> poll_interval_ms c \<and> poll_interval_ms c \<le> 5000
     \<and> cfg_log_level c \<in> {''error'', ''warn'', ''info'', ''debug''}
     \<and> cfg_fans c \<noteq> [] \<and> distinct (map fb_index (cfg_fans c)) \<and> list_all accepted_fan (cfg_fans c)"

lemma duplicates_Nil: "duplicates seen fs = [] \<longleftrightarrow> distinct (map fb_index fs) \<and> set seen \<inter> fb_index ` set fs = {}"
  by (induction fs arbitrary: seen) auto

lemma rpm_finite: "is_finite (f32_of_word (rpm :: u32))"
  using f32_of_word_fin by simp

lemma point_errors_Nil:
  "i < length c \<Longrightarrow> point_errors idx c i = [] \<longleftrightarrow> good_temp (c ! i) \<and> (0 < i \<longrightarrow> \<not> fst (c ! i) \<le> fst (c ! (i - 1)))"
  by (auto simp: point_errors_def good_temp_def rpm_finite split: prod.split)

lemma ascending_nth: "ascending c \<longleftrightarrow> (\<forall>i. 0 < i \<and> i < length c \<longrightarrow> \<not> fst (c ! i) \<le> fst (c ! (i - 1)))"
proof (induction c rule: ascending.induct)
  case (1 lo hi bps)
  show ?case unfolding ascending.simps 1
  proof (intro iffI conjI allI impI)
    fix i assume a: "\<not> fst hi \<le> fst lo \<and> (\<forall>i. 0 < i \<and> i < length (hi # bps) \<longrightarrow> \<not> fst ((hi # bps) ! i) \<le> fst ((hi # bps) ! (i - 1)))"
      "0 < i \<and> i < length (lo # hi # bps)"
    show "\<not> fst ((lo # hi # bps) ! i) \<le> fst ((lo # hi # bps) ! (i - 1))"
    proof (cases "i = 1")
      case True
      then show ?thesis using a(1) by simp
    next
      case False
      then obtain j where "i = Suc (Suc j)" using a(2) by (metis One_nat_def Suc_pred not0_implies_Suc not_less_zero)
      then show ?thesis using a by (metis One_nat_def Suc_less_eq diff_Suc_1 length_Cons nth_Cons_Suc zero_less_Suc)
    qed
  next
    assume a: "\<forall>i. 0 < i \<and> i < length (lo # hi # bps) \<longrightarrow> \<not> fst ((lo # hi # bps) ! i) \<le> fst ((lo # hi # bps) ! (i - 1))"
    show "\<not> fst hi \<le> fst lo" using a [rule_format, of 1] by simp
    fix i assume "0 < i \<and> i < length (hi # bps)"
    then show "\<not> fst ((hi # bps) ! i) \<le> fst ((hi # bps) ! (i - 1))"
      using a [rule_format, of "Suc i"] by (cases i) auto
  qed
qed auto

lemma curve_errors_Nil:
  "concat (map (point_errors idx c) [0..<length c]) = [] \<longleftrightarrow> list_all good_temp c \<and> ascending c"
proof -
  have "concat (map (point_errors idx c) [0..<length c]) = [] \<longleftrightarrow> (\<forall>i < length c. point_errors idx c i = [])" by auto
  also have "\<dots> \<longleftrightarrow> (\<forall>i < length c. good_temp (c ! i)) \<and> ascending c"
    unfolding ascending_nth using point_errors_Nil [of _ c idx] by blast
  finally show ?thesis by (simp add: list_all_length)
qed

lemma validate_fan_Nil: "validate_fan f = [] \<longleftrightarrow> accepted_fan f"
proof (cases "length (fb_curve f) < 2")
  case True
  then show ?thesis by (simp add: validate_fan_def accepted_fan_def Let_def)
next
  case False
  then show ?thesis
    unfolding validate_fan_def accepted_fan_def Let_def append_is_Nil_conv if_not_P [OF False] curve_errors_Nil
    by (auto simp: list_all_iff)
qed

text \<open>Validation reports nothing exactly on the accepted configurations.\<close>

lemma validate_Nil: "validate c = [] \<longleftrightarrow> accepted c"
  by (auto simp: validate_def accepted_def duplicates_Nil validate_fan_Nil list_all_iff not_less split: if_splits)

end
