(* ===== verification/Config_Load.thy ===== *)
theory Config_Load
  imports Config_Validate Utf8
begin

text \<open>
  Loading and reloading the configuration (\<open>src/config/load.rs\<close>, \<open>src/config/reload.rs\<close>). The file system,
  the environment and the TOML reader are the record \<open>config_os\<close>; all checks are made on the one open
  file. The load touches nothing, so the outside world is read only.
\<close>

section \<open>The operating system\<close>

record file_stat =
  fs_mode :: u16
  fs_uid :: u32
  fs_size :: u64

datatype toml_error = TomlError "nat option" string

record config_os =
  co_open :: "string \<Rightarrow> (string, nat) result"
  co_fstat :: "nat \<Rightarrow> file_stat option"
  co_getpath :: "nat \<Rightarrow> string option"
  co_read :: "nat \<Rightarrow> (string, string) result"
  co_env :: "string \<Rightarrow> string option"
  co_toml :: "string \<Rightarrow> (toml_error, raw_config) result"

section \<open>Loading\<close>

definition MAX_CONFIG_SIZE :: u64 where "MAX_CONFIG_SIZE = 64 * 1024"

definition nul :: char where "nul = CHR 0x00"

text \<open>The buffer of \<open>F_GETPATH\<close> up to its first zero byte; a path that is not UTF-8 counts as empty.\<close>

definition resolved_path :: "string \<Rightarrow> string" where
  "resolved_path buf = (case from_utf8 (takeWhile (\<lambda>c. c \<noteq> nul) buf) of Some p \<Rightarrow> p | None \<Rightarrow> [])"

definition in_tmp :: "string \<Rightarrow> bool" where
  "in_tmp p \<longleftrightarrow> starts_with p ''/tmp'' \<or> starts_with p ''/var/tmp'' \<or> starts_with p ''/private/tmp''
     \<or> starts_with p ''/private/var/tmp''"

definition file_error :: "string \<Rightarrow> validation_error" where
  "file_error m = MissingRequired m None"

definition permission_bits :: "file_stat \<Rightarrow> u32" where
  "permission_bits st = ucast (fs_mode st) AND 0xFFF"

text \<open>The size check, then the place of the file, on an open file with its permission bits.\<close>

definition check_place :: "config_os \<Rightarrow> nat \<Rightarrow> file_stat \<Rightarrow> u32 \<Rightarrow> (validation_error, unit) result" where
  "check_place os fd st mode =
    (if MAX_CONFIG_SIZE < fs_size st then Inl (FileTooLarge (fs_size st))
     else if co_env os ''FAND_ALLOW_TMP_CONFIG'' = Some ''1'' then Inr ()
     else case co_getpath os fd of None \<Rightarrow> Inr ()
       | Some buf \<Rightarrow> let p = resolved_path buf in
           if in_tmp p then Inl (UnsafePermissions p (fs_uid st) mode) else Inr ())"

text \<open>Reading, parsing and the version check.\<close>

definition read_config :: "config_os \<Rightarrow> string \<Rightarrow> nat \<Rightarrow> (validation_error, config) result" where
  "read_config os path fd =
    (case co_read os fd of Inl e \<Rightarrow> Inl (file_error (''read failed on '' @ path @ '': '' @ e))
     | Inr content \<Rightarrow> (case co_toml os content of
         Inl (TomlError sp m) \<Rightarrow> Inl (TomlSyntax (default_to 0 sp) 0 m)
       | Inr raw \<Rightarrow> let c = config_defaults raw in
           if config_version c \<noteq> 1
           then Inl (file_error (''config_version must be 1, got '' @ show_nat (unat (config_version c))))
           else Inr c))"

definition load_config :: "config_os \<Rightarrow> string \<Rightarrow> (validation_error, config) result" where
  "load_config os path =
    (case co_open os path of Inl e \<Rightarrow> Inl (file_error (''config file at '' @ path @ '': '' @ e))
     | Inr fd \<Rightarrow> (case co_fstat os fd of None \<Rightarrow> Inl (file_error (''fstat failed on '' @ path))
       | Some st \<Rightarrow> let mode = permission_bits st in
           if mode AND 0x12 \<noteq> 0 then Inl (UnsafePermissions path (fs_uid st) mode)
           else case check_place os fd st mode of Inl e \<Rightarrow> Inl e
             | Inr _ \<Rightarrow> read_config os path fd))"

section \<open>Reloading\<close>

datatype reload_error = LoadError validation_error | Validation "validation_error list"

definition reload_config :: "config_os \<Rightarrow> string \<Rightarrow> (reload_error, config) result" where
  "reload_config os path = (case load_config os path of Inl e \<Rightarrow> Inl (LoadError e)
     | Inr c \<Rightarrow> let errors = validate c in if errors = [] then Inr c else Inl (Validation errors))"

definition show_reload_error :: "reload_error \<Rightarrow> string" where
  "show_reload_error e = (case e of LoadError v \<Rightarrow> ''config load failed: '' @ show_validation_error v
     | Validation es \<Rightarrow> ''config validation failed:'' @ concat (map (\<lambda>e. '' '' @ show_validation_error e @ '';'') es))"

section \<open>What a loaded configuration has passed\<close>

text \<open>A file that the load reads: owner-writable only, at most 64 KiB, and not below a temporary directory.\<close>

definition safe_file :: "config_os \<Rightarrow> nat \<Rightarrow> bool" where
  "safe_file os fd \<longleftrightarrow> (\<exists>st. co_fstat os fd = Some st \<and> permission_bits st AND 0x12 = 0
     \<and> fs_size st \<le> MAX_CONFIG_SIZE \<and> (co_env os ''FAND_ALLOW_TMP_CONFIG'' = Some ''1''
       \<or> (\<forall>buf. co_getpath os fd = Some buf \<longrightarrow> \<not> in_tmp (resolved_path buf))))"

lemma load_config_Inr:
  "load_config os path = Inr c \<longleftrightarrow> (\<exists>fd content raw. co_open os path = Inr fd \<and> safe_file os fd
     \<and> co_read os fd = Inr content \<and> co_toml os content = Inr raw \<and> c = config_defaults raw \<and> config_version c = 1)"
proof (cases "co_open os path")
  case (Inr fd)
  show ?thesis
  proof (cases "co_fstat os fd")
    case None
    then show ?thesis using Inr by (simp add: load_config_def safe_file_def)
  next
    case (Some st)
    have "(case read_config os path fd of Inl e \<Rightarrow> False | Inr c' \<Rightarrow> c' = c) \<longleftrightarrow>
        (\<exists>content raw. co_read os fd = Inr content \<and> co_toml os content = Inr raw \<and> c = config_defaults raw \<and> config_version c = 1)"
      by (auto simp: read_config_def Let_def split: sum.split toml_error.split)
    moreover have "safe_file os fd \<longleftrightarrow> permission_bits st AND 0x12 = 0
        \<and> check_place os fd st (permission_bits st) = Inr ()"
      using Some by (auto simp: safe_file_def check_place_def Let_def not_less split: option.split)
    ultimately show ?thesis using Inr Some by (auto simp: load_config_def Let_def split: sum.splits)
  qed
qed (simp add: load_config_def)

end
