(* ===== verification/Cli_Run.thy ===== *)
theory Cli_Run
  imports Config_Load Adapter Control_Loop Session_Writes
begin

text \<open>
  The daemon (\<open>src/cli/run.rs\<close>): its arguments, the dry run that prints what it would do, and the commit
  loop that ties sensors, the control pipeline, the adapter and the write session together. Messages
  on standard error and log lines are left out. The loop has no end unless \<open>--once\<close> is given, so the
  model runs it for a number of ticks.
\<close>

section \<open>Arguments\<close>

record run_args =
  ra_config :: string
  ra_dry_run :: bool
  ra_once :: bool
  ra_json :: bool

text \<open>\<open>Inl\<close>: the process ends with that code.\<close>

fun parse_run :: "run_args \<Rightarrow> string list \<Rightarrow> (int, run_args) result" where
  "parse_run a [] = Inr a"
| "parse_run a (x # xs) =
    (if x = ''--config'' then (case xs of p # ys \<Rightarrow> parse_run (a\<lparr> ra_config := p \<rparr>) ys | [] \<Rightarrow> Inl 64)
     else if x = ''--dry-run'' then parse_run (a\<lparr> ra_dry_run := True \<rparr>) xs
     else if x = ''--once'' then parse_run (a\<lparr> ra_once := True \<rparr>) xs
     else if x = ''--json'' then parse_run (a\<lparr> ra_json := True \<rparr>) xs
     else if x = ''--help'' \<or> x = ''-h'' then Inl 0
     else Inl 64)"

definition run_defaults :: run_args where
  "run_defaults = \<lparr> ra_config = ''/etc/fand.toml'', ra_dry_run = False, ra_once = False, ra_json = False \<rparr>"

section \<open>Sensors\<close>

definition plausible :: "f32 \<Rightarrow> bool" where
  "plausible v \<longleftrightarrow> is_finite v \<and> lit 0 1 \<le> v \<and> v \<le> lit 150 1"

definition PLACEHOLDER :: f32 where "PLACEHOLDER = lit 65 1"

fun max_sensor :: "'d platform \<Rightarrow> f32 \<Rightarrow> sensor_ref list \<Rightarrow> 'd smc \<Rightarrow> f32 \<times> 'd smc" where
  "max_sensor io m [] s = (m, s)"
| "max_sensor io m (x # xs) s =
    (if length (sensor_name x) \<noteq> 4 then max_sensor io m xs s
     else case read_f32 io (fourcc (sensor_name x)) s of
       (Inr v, s1) \<Rightarrow> max_sensor io (if plausible v \<and> m < v then v else m) xs s1
     | (Inl _, s1) \<Rightarrow> max_sensor io m xs s1)"

definition read_max_sensor_temp :: "'d platform \<Rightarrow> fan_binding \<Rightarrow> 'd smc \<Rightarrow> f32 \<times> 'd smc" where
  "read_max_sensor_temp io f s = (case max_sensor io f32_NEG_INFINITY (fb_sensors f) s of
     (m, s1) \<Rightarrow> (if feq m f32_NEG_INFINITY then PLACEHOLDER else m, s1))"

text \<open>The readings of a tick; a name that is no four-character code, and a failed read, give NaN.\<close>

fun read_sensors :: "'d platform \<Rightarrow> sensor_ref list \<Rightarrow> 'd smc \<Rightarrow> f32 list \<times> 'd smc" where
  "read_sensors io [] s = ([], s)"
| "read_sensors io (x # xs) s =
    (let (v, s1) = (if length (sensor_name x) \<noteq> 4 then (f32_NAN, s)
         else case read_f32 io (fourcc (sensor_name x)) s of
           (Inr v, s1) \<Rightarrow> (v, s1) | (Inl _, s1) \<Rightarrow> (f32_NAN, s1));
         (vs, s2) = read_sensors io xs s1 in (v # vs, s2))"

definition dropout :: "f32 \<Rightarrow> bool" where
  "dropout v \<longleftrightarrow> \<not> is_finite v \<or> v < lit 0 1 \<or> lit 150 1 < v"

section \<open>The dry run\<close>

definition VERSION :: string where "VERSION = ''0.3.4''"

definition dquote :: string where "dquote = [CHR 0x22]"

text \<open>A field of a JSON object, and a string value.\<close>

definition field :: "string \<Rightarrow> string \<Rightarrow> string" where
  "field k v = dquote @ k @ dquote @ '':'' @ v"

definition jstr :: "string \<Rightarrow> string" where
  "jstr s = dquote @ s @ dquote"

definition json_object :: "string list \<Rightarrow> string" where
  "json_object fs = ''{'' @ join '','' fs @ ''}''"

definition mode_str :: "decision \<Rightarrow> string" where
  "mode_str d = (case d of ForcedMinimum \<Rightarrow> ''forced_minimum'' | Auto \<Rightarrow> ''auto'')"

definition dry_line_json :: "session_id \<Rightarrow> nat \<Rightarrow> nat \<Rightarrow> u8 \<Rightarrow> f32 \<Rightarrow> f32 \<Rightarrow> clamped_rpm \<Rightarrow> decision \<Rightarrow> string" where
  "dry_line_json sid n ts i temp raw clamped d = json_object
     [field ''$schema'' (jstr ''https://pedrohbalbino.github.io/fand/schemas/run-tick-v1.json''),
      field ''schema_version'' ''1'', field ''session_id'' (jstr (as_bytes sid)), field ''tick_number'' (show_nat n),
      field ''timestamp_ms'' (show_nat ts), field ''fan_index'' (show_u8 i), field ''max_temp_c'' (show_fixed 1 temp),
      field ''raw_curve_rpm'' (show_fixed 1 raw), field ''clamped_rpm'' (show_nat (unat (clamped_value clamped))),
      field ''mode_decision'' (jstr (mode_str d))] @ ''\<newline>''"

definition dry_line_human :: "nat \<Rightarrow> u8 \<Rightarrow> f32 \<Rightarrow> f32 \<Rightarrow> clamped_rpm \<Rightarrow> decision \<Rightarrow> string" where
  "dry_line_human n i temp raw clamped d = ''[tick '' @ show_nat n @ ''] fan '' @ show_u8 i @ '' | temp='' @ show_fixed 1 temp
     @ celsius @ '' | curve='' @ show_fixed 0 raw @ '' RPM | clamped='' @ show_nat (unat (clamped_value clamped))
     @ '' RPM | mode='' @ mode_str d @ ''\<newline>''"

text \<open>The fixed envelope of the dry run.\<close>

definition DRY_MIN :: f32 where "DRY_MIN = lit 1300 1"
definition DRY_MAX :: f32 where "DRY_MAX = lit 6550 1"

text \<open>One fan of a tick: the connection, or none, then the adapter and the printed line.\<close>

definition dry_fan ::
  "'d platform \<Rightarrow> ('d \<Rightarrow> nat) \<Rightarrow> string option \<Rightarrow> bool \<Rightarrow> session_id \<Rightarrow> nat \<Rightarrow> fan_binding \<times> adapter
   \<Rightarrow> smc_connection option \<times> 'd \<Rightarrow> (adapter \<times> string) \<times> (smc_connection option \<times> 'd)" where
  "dry_fan io wall env json sid n fa cd = (case fa of (f, a) \<Rightarrow>
     let (temp, cd1) = (case cd of (None, d) \<Rightarrow> (PLACEHOLDER, cd)
           | (Some c, d) \<Rightarrow> (case read_max_sensor_temp io f (c, d) of (t, (c1, d1)) \<Rightarrow> (t, (Some c1, d1))));
         raw = evaluate (fb_curve f) temp; clamped = clamped_new env raw DRY_MIN DRY_MAX;
         (a1, m) = decide a (as_f32 clamped) DRY_MIN DRY_MAX in
     ((a1, if json then dry_line_json sid n (wall (snd cd1)) (fb_index f) temp raw clamped m
           else dry_line_human n (fb_index f) temp raw clamped m), cd1))"

fun dry_tick ::
  "'d platform \<Rightarrow> ('d \<Rightarrow> nat) \<Rightarrow> string option \<Rightarrow> bool \<Rightarrow> session_id \<Rightarrow> nat \<Rightarrow> (fan_binding \<times> adapter) list
   \<Rightarrow> smc_connection option \<times> 'd \<Rightarrow> (adapter list \<times> string) \<times> (smc_connection option \<times> 'd)" where
  "dry_tick io wall env json sid n [] cd = (([], []), cd)"
| "dry_tick io wall env json sid n (fa # fas) cd =
    (let ((a, l), cd1) = dry_fan io wall env json sid n fa cd;
         ((as, ls), cd2) = dry_tick io wall env json sid n fas cd1 in ((a # as, l @ ls), cd2))"

text \<open>The pause after a tick: what is left of the poll interval, at least 10 ms.\<close>

definition pause_ms :: "nat \<Rightarrow> nat \<Rightarrow> nat" where
  "pause_ms poll elapsed = max (if elapsed \<le> poll then poll - elapsed else 10) 10"

text \<open>The first \<open>k\<close> ticks; with \<open>--once\<close> there is one tick and no pause.\<close>

fun dry_loop ::
  "'d platform \<Rightarrow> ('d \<Rightarrow> nat) \<Rightarrow> string option \<Rightarrow> bool \<Rightarrow> bool \<Rightarrow> session_id \<Rightarrow> nat \<Rightarrow> nat \<Rightarrow> nat \<Rightarrow> fan_binding list \<Rightarrow> adapter list
   \<Rightarrow> smc_connection option \<times> 'd \<Rightarrow> string \<times> (smc_connection option \<times> 'd)" where
  "dry_loop io wall env json once sid poll 0 n fs as cd = ([], cd)"
| "dry_loop io wall env json once sid poll (Suc k) n fs as cd =
    (let start = io_now_ms io (snd cd); ((as1, out), cd1) = dry_tick io wall env json sid (Suc n) (zip fs as) cd in
     if once then (out, cd1)
     else let cd2 = (fst cd1, io_sleep_ms io (pause_ms poll (io_now_ms io (snd cd1) - start)) (snd cd1));
              (out2, cd3) = dry_loop io wall env json once sid poll k (Suc n) fs as1 cd2 in (out @ out2, cd3))"

definition execute_dry_run ::
  "'d platform \<Rightarrow> ('d \<Rightarrow> nat) \<Rightarrow> string option \<Rightarrow> bool \<Rightarrow> bool \<Rightarrow> session_id \<Rightarrow> config \<Rightarrow> nat \<Rightarrow> 'd \<Rightarrow> string \<times> (smc_connection option \<times> 'd)" where
  "execute_dry_run io wall env json once sid cfg ticks d = (case smc_open io d of (r, d1) \<Rightarrow>
     dry_loop io wall env json once sid (unat (poll_interval_ms cfg)) ticks 0 (cfg_fans cfg)
       (map (\<lambda>_. adapter_new) (cfg_fans cfg)) (case r of Inr c \<Rightarrow> Some c | Inl _ \<Rightarrow> None, d1))"

section \<open>The commit loop\<close>

text \<open>\<open>Duration::as_secs_f32\<close> of a number of milliseconds.\<close>

definition secs_f32 :: "nat \<Rightarrow> f32" where
  "secs_f32 ms = f32_of_nat (ms div 1000) + divide (f32_of_nat (ms mod 1000 * 1000000)) (f32_of_nat 1000000000)"

definition NS_PER_MS :: nat where "NS_PER_MS = 1000000"

type_synonym run_fan = "fan_binding \<times> fan_state \<times> adapter"

definition tick_of :: "string option \<Rightarrow> fan_binding \<Rightarrow> f32 list \<Rightarrow> nat \<Rightarrow> nat \<Rightarrow> tick_input" where
  "tick_of env f vs start now =
     \<lparr> sensor_values = vs, sensor_dropouts = map dropout vs, fusion_mode = from_str_lossy (fb_fusion f),
       breakpoints = fb_curve f, alpha = fb_smoothing_alpha f, hyst_up = fb_hysteresis_up f,
       hyst_down = fb_hysteresis_down f, ramp_down_rpm_per_s = f32_of_word (fb_ramp_down_rpm_per_s f),
       panic_temp_c = fb_panic_temp_c f, panic_hold_s = fb_panic_hold_s f,
       actual_dt_secs = fmax (secs_f32 (now - start)) (lit 1 1000), tick_now = start * NS_PER_MS,
       safe_min_env = env \<rparr>"

text \<open>One fan of a tick. A failed commit is logged and the loop goes on; \<open>Auto\<close> writes nothing.\<close>

definition fan_tick :: "'d platform \<Rightarrow> string option \<Rightarrow> nat \<Rightarrow> run_fan \<Rightarrow> 'd ws \<Rightarrow> run_fan \<times> 'd ws" where
  "fan_tick io env start rf s = (case rf of (f, st, a) \<Rightarrow>
     let (vs, s1) = (case s of (w, d) \<Rightarrow> case read_sensors io (fb_sensors f) (ws_conn w, d) of
           (vs, (c, d1)) \<Rightarrow> (vs, (w\<lparr> ws_conn := c \<rparr>, d1)));
         (st1, target) = tick st (tick_of env f vs start (io_now_ms io (snd s1)));
         (a1, m) = decide a target (min_rpm st1) (max_rpm st1) in
     ((f, st1, a1), case m of
        ForcedMinimum \<Rightarrow> ignore (commit_set_fan io (fb_index f) (clamped_new env (min_rpm st1) (min_rpm st1) (max_rpm st1))) s1
      | Auto \<Rightarrow> s1))"

fun tick_fans :: "'d platform \<Rightarrow> string option \<Rightarrow> nat \<Rightarrow> run_fan list \<Rightarrow> 'd ws \<Rightarrow> run_fan list \<times> 'd ws" where
  "tick_fans io env start [] s = ([], s)"
| "tick_fans io env start (rf # rfs) s = (let (rf1, s1) = fan_tick io env start rf s;
     (rfs1, s2) = tick_fans io env start rfs s1 in (rf1 # rfs1, s2))"

definition run_tick :: "'d platform \<Rightarrow> string option \<Rightarrow> run_fan list \<Rightarrow> 'd ws \<Rightarrow> run_fan list \<times> 'd ws" where
  "run_tick io env rfs s = (case tick_fans io env (io_now_ms io (snd s)) rfs s of (rfs1, s1) \<Rightarrow> (rfs1, heartbeat io s1))"

text \<open>The actual speed, or the fan's minimum; and the hottest sensor, on the main connection.\<close>

definition seed_rpm :: "'d platform \<Rightarrow> u8 \<Rightarrow> f32 \<Rightarrow> 'd ws \<Rightarrow> f32 \<times> 'd ws" where
  "seed_rpm io i lo s = (case read_actual_rpm io i s of (Inr v, s1) \<Rightarrow> (v, s1) | (Inl _, s1) \<Rightarrow> (lo, s1))"

definition seed_temp :: "'d platform \<Rightarrow> fan_binding \<Rightarrow> 'd ws \<Rightarrow> f32 \<times> 'd ws" where
  "seed_temp io f s = (case s of (w, d) \<Rightarrow> case read_max_sensor_temp io f (ws_conn w, d) of
     (t, (c, d1)) \<Rightarrow> (t, (w\<lparr> ws_conn := c \<rparr>, d1)))"

text \<open>After a wake from sleep every fan is reseeded.\<close>

fun reseed :: "'d platform \<Rightarrow> run_fan list \<Rightarrow> 'd ws \<Rightarrow> run_fan list \<times> 'd ws" where
  "reseed io [] s = ([], s)"
| "reseed io ((f, st, a) # rfs) s = (let (actual, s1) = seed_rpm io (fb_index f) (min_rpm st) s;
     (temp, s2) = seed_temp io f s1; (rfs1, s3) = reseed io rfs s2 in
     ((f, reinit_bumpless st actual temp, a) # rfs1, s3))"

definition run_pause :: "'d platform \<Rightarrow> nat \<Rightarrow> nat \<Rightarrow> run_fan list \<Rightarrow> 'd ws \<Rightarrow> run_fan list \<times> 'd ws" where
  "run_pause io poll start rfs s = (let elapsed = io_now_ms io (snd s) - start;
     (rfs1, s1) = (if 2 * poll < elapsed then reseed io rfs s else (rfs, s)) in
     (rfs1, sleep_ms io (pause_ms poll elapsed) s1))"

fun commit_loop :: "'d platform \<Rightarrow> string option \<Rightarrow> nat \<Rightarrow> nat \<Rightarrow> run_fan list \<Rightarrow> 'd ws \<Rightarrow> run_fan list \<times> 'd ws" where
  "commit_loop io env poll 0 rfs s = (rfs, s)"
| "commit_loop io env poll (Suc k) rfs s = (let start = io_now_ms io (snd s); (rfs1, s1) = run_tick io env rfs s;
     (rfs2, s2) = run_pause io poll start rfs1 s1 in commit_loop io env poll k rfs2 s2)"

text \<open>The control states at the start; \<open>None\<close> when the machine has no fan of a configured index.\<close>

definition envelopes_of :: "write_session \<Rightarrow> fan_binding list \<Rightarrow> (f32 \<times> f32) list option" where
  "envelopes_of w fs = (let es = map (\<lambda>f. fan_envelope w (fb_index f)) fs in
     if None \<in> set es then None else Some (map (\<lambda>e. (fan_min (the e), fan_max (the e))) es))"

fun seed_fans :: "'d platform \<Rightarrow> (fan_binding \<times> f32 \<times> f32) list \<Rightarrow> 'd ws \<Rightarrow> run_fan list \<times> 'd ws" where
  "seed_fans io [] s = ([], s)"
| "seed_fans io ((f, lo, hi) # fs) s = (let (actual, s1) = seed_rpm io (fb_index f) lo s; (temp, s2) = seed_temp io f s1;
     (rfs, s3) = seed_fans io fs s2 in ((f, fan_new (fb_index f) lo hi actual temp, adapter_new) # rfs, s3))"

definition run_error_code :: "smc_error \<Rightarrow> int" where
  "run_error_code e = (case e of ConflictDetected _ _ \<Rightarrow> 5 | OpenFailed _ \<Rightarrow> 2 | ServiceNotFound \<Rightarrow> 2 | _ \<Rightarrow> 1)"

text \<open>
  How a run stands: ended with a code and the output of the process, or still in its loop after the
  given number of ticks.
\<close>

datatype 'd run_end = Ended int string 'd | Looping "run_fan list" "'d ws"
  | Dry_Looping string "smc_connection option" 'd

definition execute_commit ::
  "'d platform \<Rightarrow> 'd os \<Rightarrow> string option \<Rightarrow> bool \<Rightarrow> config \<Rightarrow> nat \<Rightarrow> process \<Rightarrow> 'd \<Rightarrow> 'd run_end" where
  "execute_commit io os env once cfg ticks p d = (case acquire io os p d of
     (Inl e, p1, d1) \<Rightarrow> Ended (run_error_code e) [] d1
   | (Inr w, p1, d1) \<Rightarrow> (case envelopes_of w (cfg_fans cfg) of None \<Rightarrow> Ended 1 [] d1
     | Some es \<Rightarrow> (case seed_fans io (zip (cfg_fans cfg) es) (w, d1) of (rfs, s) \<Rightarrow>
         if once then Ended 0 [] (drop_session io os (snd (run_tick io env rfs s)))
         else case commit_loop io env (unat (poll_interval_ms cfg)) ticks rfs s of (rfs1, s1) \<Rightarrow> Looping rfs1 s1)))"

definition dry_end :: "'d platform \<Rightarrow> bool \<Rightarrow> string \<times> (smc_connection option \<times> 'd) \<Rightarrow> 'd run_end" where
  "dry_end io once r = (case r of (out, c, d) \<Rightarrow> if \<not> once then Dry_Looping out c d
     else Ended 0 out (case c of None \<Rightarrow> d | Some c \<Rightarrow> snd (smc_close io (c, d))))"

text \<open>The command; the environment variable is read by the clamp.\<close>

definition run_execute ::
  "'d platform \<Rightarrow> 'd os \<Rightarrow> config_os \<Rightarrow> nat \<Rightarrow> string list \<Rightarrow> process \<Rightarrow> 'd \<Rightarrow> 'd run_end" where
  "run_execute io os files ticks args p d = (case parse_run run_defaults args of Inl n \<Rightarrow> Ended n [] d
   | Inr a \<Rightarrow> (case load_config files (ra_config a) of Inl e \<Rightarrow> Ended 1 [] d
     | Inr cfg \<Rightarrow> if validate cfg \<noteq> [] then Ended 1 [] d
         else let env = co_env files ''FAND_SAFE_MIN_RPM''; (entropy, d1) = io_entropy io 10 d;
                  sid = session_new (os_wall_ms os d) entropy in
           if ra_dry_run a
           then dry_end io (ra_once a) (execute_dry_run io (\<lambda>d. unat (os_wall_ms os d)) env (ra_json a) (ra_once a) sid cfg
             (if ra_once a then 1 else ticks) d1)
           else execute_commit io os env (ra_once a) cfg ticks p d1))"

end
