(* ===== verification/Run_Laws.thy ===== *)
theory Run_Laws
  imports Cli_Run
begin

text \<open>
  The daemon's loop as a whole: on every platform it only reads and engages, it never writes a mode
  back to automatic, and it never changes the configuration or the envelopes of the fans.
\<close>

context engage_guard
begin

lemma max_sensor_keeps: "K s \<Longrightarrow> K (snd (max_sensor io m xs s))"
proof (induction xs arbitrary: m s)
  case (Cons x xs)
  have k: "K (snd (read_f32 io (fourcc (sensor_name x)) s))" by (rule keepsD [OF read_f32_keeps Cons.prems])
  obtain r s1 where r: "read_f32 io (fourcc (sensor_name x)) s = (r, s1)" by (rule prod.exhaust)
  then have "K s1" using k by simp
  then show ?case using Cons.IH Cons.prems by (cases r) (simp_all add: r)
qed simp

lemma read_max_keeps: "K s \<Longrightarrow> K (snd (read_max_sensor_temp io f s))"
  using max_sensor_keeps [of s f32_NEG_INFINITY "fb_sensors f"] by (simp add: read_max_sensor_temp_def split_beta)

lemma read_sensors_keeps: "K s \<Longrightarrow> K (snd (read_sensors io xs s))"
proof (induction xs arbitrary: s)
  case (Cons x xs)
  have k: "K (snd (read_f32 io (fourcc (sensor_name x)) s))" by (rule keepsD [OF read_f32_keeps Cons.prems])
  obtain r s1 where r: "read_f32 io (fourcc (sensor_name x)) s = (r, s1)" by (rule prod.exhaust)
  then have "K s1" using k by simp
  then show ?case using Cons.IH Cons.prems by (cases r) (simp_all add: r Let_def split_beta)
qed simp

lemma seed_rpm_keeps: "KW s \<Longrightarrow> KW (snd (seed_rpm io i lo s))"
  using keepsD [OF read_actual_keeps, of s i] by (auto simp: seed_rpm_def split: prod.split sum.split)

lemma seed_temp_keeps: "KW s \<Longrightarrow> KW (snd (seed_temp io f s))"
  using read_max_keeps [of "(ws_conn (fst s), snd s)" f] by (auto simp: seed_temp_def KW_def split: prod.splits)

lemma fan_tick_keeps:
  assumes s: "KW s"
  shows "KW (snd (fan_tick io env start rf s))"
proof -
  obtain f st a where rf: "rf = (f, st, a)" by (cases rf)
  obtain w d where wd: "s = (w, d)" by force
  obtain vs c d1 where rd: "read_sensors io (fb_sensors f) (ws_conn w, d) = (vs, (c, d1))" by (metis prod_cases3)
  have "KW (w\<lparr> ws_conn := c \<rparr>, d1)"
    using read_sensors_keeps [of "(ws_conn w, d)" "fb_sensors f"] s by (simp add: rd KW_def wd)
  then have "KW (ignore (commit_set_fan io i t) (w\<lparr> ws_conn := c \<rparr>, d1))" for i t
    by (rule keeps_ignore [OF commit_set_fan_keeps])
  then show ?thesis using \<open>KW (w\<lparr> ws_conn := c \<rparr>, d1)\<close>
    by (simp add: fan_tick_def rf wd rd Let_def split_beta split: decision.split)
qed

lemma tick_fans_keeps: "KW s \<Longrightarrow> KW (snd (tick_fans io env start rfs s))"
proof (induction rfs arbitrary: s)
  case (Cons rf rfs)
  then show ?case using Cons.IH [OF fan_tick_keeps [OF Cons.prems]] by (simp add: Let_def split_beta)
qed simp

lemma run_tick_keeps: "KW s \<Longrightarrow> KW (snd (run_tick io env rfs s))"
  using tick_fans_keeps [of s env "io_now_ms io (snd s)" rfs] heartbeat_keeps by (simp add: run_tick_def split_beta)

lemma reseed_keeps: "KW s \<Longrightarrow> KW (snd (reseed io rfs s))"
proof (induction rfs arbitrary: s)
  case (Cons rf rfs)
  obtain f st a where rf: "rf = (f, st, a)" by (cases rf)
  have "KW (snd (seed_temp io f (snd (seed_rpm io (fb_index f) (min_rpm st) s))))"
    by (intro seed_temp_keeps seed_rpm_keeps Cons.prems)
  from Cons.IH [OF this] show ?case by (simp add: rf Let_def split_beta)
qed simp

lemma seed_fans_keeps: "KW s \<Longrightarrow> KW (snd (seed_fans io fs s))"
proof (induction fs arbitrary: s)
  case (Cons x fs)
  obtain f lo hi where x: "x = (f, lo, hi)" by (cases x)
  have "KW (snd (seed_temp io f (snd (seed_rpm io (fb_index f) lo s))))"
    by (intro seed_temp_keeps seed_rpm_keeps Cons.prems)
  from Cons.IH [OF this] show ?case by (simp add: x Let_def split_beta)
qed simp

lemma run_pause_keeps: "KW s \<Longrightarrow> KW (snd (run_pause io poll start rfs s))"
  using reseed_keeps [of s rfs] by (auto simp: run_pause_def Let_def sleep_ms_def KW_def sleep_keeps split_beta)

lemma commit_loop_keeps: "KW s \<Longrightarrow> KW (snd (commit_loop io env poll n rfs s))"
proof (induction n arbitrary: rfs s)
  case (Suc n)
  have "KW (snd (run_pause io poll start (fst (run_tick io env rfs s)) (snd (run_tick io env rfs s))))" for start
    by (intro run_pause_keeps run_tick_keeps Suc.prems)
  from Suc.IH [OF this] show ?case by (simp add: Let_def split_beta)
qed simp

end

section \<open>What the loop leaves alone\<close>

definition run_frame :: "run_fan \<Rightarrow> fan_binding \<times> f32 \<times> f32" where
  "run_frame rf = (case rf of (f, st, a) \<Rightarrow> (f, min_rpm st, max_rpm st))"

lemma fan_tick_frame: "run_frame (fst (fan_tick io env start rf s)) = run_frame rf"
  by (cases rf) (simp add: fan_tick_def run_frame_def split_beta Let_def frame_simps)

lemma tick_fans_frame: "map run_frame (fst (tick_fans io env start rfs s)) = map run_frame rfs"
  by (induction rfs arbitrary: s) (simp_all add: Let_def split_beta fan_tick_frame)

lemma reseed_frame: "map run_frame (fst (reseed io rfs s)) = map run_frame rfs"
proof (induction rfs arbitrary: s)
  case (Cons rf rfs)
  obtain f st a where "rf = (f, st, a)" by (cases rf)
  then show ?case
    using Cons.IH [of "snd (seed_temp io f (snd (seed_rpm io (fb_index f) (min_rpm st) s)))"]
    by (simp add: Let_def split_beta run_frame_def reinit_bumpless_def)
qed simp

lemma run_tick_frame: "map run_frame (fst (run_tick io env rfs s)) = map run_frame rfs"
  using tick_fans_frame [of io env "io_now_ms io (snd s)" rfs s] by (simp add: run_tick_def split_beta)

lemma run_pause_frame: "map run_frame (fst (run_pause io poll start rfs s)) = map run_frame rfs"
  by (simp add: run_pause_def Let_def split_beta reseed_frame)

lemma commit_loop_frame: "map run_frame (fst (commit_loop io env poll n rfs s)) = map run_frame rfs"
  by (induction n arbitrary: rfs s) (simp_all add: Let_def split_beta run_pause_frame run_tick_frame)

text \<open>The pause is at least 10 ms, and fills the poll interval.\<close>

lemma pause_fills: "10 \<le> pause_ms poll elapsed \<and> poll \<le> elapsed + pause_ms poll elapsed"
  by (auto simp: pause_ms_def)

text \<open>
  The wake detection sees only the tick itself: after a tick that took at most two poll intervals the
  controllers go on as they were, however long the sleep of the pause lasts.
\<close>

lemma wake_in_pause_unseen:
  assumes "io_now_ms io (snd (snd (run_tick io env rfs s))) \<le> io_now_ms io (snd s) + 2 * poll"
  shows "fst (commit_loop io env poll 1 rfs s) = fst (run_tick io env rfs s)"
  using assms by (auto simp: run_pause_def Let_def split_beta)

text \<open>A reading counts as a dropout exactly when it is not plausible.\<close>

lemma dropout_iff: "dropout v \<longleftrightarrow> \<not> plausible v"
proof (cases "is_finite v")
  case True
  have "is_finite (lit 0 1)" "is_finite (lit 150 1)" by (simp_all add: f32_eval)
  then show ?thesis using True by (auto simp: dropout_def plausible_def lt_fin le_fin)
qed (simp add: dropout_def plausible_def)

text \<open>The hottest sensor is a plausible temperature, or the placeholder.\<close>

lemma max_sensor_cases: "m = f32_NEG_INFINITY \<or> plausible m \<Longrightarrow>
    fst (max_sensor io m xs s) = f32_NEG_INFINITY \<or> plausible (fst (max_sensor io m xs s))"
proof (induction xs arbitrary: m s)
  case (Cons x xs)
  then show ?case by (auto split: prod.split sum.split)
qed simp

end
