(* ===== verification/Teardown_Race.thy ===== *)
theory Teardown_Race
  imports Teardown
begin

text \<open>
  The main thread and the signal thread race for the flag \<open>release_in_progress\<close>, each with a
  connection of its own to the one device. A step is the compare-exchange of one thread or one kernel
  write, so every interleaving is a run of the relation. The signal thread ends the process when it has
  released, and also when it loses the race; the main thread that loses just returns. With \<open>busy\<close> the
  main thread may also still be writing mode 1, as the commit loop does. The verified write of \<open>Ftst\<close> that
  the main thread makes between its fans and its last write has the same value and is left out.
\<close>

section \<open>The steps\<close>

datatype actor = MainThread | SignalThread

datatype phase = Ready | Releasing "u8 list" | Finished | Lost

record 'd race =
  rc_flag :: bool
  rc_exited :: bool
  rc_phase :: "actor \<Rightarrow> phase"
  rc_conn :: "actor \<Rightarrow> smc_connection"
  rc_dev :: 'd

definition race_start :: "smc_connection \<Rightarrow> smc_connection \<Rightarrow> 'd \<Rightarrow> 'd race" where
  "race_start cm cs d = \<lparr> rc_flag = False, rc_exited = False, rc_phase = (\<lambda>_. Ready),
     rc_conn = (\<lambda>a. case a of MainThread \<Rightarrow> cm | SignalThread \<Rightarrow> cs), rc_dev = d \<rparr>"

text \<open>Thread \<open>a\<close> runs an operation on its connection and moves to phase \<open>p\<close>.\<close>

definition act :: "actor \<Rightarrow> ('d smc \<Rightarrow> 'd smc) \<Rightarrow> phase \<Rightarrow> 'd race \<Rightarrow> 'd race" where
  "act a f p s = (case f (rc_conn s a, rc_dev s) of (c, d) \<Rightarrow>
     s\<lparr> rc_phase := (rc_phase s)(a := p), rc_conn := (rc_conn s)(a := c), rc_dev := d \<rparr>)"

inductive race_step :: "'d platform \<Rightarrow> u8 list \<Rightarrow> bool \<Rightarrow> 'd race \<Rightarrow> 'd race \<Rightarrow> bool"
  for io fans busy where
  win: "\<not> rc_exited s \<Longrightarrow> rc_phase s a = Ready \<Longrightarrow> \<not> rc_flag s \<Longrightarrow>
    race_step io fans busy s (s\<lparr> rc_flag := True, rc_phase := (rc_phase s)(a := Releasing fans) \<rparr>)"
| lose: "\<not> rc_exited s \<Longrightarrow> rc_phase s a = Ready \<Longrightarrow> rc_flag s \<Longrightarrow>
    race_step io fans busy s (s\<lparr> rc_phase := (rc_phase s)(a := Lost), rc_exited := (a = SignalThread) \<rparr>)"
| auto: "\<not> rc_exited s \<Longrightarrow> rc_phase s a = Releasing (i # is) \<Longrightarrow>
    race_step io fans busy s (act a (ignore (force_write_auto_mode io i)) (Releasing is) s)"
| clear: "\<not> rc_exited s \<Longrightarrow> rc_phase s a = Releasing [] \<Longrightarrow>
    race_step io fans busy s ((act a (ignore (force_write_ftst_zero io)) Finished s)\<lparr> rc_exited := (a = SignalThread) \<rparr>)"
| commit: "\<not> rc_exited s \<Longrightarrow> busy \<Longrightarrow> rc_phase s MainThread = Ready \<Longrightarrow> i \<in> set fans \<Longrightarrow>
    race_step io fans busy s (act MainThread (ignore (write_u8 io (FanMode i) 1)) Ready s)"

inductive race_reach :: "'d platform \<Rightarrow> u8 list \<Rightarrow> bool \<Rightarrow> 'd race \<Rightarrow> 'd race \<Rightarrow> bool"
  for io fans busy where
  start: "race_reach io fans busy s s"
| step: "race_reach io fans busy s t \<Longrightarrow> race_step io fans busy t u \<Longrightarrow> race_reach io fans busy s u"

inductive_cases race_stepE: "race_step io fans busy s t"

lemma act_simps [simp]:
  "rc_flag (act a f p s) = rc_flag s" "rc_exited (act a f p s) = rc_exited s" "rc_phase (act a f p s) = (rc_phase s)(a := p)"
  "rc_conn (act a f p s) = (rc_conn s)(a := fst (f (rc_conn s a, rc_dev s)))"
  "rc_dev (act a f p s) = snd (f (rc_conn s a, rc_dev s))"
  by (simp_all add: act_def split: prod.split)

section \<open>Exactly one thread releases\<close>

definition releasing :: "'d race \<Rightarrow> actor \<Rightarrow> bool" where
  "releasing s a \<longleftrightarrow> rc_phase s a \<noteq> Ready \<and> rc_phase s a \<noteq> Lost"

text \<open>The flag is up exactly when one thread, and only one, has entered the release.\<close>

definition exclusive :: "'d race \<Rightarrow> bool" where
  "exclusive s \<longleftrightarrow> (if rc_flag s then \<exists>!a. releasing s a else \<forall>a. rc_phase s a = Ready)"

lemma exclusive_start: "exclusive (race_start cm cs d)"
  by (simp add: exclusive_def race_start_def)

lemma exclusive_step: "race_step io fans busy s t \<Longrightarrow> exclusive s \<Longrightarrow> exclusive t"
proof (induction rule: race_step.induct)
  case (auto s a i "is")
  then have "releasing s = releasing (act a (ignore (force_write_auto_mode io i)) (Releasing is) s)"
    by (auto simp: releasing_def fun_eq_iff)
  then show ?case using auto by (auto simp: exclusive_def split: if_splits)
next
  case (clear s a)
  then have "releasing s = releasing ((act a (ignore (force_write_ftst_zero io)) Finished s)\<lparr> rc_exited := (a = SignalThread) \<rparr>)"
    by (auto simp: releasing_def fun_eq_iff)
  then show ?case using clear by (auto simp: exclusive_def split: if_splits)
next
  case (commit s i)
  then have "rc_phase (act MainThread (ignore (write_u8 io (FanMode i) 1)) Ready s) = rc_phase s"
    by (simp add: fun_upd_idem)
  then show ?case using commit(5) unfolding exclusive_def releasing_def by simp
next
  case (lose s a)
  then have "releasing s = releasing (s\<lparr> rc_phase := (rc_phase s)(a := Lost), rc_exited := (a = SignalThread) \<rparr>)"
    by (auto simp: releasing_def fun_eq_iff)
  then show ?case using lose by (auto simp: exclusive_def)
qed (auto simp: exclusive_def releasing_def split: if_splits)

lemma exclusive_reach: "race_reach io fans busy s t \<Longrightarrow> exclusive s \<Longrightarrow> exclusive t"
  by (induction rule: race_reach.induct) (auto intro: exclusive_step)

text \<open>
  A run that cannot go on has released, or the signal thread has ended the process by losing. The
  process ends in no other way.
\<close>

lemma stuck_finished:
  assumes e: "exclusive t" and x: "rc_exited t \<Longrightarrow> rc_phase t SignalThread \<in> {Finished, Lost}"
    and s: "\<And>u. \<not> race_step io fans busy t u"
  shows "(\<exists>a. rc_phase t a = Finished) \<or> rc_phase t SignalThread = Lost"
proof (cases "rc_exited t")
  case False
  have n: "rc_phase t a \<noteq> Ready" for a using False s race_step.win [of t a] race_step.lose [of t a] by metis
  then have "rc_flag t" using e by (auto simp: exclusive_def split: if_splits)
  then obtain a where "releasing t a" using e by (auto simp: exclusive_def)
  then show ?thesis
  proof (cases "rc_phase t a")
    case (Releasing rest)
    then show ?thesis
      using False s race_step.auto [of t a _ _ io fans busy] race_step.clear [of t a io fans busy] by (cases rest) blast+
  qed (use n [of a] in \<open>auto simp: releasing_def\<close>)
qed (use x in auto)

lemma exited_reach:
  assumes "race_reach io fans busy (race_start cm cs d) t" "rc_exited t"
  shows "rc_phase t SignalThread \<in> {Finished, Lost}"
  using assms(1)
proof (cases rule: race_reach.cases)
  case (step s)
  from step(2) show ?thesis by (rule race_stepE) (use assms(2) in \<open>auto split: if_splits\<close>)
qed (use assms(2) in \<open>simp add: race_start_def\<close>)

text \<open>So a signal in the middle of the main thread's teardown can end the process before any fan is released.\<close>

lemma interrupted_release:
  "\<exists>t. race_reach io fans busy (race_start cm cs d) t \<and> rc_flag t \<and> rc_exited t \<and> rc_dev t = d
    \<and> (\<forall>u. \<not> race_step io fans busy t u)"
proof -
  let ?s = "race_start cm cs d"
  let ?s1 = "?s\<lparr> rc_flag := True, rc_phase := (rc_phase ?s)(MainThread := Releasing fans) \<rparr>"
  let ?t = "?s1\<lparr> rc_phase := (rc_phase ?s1)(SignalThread := Lost), rc_exited := (SignalThread = SignalThread) \<rparr>"
  have "race_step io fans busy ?s ?s1" by (rule race_step.win) (simp_all add: race_start_def)
  moreover have "race_step io fans busy ?s1 ?t" by (rule race_step.lose) (simp_all add: race_start_def)
  ultimately have "race_reach io fans busy ?s ?t" by (blast intro: race_reach.intros)
  moreover have "\<not> race_step io fans busy ?t u" for u by (auto elim: race_stepE)
  ultimately show ?thesis by (intro exI [of _ ?t]) (simp add: race_start_def)
qed

section \<open>The release completes on the device\<close>

text \<open>
  Without a busy main thread the registers follow the one thread that releases: untouched before the
  flag is up, and the prefix of the fans it has handled after.
\<close>

context smc_device
begin

definition on_track :: "u8 list \<Rightarrow> u32 set \<Rightarrow> (u32 \<Rightarrow> (u32 \<times> u8 list) option) \<Rightarrow> 'd race \<Rightarrow> phase \<Rightarrow> bool" where
  "on_track fans Ks r s p = (case p of
     Releasing rest \<Rightarrow> (\<exists>done. fans = done @ rest \<and> reg (rc_dev s) = autos done r)
       \<and> (\<forall>b. ready Ks (rc_conn s b) (rc_dev s))
   | Finished \<Rightarrow> reg (rc_dev s) = ftst_cleared (autos fans r)
   | _ \<Rightarrow> reg (rc_dev s) = r \<and> (\<forall>b. ready Ks (rc_conn s b) (rc_dev s)))"

definition tracked :: "u8 list \<Rightarrow> u32 set \<Rightarrow> (u32 \<Rightarrow> (u32 \<times> u8 list) option) \<Rightarrow> 'd race \<Rightarrow> bool" where
  "tracked fans Ks r s \<longleftrightarrow> (if rc_flag s
     then \<exists>a. releasing s a \<and> (\<forall>b. b \<noteq> a \<longrightarrow> \<not> releasing s b) \<and> on_track fans Ks r s (rc_phase s a)
     else (\<forall>a. rc_phase s a = Ready) \<and> on_track fans Ks r s Ready)"

lemma on_track_cong:
  "rc_dev t = rc_dev s \<Longrightarrow> rc_conn t = rc_conn s \<Longrightarrow> on_track fans Ks r t p = on_track fans Ks r s p"
  by (simp add: on_track_def split: phase.split)

lemma holds_modes_autos: "holds_modes fans r \<Longrightarrow> holds_modes fans (autos is r)"
  by (induction "is" arbitrary: r) (simp_all add: holds_modes_upd)

lemma tracked_step:
  assumes "race_step io fans False s t" "tracked fans Ks r s"
    and k: "mode_keys fans \<subseteq> Ks" and f: "ftst_ok Ks r" and h: "holds_modes fans r"
  shows "tracked fans Ks r t"
  using assms(1,2)
proof (induction rule: race_step.induct)
  case (win s a)
  then show ?case
    unfolding tracked_def by (auto simp: releasing_def on_track_def intro!: exI [of _ a])
next
  case (lose s a)
  let ?t = "s\<lparr> rc_phase := (rc_phase s)(a := Lost), rc_exited := (a = SignalThread) \<rparr>"
  obtain b where b: "releasing s b" "\<forall>c. c \<noteq> b \<longrightarrow> \<not> releasing s c" "on_track fans Ks r s (rc_phase s b)"
    using lose by (auto simp: tracked_def)
  have "a \<noteq> b" using lose b(1) by (auto simp: releasing_def)
  then show ?case
    using lose b on_track_cong [of ?t s fans Ks r "rc_phase s b"]
    by (auto simp: tracked_def releasing_def intro!: exI [of _ b])
next
  case (auto s a i "is")
  have fl: "rc_flag s" using auto by (auto simp: tracked_def split: if_splits)
  then obtain b where b: "releasing s b" "\<forall>c. c \<noteq> b \<longrightarrow> \<not> releasing s c" "on_track fans Ks r s (rc_phase s b)"
    using auto by (auto simp: tracked_def)
  have "releasing s a" using auto(2) by (simp add: releasing_def)
  then have [simp]: "b = a" using b(2) by metis
  obtain dn where d: "fans = dn @ i # is" "reg (rc_dev s) = autos dn r" "\<forall>b. ready Ks (rc_conn s b) (rc_dev s)"
    using b(3) auto(2) by (auto simp: on_track_def)
  let ?f = "ignore (force_write_auto_mode io i)"
  let ?k = "key_fourcc (FanMode i)"
  have ik: "?k \<in> Ks" using k d(1) by (auto simp: mode_keys_def)
  obtain x where x: "autos dn r ?k = Some (TYPE_UI8, [x])"
    using holds_modes_autos [OF h, of dn] d(1) by (auto simp: holds_modes_def)
  have "at_rest Ks (autos dn r) (rc_conn s a, rc_dev s)" using d by (simp add: at_rest_def)
  from doesD [OF write_u8_rest [where r = "autos dn r", OF ik x mode_type(1), of 0] this]
  have w: "reg (snd (?f (rc_conn s a, rc_dev s))) = autos (dn @ [i]) r"
    "ready Ks (fst (?f (rc_conn s a, rc_dev s))) (snd (?f (rc_conn s a, rc_dev s)))"
    by (auto simp: ignore_def force_write_auto_mode_def at_rest_def autos_append)
  have o: "ready Ks (rc_conn s c) (snd (?f (rc_conn s a, rc_dev s)))" for c
  proof (rule ready_fills [OF d(3) [rule_format] ik _ fills_refl])
    show "reg (rc_dev s) ?k = Some (TYPE_UI8, [x])" using d(2) x by simp
    show "reg (snd (?f (rc_conn s a, rc_dev s))) = reg (rc_dev s)
        \<or> (\<exists>ws. length ws = length [x] \<and> reg (snd (?f (rc_conn s a, rc_dev s))) = (reg (rc_dev s))(?k \<mapsto> (TYPE_UI8, ws)))"
      using w(1) d(2) by (intro disjI2 exI [of _ "[0]"]) (simp add: autos_append)
  qed
  have "on_track fans Ks r (act a ?f (Releasing is) s) (Releasing is)"
    using d(1) w o by (auto simp: on_track_def intro!: exI [of _ "dn @ [i]"])
  then show ?case using fl b(2) by (auto simp: tracked_def releasing_def intro!: exI [of _ a])
next
  case (clear s a)
  have fl: "rc_flag s" using clear by (auto simp: tracked_def split: if_splits)
  then obtain b where b: "releasing s b" "\<forall>c. c \<noteq> b \<longrightarrow> \<not> releasing s c" "on_track fans Ks r s (rc_phase s b)"
    using clear by (auto simp: tracked_def)
  have "releasing s a" using clear(2) by (simp add: releasing_def)
  then have [simp]: "b = a" using b(2) by metis
  have d: "at_rest Ks (autos fans r) (rc_conn s a, rc_dev s)"
    using b(3) clear(2) by (auto simp: on_track_def at_rest_def)
  have "on_track fans Ks r ((act a (ignore (force_write_ftst_zero io)) Finished s)\<lparr> rc_exited := (a = SignalThread) \<rparr>) Finished"
    using ftst_rest [OF _ d] f by (simp add: on_track_def ftst_ok_autos)
  then show ?case using fl b(2) by (auto simp: tracked_def releasing_def intro!: exI [of _ a])
qed simp

lemma tracked_reach:
  assumes "race_reach io fans False s t" "tracked fans Ks r s"
    "mode_keys fans \<subseteq> Ks" "ftst_ok Ks r" "holds_modes fans r"
  shows "tracked fans Ks r t"
  using assms by (induction rule: race_reach.induct) (auto intro: tracked_step)

lemma finished_registers:
  assumes "race_reach io fans False (race_start cm cs d) t" "rc_phase t a = Finished"
    "ready Ks cm d" "ready Ks cs d" "mode_keys fans \<subseteq> Ks" "ftst_ok Ks (reg d)" "holds_modes fans (reg d)"
  shows "reg (rc_dev t) = ftst_cleared (autos fans (reg d))"
proof -
  have "tracked fans Ks (reg d) (race_start cm cs d)"
    using assms(3,4) by (auto simp: tracked_def race_start_def on_track_def split: actor.split)
  then have t: "tracked fans Ks (reg d) t" using assms tracked_reach by blast
  have a: "releasing t a" using assms(2) by (simp add: releasing_def)
  have "rc_flag t" using t assms(2) by (auto simp: tracked_def split: if_splits)
  then obtain b where "releasing t b" "\<forall>c. c \<noteq> b \<longrightarrow> \<not> releasing t c" "on_track fans Ks (reg d) t (rc_phase t b)"
    using t by (auto simp: tracked_def)
  moreover then have "b = a" using a by metis
  ultimately show ?thesis using assms(2) by (simp add: on_track_def)
qed

end

end
