(* ===== verification/Session_Properties.thy ===== *)
theory Session_Properties
  imports Run_Laws One_Fan Teardown_Race
begin

text \<open>
  The properties of a write session: what it reads, which writes it can issue, what it leaves behind,
  and how its teardown and its watchdog behave.
\<close>

declare key_fourcc.simps [simp del]

section \<open>Enumeration\<close>



section \<open>Which writes reach the controller\<close>

text \<open>The operations of a session.\<close>

datatype session_op = OpCommit u8 clamped_rpm | OpSelftest u8 | OpHeartbeat | OpTeardown

fun run_op :: "'d platform \<Rightarrow> 'd ws \<Rightarrow> session_op \<Rightarrow> 'd ws" where
  "run_op io s (OpCommit i target) = snd (commit_set_fan io i target s)"
| "run_op io s (OpSelftest iterations) = snd (run_selftest io iterations s)"
| "run_op io s OpHeartbeat = heartbeat io s"
| "run_op io s OpTeardown = teardown io s"

lemma run_ops_log:
  "spied_modes.KW s \<Longrightarrow> spied_modes.KW (foldl (run_op (spy io)) s ops)"
proof (induction ops arbitrary: s)
  case (Cons x ops)
  have "spied_modes.KW (run_op (spy io) s x)"
    by (cases x) (simp_all add: Cons.prems keepsD [OF spied_modes.commit_set_fan_keeps]
        keepsD [OF spied_modes.run_selftest_keeps] spied_modes.heartbeat_keeps spied_modes.teardown_keeps)
  then show ?case using Cons.IH by simp
qed simp

text \<open>C3. Whatever the device answers and whatever the state of the session, every sequence of commits,
  self-tests, heartbeats and teardowns sends only whitelisted writes: the byte 0 or 1 to the mode key
  of a fan or to \<open>Ftst\<close>, nothing else.
\<close>

theorem session_writes_whitelisted:
  "log_ok whitelisted (snd (foldl (run_op (spy io)) (w, (d, [])) ops))"
  using run_ops_log [of "(w, (d, []))" io ops] by (simp add: spied_modes.KW_def log_ok_def writes_def)

text \<open>C12. The tick loop of \<open>fand run\<close> only ever engages: however many ticks pass, whatever the sensors and
  the device say, every write it sends carries the byte 1. So once the adapter has decided on forced
  minimum, a later decision for automatic control does not reach the controller; the mode stays forced
  until the process ends.
\<close>

theorem daemon_never_releases:
  "log_ok engaging (snd (snd (commit_loop (spy io) env poll ticks rfs (w, (d, [])))))"
  using spied_engage.commit_loop_keeps [of "(w, (d, []))" io env poll ticks rfs]
  by (simp add: spied_engage.KW_def log_ok_def writes_def)

section \<open>The life of a session\<close>

text \<open>C1. A session acquired on a free host with \<open>n\<close> fans, then any sequence of commits, then dropped: after
  the commits the registers are those that the accepted commits set, and after the drop every fan
  is in automatic mode, \<open>Ftst\<close> is cleared, every other register is as the session found it, and the
  lock is free.
\<close>

theorem session_lifecycle:
  assumes h: "host io reg os holder content" and m: "machine_ok (reg d) nkeys n fs" "holder d = None"
    and a: "acquire io os p d = (Inr w, p', d1)" and c: "commits io cs (w, d1) = (w2, d2)"
  shows "reg d2 = foldl (\<lambda>r c. commit_regs (found_fans n fs) c r) (reg d) cs
    \<and> reg (drop_session io os (w2, d2)) = ftst_cleared (autos (fan_indices n) (reg d))
    \<and> holder (drop_session io os (w2, d2)) = None"
  using host.session_life [OF h m a c] by simp

theorem session_lifecycle_witness:
  "\<forall>p. \<exists>w p' d1 w2 d2. acquire host_io (host_os 7) p one_fan_host = (Inr w, p', d1)
    \<and> commits host_io [(0, clamped_new None (lit 1200 1) (lit 1200 1) (lit 5000 1))] (w, d1) = (w2, d2)
    \<and> regfile_reg (fst (drop_session host_io (host_os 7) (w2, d2))) = ftst_cleared (autos (fan_indices 1) one_fan)"
proof
  fix p
  obtain w p' d1 where a: "acquire host_io (host_os 7) p one_fan_host = (Inr w, p', d1)" using one_fan_acquires by blast
  obtain w2 d2 where c: "commits host_io [(0, clamped_new None (lit 1200 1) (lit 1200 1) (lit 5000 1))] (w, d1) = (w2, d2)"
    by (meson prod.exhaust)
  have "machine_ok (regfile_reg (fst one_fan_host)) 100 1 one_fan_regs" "lt_holder (snd one_fan_host) = None"
    by (simp_all add: one_fan_host_def one_fan_reg one_fan_machine)
  from session_lifecycle [OF paired.host_axioms this a c]
  have "regfile_reg (fst (drop_session host_io (host_os 7) (w2, d2))) = ftst_cleared (autos (fan_indices 1) one_fan)"
    by (simp add: one_fan_host_def one_fan_reg)
  then show "\<exists>w p' d1 w2 d2. acquire host_io (host_os 7) p one_fan_host = (Inr w, p', d1)
    \<and> commits host_io [(0, clamped_new None (lit 1200 1) (lit 1200 1) (lit 5000 1))] (w, d1) = (w2, d2)
    \<and> regfile_reg (fst (drop_session host_io (host_os 7) (w2, d2))) = ftst_cleared (autos (fan_indices 1) one_fan)"
    using a c by blast
qed

text \<open>C19. While another process holds the lock, an acquisition fails with the lock's error, installs
  nothing in the process, and leaves the holder and every register as they were.
\<close>

theorem second_session_refused:
  assumes h: "host io reg os holder content" and held: "holder d = Some other"
  shows "\<exists>e d'. acquire io os p d = (Inl (flock_error_to_smc_error e), p, d') \<and> holder d' = holder d \<and> reg d' = reg d"
  by (rule host.acquire_conflict [OF h held])

theorem second_session_refused_witness:
  "\<forall>p. \<exists>e d'. acquire host_io (host_os 7) p (one_fan, (snd one_fan_host)\<lparr> lt_holder := Some 3 \<rparr>) = (Inl (flock_error_to_smc_error e), p, d')
    \<and> lt_holder (snd d') = Some 3 \<and> regfile_reg (fst d') = one_fan"
proof -
  have "lt_holder (snd (one_fan, (snd one_fan_host)\<lparr> lt_holder := Some 3 \<rparr>)) = Some 3" by simp
  from second_session_refused [OF paired.host_axioms this] show ?thesis by (simp add: one_fan_reg)
qed

text \<open>C11. The teardown runs once: repeating it changes nothing more, not even the outside world, and it
  leaves the connection closed, so the drop after an explicit teardown cannot write again.
\<close>

theorem teardown_idempotent:
  "teardown io (teardown io s) = teardown io s \<and> ws_flag (fst (teardown io s))"
  by (simp add: teardown_once teardown_flag)

section \<open>Two threads and a watchdog\<close>



section \<open>The watchdog\<close>

text \<open>C17. The watchdog raises its signal at the first wake-up that finds the last heartbeat at least four
  seconds old, and at no other, provided no earlier wake-up found the session stopped or released; in
  particular a stalled session is always noticed at the next wake-up.
\<close>

theorem watchdog_fires_iff_stalled:
  "watchdog_loop 0 ws = Raised m \<longleftrightarrow> (\<exists>us w vs. ws = us @ w # vs \<and> m = length us
     \<and> list_all (\<lambda>u. \<not> w_stop u \<and> \<not> w_release u \<and> unat (w_now u) < unat (w_last u) + 4000000000) us
     \<and> \<not> w_stop w \<and> \<not> w_release w \<and> unat (w_last w) + 4000000000 \<le> unat (w_now w))"
  unfolding watchdog_loop_Raised overdue_iff ends_def by (simp add: not_le conj_assoc)

end
