(* ===== verification/Config_Laws.thy ===== *)
theory Config_Laws
  imports Config_Load Curve
begin

text \<open>
  What a loaded configuration means for the curve: validation asks for strictly rising temperatures,
  and between 1 and \<open>2^64\<close> degrees two different binary32 numbers are at least \<open>f32::EPSILON\<close> apart, so
  an accepted curve is one that \<open>evaluate\<close> interpolates.
\<close>

lemma zero_one_lit: "lit 0 1 \<le> lit 1 1"
  by (simp add: f32_eval)

lemma grid: "rep k \<Longrightarrow> 2 ^ 149 \<le> k \<Longrightarrow> 2 ^ 126 dvd k"
proof -
  assume k: "rep k" "2 ^ 149 \<le> k"
  have "150 \<le> bitlen k" using k(2) bitlen_le_iff [of k 149] by simp
  then have "(2 :: nat) ^ 126 dvd 2 ^ (bitlen k - 24)" by (intro le_imp_power_dvd) simp
  then show ?thesis using k(1) dvd_trans by (auto simp: rep_def)
qed

lemma fv_grid: "is_finite x \<Longrightarrow> lit 1 1 \<le> x \<Longrightarrow> 2 ^ 126 dvd fv x \<and> 2 ^ 149 \<le> fv x"
proof -
  assume x: "is_finite x" "lit 1 1 \<le> x"
  obtain s k where v: "rep k" "fv x = signed s k" using x(1) by (rule finiteE)
  have "2 ^ 149 \<le> fv x" using x lits by (simp add: le_fin)
  then have k: "fv x = int k" "2 ^ 149 \<le> k" using v(2) by (auto simp: signed_def split: if_splits)
  then have "2 ^ 126 dvd k" using grid v(1) by blast
  then have "int (2 ^ 126) dvd int k" by (simp only: int_dvd_int_iff)
  then show ?thesis using \<open>2 ^ 149 \<le> fv x\<close> by (simp add: k(1))
qed

lemma gap: "is_finite x \<Longrightarrow> is_finite y \<Longrightarrow> lit 1 1 \<le> x \<Longrightarrow> y \<le> lit (2 ^ 64) 1 \<Longrightarrow> x < y \<Longrightarrow> \<not> fabs (y - x) < f32_EPSILON"
proof -
  assume a: "is_finite x" "is_finite y" "lit 1 1 \<le> x" "y \<le> lit (2 ^ 64) 1" "x < y"
  have l: "fv x < fv y" using a by (simp add: lt_fin)
  have gx: "2 ^ 126 dvd fv x" "2 ^ 149 \<le> fv x" using fv_grid a by blast+
  have "lit 1 1 \<le> y" using a f32_le_less_trans f32_less_imp_le by blast
  then have "2 ^ 126 dvd fv y - fv x" using fv_grid [OF a(2)] gx by (intro dvd_diff) blast+
  then have d: "2 ^ 126 \<le> fv y - fv x" using l zdvd_imp_le [of "2 ^ 126" "fv y - fv x"] by simp
  have "rv x \<le> rv y" "rv y \<le> 2 ^ 64" "1 \<le> rv x"
    using a lits by (simp_all add: rv_le rv_lt)
  then have f: "is_finite (y - x)" "fv (y - x) = rz (fv y - fv x)"
    using diff_bounds [OF a(2,1)] by auto
  have "rz (2 ^ 126) = 2 ^ 126" using rep_small [of 1 126] by (intro rz_exact) simp
  then have "2 ^ 126 \<le> fv (y - x)" using rz_mono [OF d] f(2) by simp
  moreover have "fv f32_EPSILON = 2 ^ 126" by (simp add: f32_eval fv_def)
  ultimately show ?thesis using f lits by (simp add: lt_fin)
qed

lemma ascending_rising:
  "ascending ps \<Longrightarrow> list_all (\<lambda>p. is_finite (fst p) \<and> lit 1 1 \<le> fst p \<and> fst p \<le> lit (2 ^ 64) 1) ps \<Longrightarrow> rising ps"
proof (induction ps rule: rising.induct)
  case (1 lo hi bps)
  then have "fst lo < fst hi" by (auto simp: f32_not_le)
  then show ?case using 1 gap [of "fst lo" "fst hi"] by simp
qed simp_all

definition in_range :: "nat \<Rightarrow> nat \<Rightarrow> breakpoint \<Rightarrow> bool" where
  "in_range m M p \<longleftrightarrow> lit 1 1 \<le> fst p \<and> fst p \<le> lit (2 ^ 64) 1 \<and> m \<le> unat (snd p) \<and> unat (snd p) \<le> M"

lemma accepted_curve:
  assumes f: "accepted_fan f" and r: "list_all (in_range m M) (fb_curve f)" and M: "M \<le> 131072"
  shows "wf_curve (fb_curve f)"
proof -
  have "lit 0 1 \<le> fst p" if "in_range m M p" for p
    using that zero_one_lit f32_le_trans by (auto simp: in_range_def)
  then have "list_all ok_point (fb_curve f)"
    using r M by (auto simp: list_all_iff in_range_def ok_point_def)
  moreover have "rising (fb_curve f)"
    using f r by (intro ascending_rising) (auto simp: accepted_fan_def list_all_iff good_temp_def in_range_def)
  ultimately show ?thesis using f by (simp add: wf_curve_def accepted_fan_def)
qed

lemma reload_config_Inr: "reload_config os path = Inr c \<longleftrightarrow> load_config os path = Inr c \<and> accepted c"
  using validate_Nil [of c] by (auto simp: reload_config_def Let_def split: sum.split)

end
