(* ===== verification/Cli_Parse.thy ===== *)
theory Cli_Parse
  imports Parse_Num F32_Laws
begin

text \<open>
  The strict parsers of the command line (\<open>src/cli/parse.rs\<close>): which strings they accept, and the value.
\<close>

datatype parse_error = Empty | NonAsciiDigit | LeadingSign | Whitespace | LocaleDigit | Hex | Exponent
  | Underscore | MultipleDots | Overflow | NotFinite | OutOfRange

fun show_parse_error :: "parse_error \<Rightarrow> string" where
  "show_parse_error Empty = ''value is empty''"
| "show_parse_error NonAsciiDigit = ''value contains non-ASCII digits''"
| "show_parse_error LeadingSign = ''leading '' @ [CHR 0x27, CHR ''+'', CHR 0x27] @ '' or '' @ [CHR 0x27, CHR ''-'', CHR 0x27] @ '' is not allowed''"
| "show_parse_error Whitespace = ''whitespace is not allowed''"
| "show_parse_error LocaleDigit = ''locale-variant digits are not allowed''"
| "show_parse_error Hex = ''hexadecimal literals are not allowed''"
| "show_parse_error Exponent = ''exponent notation is not allowed''"
| "show_parse_error Underscore = ''underscores in numbers are not allowed''"
| "show_parse_error MultipleDots = ''value has more than one decimal point''"
| "show_parse_error Overflow = ''value overflows u8 or f32''"
| "show_parse_error NotFinite = ''value is NaN or infinity''"
| "show_parse_error OutOfRange = ''value is outside the valid range''"

definition RPM_SANITY_CEILING :: f32 where "RPM_SANITY_CEILING = lit 50000 1"

section \<open>The parsers\<close>

text \<open>The arms that the two validators share: the error of a byte that is no digit and no dot.\<close>

definition bad_byte :: "char \<Rightarrow> parse_error" where
  "bad_byte b = (if b = CHR ''+'' \<or> b = CHR ''-'' then LeadingSign
     else if b \<in> {CHR '' '', CHR 0x09, CHR 0x0A, CHR 0x0D} then Whitespace
     else if b = CHR ''_'' then Underscore
     else if b = CHR ''e'' \<or> b = CHR ''E'' then Exponent
     else if b = CHR ''x'' \<or> b = CHR ''X'' \<or> (code CHR ''a'' \<le> code b \<and> code b \<le> code CHR ''f'')
       \<or> (code CHR ''A'' \<le> code b \<and> code b \<le> code CHR ''F'') then Hex
     else NonAsciiDigit)"

fun validate_strict_integer :: "string \<Rightarrow> (parse_error, unit) result" where
  "validate_strict_integer [] = Inr ()"
| "validate_strict_integer (b # s) =
     (if is_digit b then validate_strict_integer s
      else if b = CHR ''.'' then Inl MultipleDots else Inl (bad_byte b))"

definition parse_fan_index :: "string \<Rightarrow> (parse_error, u8) result" where
  "parse_fan_index s =
    (if s = [] then Inl Empty
     else case validate_strict_integer s of Inl e \<Rightarrow> Inl e
       | Inr _ \<Rightarrow> (case parse_uint 255 s of Some n \<Rightarrow> Inr (word_of_nat n) | None \<Rightarrow> Inl Overflow))"

text \<open>The loop of the float validator: the number of dots, and whether the last byte was one.\<close>

fun strict_float_loop :: "nat \<Rightarrow> bool \<Rightarrow> string \<Rightarrow> (parse_error, unit) result" where
  "strict_float_loop dots dot [] = (if dot then Inl MultipleDots else Inr ())"
| "strict_float_loop dots dot (b # s) =
     (if is_digit b then strict_float_loop dots False s
      else if b = CHR ''.'' then (if 1 < Suc dots then Inl MultipleDots else strict_float_loop (Suc dots) True s)
      else Inl (bad_byte b))"

definition validate_strict_float :: "string \<Rightarrow> (parse_error, unit) result" where
  "validate_strict_float s = (case s of
     c # _ \<Rightarrow> if c = CHR ''.'' then Inl MultipleDots else strict_float_loop 0 False s
   | [] \<Rightarrow> strict_float_loop 0 False s)"

definition parse_rpm :: "string \<Rightarrow> (parse_error, f32) result" where
  "parse_rpm s =
    (if s = [] then Inl Empty
     else case validate_strict_float s of Inl e \<Rightarrow> Inl e
       | Inr _ \<Rightarrow> (case parse_f32 s of None \<Rightarrow> Inl Overflow
         | Some value \<Rightarrow> if \<not> is_finite value then Inl NotFinite
             else if value < lit 0 1 \<or> RPM_SANITY_CEILING < value then Inl OutOfRange else Inr value))"

section \<open>Fan indices\<close>

lemma strict_integer: "validate_strict_integer s = Inr () \<longleftrightarrow> list_all is_digit s"
  by (induction s) simp_all

lemma parse_fan_index_iff:
  "parse_fan_index s = Inr i \<longleftrightarrow> s \<noteq> [] \<and> list_all is_digit s \<and> dec s \<le> 255 \<and> i = word_of_nat (dec s)"
proof (cases "list_all is_digit s")
  case True
  then show ?thesis using strict_integer [of s]
    by (auto simp: parse_fan_index_def parse_uint_digits not_less split: sum.split)
next
  case False
  then show ?thesis using strict_integer [of s]
    by (auto simp: parse_fan_index_def split: sum.split)
qed

section \<open>Speeds\<close>

text \<open>A decimal: digits, with an optional fraction of at least one digit.\<close>

definition strict_decimal :: "string \<Rightarrow> string \<Rightarrow> string \<Rightarrow> bool" where
  "strict_decimal s ip fp \<longleftrightarrow> ip \<noteq> [] \<and> list_all is_digit ip \<and> list_all is_digit fp
     \<and> s = (if fp = [] then ip else ip @ CHR ''.'' # fp)"

lemma dot_no_digit: "\<not> is_digit CHR ''.''"
  by (simp add: is_digit_def)

lemma strict_loop_seen: "strict_float_loop 1 dot s = Inr () \<longleftrightarrow> list_all is_digit s \<and> (s = [] \<longrightarrow> \<not> dot)"
  by (induction s arbitrary: dot) (auto simp: dot_no_digit)

lemma strict_loop:
  "strict_float_loop 0 False s = Inr () \<longleftrightarrow> list_all is_digit s
     \<or> (\<exists>ip fp. s = ip @ CHR ''.'' # fp \<and> list_all is_digit ip \<and> list_all is_digit fp \<and> fp \<noteq> [])"
proof (induction s)
  case (Cons b s)
  show ?case
  proof (cases "is_digit b")
    case True
    have "(\<exists>ip fp. b # s = ip @ CHR ''.'' # fp \<and> list_all is_digit ip \<and> list_all is_digit fp \<and> fp \<noteq> [])
      \<longleftrightarrow> (\<exists>ip fp. s = ip @ CHR ''.'' # fp \<and> list_all is_digit ip \<and> list_all is_digit fp \<and> fp \<noteq> [])"
      (is "?l = ?r")
    proof
      assume ?l
      then obtain ip fp where i: "b # s = ip @ CHR ''.'' # fp" "list_all is_digit ip" "list_all is_digit fp" "fp \<noteq> []" by blast
      then obtain ip' where "ip = b # ip'" using True dot_no_digit by (cases ip) auto
      then show ?r using i by auto
    next
      assume ?r
      then obtain ip fp where "s = ip @ CHR ''.'' # fp" "list_all is_digit ip" "list_all is_digit fp" "fp \<noteq> []" by blast
      then show ?l using True by (intro exI [of _ "b # ip"] exI [of _ fp]) simp
    qed
    then show ?thesis using Cons.IH True by simp
  next
    case False
    then have "b # s = ip @ CHR ''.'' # fp \<Longrightarrow> list_all is_digit ip \<Longrightarrow> ip = []" for ip fp by (cases ip) auto
    then have "(\<exists>ip fp. b # s = ip @ CHR ''.'' # fp \<and> list_all is_digit ip \<and> list_all is_digit fp \<and> fp \<noteq> [])
      \<longleftrightarrow> b = CHR ''.'' \<and> list_all is_digit s \<and> s \<noteq> []" by (metis append_Nil list.inject list.pred_inject(1))
    then show ?thesis using False strict_loop_seen [of True s] by auto
  qed
qed simp

lemma strict_float:
  "s \<noteq> [] \<Longrightarrow> validate_strict_float s = Inr () \<longleftrightarrow> (\<exists>ip fp. strict_decimal s ip fp)"
proof (cases "hd s = CHR ''.''")
  case True
  assume "s \<noteq> []"
  then obtain t where s: "s = CHR ''.'' # t" using True by (cases s) auto
  have "\<not> strict_decimal s ip fp" for ip fp
    unfolding strict_decimal_def s using dot_no_digit by (cases ip) (auto split: if_splits)
  then show ?thesis by (simp add: validate_strict_float_def s)
next
  case False
  assume "s \<noteq> []"
  then have v: "validate_strict_float s = strict_float_loop 0 False s" using False by (cases s) (auto simp: validate_strict_float_def)
  have "(\<exists>ip fp. strict_decimal s ip fp) \<longleftrightarrow> list_all is_digit s
     \<or> (\<exists>ip fp. s = ip @ CHR ''.'' # fp \<and> list_all is_digit ip \<and> list_all is_digit fp \<and> fp \<noteq> [])"
    (is "?l = (?a \<or> ?r)")
  proof
    assume ?l
    then show "?a \<or> ?r" by (auto simp: strict_decimal_def split: if_splits)
  next
    assume "?a \<or> ?r"
    then show ?l
    proof
      assume ?a
      then show ?l using \<open>s \<noteq> []\<close> by (intro exI [of _ s] exI [of _ "[]"]) (simp add: strict_decimal_def)
    next
      assume ?r
      then obtain ip fp where i: "s = ip @ CHR ''.'' # fp" "list_all is_digit ip" "list_all is_digit fp" "fp \<noteq> []" by blast
      then have "ip \<noteq> []" using False by auto
      then show ?l using i by (intro exI [of _ ip] exI [of _ fp]) (simp add: strict_decimal_def)
    qed
  qed
  then show ?thesis by (simp add: v strict_loop)
qed

text \<open>The decimals have the value that their digits say, rounded once.\<close>

lemma take_digits: "list_all is_digit ip \<Longrightarrow> \<not> is_digit c \<Longrightarrow>
    takeWhile is_digit (ip @ c # t) = ip \<and> dropWhile is_digit (ip @ c # t) = c # t"
  by (induction ip) auto

lemma take_all_digits: "list_all is_digit ip \<Longrightarrow> takeWhile is_digit ip = ip \<and> dropWhile is_digit ip = []"
  by (induction ip) auto

lemma parse_strict_decimal:
  assumes "strict_decimal s ip fp"
  shows "parse_f32 s = Some (scale10 False (dec (ip @ fp)) (- int (length fp)))"
proof -
  obtain c t where s: "s = c # t" "is_digit c"
    using assms by (cases ip) (auto simp: strict_decimal_def split: if_splits)
  have d: "ip \<noteq> []" "list_all is_digit ip" "list_all is_digit fp" "s = (if fp = [] then ip else ip @ CHR ''.'' # fp)"
    using assms by (auto simp: strict_decimal_def)
  note i = take_all_digits [OF d(2), THEN conjunct1] take_all_digits [OF d(2), THEN conjunct2]
  note f = take_all_digits [OF d(3), THEN conjunct1] take_all_digits [OF d(3), THEN conjunct2]
  note j = take_digits [OF d(2) dot_no_digit, of fp, THEN conjunct1] take_digits [OF d(2) dot_no_digit, of fp, THEN conjunct2]
  have "parse_decimal False s = Some (scale10 False (dec (ip @ fp)) (- int (length fp)))"
    using d(1,4) by (cases "fp = []") (simp_all add: parse_decimal_def parse_exp_def Let_def i f j)
  then show ?thesis using parse_f32_digit [OF s(2), of t] s(1) by simp
qed

text \<open>
  \<open>parse_rpm\<close> accepts exactly the plain decimals whose value is at most the ceiling, and returns that
  value.
\<close>

lemma parse_rpm_iff:
  "parse_rpm s = Inr v \<longleftrightarrow> (\<exists>ip fp. strict_decimal s ip fp \<and> v = scale10 False (dec (ip @ fp)) (- int (length fp))
     \<and> is_finite v \<and> \<not> v < lit 0 1 \<and> \<not> RPM_SANITY_CEILING < v)"
proof (cases "s = []")
  case True
  then show ?thesis by (auto simp: parse_rpm_def strict_decimal_def split: if_splits)
next
  case False
  show ?thesis
  proof (cases "\<exists>ip fp. strict_decimal s ip fp")
    case True
    then obtain ip fp where d: "strict_decimal s ip fp" by blast
    define x where "x = scale10 False (dec (ip @ fp)) (- int (length fp))"
    have "validate_strict_float s = Inr ()" using strict_float [OF False] True by simp
    moreover have p: "parse_f32 s = Some x" unfolding x_def by (rule parse_strict_decimal [OF d])
    moreover have "(\<exists>ip fp. strict_decimal s ip fp \<and> v = scale10 False (dec (ip @ fp)) (- int (length fp)) \<and> Q) \<longleftrightarrow> v = x \<and> Q" for Q
      using d p parse_strict_decimal unfolding x_def by (metis option.inject)
    ultimately show ?thesis using False by (auto simp: parse_rpm_def)
  next
    case False': False
    then have "validate_strict_float s \<noteq> Inr ()" using strict_float [OF False] by simp
    then show ?thesis using False' by (cases "validate_strict_float s") (auto simp: parse_rpm_def)
  qed
qed

lemma ceiling_fin: "is_finite RPM_SANITY_CEILING" "is_finite (lit 0 1)" "fv (lit 0 1) = 0"
  by (simp_all add: RPM_SANITY_CEILING_def f32_eval fv_def)

lemma parse_rpm_range: "parse_rpm s = Inr v \<Longrightarrow> is_finite v \<and> 0 \<le> fv v \<and> v \<le> RPM_SANITY_CEILING"
  unfolding parse_rpm_iff using ceiling_fin by (auto simp: lt_fin le_fin)

end
