(* ===== verification/Cli_Set.thy ===== *)
theory Cli_Set
  imports Cli_Parse Cli_Run
begin

text \<open>
  The command \<open>fand set\<close> (\<open>src/cli/set.rs\<close>): arguments, the dry run's preview, and the commit that holds the
  override until a signal ends the process. Messages on standard error are left out. A command ends
  with its exit code, its output and the world; or it holds, for the number of heartbeats given.
\<close>

section \<open>Arguments\<close>

datatype set_mode = DryRun | Commit

record set_args =
  sa_fan :: u8
  sa_rpm :: f32
  sa_mode :: set_mode
  sa_json :: bool

record set_flags =
  sf_fan :: "u8 option"
  sf_rpm :: "f32 option"
  sf_mode :: "set_mode option"
  sf_json :: bool

definition set_mode_once :: "set_mode \<Rightarrow> set_flags \<Rightarrow> set_flags option" where
  "set_mode_once m f = (if sf_mode f \<noteq> None then None else Some (f\<lparr> sf_mode := Some m \<rparr>))"

text \<open>\<open>None\<close>: a usage error.\<close>

fun parse_set_flags :: "set_flags \<Rightarrow> string list \<Rightarrow> set_flags option" where
  "parse_set_flags f [] = Some f"
| "parse_set_flags f (x # xs) =
    (if x = ''--fan'' then (case xs of v # ys \<Rightarrow> (case parse_fan_index v of
         Inr i \<Rightarrow> parse_set_flags (f\<lparr> sf_fan := Some i \<rparr>) ys | Inl _ \<Rightarrow> None) | [] \<Rightarrow> None)
     else if x = ''--rpm'' then (case xs of v # ys \<Rightarrow> (case parse_rpm v of
         Inr r \<Rightarrow> parse_set_flags (f\<lparr> sf_rpm := Some r \<rparr>) ys | Inl _ \<Rightarrow> None) | [] \<Rightarrow> None)
     else if x = ''--dry-run'' then (case set_mode_once DryRun f of Some g \<Rightarrow> parse_set_flags g xs | None \<Rightarrow> None)
     else if x = ''--commit'' then (case set_mode_once Commit f of Some g \<Rightarrow> parse_set_flags g xs | None \<Rightarrow> None)
     else if x = ''--json'' then parse_set_flags (f\<lparr> sf_json := True \<rparr>) xs
     else None)"

definition parse_set :: "string list \<Rightarrow> set_args option" where
  "parse_set args = (case parse_set_flags \<lparr> sf_fan = None, sf_rpm = None, sf_mode = None, sf_json = False \<rparr> args of
     None \<Rightarrow> None
   | Some f \<Rightarrow> (case (sf_fan f, sf_rpm f, sf_mode f) of
       (Some i, Some r, Some m) \<Rightarrow> Some \<lparr> sa_fan = i, sa_rpm = r, sa_mode = m, sa_json = sf_json f \<rparr>
     | _ \<Rightarrow> None))"

section \<open>The preview\<close>

definition nl :: "string \<Rightarrow> string" where "nl s = s @ ''\<newline>''"

definition show_rpm :: "clamped_rpm \<Rightarrow> string" where
  "show_rpm r = show_nat (unat (clamped_value r))"

definition show_u32_of :: "f32 \<Rightarrow> string" where
  "show_u32_of x = show_nat (unat (f32_to_u32 x))"

definition fan_name :: "u8 \<Rightarrow> string \<Rightarrow> string" where
  "fan_name i s = ''F'' @ show_u8 i @ s"

definition print_dry_run_human :: "set_args \<Rightarrow> fan \<Rightarrow> clamped_rpm \<Rightarrow> bool \<Rightarrow> string" where
  "print_dry_run_human a f clamped clipped = (let i = sa_fan a in
     nl (''fand set --fan '' @ show_u8 i @ '' --rpm '' @ show_f32 (sa_rpm a) @ '' --dry-run'') @
     nl (''  fan:            '' @ show_u8 i) @
     nl (''  envelope:       ['' @ show_fixed 1 (fan_min f) @ '', '' @ show_fixed 1 (fan_max f) @ '']'') @
     nl (''  raw request:    '' @ show_fixed 1 (sa_rpm a)) @
     (if clipped then nl (''  clamped target: '' @ show_rpm clamped @ '' RPM  (CLAMPED from '' @ show_fixed 1 (sa_rpm a) @ '')'')
      else nl (''  clamped target: '' @ show_rpm clamped @ '' RPM  (within envelope, no clamp applied)'')) @
     nl ''  planned writes (Apple Silicon M-series control surface):'' @
     (if is_minimum_request f clamped then
        nl (''    1. '' @ fan_name i ''md = 1'' @ ''               (force minimum '' @ em_dash @ '' fan will drop to ~'' @ show_u32_of (fan_min f) @ '' RPM)'') @
        nl ''  round-trip reads (expected):'' @
        nl (''    '' @ fan_name i ''md    = 1'') @
        nl ''  teardown on exit:'' @
        nl (''    '' @ fan_name i ''md = 0'' @ ''  (return to system thermal manager)'')
      else
        nl (''    (none '' @ em_dash @ '' Apple Silicon M-series exposes only F0md=0/auto and F0md=1/min;'') @
        nl ''     arbitrary RPM targets are not writable via the SMC interface'' @
        nl ''     per research.md RD-08. --commit at this RPM would be REJECTED.)'' @
        nl [] @
        nl (''  to engage forced minimum:  fand set --fan '' @ show_u8 i @ '' --rpm '' @ show_u32_of (fan_min f) @ '' --commit'')))"

text \<open>\<open>fourcc_display\<close>: unlike \<open>fourcc_to_str\<close> it shows a blank as a question mark.\<close>

definition fourcc_display :: "u32 \<Rightarrow> string" where
  "fourcc_display k = map (\<lambda>b. let c = char_of (unat b) in if is_graphic c then c else CHR ''?'') (u32_to_be k)"

definition planned :: "nat \<Rightarrow> string \<Rightarrow> string \<Rightarrow> string" where
  "planned n k v = json_object [field ''step'' (show_nat n), field ''key'' (jstr k), field ''value'' v]"

definition print_dry_run_json :: "set_args \<Rightarrow> fan \<Rightarrow> clamped_rpm \<Rightarrow> bool \<Rightarrow> session_id \<Rightarrow> string" where
  "print_dry_run_json a f clamped clipped sid = (let i = sa_fan a; s = as_bytes sid in nl (json_object
     [field ''$schema'' (jstr ''https://pedrohbalbino.github.io/fand/schemas/dry-run-v1.json''),
      field ''$id'' (jstr (''urn:fand:session:'' @ s)), field ''schema_version'' ''1'', field ''subcommand'' (jstr ''set''),
      field ''mode'' (jstr ''dry-run''), field ''fand_version'' (jstr VERSION), field ''session_id'' (jstr s),
      field ''fan'' (json_object [field ''index'' (show_u8 i), field ''min_rpm'' (show_fixed 1 (fan_min f)),
        field ''max_rpm'' (show_fixed 1 (fan_max f)), field ''mode_key'' (jstr (fourcc_display (fan_mode_key f)))]),
      field ''request'' (json_object [field ''raw_rpm'' (show_fixed 1 (sa_rpm a)), field ''clamped_rpm'' (show_rpm clamped),
        field ''was_clamped'' (show_bool clipped)]),
      field ''planned_writes'' (''['' @ join '','' [planned 1 ''Ftst'' ''1'', planned 2 (fan_name i ''Md'') ''1'',
        planned 3 (fan_name i ''Tg'') (show_rpm clamped)] @ '']''),
      field ''planned_teardown'' (''['' @ join '','' [planned 1 (fan_name i ''Md'') ''0'', planned 2 ''Ftst'' ''0''] @ '']'')]))"

section \<open>The command\<close>

definition set_error_code :: "smc_error \<Rightarrow> int" where
  "set_error_code e = (case e of ConflictDetected _ _ \<Rightarrow> 5 | OpenFailed _ \<Rightarrow> 2 | ServiceNotFound \<Rightarrow> 2
     | KeyNotFound _ \<Rightarrow> 3 | WatchdogFired _ _ \<Rightarrow> 4 | _ \<Rightarrow> 1)"

datatype 'd set_end = Set_Ended int string 'd | Holding "'d ws"

text \<open>The hold loop: a pause of 500 ms, then the heartbeat.\<close>

fun set_hold_loop :: "nat \<Rightarrow> 'd platform \<Rightarrow> 'd ws \<Rightarrow> 'd ws" where
  "set_hold_loop 0 io s = s"
| "set_hold_loop (Suc n) io s = set_hold_loop n io (heartbeat io (sleep_ms io 500 s))"

definition set_with_session ::
  "'d platform \<Rightarrow> 'd os \<Rightarrow> string option \<Rightarrow> nat \<Rightarrow> set_args \<Rightarrow> write_session \<Rightarrow> 'd \<Rightarrow> 'd set_end" where
  "set_with_session io os env beats a w d =
    (let fans = ws_envelopes w in
     if fans = [] then Set_Ended 3 [] (drop_session io os (w, d))
     else if length fans \<le> unat (sa_fan a) then Set_Ended 64 [] (drop_session io os (w, d))
     else let f = fans ! unat (sa_fan a); clamped = clamped_new env (sa_rpm a) (fan_min f) (fan_max f);
              clipped = was_clamped env (sa_rpm a) (fan_min f) (fan_max f) in
       case sa_mode a of
         DryRun \<Rightarrow> Set_Ended 0 (if sa_json a then print_dry_run_json a f clamped clipped (ws_session w)
             else print_dry_run_human a f clamped clipped) (drop_session io os (w, d))
       | Commit \<Rightarrow> (case commit_set_fan io (sa_fan a) clamped (w, d) of
           (Inl e, s1) \<Rightarrow> Set_Ended (set_error_code e) [] (drop_session io os s1)
         | (Inr _, s1) \<Rightarrow> Holding (set_hold_loop beats io s1)))"

definition set_run ::
  "'d platform \<Rightarrow> 'd os \<Rightarrow> string option \<Rightarrow> nat \<Rightarrow> string list \<Rightarrow> process \<Rightarrow> 'd \<Rightarrow> 'd set_end" where
  "set_run io os env beats args p d = (case parse_set args of None \<Rightarrow> Set_Ended 64 [] d
   | Some a \<Rightarrow> (case acquire io os p d of (Inl e, p1, d1) \<Rightarrow> Set_Ended (set_error_code e) [] d1
     | (Inr w, p1, d1) \<Rightarrow> set_with_session io os env beats a w d1))"

end
