(* ===== verification/Cli_Force.thy ===== *)
theory Cli_Force
  imports Cli_Set
begin

text \<open>
  The command \<open>fand force-rpm\<close> (\<open>src/cli/force.rs\<close>): four ways to move the fan, tried in turn, then the
  teardown. Waits are loops on the clock with fuel: \<open>wait_ends\<close> shows that the fuel given is enough
  on a platform whose sleeps last at least as long as asked. What is printed is left out: its content
  is the list of attempts. \<open>Panicked\<close> is the panic of \<open>f32::clamp\<close> on an empty range.
\<close>

section \<open>Constants and arguments\<close>

definition F0MN :: u32 where "F0MN = fourcc ''F0Mn''"
definition F0MX :: u32 where "F0MX = fourcc ''F0Mx''"
definition F0AC :: u32 where "F0AC = fourcc ''F0Ac''"
definition F0TG :: u32 where "F0TG = fourcc ''F0Tg''"
definition F0DC :: u32 where "F0DC = fourcc ''F0Dc''"
definition F0MD :: u32 where "F0MD = fourcc ''F0md''"

definition PASS_DELTA_RPM :: f32 where "PASS_DELTA_RPM = lit 500 1"

record force_args =
  fa_target :: "f32 option"
  fa_settle :: nat
  fa_hold :: nat
  fa_json :: bool

definition parse_u64 :: "string \<Rightarrow> nat option" where
  "parse_u64 s = parse_uint (2 ^ 64 - 1) s"

text \<open>A missing or malformed value of \<open>--settle-secs\<close> and \<open>--hold-secs\<close> is skipped.\<close>

fun parse_force :: "force_args \<Rightarrow> string list \<Rightarrow> (int, force_args) result" where
  "parse_force a [] = Inr a"
| "parse_force a (x # xs) =
    (if x = ''--settle-secs'' then (case xs of [] \<Rightarrow> Inr a
         | v # ys \<Rightarrow> parse_force (case parse_u64 v of Some n \<Rightarrow> a\<lparr> fa_settle := min 30 (max 1 n) \<rparr> | None \<Rightarrow> a) ys)
     else if x = ''--hold-secs'' then (case xs of [] \<Rightarrow> Inr a
         | v # ys \<Rightarrow> parse_force (case parse_u64 v of Some n \<Rightarrow> a\<lparr> fa_hold := min n 3600 \<rparr> | None \<Rightarrow> a) ys)
     else if x = ''--json'' then parse_force (a\<lparr> fa_json := True \<rparr>) xs
     else if x = ''--help'' \<or> x = ''-h'' then Inl 0
     else case parse_f32 x of None \<Rightarrow> Inl 64
       | Some v \<Rightarrow> if is_finite v \<and> lit 0 1 < v then parse_force (a\<lparr> fa_target := Some v \<rparr>) xs else Inl 64)"

section \<open>Waiting\<close>

text \<open>\<open>while start.elapsed() < limit && go\<close>: one sleep of \<open>step\<close> milliseconds per turn.\<close>

fun wait_loop :: "nat \<Rightarrow> 'd platform \<Rightarrow> ('d \<Rightarrow> bool) \<Rightarrow> nat \<Rightarrow> nat \<Rightarrow> nat \<Rightarrow> 'd \<Rightarrow> 'd" where
  "wait_loop 0 io go start bound step d = d"
| "wait_loop (Suc n) io go start bound step d =
    (if io_now_ms io d - start < bound \<and> go d then wait_loop n io go start bound step (io_sleep_ms io step d) else d)"

definition wait_settled :: "'d platform \<Rightarrow> nat \<Rightarrow> 'd smc \<Rightarrow> 'd smc" where
  "wait_settled io secs s = (fst s, wait_loop (4 * secs) io (\<lambda>_. True) (io_now_ms io (snd s)) (secs * 1000) 250 (snd s))"

definition hold_wait :: "'d platform \<Rightarrow> ('d \<Rightarrow> bool) \<Rightarrow> nat \<Rightarrow> 'd smc \<Rightarrow> 'd smc" where
  "hold_wait io interrupted secs s = (fst s,
     wait_loop (5 * secs) io (\<lambda>d. \<not> interrupted d) (io_now_ms io (snd s)) (secs * 1000) 200 (snd s))"

definition sleep_smc :: "'d platform \<Rightarrow> nat \<Rightarrow> 'd smc \<Rightarrow> 'd smc" where
  "sleep_smc io n s = (fst s, io_sleep_ms io n (snd s))"

section \<open>Attempts\<close>

type_synonym attempt = "string \<times> (string, f32) result"

definition read_or :: "'d platform \<Rightarrow> u32 \<Rightarrow> f32 \<Rightarrow> 'd smc \<Rightarrow> f32 \<times> 'd smc" where
  "read_or io k x s = (case read_f32 io k s of (Inr v, s1) \<Rightarrow> (v, s1) | (Inl _, s1) \<Rightarrow> (x, s1))"

definition try_path :: "'d platform \<Rightarrow> string \<Rightarrow> nat \<Rightarrow> ('d, unit) smc_op \<Rightarrow> 'd smc \<Rightarrow> attempt \<times> 'd smc" where
  "try_path io path settle_secs write s = (case write s of (r, s1) \<Rightarrow>
     let s2 = (if is_ok r then wait_settled io settle_secs s1 else s1) in
     case read_or io F0AC f32_NAN s2 of (after, s3) \<Rightarrow>
       ((path, case r of Inr _ \<Rightarrow> Inr after | Inl e \<Rightarrow> Inl (show_smc_error e)), s3))"

definition moved :: "f32 \<Rightarrow> attempt \<Rightarrow> bool" where
  "moved baseline a = (case snd a of Inr after \<Rightarrow> PASS_DELTA_RPM \<le> fabs (after - baseline) | Inl _ \<Rightarrow> False)"

definition winner :: "attempt list \<Rightarrow> f32 \<Rightarrow> attempt option" where
  "winner as baseline = List.find (moved baseline) as"

definition write_floor :: "'d platform \<Rightarrow> f32 \<Rightarrow> 'd smc \<Rightarrow> 'd smc" where
  "write_floor io v = ignore (write_raw_for_research io F0MN (f32_to_be v))"

definition reset_mode :: "'d platform \<Rightarrow> 'd smc \<Rightarrow> 'd smc" where
  "reset_mode io s = sleep_smc io 1500 (ignore (write_raw_for_research io F0MD [0]) s)"

text \<open>The hold, then the teardown: the floor if it was raised, and the mode.\<close>

definition hold_and_teardown ::
  "'d platform \<Rightarrow> ('d \<Rightarrow> bool) \<Rightarrow> attempt list \<Rightarrow> f32 \<Rightarrow> nat \<Rightarrow> f32 option \<Rightarrow> f32 \<Rightarrow> 'd smc \<Rightarrow> 'd smc" where
  "hold_and_teardown io interrupted as baseline hold_secs restore_floor_to original_min s =
    (let win = map_option fst (winner as baseline);
         s1 = (if 0 < hold_secs \<and> win \<noteq> None then hold_wait io interrupted hold_secs s else s);
         s2 = (case restore_floor_to of Some orig \<Rightarrow> write_floor io orig s1
           | None \<Rightarrow> if win = Some ''F0Mn_raise_then_F0md=1'' then write_floor io original_min s1 else s1)
     in reset_mode io s2)"

section \<open>The command\<close>

datatype 'd force_end = Force_Ended int "attempt list" 'd | Panicked 'd

text \<open>The four paths.\<close>

definition path_target :: "'d platform \<Rightarrow> f32 \<Rightarrow> ('d, unit) smc_op" where
  "path_target io t = write_raw_for_research io F0TG (f32_to_be t)"

definition path_duty :: "'d platform \<Rightarrow> f32 \<Rightarrow> ('d, unit) smc_op" where
  "path_duty io duty = write_raw_for_research io F0DC (f32_to_be duty)"

definition path_mode_target :: "'d platform \<Rightarrow> f32 \<Rightarrow> ('d, unit) smc_op" where
  "path_mode_target io t = bindE (write_raw_for_research io F0MD [1]) (\<lambda>_. write_raw_for_research io F0TG (f32_to_be t))"

definition path_floor :: "'d platform \<Rightarrow> f32 \<Rightarrow> ('d, unit) smc_op" where
  "path_floor io t = bindE (write_raw_for_research io F0MN (f32_to_be t)) (\<lambda>_. write_raw_for_research io F0MD [1])"

text \<open>The connection is closed when the command returns, not when it exits.\<close>

definition close_world :: "'d platform \<Rightarrow> 'd smc \<Rightarrow> 'd" where
  "close_world io s = snd (smc_close io s)"

definition force_chain ::
  "'d platform \<Rightarrow> ('d \<Rightarrow> bool) \<Rightarrow> nat \<Rightarrow> nat \<Rightarrow> f32 \<Rightarrow> f32 \<Rightarrow> f32 \<Rightarrow> f32 \<Rightarrow> 'd smc \<Rightarrow> 'd force_end" where
  "force_chain io interrupted settle hold baseline lo target duty s =
    (let finish = (\<lambda>as restore s. Force_Ended 0 as
           (close_world io (hold_and_teardown io interrupted as baseline hold restore lo s)));
         (a1, s1) = try_path io ''F0Tg_direct'' settle (path_target io target) s in
     if winner [a1] baseline \<noteq> None then finish [a1] None s1
     else let (a2, s2) = try_path io ''F0Dc_direct'' settle (path_duty io duty) (reset_mode io s1) in
     if winner [a1, a2] baseline \<noteq> None then finish [a1, a2] None s2
     else let (a3, s3) = try_path io ''F0md=1_then_F0Tg'' settle (path_mode_target io target) (reset_mode io s2) in
     if winner [a1, a2, a3] baseline \<noteq> None then finish [a1, a2, a3] None s3
     else let (a4, s4) = try_path io ''F0Mn_raise_then_F0md=1'' settle (path_floor io target) (reset_mode io s3);
              as = [a1, a2, a3, a4] in
     if winner as baseline \<noteq> None then finish as (Some lo) s4
     else Force_Ended 1 as (snd (hold_and_teardown io interrupted as baseline 0 None lo
            (reset_mode io (write_floor io lo s4)))))"

definition force_with_target ::
  "'d platform \<Rightarrow> ('d \<Rightarrow> bool) \<Rightarrow> force_args \<Rightarrow> f32 \<Rightarrow> 'd smc \<Rightarrow> 'd force_end" where
  "force_with_target io interrupted a target s = (case read_f32 io F0MN s of
     (Inl e, s1) \<Rightarrow> Force_Ended 1 [] (snd s1)
   | (Inr lo, s1) \<Rightarrow> (case read_or io F0MX (lo + lit 4233 1) s1 of (hi, s2) \<Rightarrow>
       (case fclamp target lo hi of None \<Rightarrow> Panicked (snd s2)
        | Some clamped_target \<Rightarrow> (case read_or io F0AC f32_NAN s2 of (baseline, s3) \<Rightarrow>
            let s4 = reset_mode io s3; duty = divide (clamped_target - lo) (hi - lo) in
            case fclamp duty (lit 0 1) (lit 1 1) of None \<Rightarrow> Panicked (snd s4)
            | Some duty \<Rightarrow> force_chain io interrupted (fa_settle a) (fa_hold a) baseline lo clamped_target duty s4))))"

definition force_run :: "'d platform \<Rightarrow> ('d \<Rightarrow> bool) \<Rightarrow> string list \<Rightarrow> 'd \<Rightarrow> 'd force_end" where
  "force_run io interrupted args d =
    (case parse_force \<lparr> fa_target = None, fa_settle = 4, fa_hold = 0, fa_json = False \<rparr> args of
       Inl n \<Rightarrow> Force_Ended n [] d
     | Inr a \<Rightarrow> (case fa_target a of None \<Rightarrow> Force_Ended 64 [] d
       | Some target \<Rightarrow> (case smc_open io d of (Inl e, d1) \<Rightarrow> Force_Ended 2 [] d1
         | (Inr c, d1) \<Rightarrow> force_with_target io interrupted a target (c, d1))))"

section \<open>The waits end\<close>

text \<open>With sleeps that last at least as long as asked, the fuel is never used up before the limit.\<close>

lemma wait_loop_done:
  assumes sleep: "\<And>n d. io_now_ms io d + n \<le> io_now_ms io (io_sleep_ms io n d)"
  shows "bound \<le> (io_now_ms io d - start) + n * step \<Longrightarrow> start \<le> io_now_ms io d \<Longrightarrow>
    bound \<le> io_now_ms io (wait_loop n io go start bound step d) - start \<or> \<not> go (wait_loop n io go start bound step d)"
proof (induction n arbitrary: d)
  case (Suc n)
  have "start \<le> io_now_ms io (io_sleep_ms io step d)" "io_now_ms io d + step \<le> io_now_ms io (io_sleep_ms io step d)"
    using sleep [of d step] Suc.prems by simp_all
  then show ?case using Suc.prems Suc.IH [of "io_sleep_ms io step d"] by auto
qed simp

lemma wait_ends:
  assumes "\<And>n d. io_now_ms io d + n \<le> io_now_ms io (io_sleep_ms io n d)"
  shows "secs * 1000 \<le> io_now_ms io (snd (wait_settled io secs s)) - io_now_ms io (snd s)"
  using wait_loop_done [OF assms, of "secs * 1000" "snd s" "io_now_ms io (snd s)" "4 * secs" 250 "\<lambda>_. True"]
  by (simp add: wait_settled_def)

end
