(* ===== verification/Cli_Probe.thy ===== *)
theory Cli_Probe
  imports Cli_Force Enumerate
begin

text \<open>
  The command \<open>fand probe\<close> (\<open>src/cli/probe.rs\<close>): five ways to move the fan, all tried, each between
  two resets of the mode, and the listing of the writable keys. What is printed is left out, except
  the listing itself, which is the value of \<open>writable_keys\<close>. The constants of the keys are those of
  \<open>Cli_Force\<close>.
\<close>

section \<open>Arguments\<close>

definition TP0A :: u32 where "TP0A = fourcc ''Tp0a''"

record probe_args =
  pr_settle :: nat
  pr_target :: f32
  pr_json :: bool
  pr_enumerate :: bool

definition probe_target :: "f32 \<Rightarrow> string \<Rightarrow> f32" where
  "probe_target old v = (case parse_f32 v of
     Some x \<Rightarrow> if is_finite x \<and> lit 0 1 < x then x else old | None \<Rightarrow> old)"

fun parse_probe :: "probe_args \<Rightarrow> string list \<Rightarrow> (int, probe_args) result" where
  "parse_probe a [] = Inr a"
| "parse_probe a (x # xs) =
    (if x = ''--settle-secs'' then (case xs of [] \<Rightarrow> Inr a
         | v # ys \<Rightarrow> parse_probe (case parse_u64 v of Some n \<Rightarrow> a\<lparr> pr_settle := min 30 (max 1 n) \<rparr> | None \<Rightarrow> a) ys)
     else if x = ''--target-rpm'' then (case xs of [] \<Rightarrow> Inr a
         | v # ys \<Rightarrow> parse_probe (a\<lparr> pr_target := probe_target (pr_target a) v \<rparr>) ys)
     else if x = ''--json'' then parse_probe (a\<lparr> pr_json := True \<rparr>) xs
     else if x = ''--enumerate'' then parse_probe (a\<lparr> pr_enumerate := True \<rparr>) xs
     else if x = ''--help'' \<or> x = ''-h'' then Inl 0
     else Inl 64)"

section \<open>Outcomes\<close>

record probe_outcome =
  po_path :: string
  po_write_result :: "(string, unit) result"
  po_before :: f32
  po_after :: f32
  po_delta :: f32

definition passed :: "f32 \<Rightarrow> probe_outcome \<Rightarrow> bool" where
  "passed min_delta p \<longleftrightarrow> is_ok (po_write_result p) \<and> min_delta \<le> fabs (po_delta p)"

definition outcome_of :: "string \<Rightarrow> (string, unit) result \<Rightarrow> f32 \<Rightarrow> f32 \<Rightarrow> probe_outcome" where
  "outcome_of path w before after = \<lparr> po_path = path, po_write_result = w, po_before = before,
     po_after = after, po_delta = after - before \<rparr>"

text \<open>\<open>map_err(|e| e.to_string())\<close>, or with a prefix naming the step.\<close>

definition described :: "string \<Rightarrow> ('d, unit) smc_op \<Rightarrow> 'd smc \<Rightarrow> (string, unit) result \<times> 'd smc" where
  "described what m s = (case m s of (r, s1) \<Rightarrow>
     (case r of Inr u \<Rightarrow> Inr u | Inl e \<Rightarrow> Inl (what @ show_smc_error e), s1))"

definition settle_if_ok :: "'d platform \<Rightarrow> nat \<Rightarrow> (string, unit) result \<Rightarrow> 'd smc \<Rightarrow> 'd smc" where
  "settle_if_ok io secs w s = (if is_ok w then wait_settled io secs s else s)"

text \<open>The \<open>actual\<close> reading, \<open>NaN\<close> when it fails.\<close>

definition read_actual :: "'d platform \<Rightarrow> 'd smc \<Rightarrow> f32 \<times> 'd smc" where
  "read_actual io s = read_or io F0AC f32_NAN s"

section \<open>The probes\<close>

definition probe_direct_f32 ::
  "'d platform \<Rightarrow> string \<Rightarrow> u32 \<Rightarrow> f32 \<Rightarrow> nat \<Rightarrow> 'd smc \<Rightarrow> probe_outcome \<times> 'd smc" where
  "probe_direct_f32 io path k v secs s =
    (let (before, s1) = read_actual io s;
         (w, s2) = described [] (write_raw_for_research io k (f32_to_be v)) s1;
         (after, s3) = read_actual io (settle_if_ok io secs w s2)
     in (outcome_of path w before after, s3))"

definition probe_mode_then_target :: "'d platform \<Rightarrow> f32 \<Rightarrow> nat \<Rightarrow> 'd smc \<Rightarrow> probe_outcome \<times> 'd smc" where
  "probe_mode_then_target io target secs s =
    (let path = ''F0md=1_then_F0Tg'';
         (before, s1) = read_actual io s;
         (m, s2) = described ''F0md=1: '' (write_raw_for_research io F0MD [1]) s1
     in case m of
       Inl msg \<Rightarrow> (let (after, s3) = read_actual io s2 in (outcome_of path (Inl msg) before after, s3))
     | Inr _ \<Rightarrow>
        (let (w, s3) = described ''F0Tg: '' (write_raw_for_research io F0TG (f32_to_be target)) s2;
             (after, s4) = read_actual io (settle_if_ok io secs w s3)
         in (outcome_of path w before after, s4)))"

definition probe_floor_raise :: "'d platform \<Rightarrow> f32 \<Rightarrow> f32 \<Rightarrow> nat \<Rightarrow> 'd smc \<Rightarrow> probe_outcome \<times> 'd smc" where
  "probe_floor_raise io original_min target secs s =
    (let path = ''F0Mn_raise_then_F0md=1'';
         (before, s1) = read_actual io s;
         (m, s2) = described ''F0Mn raise: '' (write_raw_for_research io F0MN (f32_to_be target)) s1
     in case m of
       Inl msg \<Rightarrow> (let (after, s3) = read_actual io s2 in (outcome_of path (Inl msg) before after, s3))
     | Inr _ \<Rightarrow>
        (let (w, s3) = described ''F0md=1: '' (write_raw_for_research io F0MD [1]) s2;
             (after, s4) = read_actual io (settle_if_ok io secs w s3);
             s5 = write_floor io original_min s4
         in (outcome_of path w before after, s5)))"

definition probe_sensor_spoof :: "'d platform \<Rightarrow> nat \<Rightarrow> 'd smc \<Rightarrow> probe_outcome \<times> 'd smc" where
  "probe_sensor_spoof io secs s =
    (let (before, s1) = read_actual io s;
         (baseline_temp, s2) = read_or io TP0A (lit 45 1) s1;
         (w, s3) = described ''Tp0a spoof: '' (write_raw_for_research io TP0A (f32_to_be (lit 99 1))) s2;
         (after, s4) = read_actual io (settle_if_ok io secs w s3);
         s5 = ignore (write_raw_for_research io TP0A (f32_to_be baseline_temp)) s4
     in (outcome_of ''Tp0a_spoof'' w before after, s5))"

section \<open>The matrix\<close>

text \<open>\<open>F0md=0\<close> and two seconds for the fan to settle.\<close>

definition auto_pause :: "'d platform \<Rightarrow> 'd smc \<Rightarrow> 'd smc" where
  "auto_pause io s = sleep_smc io 2000 (ignore (write_raw_for_research io F0MD [0]) s)"

definition probe_matrix ::
  "'d platform \<Rightarrow> nat \<Rightarrow> f32 \<Rightarrow> f32 \<Rightarrow> f32 \<Rightarrow> 'd smc \<Rightarrow> probe_outcome list \<times> 'd smc" where
  "probe_matrix io secs lo target duty s =
    (let (o1, s1) = probe_direct_f32 io ''F0Tg_direct'' F0TG target secs (auto_pause io s);
         (o2, s2) = probe_direct_f32 io ''F0Dc_direct'' F0DC duty secs (auto_pause io s1);
         (o3, s3) = probe_mode_then_target io target secs (auto_pause io s2);
         (o4, s4) = probe_floor_raise io lo target secs (auto_pause io s3);
         (o5, s5) = probe_sensor_spoof io secs (auto_pause io s4)
     in ([o1, o2, o3, o4, o5], ignore (write_raw_for_research io F0MD [0]) s5))"

definition matrix_code :: "probe_outcome list \<Rightarrow> int" where
  "matrix_code os = (if list_ex (passed (lit 500 1)) os then 0 else 1)"

section \<open>The listing\<close>

type_synonym listed = "u32 \<times> u32 \<times> u32 \<times> u8"

definition probe_key :: "'d platform \<Rightarrow> nat \<Rightarrow> ('d, listed) smc_op" where
  "probe_key io i = bindE (read_key_at_index io (word_of_nat i)) (\<lambda>k.
     bindE (read_key_info_full io k) (\<lambda>(info, attrs). ret (k, ki_size info, ki_type info, attrs)))"

fun walk_keys :: "'d platform \<Rightarrow> nat list \<Rightarrow> 'd smc \<Rightarrow> listed list \<times> 'd smc" where
  "walk_keys io [] s = ([], s)"
| "walk_keys io (i # is) s = (case probe_key io i s of (r, s1) \<Rightarrow>
    case walk_keys io is s1 of (ls, s2) \<Rightarrow>
      ((case r of Inr (k, sz, ty, attrs) \<Rightarrow> if attrs AND ATTR_WRITABLE \<noteq> 0 then (k, sz, ty, attrs) # ls else ls
        | Inl _ \<Rightarrow> ls), s2))"

definition writable_keys :: "'d platform \<Rightarrow> 'd smc \<Rightarrow> (smc_error, nat \<times> listed list) result \<times> 'd smc" where
  "writable_keys io s = (case read_u32 io (fourcc ''#KEY'') s of
     (Inl e, s1) \<Rightarrow> (Inl e, s1)
   | (Inr v, s1) \<Rightarrow> (let n = unat (min v 8000); (ls, s2) = walk_keys io [0..<n] s1
       in (Inr (n, ls), s2)))"

text \<open>The characters a four-character code is printed with.\<close>

definition fourcc_str :: "u32 \<Rightarrow> string" where
  "fourcc_str k = map (\<lambda>b. let c = char_of (unat b) in if is_graphic c \<or> b = 32 then c else CHR ''?'') (u32_to_be k)"

definition listed_json :: "listed \<Rightarrow> string" where
  "listed_json l = (case l of (k, sz, ty, attrs) \<Rightarrow> json_object
     [field ''fourcc'' (jstr (fourcc_str k)), field ''size'' (show_nat (unat sz)),
      field ''type'' (jstr (fourcc_str ty)), field ''attrs'' (jstr (''0x'' @ show_hex 2 (unat attrs)))])"

definition listing_json :: "nat \<times> listed list \<Rightarrow> string" where
  "listing_json listing = nl (json_object
     [field ''total_keys'' (show_nat (fst listing)),
      field ''writable'' (''['' @ join '','' (map listed_json (snd listing)) @ '']'')])"

section \<open>The command\<close>

datatype 'd probe_end = Probed int "probe_outcome list" 'd | Listed "nat \<times> listed list" 'd
  | Not_Probed int 'd | Probe_Panicked 'd

text \<open>The exit of a run of the matrix does not close the connection; the return of a listing does.\<close>

definition probe_target_of :: "f32 \<Rightarrow> f32 \<Rightarrow> f32 \<Rightarrow> f32 option" where
  "probe_target_of target lo hi = (if lit 0 1 < target then fclamp target lo hi
     else Some (fmin (lo + lit 1500 1) (hi - lit 100 1)))"

definition run_matrix :: "'d platform \<Rightarrow> probe_args \<Rightarrow> 'd smc \<Rightarrow> 'd probe_end" where
  "run_matrix io a s = (case read_f32 io F0MN s of
     (Inl e, s1) \<Rightarrow> Not_Probed 1 (snd s1)
   | (Inr lo, s1) \<Rightarrow> (case read_or io F0MX (lo + lit 4233 1) s1 of (hi, s2) \<Rightarrow>
       case probe_target_of (pr_target a) lo hi of None \<Rightarrow> Probe_Panicked (snd s2)
       | Some t \<Rightarrow> (case fclamp (divide (t - lo) (hi - lo)) (lit 0 1) (lit 1 1) of None \<Rightarrow> Probe_Panicked (snd s2)
         | Some duty \<Rightarrow> (case probe_matrix io (pr_settle a) lo t duty s2 of (os, s3) \<Rightarrow>
             Probed (matrix_code os) os (snd s3)))))"

definition probe_run :: "'d platform \<Rightarrow> string list \<Rightarrow> 'd \<Rightarrow> 'd probe_end" where
  "probe_run io args d =
    (case parse_probe \<lparr> pr_settle = 4, pr_target = lit 0 1, pr_json = False, pr_enumerate = False \<rparr> args of
       Inl n \<Rightarrow> Not_Probed n d
     | Inr a \<Rightarrow> (case smc_open io d of (Inl e, d1) \<Rightarrow> Not_Probed 2 d1
       | (Inr c, d1) \<Rightarrow>
           if pr_enumerate a then (case writable_keys io (c, d1) of
               (Inl e, s) \<Rightarrow> Not_Probed 1 (snd s) | (Inr listing, s) \<Rightarrow> Listed listing (close_world io s))
           else run_matrix io a (c, d1)))"

end
