(* ===== verification/Research_Laws.thy ===== *)
theory Research_Laws
  imports Cli_Probe Smc_Device
begin

text \<open>
  What the raw writes of \<open>fand force-rpm\<close> and \<open>fand probe\<close> leave in the registers of a device that
  honours the protocol and whose fan does not react: the mode is automatic again, and the floor and
  the sensor hold the original value with its bytes reversed, because these commands write floats big
  endian and the codec of the connection reads them little endian.
\<close>

section \<open>The keys\<close>

definition force_keys :: "u32 set" where
  "force_keys = {F0MN, F0MX, F0AC, F0TG, F0DC, F0MD}"

lemmas force_key_defs = F0MN_def F0MX_def F0AC_def F0TG_def F0DC_def F0MD_def TP0A_def

lemma force_distinct:
  "distinct [F0MN, F0MX, F0AC, F0TG, F0DC, F0MD, TP0A]"
  unfolding force_key_defs by code_simp

lemma force_neq [simp]:
  "F0MN \<noteq> F0MD" "F0MD \<noteq> F0MN" "F0AC \<noteq> F0MN" "F0AC \<noteq> F0MD" "F0AC \<noteq> F0TG" "F0AC \<noteq> F0DC" "F0AC \<noteq> TP0A"
  "F0TG \<noteq> F0MD" "F0DC \<noteq> F0MD" "F0TG \<noteq> F0MN" "F0DC \<noteq> F0MN" "F0TG \<noteq> F0DC" "F0DC \<noteq> F0TG" "F0MD \<noteq> F0TG" "F0MD \<noteq> F0DC"
  "F0MN \<noteq> F0TG" "F0MN \<noteq> F0DC"
  using force_distinct by auto

definition force_typed :: "(u32 \<Rightarrow> (u32 \<times> u8 list) option) \<Rightarrow> bool" where
  "force_typed r \<longleftrightarrow> (\<forall>k\<in>{F0MN, F0TG, F0DC}. \<exists>bs. r k = Some (TYPE_FLT, bs) \<and> length bs = 4)
     \<and> (\<exists>x. r F0MD = Some (TYPE_UI8, [x]))"

lemma typed_flt [simp]: "force_typed r \<Longrightarrow> k \<in> {F0MN, F0TG, F0DC} \<Longrightarrow> force_typed (r(k \<mapsto> (TYPE_FLT, f32_to_be v)))"
  by (auto simp: force_typed_def f32_to_be_def u32_to_be_def)

lemma typed_mode [simp]: "force_typed r \<Longrightarrow> force_typed (r(F0MD \<mapsto> (TYPE_UI8, [x])))"
  by (auto simp: force_typed_def)

lemma holds_other [simp]: "k \<noteq> j \<Longrightarrow> holds_flt (r(j \<mapsto> x)) k v = holds_flt r k v"
  by (simp add: holds_flt_def)

text \<open>A big-endian float reads back as itself only if its bytes are a palindrome.\<close>

lemma big_endian_holds:
  assumes "r k = Some (TYPE_FLT, f32_to_be v)" "holds_flt r k v"
  shows "rev (f32_to_be v) = f32_to_be v"
proof -
  have "decode_flt (f32_to_be v) 4 = Inr v" "length (f32_to_be v) = 4" using assms by (auto simp: holds_flt_def)
  then have "encode_flt v = Inr (f32_to_be v)" by (intro encode_decode_flt)
  then have "f32_to_le v = f32_to_be v" by (simp add: encode_flt_def split: if_splits)
  then show ?thesis by (simp add: f32_to_le_def f32_to_be_def u32_to_le_def)
qed

lemma big_endian_bytes: "holds_flt r k v \<Longrightarrow> r k = Some (TYPE_FLT, bs) \<Longrightarrow> f32_to_be v = rev bs"
proof -
  assume "holds_flt r k v" "r k = Some (TYPE_FLT, bs)"
  then have "encode_flt v = Inr bs" by (intro encode_decode_flt) (auto simp: holds_flt_def)
  then have "f32_to_le v = bs" by (simp add: encode_flt_def split: if_splits)
  then show "f32_to_be v = rev bs" by (auto simp: f32_to_le_def f32_to_be_def u32_to_le_def)
qed

lemma unit_order: "lit 0 1 \<le> lit 1 1"
  by (simp add: f32_eval)

text \<open>A fan that keeps its speed is not taken for one that moved.\<close>

lemma self_diff: "is_finite v \<Longrightarrow> is_finite (v - v) \<and> fv (v - v) = 0"
  using sub_fin [of v v] rz_exact [of 0] by simp

lemma still: "is_finite v \<Longrightarrow> \<not> PASS_DELTA_RPM \<le> fabs (v - v)"
proof -
  assume v: "is_finite v"
  have "is_finite (fabs (v - v))" "fv (fabs (v - v)) = 0" using self_diff [OF v] by simp_all
  moreover have "is_finite PASS_DELTA_RPM" "0 < fv PASS_DELTA_RPM"
    by (simp_all add: PASS_DELTA_RPM_def f32_eval fv_def)
  ultimately show ?thesis by (simp add: le_fin)
qed

section \<open>Steps\<close>

context smc_device
begin

lemma write_raw_rest:
  assumes k: "k \<in> Ks" "r k = Some (ty, bs)" and l: "length ws = length bs"
  shows "does (at_rest Ks r) (write_raw_for_research io k ws) () (at_rest Ks (r(k \<mapsto> (ty, ws))))"
  unfolding does_def
proof (intro allI impI)
  fix s assume s: "at_rest Ks r s"
  obtain c d where cd: "s = (c, d)" by force
  have r: "reg d k = Some (ty, bs)" "reg d = r" "ready Ks c d" using s k by (simp_all add: at_rest_def cd)
  obtain c' d' where w: "write_bytes io k ws (c, d) = (Inr (), (c', d'))" "reg d' = (reg d)(k \<mapsto> (ty, ws))"
    "fills c k ty (length bs) c'"
    using write_bytes_reg [OF r(1) readyD [OF r(3) k(1) r(1)] l] by auto
  have "ready Ks c' d'" using ready_fills [OF r(3) k(1) r(1) w(3)] w(2) l by blast
  then show "\<exists>s'. write_raw_for_research io k ws s = (Inr (), s') \<and> at_rest Ks (r(k \<mapsto> (ty, ws))) s'"
    using w(1,2) r(2) by (auto simp: at_rest_def cd write_raw_for_research_def)
qed

lemma write_flt_rest:
  assumes "force_typed r" "k \<in> {F0MN, F0TG, F0DC}" "force_keys \<subseteq> Ks"
  shows "does (at_rest Ks r) (write_raw_for_research io k (f32_to_be v)) () (at_rest Ks (r(k \<mapsto> (TYPE_FLT, f32_to_be v))))"
proof -
  obtain bs where "r k = Some (TYPE_FLT, bs)" "length bs = 4" using assms(1,2) by (auto simp: force_typed_def)
  then show ?thesis using write_raw_rest [of k Ks r TYPE_FLT bs "f32_to_be v"] assms(2,3)
    by (auto simp: force_keys_def f32_to_be_def u32_to_be_def)
qed

lemma write_mode_rest:
  assumes "force_typed r" "force_keys \<subseteq> Ks"
  shows "does (at_rest Ks r) (write_raw_for_research io F0MD [x]) () (at_rest Ks (r(F0MD \<mapsto> (TYPE_UI8, [x]))))"
proof -
  obtain y where "r F0MD = Some (TYPE_UI8, [y])" using assms(1) by (auto simp: force_typed_def)
  then show ?thesis using write_raw_rest [of F0MD Ks r TYPE_UI8 "[y]" "[x]"] assms(2) by (simp add: force_keys_def)
qed

lemma at_rest_world: "at_rest Ks r (c, d) \<Longrightarrow> reg d' = reg d \<Longrightarrow> at_rest Ks r (c, d')"
proof -
  assume r: "at_rest Ks r (c, d)" and d: "reg d' = reg d"
  have "ready Ks c d' = ready Ks c d" unfolding ready_def d ..
  then show ?thesis using r d by (simp add: at_rest_def)
qed

lemma sleep_rest: "at_rest Ks r s \<Longrightarrow> at_rest Ks r (sleep_smc io n s)"
  by (cases s) (simp add: sleep_smc_def at_rest_world other_calls)

lemma wait_loop_reg: "reg (wait_loop n io go start bound step d) = reg d"
  by (induction n arbitrary: d) (simp_all add: other_calls)

lemma settled_rest: "at_rest Ks r s \<Longrightarrow> at_rest Ks r (wait_settled io n s)"
  by (cases s) (simp add: wait_settled_def at_rest_world wait_loop_reg)

lemma ignored_rest: "does (at_rest Ks r) m a (at_rest Ks r') \<Longrightarrow> at_rest Ks r s \<Longrightarrow> at_rest Ks r' (ignore m s)"
  unfolding does_def ignore_def by fastforce

lemma reset_rest:
  "force_typed r \<Longrightarrow> force_keys \<subseteq> Ks \<Longrightarrow> at_rest Ks r s \<Longrightarrow> at_rest Ks (r(F0MD \<mapsto> (TYPE_UI8, [0]))) (reset_mode io s)"
  by (simp add: reset_mode_def sleep_rest ignored_rest [OF write_mode_rest])

lemma floor_rest:
  "force_typed r \<Longrightarrow> force_keys \<subseteq> Ks \<Longrightarrow> at_rest Ks r s \<Longrightarrow>
   at_rest Ks (r(F0MN \<mapsto> (TYPE_FLT, f32_to_be v))) (write_floor io v s)"
  by (simp add: write_floor_def ignored_rest [OF write_flt_rest])

lemma read_or_rest:
  assumes "k \<in> Ks" "holds_flt r k v" "at_rest Ks r s"
  shows "\<exists>s'. read_or io k x s = (v, s') \<and> at_rest Ks r s'"
  using doesD [OF read_f32_rest [OF assms(1,2)] assms(3)] by (auto simp: read_or_def)

lemma try_path_rest:
  assumes w: "does (at_rest Ks r) m () (at_rest Ks r')" and v: "F0AC \<in> Ks" "holds_flt r' F0AC v" and s: "at_rest Ks r s"
  shows "\<exists>s'. try_path io p n m s = ((p, Inr v), s') \<and> at_rest Ks r' s'"
proof -
  obtain s1 where 1: "m s = (Inr (), s1)" "at_rest Ks r' s1" using doesD [OF w s] by blast
  obtain s2 where "read_or io F0AC f32_NAN (wait_settled io n s1) = (v, s2)" "at_rest Ks r' s2"
    using read_or_rest [OF v settled_rest [OF 1(2)]] by blast
  then show ?thesis using 1(1) by (simp add: try_path_def)
qed

section \<open>A fan that does not react\<close>

lemma force_chain_rest:
  assumes r: "force_typed r" "holds_flt r F0AC v" and s: "at_rest force_keys r s"
    and still: "\<not> PASS_DELTA_RPM \<le> fabs (v - base)"
  shows "\<exists>as s' r'. force_chain io interrupted settle hold base lo t duty s = Force_Ended 1 as (snd s')
    \<and> length as = 4 \<and> at_rest force_keys r' s' \<and> r' F0MN = Some (TYPE_FLT, f32_to_be lo) \<and> r' F0MD = Some (TYPE_UI8, [0])"
proof -
  let ?K = force_keys and ?md = "\<lambda>x r. r(F0MD \<mapsto> (TYPE_UI8, [x]))" and ?fl = "\<lambda>k v r. r(k \<mapsto> (TYPE_FLT, f32_to_be v))"
  have K: "?K \<subseteq> ?K" "F0AC \<in> ?K" by (auto simp: force_keys_def)
  note flt = write_flt_rest [OF _ _ K(1)] and mode = write_mode_rest [OF _ K(1)] and reset = reset_rest [OF _ K(1)]
  let ?r1 = "?fl F0TG t r"
  obtain s1 where 1: "try_path io ''F0Tg_direct'' settle (path_target io t) s = ((''F0Tg_direct'', Inr v), s1)" "at_rest ?K ?r1 s1"
    using try_path_rest [OF flt [OF r(1), of F0TG] K(2) _ s] r by (fastforce simp: path_target_def)
  let ?r2 = "?fl F0DC duty (?md 0 ?r1)"
  have t1: "force_typed (?md 0 ?r1)" using r by simp
  have "at_rest ?K (?md 0 ?r1) (reset_mode io s1)" using reset [OF _ 1(2)] r by simp
  then obtain s2 where 2: "try_path io ''F0Dc_direct'' settle (path_duty io duty) (reset_mode io s1) = ((''F0Dc_direct'', Inr v), s2)"
    "at_rest ?K ?r2 s2"
    using try_path_rest [OF flt [OF t1, of F0DC] K(2)] r by (fastforce simp: path_duty_def)
  let ?r3 = "?fl F0TG t (?md 1 (?md 0 ?r2))"
  have t2: "force_typed ?r2" using t1 by simp
  have "at_rest ?K (?md 0 ?r2) (reset_mode io s2)" using reset [OF t2 2(2)] .
  moreover have "does (at_rest ?K (?md 0 ?r2)) (path_mode_target io t) () (at_rest ?K ?r3)"
    unfolding path_mode_target_def by (intro does_bind [OF mode flt] typed_mode t2) simp_all
  ultimately obtain s3 where 3: "try_path io ''F0md=1_then_F0Tg'' settle (path_mode_target io t) (reset_mode io s2)
      = ((''F0md=1_then_F0Tg'', Inr v), s3)" "at_rest ?K ?r3 s3"
    using try_path_rest [OF _ K(2), of _ _ ?r3] r by fastforce
  let ?r4 = "?md 1 (?fl F0MN t (?md 0 ?r3))"
  have t3: "force_typed ?r3" by (intro typed_flt typed_mode t2) simp_all
  have "at_rest ?K (?md 0 ?r3) (reset_mode io s3)" using reset [OF t3 3(2)] .
  moreover have "does (at_rest ?K (?md 0 ?r3)) (path_floor io t) () (at_rest ?K ?r4)"
    unfolding path_floor_def by (intro does_bind [OF flt mode] typed_flt typed_mode t3) simp_all
  ultimately obtain s4 where 4: "try_path io ''F0Mn_raise_then_F0md=1'' settle (path_floor io t) (reset_mode io s3)
      = ((''F0Mn_raise_then_F0md=1'', Inr v), s4)" "at_rest ?K ?r4 s4"
    using try_path_rest [OF _ K(2), of _ _ ?r4] r by fastforce
  have t4: "force_typed ?r4" by (intro typed_flt typed_mode t3) simp_all
  let ?s5 = "reset_mode io (reset_mode io (write_floor io lo s4))" and ?r5 = "?md 0 (?md 0 (?fl F0MN lo ?r4))"
  have 5: "at_rest ?K ?r5 ?s5" by (intro reset floor_rest K typed_flt typed_mode t4 4(2)) simp_all
  have m: "\<not> moved base (p, Inr v)" for p using still by (simp add: moved_def)
  have "force_chain io interrupted settle hold base lo t duty s = Force_Ended 1
      [(''F0Tg_direct'', Inr v), (''F0Dc_direct'', Inr v), (''F0md=1_then_F0Tg'', Inr v), (''F0Mn_raise_then_F0md=1'', Inr v)] (snd ?s5)"
    by (simp add: force_chain_def 1(1) 2(1) 3(1) 4(1) winner_def m hold_and_teardown_def Let_def)
  then show ?thesis using 5 by (intro exI conjI) (assumption | simp)+
qed

text \<open>The whole command after the connection is open: the original floor comes back byte-reversed.\<close>

lemma force_with_target_rest:
  assumes r: "force_typed r" "r F0MN = Some (TYPE_FLT, bs)" "holds_flt r F0MN lo" "holds_flt r F0MX hi" "holds_flt r F0AC v"
    and o: "lo \<le> hi" and s: "at_rest force_keys r s"
  shows "\<exists>as s' r'. force_with_target io interrupted a target s = Force_Ended 1 as (snd s')
    \<and> length as = 4 \<and> reg (snd s') = r' \<and> r' F0MN = Some (TYPE_FLT, rev bs) \<and> r' F0MD = Some (TYPE_UI8, [0])"
proof -
  have K: "F0MN \<in> force_keys" "F0MX \<in> force_keys" "F0AC \<in> force_keys" by (auto simp: force_keys_def)
  let ?r = "r(F0MD \<mapsto> (TYPE_UI8, [0]))"
  obtain s1 where 1: "read_f32 io F0MN s = (Inr lo, s1)" "at_rest force_keys r s1"
    using doesD [OF read_f32_rest [OF K(1) r(3)] s] by blast
  obtain s2 where 2: "read_or io F0MX (lo + lit 4233 1) s1 = (hi, s2)" "at_rest force_keys r s2"
    using read_or_rest [OF K(2) r(4) 1(2)] by blast
  obtain s3 where 3: "read_or io F0AC f32_NAN s2 = (v, s3)" "at_rest force_keys r s3"
    using read_or_rest [OF K(3) r(5) 2(2)] by blast
  have 4: "at_rest force_keys ?r (reset_mode io s3)" by (rule reset_rest [OF r(1) subset_refl 3(2)])
  obtain t where t: "fclamp target lo hi = Some t" using o by (simp add: fclamp_def Let_def)
  obtain duty where du: "fclamp (divide (t - lo) (hi - lo)) (lit 0 1) (lit 1 1) = Some duty"
    using unit_order by (simp add: fclamp_def Let_def)
  have "\<not> PASS_DELTA_RPM \<le> fabs (v - v)" using r(5) decode_flt_finite by (intro still) (auto simp: holds_flt_def)
  then obtain as s' r' where 5: "force_chain io interrupted (fa_settle a) (fa_hold a) v lo t duty (reset_mode io s3) = Force_Ended 1 as (snd s')"
    "length as = 4" "at_rest force_keys r' s'" "r' F0MN = Some (TYPE_FLT, f32_to_be lo)" "r' F0MD = Some (TYPE_UI8, [0])"
    using force_chain_rest [of ?r v "reset_mode io s3" v interrupted "fa_settle a" "fa_hold a" lo t duty] r(1,5) 4
    by fastforce
  have "f32_to_be lo = rev bs" using big_endian_bytes [OF r(3,2)] .
  then show ?thesis using 5 by (simp add: force_with_target_def 1 2 3 t du Let_def at_rest_def del: One_nat_def)
qed

end

end
