(* ===== verification/Cli_Keys.thy ===== *)
theory Cli_Keys
  imports Cli_Set Enumerate
begin

text \<open>
  The command \<open>fand keys\<close> (\<open>src/cli/keys.rs\<close>): the catalog of the fans as text or JSON, and the raw
  reads and writes of the keyspace. Each mode is a function of the platform that gives the exit code,
  what it prints to standard output and the platform it leaves. \<open>host\<close> is what the three commands that
  identify the machine print (nothing when they fail).
\<close>

section \<open>Arguments\<close>

datatype keys_mode = KeysDefault | DebugOpen | KeysJson | AllFanKeys | ReadKey string | DebugWrite string string

fun parse_keys :: "keys_mode \<Rightarrow> string list \<Rightarrow> keys_mode option" where
  "parse_keys m [] = Some m"
| "parse_keys m (x # xs) =
    (if x = ''--all'' then (if m \<noteq> KeysDefault then None else parse_keys AllFanKeys xs)
     else if x = ''--read'' then (if m \<noteq> KeysDefault then None else case xs of [] \<Rightarrow> None
       | v # ys \<Rightarrow> if length v \<noteq> 4 then None else parse_keys (ReadKey v) ys)
     else if x = ''--write'' then (if m \<noteq> KeysDefault then None else case xs of [] \<Rightarrow> None
       | k # ys \<Rightarrow> if length k \<noteq> 4 then None else case ys of [] \<Rightarrow> None
         | v # zs \<Rightarrow> parse_keys (DebugWrite k v) zs)
     else if x = ''--debug-open'' then (if m \<noteq> KeysDefault then None else parse_keys DebugOpen xs)
     else if x = ''--json'' then (if m \<noteq> KeysDefault then None else parse_keys KeysJson xs)
     else None)"

section \<open>Text\<close>

record host_strings =
  hs_macos :: "string option"
  hs_model :: "string option"
  hs_arch :: "string option"

text \<open>
  A command that ran: whether it succeeded, and its standard output; \<open>None\<close> when it could not be started.
  Programs other than fand are the argument \<open>command\<close>.
\<close>

type_synonym runner = "string \<Rightarrow> string list \<Rightarrow> (bool \<times> string) option"

definition system_string :: "runner \<Rightarrow> string \<Rightarrow> string list \<Rightarrow> string option" where
  "system_string command cmd args = (case command cmd args of None \<Rightarrow> None
     | Some (success, stdout) \<Rightarrow> if \<not> success then None else from_utf8 stdout)"

definition sysctl_string :: "runner \<Rightarrow> string \<Rightarrow> string option" where
  "sysctl_string command key = system_string command ''sysctl'' [''-n'', key]"

definition host_strings_of :: "runner \<Rightarrow> host_strings" where
  "host_strings_of command = \<lparr> hs_macos = system_string command ''sw_vers'' [''-productVersion''],
     hs_model = sysctl_string command ''hw.model'', hs_arch = system_string command ''uname'' [''-m''] \<rparr>"

definition or_default :: "string option \<Rightarrow> string" where
  "or_default s = trim (case s of None \<Rightarrow> [] | Some t \<Rightarrow> t)"

text \<open>\<open>fourcc_to_string\<close> shows every byte that is not graphic, a blank included, as a question mark.\<close>

definition fourcc_to_string :: "u32 \<Rightarrow> string" where
  "fourcc_to_string k = map (\<lambda>b. let c = char_of (unat b) in if is_graphic c then c else CHR ''?'') (u32_to_be k)"

definition escape_char :: "char \<Rightarrow> string" where
  "escape_char c = (let n = of_char c :: nat in
     if n = 34 then [CHR 0x5C, c] else if n = 92 then [c, c] else if n = 10 then [CHR 0x5C, CHR ''n'']
     else if n = 13 then [CHR 0x5C, CHR ''r''] else if n = 9 then [CHR 0x5C, CHR ''t'']
     else if n < 32 then CHR 0x5C # CHR ''u'' # map to_lower (show_hex 4 n) else [c])"

definition json_escape :: "string \<Rightarrow> string" where
  "json_escape s = concat (map escape_char s)"

definition print_header :: "host_strings \<Rightarrow> string" where
  "print_header h = nl (''fand '' @ VERSION @ '' '' @ em_dash @ '' SMC fan catalog'') @
     nl (''  host: '' @ or_default (hs_model h) @ '' ('' @ or_default (hs_arch h) @ '') macOS '' @ or_default (hs_macos h))"

definition catalog_line :: "fan \<Rightarrow> string" where
  "catalog_line f = nl (''  '' @ pad_right 5 (show_u8 (fan_ix f)) @ '' '' @ pad_left 8 (show_fixed 1 (fan_min f)) @ '' ''
     @ pad_left 8 (show_fixed 1 (fan_max f)) @ '' ''
     @ pad_left 8 (case fan_safe f of Some v \<Rightarrow> show_fixed 1 v | None \<Rightarrow> em_dash) @ '' ''
     @ pad_left 8 (show_fixed 1 (fan_actual f)) @ ''  '' @ fourcc_to_string (fan_mode_key f))"

definition print_catalog :: "fan list \<Rightarrow> string" where
  "print_catalog fans = (if fans = [] then nl ''  no fans reported (fanless chassis)''
     else nl (''  '' @ pad_right 5 ''idx'' @ '' '' @ pad_left 8 ''min_rpm'' @ '' '' @ pad_left 8 ''max_rpm'' @ '' ''
       @ pad_left 8 ''safe'' @ '' '' @ pad_left 8 ''actual'' @ ''  mode_key'') @ concat (map catalog_line fans))"

definition fan_json :: "fan \<Rightarrow> string" where
  "fan_json f = json_object [field ''index'' (show_u8 (fan_ix f)), field ''min_rpm'' (show_fixed 1 (fan_min f)),
     field ''max_rpm'' (show_fixed 1 (fan_max f)),
     field ''safe_rpm'' (case fan_safe f of Some v \<Rightarrow> show_fixed 1 v | None \<Rightarrow> ''null''),
     field ''actual_rpm'' (show_fixed 1 (fan_actual f)), field ''mode_key'' (jstr (fourcc_to_string (fan_mode_key f)))]"

definition catalog_json :: "host_strings \<Rightarrow> fan list \<Rightarrow> string" where
  "catalog_json h fans = nl (json_object
     [field ''schema_version'' ''1'', field ''fand_version'' (jstr VERSION),
      field ''macos'' (jstr (json_escape (or_default (hs_macos h)))),
      field ''model'' (jstr (json_escape (or_default (hs_model h)))),
      field ''arch'' (jstr (json_escape (or_default (hs_arch h)))),
      field ''fans'' (''['' @ join '','' (map fan_json fans) @ '']'')])"

section \<open>Opening\<close>

type_synonym 'd keys_end = "int \<times> string \<times> 'd"

definition open_with_diagnostic :: "'d platform \<Rightarrow> 'd \<Rightarrow> (int, smc_connection) result \<times> 'd" where
  "open_with_diagnostic io d = (case smc_open io d of
     (Inr c, d1) \<Rightarrow> (Inr c, d1)
   | (Inl e, d1) \<Rightarrow> (Inl (case e of ServiceNotFound \<Rightarrow> 1 | OpenFailed _ \<Rightarrow> 2 | _ \<Rightarrow> 1), d1))"

definition with_open :: "'d platform \<Rightarrow> ('d smc \<Rightarrow> (int \<times> string) \<times> 'd smc) \<Rightarrow> 'd \<Rightarrow> 'd keys_end" where
  "with_open io f d = (case open_with_diagnostic io d of
     (Inl n, d1) \<Rightarrow> (n, [], d1)
   | (Inr c, d1) \<Rightarrow> (case f (c, d1) of ((n, out), s) \<Rightarrow> (n, out, snd (smc_close io s))))"

definition run_debug_open :: "'d platform \<Rightarrow> 'd \<Rightarrow> 'd keys_end" where
  "run_debug_open io d = (case smc_open io d of
     (Inr c, d1) \<Rightarrow> (0, nl ''fand keys --debug-open: IOServiceOpen success'', snd (smc_close io (c, d1)))
   | (Inl e, d1) \<Rightarrow> ((case e of OpenFailed _ \<Rightarrow> 1 | _ \<Rightarrow> 2), [], d1))"

section \<open>The catalog\<close>

definition keys_default :: "'d platform \<Rightarrow> host_strings \<Rightarrow> 'd smc \<Rightarrow> (int \<times> string) \<times> 'd smc" where
  "keys_default io h s = (case enumerate_fans io (ignore (probe_write_ftst_zero io) s) of
     (Inl _, s1) \<Rightarrow> ((1, []), s1)
   | (Inr fans, s1) \<Rightarrow> ((0, print_header h @ print_catalog fans), ignore (probe_write_ftst_zero io) s1))"

definition keys_json :: "'d platform \<Rightarrow> host_strings \<Rightarrow> 'd smc \<Rightarrow> (int \<times> string) \<times> 'd smc" where
  "keys_json io h s = (case enumerate_fans io s of
     (Inl _, s1) \<Rightarrow> ((1, []), s1) | (Inr fans, s1) \<Rightarrow> ((0, catalog_json h fans), s1))"

section \<open>The keys of the fans\<close>

definition key_line :: "nat \<Rightarrow> u32 \<Rightarrow> (smc_error, key_info) result \<Rightarrow> string" where
  "key_line i k r = nl (''  '' @ pad_right 8 (show_nat i) @ '' '' @ pad_right 8 (fourcc_to_string k) @ (case r of
     Inl _ \<Rightarrow> '' (read_key_info failed)''
   | Inr info \<Rightarrow> '' '' @ pad_right 10 (fourcc_to_string (ki_type info)) @ '' ''
       @ pad_right 12 (show_nat (unat (ki_size info))) @ '' (unknown)''))"

text \<open>The lines, how many keys begin with \<open>F\<close> and how many indices could not be read.\<close>

fun walk_fan_keys :: "'d platform \<Rightarrow> nat list \<Rightarrow> 'd smc \<Rightarrow> (string \<times> nat \<times> nat) \<times> 'd smc" where
  "walk_fan_keys io [] s = (([], 0, 0), s)"
| "walk_fan_keys io (i # is) s = (case read_key_at_index io (word_of_nat i) s of
     (Inl _, s1) \<Rightarrow> (case walk_fan_keys io is s1 of ((out, f, e), s2) \<Rightarrow> ((out, f, Suc e), s2))
   | (Inr k, s1) \<Rightarrow> if drop_bit 24 k AND 0xFF \<noteq> 0x46 then walk_fan_keys io is s1
       else (case read_key_info io k s1 of (r, s2) \<Rightarrow>
         case walk_fan_keys io is s2 of ((out, f, e), s3) \<Rightarrow> ((key_line i k r @ out, Suc f, e), s3)))"

definition all_fan_keys :: "'d platform \<Rightarrow> 'd smc \<Rightarrow> (int \<times> string) \<times> 'd smc" where
  "all_fan_keys io s = (case read_key_count io s of
     (Inl _, s1) \<Rightarrow> ((1, []), s1)
   | (Inr n, s1) \<Rightarrow> (case walk_fan_keys io [0..<unat n] s1 of ((out, f, e), s2) \<Rightarrow> ((0,
       nl (''fand keys --all '' @ em_dash @ '' '' @ show_nat (unat n) @ '' keys in SMC keyspace'')
       @ nl ''filtering to F-prefixed keys (fan-related)'' @ nl []
       @ nl (''  '' @ pad_right 8 ''idx'' @ '' '' @ pad_right 8 ''fourcc'' @ '' '' @ pad_right 10 ''data_type'' @ '' ''
           @ pad_right 12 ''data_size'' @ '' attributes'')
       @ out @ nl [] @ nl (''matched: '' @ show_nat f @ '' F-prefixed keys'')
       @ (if 0 < e then nl (''errors:  '' @ show_nat e @ '' indices failed to read'') else [])), s2)))"

section \<open>Raw reads\<close>

text \<open>The arm of the match on type and size.\<close>

datatype read_arm = ArmUi8 | ArmUi32 | ArmFlt | ArmRaw

definition read_arm :: "u32 \<Rightarrow> u32 \<Rightarrow> read_arm" where
  "read_arm ty sz = (let t = fourcc_to_string ty in
     if t = ''ui8 '' \<and> sz = 1 then ArmUi8 else if t = ''ui32'' \<and> sz = 4 then ArmUi32
     else if t = ''flt '' \<and> sz = 4 then ArmFlt else ArmRaw)"

definition typed :: "string \<Rightarrow> string \<Rightarrow> ('a \<Rightarrow> string) \<Rightarrow> (smc_error, 'a) result \<Rightarrow> string" where
  "typed what failed shown r = (case r of Inr v \<Rightarrow> nl (what @ shown v)
     | Inl e \<Rightarrow> nl (failed @ '' failed: '' @ show_smc_error e))"

definition u16_of :: "u8 \<Rightarrow> u8 \<Rightarrow> nat" where
  "u16_of hi lo = 256 * unat hi + unat lo"

definition raw_lines :: "u8 list \<Rightarrow> string" where
  "raw_lines bs = nl (''  raw  = '' @ show_bytes bs) @ (case bs of
     [a, b] \<Rightarrow> nl (''  u16  BE='' @ show_nat (u16_of a b) @ '' LE='' @ show_nat (u16_of b a))
   | [a, b, c, d] \<Rightarrow> nl (''  u32  BE='' @ show_nat (unat (u32_from_be a b c d)) @ '' LE='' @ show_nat (unat (u32_from_le a b c d)))
       @ nl (''  f32  LE='' @ show_f32 (f32_from_le a b c d))
   | _ \<Rightarrow> [])"

definition read_lines :: "'d platform \<Rightarrow> u32 \<Rightarrow> key_info \<Rightarrow> 'd smc \<Rightarrow> string \<times> 'd smc" where
  "read_lines io k info s = (case read_arm (ki_type info) (ki_size info) of
     ArmUi8 \<Rightarrow> (case read_u8 io k s of (r, s1) \<Rightarrow> (typed ''  ui8  = '' ''  ui8  read''
         (\<lambda>v. show_u8 v @ '' (0x'' @ show_hex 2 (unat v) @ '')'') r, s1))
   | ArmUi32 \<Rightarrow> (case read_u32 io k s of (r, s1) \<Rightarrow> (typed ''  ui32 = '' ''  ui32 read''
         (\<lambda>v. show_nat (unat v) @ '' (0x'' @ show_hex 8 (unat v) @ '')'') r, s1))
   | ArmFlt \<Rightarrow> (case read_f32 io k s of (r, s1) \<Rightarrow> (typed ''  flt  = '' ''  flt  read'' show_f32 r, s1))
   | ArmRaw \<Rightarrow> (case read_key io k s of
        (Inr (_, raw), s1) \<Rightarrow> (raw_lines (take (unat (ki_size info)) raw), s1)
      | (Inl e, s1) \<Rightarrow> (nl (''  read_key failed: '' @ show_smc_error e), s1)))"

definition read_key_run :: "'d platform \<Rightarrow> string \<Rightarrow> 'd smc \<Rightarrow> (int \<times> string) \<times> 'd smc" where
  "read_key_run io name s = (case read_key_info io (fourcc name) s of
     (Inl _, s1) \<Rightarrow> ((1, []), s1)
   | (Inr info, s1) \<Rightarrow> (case read_lines io (fourcc name) info s1 of (out, s2) \<Rightarrow>
       ((0, nl (''fand keys --read '' @ name @ '': type='' @ fourcc_to_string (ki_type info)
          @ '' size='' @ show_nat (unat (ki_size info))) @ out), s2)))"

section \<open>Raw writes\<close>

definition split_once :: "string \<Rightarrow> (string \<times> string) option" where
  "split_once s = (case dropWhile (\<lambda>c. c \<noteq> CHR '':'') s of [] \<Rightarrow> None
     | _ # v \<Rightarrow> Some (takeWhile (\<lambda>c. c \<noteq> CHR '':'') s, v))"

definition hex_digit :: "char \<Rightarrow> nat option" where
  "hex_digit c = (let n = of_char c :: nat in
     if 48 \<le> n \<and> n \<le> 57 then Some (n - 48) else if 65 \<le> n \<and> n \<le> 70 then Some (n - 55)
     else if 97 \<le> n \<and> n \<le> 102 then Some (n - 87) else None)"

text \<open>\<open>u8::from_str_radix(_, 16)\<close> of two characters; the standard library takes a leading plus.\<close>

definition hex_pair :: "char \<Rightarrow> char \<Rightarrow> u8 option" where
  "hex_pair a b = (case hex_digit b of None \<Rightarrow> None
     | Some y \<Rightarrow> if a = CHR ''+'' then Some (word_of_nat y)
       else map_option (\<lambda>x. word_of_nat (16 * x + y)) (hex_digit a))"

fun hex_bytes :: "string \<Rightarrow> u8 list option" where
  "hex_bytes (a # b # s) = (case hex_pair a b of None \<Rightarrow> None | Some x \<Rightarrow> map_option ((#) x) (hex_bytes s))"
| "hex_bytes [] = Some []"
| "hex_bytes [_] = None"

definition ascii_space :: "char \<Rightarrow> bool" where
  "ascii_space c \<longleftrightarrow> (of_char c :: nat) \<in> {9, 10, 12, 13, 32}"

definition payload_of :: "string \<Rightarrow> u8 list option" where
  "payload_of s = (case split_once s of None \<Rightarrow> None
     | Some (ty, v) \<Rightarrow>
         if ty = ''u8'' then map_option (\<lambda>n. [word_of_nat n]) (parse_uint 255 v)
         else if ty = ''u32'' then map_option (\<lambda>n. u32_to_be (word_of_nat n)) (parse_uint (2 ^ 32 - 1) v)
         else if ty = ''f32'' then map_option f32_to_le (parse_f32 v)
         else if ty = ''hex'' then hex_bytes (filter (\<lambda>c. \<not> ascii_space c) v)
         else None)"

definition written_lines :: "u8 list \<Rightarrow> nat \<Rightarrow> (smc_error, key_info \<times> u8 list) result \<Rightarrow> string" where
  "written_lines bs n r = nl ''  write succeeded (kIOReturnSuccess + result byte 0x00)'' @ (case r of
     Inl e \<Rightarrow> nl (''  read-back failed: '' @ show_smc_error e)
   | Inr (_, raw) \<Rightarrow> nl (''  read-back: '' @ show_bytes (take n raw)) @
       (if take n raw = bs
        then nl ''  STATUS: read-back matches written value (write took effect at register level)''
        else nl ''  STATUS: read-back DIFFERS from written value (write was overridden or aliased)''))"

definition debug_write_run :: "'d platform \<Rightarrow> string \<Rightarrow> u8 list \<Rightarrow> 'd smc \<Rightarrow> (int \<times> string) \<times> 'd smc" where
  "debug_write_run io name bs s = (let k = fourcc name in case read_key_info io k s of
     (Inl _, s1) \<Rightarrow> ((1, []), s1)
   | (Inr info, s1) \<Rightarrow>
      (let n = unat (ki_size info); head = nl (''fand keys --write '' @ name @ '': type='' @ fourcc_to_string (ki_type info)
          @ '' size='' @ show_nat n @ '' payload='' @ show_bytes bs)
       in if length bs \<noteq> n then ((64, head), s1)
       else (case write_raw_for_research io k bs s1 of
         (Inl _, s2) \<Rightarrow> ((1, head), s2)
       | (Inr _, s2) \<Rightarrow> (case read_key io k s2 of (r, s3) \<Rightarrow> ((0, head @ written_lines bs n r), s3)))))"

section \<open>The command\<close>

definition keys_run :: "'d platform \<Rightarrow> host_strings \<Rightarrow> string list \<Rightarrow> 'd \<Rightarrow> 'd keys_end" where
  "keys_run io h args d = (case parse_keys KeysDefault args of None \<Rightarrow> (64, [], d)
   | Some m \<Rightarrow> (case m of
       KeysDefault \<Rightarrow> with_open io (keys_default io h) d
     | DebugOpen \<Rightarrow> run_debug_open io d
     | KeysJson \<Rightarrow> with_open io (keys_json io h) d
     | AllFanKeys \<Rightarrow> with_open io (all_fan_keys io) d
     | ReadKey name \<Rightarrow> with_open io (read_key_run io name) d
     | DebugWrite name v \<Rightarrow> (case payload_of v of None \<Rightarrow> (64, [], d)
         | Some bs \<Rightarrow> with_open io (debug_write_run io name bs) d)))"

section \<open>Laws\<close>

text \<open>A blank is shown as a question mark, so the arms for bytes and floats are never taken.\<close>

lemma fourcc_to_string_no_blank: "CHR '' '' \<notin> set (fourcc_to_string k)"
proof -
  have "\<forall>c\<in>set (fourcc_to_string k). is_graphic c \<or> c = CHR ''?''"
    by (auto simp: fourcc_to_string_def Let_def)
  moreover have "\<not> is_graphic CHR '' ''" by (simp add: is_graphic_def)
  ultimately show ?thesis by force
qed

lemma read_arm_never_typed: "read_arm ty sz \<noteq> ArmUi8 \<and> read_arm ty sz \<noteq> ArmFlt"
  using fourcc_to_string_no_blank [of ty] by (auto simp: read_arm_def Let_def)


text \<open>
  What a JSON reader makes of a string: the escapes read back, a bare quote or control character
  refused. It reads back every string that \<open>json_escape\<close> writes.
\<close>

definition hex_value :: "string \<Rightarrow> nat option" where
  "hex_value ds = foldl (\<lambda>a d. case (a, hex_digit d) of (Some n, Some m) \<Rightarrow> Some (16 * n + m) | _ \<Rightarrow> None) (Some 0) ds"

function unescape :: "string \<Rightarrow> string option" where
  "unescape [] = Some []"
| "unescape (c # s) =
    (if of_char c = (92 :: nat) then (case s of [] \<Rightarrow> None
       | e # t \<Rightarrow> if e = CHR ''u''
           then (case hex_value (take 4 t) of Some n \<Rightarrow> map_option ((#) (char_of n)) (unescape (drop 4 t)) | None \<Rightarrow> None)
           else if e = CHR ''n'' then map_option ((#) (CHR 0x0A)) (unescape t)
           else if e = CHR ''r'' then map_option ((#) (CHR 0x0D)) (unescape t)
           else if e = CHR ''t'' then map_option ((#) (CHR 0x09)) (unescape t)
           else if e = c \<or> of_char e = (34 :: nat) then map_option ((#) e) (unescape t) else None)
     else if of_char c = (34 :: nat) \<or> of_char c < (32 :: nat) then None
     else map_option ((#) c) (unescape s))"
  by pat_completeness auto

termination
  by (relation "measure length") auto

declare unescape.simps(2) [simp del]

lemma control_hex:
  assumes "n < 32"
  shows "hex_value (map to_lower (show_hex 4 n)) = Some n" "length (show_hex 4 n) = 4"
proof -
  have "list_all (\<lambda>n. hex_value (map to_lower (show_hex 4 n)) = Some n \<and> length (show_hex 4 n) = 4) [0..<32]"
    by code_simp
  then show "hex_value (map to_lower (show_hex 4 n)) = Some n" "length (show_hex 4 n) = 4"
    using assms by (simp_all add: list_all_iff)
qed

lemma unescape_char: "unescape (escape_char c @ t) = map_option ((#) c) (unescape t)"
proof -
  consider "(of_char c :: nat) \<in> {34, 92, 10, 13, 9}" | (ctl) "(of_char c :: nat) < 32" "(of_char c :: nat) \<notin> {34, 92, 10, 13, 9}"
    | (plain) "32 \<le> (of_char c :: nat)" "(of_char c :: nat) \<notin> {34, 92, 10, 13, 9}" by fastforce
  then show ?thesis
  proof cases
    case 1
    then have "(of_char c :: nat) \<in> of_char ` {CHR 0x22, CHR 0x5C, CHR 0x0A, CHR 0x0D, CHR 0x09}" by simp
    then consider "c = CHR 0x22" | "c = CHR 0x5C" | "c = CHR 0x0A" | "c = CHR 0x0D" | "c = CHR 0x09"
      by (metis (no_types, lifting) char_of_char imageE insertE singletonD)
    then show ?thesis by cases (simp_all add: escape_char_def unescape.simps(2))
  next
    case ctl
    let ?h = "map to_lower (show_hex 4 (of_char c))"
    have "escape_char c = CHR 0x5C # CHR ''u'' # ?h" using ctl by (simp add: escape_char_def Let_def)
    moreover have "take 4 (?h @ t) = ?h" "drop 4 (?h @ t) = t" using control_hex(2) [OF ctl(1)] by simp_all
    ultimately show ?thesis using control_hex(1) [OF ctl(1)] by (simp add: unescape.simps(2))
  next
    case plain
    then show ?thesis by (simp add: escape_char_def unescape.simps(2) Let_def)
  qed
qed

lemma unescape_escape: "unescape (json_escape s) = Some s"
  by (induction s) (simp_all add: json_escape_def unescape_char)

end
