(* ===== verification/Security.thy ===== *)
theory Security
  imports Utf8
begin

text \<open>
  The scrub of the environment at the start of the process (\<open>src/security.rs\<close>). The environment is the
  list of its variables in order; listing it panics (here \<open>None\<close>) when a name or a value is not UTF-8.
\<close>

definition ALLOWLIST :: "string list" where
  "ALLOWLIST = [''PATH'', ''HOME'', ''USER'', ''LOGNAME'', ''SUDO_USER'', ''SUDO_UID'', ''SUDO_GID'', ''SUDO_COMMAND'',
     ''TERM'', ''SHELL'', ''FAND_SAFE_MIN_RPM'', ''FAND_ALLOW_TMP_CONFIG'']"

type_synonym environment = "(string \<times> string) list"

definition env_names :: "environment \<Rightarrow> string list option" where
  "env_names env = (if list_all (\<lambda>(k, v). valid_utf8 k \<and> valid_utf8 v) env then Some (map fst env) else None)"

definition remove_var :: "string \<Rightarrow> environment \<Rightarrow> environment" where
  "remove_var k env = filter (\<lambda>(n, v). n \<noteq> k) env"

definition scrub_names :: "string list \<Rightarrow> environment \<Rightarrow> environment" where
  "scrub_names names env = foldl (\<lambda>env n. if n \<in> set ALLOWLIST then env else remove_var n env) env names"

definition scrub_env :: "environment \<Rightarrow> environment option" where
  "scrub_env env = map_option (\<lambda>names. scrub_names names env) (env_names env)"

text \<open>Exactly the allowed variables survive, in order and with their values.\<close>

lemma scrub_names_filter:
  "scrub_names names env = filter (\<lambda>(n, v). n \<notin> set names \<or> n \<in> set ALLOWLIST) env"
proof (induction names arbitrary: env)
  case (Cons k names)
  show ?case using Cons.IH [of "if k \<in> set ALLOWLIST then env else remove_var k env"]
    by (auto simp: scrub_names_def remove_var_def intro!: filter_cong)
qed (simp add: scrub_names_def)

lemma scrub_env_allowed:
  "scrub_env env = Some env' \<Longrightarrow> env' = filter (\<lambda>(n, v). n \<in> set ALLOWLIST) env"
  by (auto simp: scrub_env_def env_names_def scrub_names_filter rev_image_eqI split: if_splits intro!: filter_cong)

end
