(* ===== verification/Log.thy ===== *)
theory Log
  imports Show Machine
begin

text \<open>
  Logging (\<open>src/log.rs\<close>): levels, and the rate limit per call site. The lines written are collected in
  the state; the time stamp of a line is an argument. One thread logs; the buckets are a list of 64.
\<close>

datatype log_level = LError | LWarn | LInfo | LDebug | LTrace

fun level_num :: "log_level \<Rightarrow> u8" where
  "level_num LError = 0"
| "level_num LWarn = 1"
| "level_num LInfo = 2"
| "level_num LDebug = 3"
| "level_num LTrace = 4"

definition level_from_str :: "string \<Rightarrow> log_level" where
  "level_from_str s = (if s = ''error'' then LError else if s = ''warn'' then LWarn else if s = ''info'' then LInfo
     else if s = ''debug'' then LDebug else if s = ''trace'' then LTrace else LInfo)"

fun level_str :: "log_level \<Rightarrow> string" where
  "level_str LError = ''ERROR''"
| "level_str LWarn = ''WARN''"
| "level_str LInfo = ''INFO''"
| "level_str LDebug = ''DEBUG''"
| "level_str LTrace = ''TRACE''"

record log_state =
  lg_level :: u8
  lg_buckets :: "u32 list"
  lg_suppressed :: "u32 list"
  lg_lines :: "string list"

definition log_init :: log_state where
  "log_init = \<lparr> lg_level = level_num LInfo, lg_buckets = replicate 64 3, lg_suppressed = replicate 64 0, lg_lines = [] \<rparr>"

definition set_level :: "log_level \<Rightarrow> log_state \<Rightarrow> log_state" where
  "set_level l s = s\<lparr> lg_level := level_num l \<rparr>"

definition current_level :: "log_state \<Rightarrow> log_level" where
  "current_level s = (if lg_level s = 0 then LError else if lg_level s = 1 then LWarn else if lg_level s = 2 then LInfo
     else if lg_level s = 3 then LDebug else LTrace)"

definition is_enabled :: "log_level \<Rightarrow> log_state \<Rightarrow> bool" where
  "is_enabled l s \<longleftrightarrow> level_num l \<le> lg_level s"

definition log_line :: "string \<Rightarrow> log_level \<Rightarrow> string \<Rightarrow> string" where
  "log_line stamp l m = ''['' @ stamp @ ''s] '' @ level_str l @ '' '' @ m"

definition rate_limited_emit :: "string \<Rightarrow> u64 \<Rightarrow> log_level \<Rightarrow> string \<Rightarrow> log_state \<Rightarrow> log_state" where
  "rate_limited_emit stamp site_hash l m s =
    (let idx = unat (site_hash mod 64); remaining = lg_buckets s ! idx in
     if remaining = 0 then s\<lparr> lg_suppressed := (lg_suppressed s)[idx := lg_suppressed s ! idx + 1] \<rparr>
     else let suppressed = lg_suppressed s ! idx;
              line = (if 0 < suppressed then log_line stamp l m @ '' (suppressed '' @ show_nat (unat suppressed) @ '' similar)''
                else log_line stamp l m) in
       s\<lparr> lg_buckets := (lg_buckets s)[idx := remaining - 1], lg_suppressed := (lg_suppressed s)[idx := 0],
          lg_lines := lg_lines s @ [line] \<rparr>)"

definition refill_buckets :: "log_state \<Rightarrow> log_state" where
  "refill_buckets s = s\<lparr> lg_buckets := map (\<lambda>b. if b < 3 then sat_add b 1 else b) (lg_buckets s) \<rparr>"

definition emit_raw :: "string \<Rightarrow> log_level \<Rightarrow> string \<Rightarrow> log_state \<Rightarrow> log_state" where
  "emit_raw stamp l m s = (if \<not> is_enabled l s then s else s\<lparr> lg_lines := lg_lines s @ [log_line stamp l m] \<rparr>)"

text \<open>The hash of a call site in the macro, and the macro.\<close>

definition site_hash :: "string \<Rightarrow> u64 \<Rightarrow> u64" where
  "site_hash file ln = foldl (\<lambda>h b. h * 33 + word_of_nat (of_char b)) 5381 file + ln"

definition log_macro :: "string \<Rightarrow> string \<Rightarrow> u64 \<Rightarrow> log_level \<Rightarrow> string \<Rightarrow> log_state \<Rightarrow> log_state" where
  "log_macro stamp file ln l m s = (if is_enabled l s then rate_limited_emit stamp (site_hash file ln) l m s else s)"

section \<open>The rate limit\<close>

definition log_wf :: "log_state \<Rightarrow> bool" where
  "log_wf s \<longleftrightarrow> length (lg_buckets s) = 64 \<and> length (lg_suppressed s) = 64 \<and> (\<forall>b\<in>set (lg_buckets s). b \<le> 3)"

lemma mod_64: "unat (w mod 64) < 64" for w :: u64
  by (simp add: unat_mod)

lemma log_wf_init: "log_wf log_init"
  by (simp add: log_wf_def log_init_def)

lemma log_wf_emit: "log_wf s \<Longrightarrow> log_wf (rate_limited_emit stamp h l m s)"
proof -
  assume s: "log_wf s"
  let ?i = "unat (h mod 64)"
  have "unat (lg_buckets s ! ?i) \<le> 3" using s mod_64 [of h] by (auto simp: log_wf_def word_le_nat_alt)
  then have "lg_buckets s ! ?i \<noteq> 0 \<Longrightarrow> lg_buckets s ! ?i - 1 \<le> 3" by (simp add: word_le_nat_alt unat_minus_one)
  then show ?thesis using s
    by (auto simp: log_wf_def rate_limited_emit_def Let_def dest!: set_update_subset_insert [THEN subsetD])
qed

lemma log_wf_refill: "log_wf s \<Longrightarrow> log_wf (refill_buckets s)"
proof -
  have "sat_add b 1 \<le> 3" if "b < 3" for b :: u32
    using that by (simp add: word_le_nat_alt word_less_nat_alt unat_sat_add)
  then show "log_wf s \<Longrightarrow> log_wf (refill_buckets s)" by (auto simp: log_wf_def refill_buckets_def)
qed

text \<open>Messages of one site between two refills: as many lines as the bucket holds, the rest is counted.\<close>

definition site :: "u64 \<Rightarrow> nat" where
  "site h = unat (h mod 64)"

definition emit_all :: "u64 \<Rightarrow> (string \<times> log_level \<times> string) list \<Rightarrow> log_state \<Rightarrow> log_state" where
  "emit_all h ms s = foldl (\<lambda>s (stamp, l, m). rate_limited_emit stamp h l m s) s ms"

lemma emit_all_lines:
  "log_wf s \<Longrightarrow> length (lg_lines (emit_all h ms s)) = length (lg_lines s) + min (length ms) (unat (lg_buckets s ! site h))
     \<and> unat (lg_buckets (emit_all h ms s) ! site h) = unat (lg_buckets s ! site h) - length ms"
proof (induction ms arbitrary: s)
  case (Cons x ms)
  obtain stamp l m where x: "x = (stamp, l, m)" by (cases x)
  let ?s = "rate_limited_emit stamp h l m s"
  have i: "site h < 64" by (simp add: site_def mod_64)
  have b: "unat (lg_buckets ?s ! site h) = unat (lg_buckets s ! site h) - 1
      \<and> length (lg_lines ?s) = length (lg_lines s) + (if lg_buckets s ! site h = 0 then 0 else 1)"
    using Cons.prems i by (auto simp: rate_limited_emit_def Let_def log_wf_def site_def unat_minus_one)
  have "lg_buckets s ! site h = 0 \<longleftrightarrow> unat (lg_buckets s ! site h) = 0" by (simp add: unat_eq_0)
  then show ?case using Cons.IH [OF log_wf_emit [OF Cons.prems, of stamp h l m]] b by (auto simp: emit_all_def x)
qed (simp add: emit_all_def)

end
