(* ===== verification/Selftest_Laws.thy ===== *)
theory Selftest_Laws
  imports Selftest Session_Lifecycle
begin

text \<open>
  The self-test as a whole: what its reports can say, and what it does on a device whose fan keeps its
  speed: every verified write succeeds, every sample is that speed, and the fan is left in automatic mode.
\<close>

declare key_fourcc.simps [simp del]

section \<open>Reports\<close>

lemma eachE_all: "fst (eachE f xs s) = Inr ys \<Longrightarrow> (\<And>x s y. fst (f x s) = Inr y \<Longrightarrow> P x y) \<Longrightarrow> list_all2 P xs ys"
proof (induction xs arbitrary: s ys)
  case (Cons x xs)
  obtain r s1 where 1: "f x s = (r, s1)" by force
  obtain r2 s2 where 2: "eachE f xs s1 = (r2, s2)" by force
  obtain y zs where y: "r = Inr y" "r2 = Inr zs" "ys = y # zs"
    using Cons.prems(1) by (auto simp: 1 2 bindE_def ret_def split: sum.splits)
  then show ?case using Cons.IH [of s1 zs] Cons.prems(2) [of x s] Cons.prems(2) 1 2 by simp
qed (simp add: ret_def)

lemma fan_report:
  "fst (selftest_fan io n i s) = Inr f \<Longrightarrow> fr_index f = i \<and> fr_completed f = n \<and> fr_requested f = n \<and> fr_mismatches f = 0
     \<and> fr_result f = (if DELTA_THRESHOLD_RPM \<le> fr_delta f then Pass else Inconclusive)"
  by (auto simp: selftest_fan_def bindE_def ret_def classify_fan_def Let_def split: prod.splits sum.splits)

lemma run_selftest_report:
  assumes "fst (run_selftest io n s) = Inr r"
  shows "map fr_index (sr_per_fan r) = map fan_ix (ws_envelopes (fst s)) \<and> sr_mismatches r = 0
    \<and> (\<forall>f\<in>set (sr_per_fan r). fr_completed f = n \<and> fr_requested f = n)
    \<and> sr_overall r = (if \<forall>f\<in>set (sr_per_fan r). DELTA_THRESHOLD_RPM \<le> fr_delta f then Pass else Inconclusive)"
proof -
  obtain fs w where e: "fst (eachE (selftest_fan io n) (map fan_ix (ws_envelopes (fst s))) s) = Inr fs"
    "r = classify_report fs w"
    using assms by (auto simp: run_selftest_def bindE_def Let_def split: prod.splits sum.splits)
  have l: "list_all2 (\<lambda>i f. fr_index f = i \<and> fr_completed f = n \<and> fr_requested f = n \<and> fr_mismatches f = 0
     \<and> fr_result f = (if DELTA_THRESHOLD_RPM \<le> fr_delta f then Pass else Inconclusive)) (map fan_ix (ws_envelopes (fst s))) fs"
    by (rule eachE_all [OF e(1)]) (use fan_report in blast)
  then have m: "map fr_index fs = map fan_ix (ws_envelopes (fst s))"
    by (simp add: list_all2_conv_all_nth list_eq_iff_nth_eq)
  have a: "\<forall>f\<in>set fs. fr_completed f = n \<and> fr_requested f = n \<and> fr_mismatches f = 0
     \<and> fr_result f = (if DELTA_THRESHOLD_RPM \<le> fr_delta f then Pass else Inconclusive)"
    using l by (auto simp: list_all2_conv_all_nth in_set_conv_nth)
  then have "sum_list (map fr_mismatches fs) = 0" by (induction fs) auto
  then show ?thesis using m a by (auto simp: e(2) classify_report_def Let_def list_ex_iff)
qed

section \<open>A fan that keeps its speed\<close>

text \<open>A fan that is in automatic mode when the test begins, and at rest.\<close>

definition resting :: "u32 set \<Rightarrow> (u32 \<Rightarrow> (u32 \<times> u8 list) option) \<Rightarrow> f32 \<Rightarrow> u8 \<Rightarrow> bool" where
  "resting Ks r v i \<longleftrightarrow> key_fourcc (FanMode i) \<in> Ks \<and> r (key_fourcc (FanMode i)) = Some (TYPE_UI8, [0])
     \<and> fan_key i CHR ''A'' CHR ''c'' \<in> Ks \<and> holds_flt r (fan_key i CHR ''A'' CHR ''c'') v"

definition still_report :: "u8 \<Rightarrow> f32 \<Rightarrow> u8 \<Rightarrow> fan_report" where
  "still_report n v i = (let vs = replicate SAMPLES_PER_HOLD v in classify_fan i n n (word_of_nat (2 * unat n)) 0
     (map (\<lambda>iter. classify_iteration iter vs vs) (map word_of_nat [0..<unat n])))"

context smc_device
begin

lemma ws_rest_sleep: "ws_rest Ks r F s \<Longrightarrow> ws_rest Ks r F (sleep_ms io n s)"
proof -
  assume s: "ws_rest Ks r F s"
  have "ready Ks c (io_sleep_ms io n d) = ready Ks c d" for c d unfolding ready_def other_calls ..
  then show ?thesis using s by (cases s) (simp add: sleep_ms_def ws_rest_def at_rest_def other_calls)
qed

lemma sample_rest:
  assumes F: "framed F" and ac: "fan_key i CHR ''A'' CHR ''c'' \<in> Ks" "holds_flt r (fan_key i CHR ''A'' CHR ''c'') v"
    and s: "ws_rest Ks r F s"
  shows "\<exists>s'. sample_actual io i s = (v, s') \<and> ws_rest Ks r F s'"
  using doesD [OF on_conn_rest [OF read_f32_rest [OF ac] F] s] by (auto simp: sample_actual_def read_actual_rpm_def)

lemma hold_loop_rest:
  assumes F: "framed F" and ac: "fan_key i CHR ''A'' CHR ''c'' \<in> Ks" "holds_flt r (fan_key i CHR ''A'' CHR ''c'') v"
  shows "ws_rest Ks r F s \<Longrightarrow>
    \<exists>s'. hold_loop n (sleep_ms io t) (sample_actual io i) s = (replicate n v, s') \<and> ws_rest Ks r F s'"
proof (induction n arbitrary: s)
  case (Suc n)
  obtain s1 where 1: "sample_actual io i (sleep_ms io t s) = (v, s1)" "ws_rest Ks r F s1"
    using sample_rest [OF F ac ws_rest_sleep [OF Suc.prems]] by blast
  then show ?case using Suc.IH [OF 1(2)] by (auto simp: Let_def)
qed simp

lemma hold_samples_rest:
  assumes "framed F" "fan_key i CHR ''A'' CHR ''c'' \<in> Ks" "holds_flt r (fan_key i CHR ''A'' CHR ''c'') v"
  shows "does (ws_rest Ks r F) (hold_samples io i) (replicate SAMPLES_PER_HOLD v) (ws_rest Ks r F)"
  unfolding does_def
proof (intro allI impI)
  fix s assume "ws_rest Ks r F s"
  then obtain s' where "hold_loop SAMPLES_PER_HOLD (sleep_ms io SAMPLE_INTERVAL_MS) (sample_actual io i) s
      = (replicate SAMPLES_PER_HOLD v, s')" "ws_rest Ks r F s'"
    using hold_loop_rest [OF assms] by blast
  then show "\<exists>s'. hold_samples io i s = (Inr (replicate SAMPLES_PER_HOLD v), s') \<and> ws_rest Ks r F s'"
    by (simp add: hold_samples_def hold_and_sample_def)
qed

lemma iteration_rest:
  fixes i :: u8 and v :: f32
  defines "k \<equiv> key_fourcc (FanMode i)" and "a \<equiv> fan_key i CHR ''A'' CHR ''c''" and "vs \<equiv> replicate SAMPLES_PER_HOLD v"
  assumes F: "unlock_framed F" and k: "k \<in> Ks" "r k = Some (TYPE_UI8, [x])" and a: "a \<in> Ks" "holds_flt r a v"
  shows "does (ws_rest Ks r F) (selftest_iteration io i iter) (classify_iteration iter vs vs) (ws_rest Ks (r(k \<mapsto> (TYPE_UI8, [0]))) F)"
proof -
  have F': "framed F" using F by (simp add: unlock_framed_def)
  have n: "k \<noteq> a" by (simp add: k_def a_def mode_fan_key fan_key_def u32_from_be_inject byte_def)
  have h: "holds_flt (r(k \<mapsto> y)) a v" for y using a(2) n by (simp add: holds_flt_def)
  note hs = hold_samples_rest [OF F' a(1) [unfolded a_def] h [unfolded a_def]]
  have 1: "does (ws_rest Ks r F) (write_mode io i 1 c) () (ws_rest Ks (r(k \<mapsto> (TYPE_UI8, [1]))) F)" for c
    unfolding k_def by (rule write_mode_rest [where r = r, OF k(1,2) [unfolded k_def] F])
  have 2: "does (ws_rest Ks (r(k \<mapsto> (TYPE_UI8, [1]))) F) (write_mode io i 0 c) () (ws_rest Ks (r(k \<mapsto> (TYPE_UI8, [0]))) F)" for c
    using write_mode_rest [where r = "r(k \<mapsto> (TYPE_UI8, [1]))" and x = 1, OF k(1) [unfolded k_def] _ F, of 0 c]
    by (simp add: k_def)
  show ?thesis unfolding selftest_iteration_def vs_def
    by (rule does_bind, rule 1, rule does_bind, rule hs, rule does_bind, rule 2, rule does_bind, rule hs, rule does_ret)
qed

lemma selftest_fan_rest:
  assumes F: "unlock_framed F" and h: "resting Ks r v i"
  shows "does (ws_rest Ks r F) (selftest_fan io n i) (still_report n v i) (ws_rest Ks r F)"
proof -
  have "does (ws_rest Ks r F) (selftest_iteration io i iter)
      (classify_iteration iter (replicate SAMPLES_PER_HOLD v) (replicate SAMPLES_PER_HOLD v)) (ws_rest Ks r F)" for iter
  proof -
    have "r(key_fourcc (FanMode i) \<mapsto> (TYPE_UI8, [0])) = r" using h by (auto simp: resting_def)
    then show ?thesis using iteration_rest [OF F, of i Ks r 0 v iter] h by (simp add: resting_def)
  qed
  then show ?thesis
    unfolding selftest_fan_def still_report_def Let_def
    by (intro does_bind [OF does_each does_ret])
qed

lemma run_selftest_rest:
  assumes F: "unlock_framed F" and h: "\<forall>i\<in>fan_ix ` set (ws_envelopes (fst s)). resting Ks r v i" and s: "ws_rest Ks r F s"
  shows "\<exists>rep s'. run_selftest io n s = (Inr rep, s') \<and> ws_rest Ks r F s'
    \<and> sr_per_fan rep = map (still_report n v) (map fan_ix (ws_envelopes (fst s)))"
proof -
  have "does (ws_rest Ks r F) (eachE (selftest_fan io n) (map fan_ix (ws_envelopes (fst s))))
      (map (still_report n v) (map fan_ix (ws_envelopes (fst s)))) (ws_rest Ks r F)"
    using h by (intro does_each selftest_fan_rest F) auto
  from doesD [OF this s] show ?thesis
    by (auto simp: run_selftest_def bindE_def Let_def classify_report_def)
qed

end

end
