(* ===== verification/Gcd.thy ===== *)
theory Gcd
  imports Unlock
begin

text \<open>
  The timers of the dispatch library (\<open>src/launchd/gcd.rs\<close>). The library is the record \<open>dispatch\<close> of the
  calls the code makes; handles are numbers. What a source holds as its context and handler is the
  datatype \<open>source_event\<close>, whose runs are \<open>fire\<close>. The counter \<open>last_tick\<close> is shared with the tick loop and
  read through the state. \<open>enter_dispatch_main\<close> never returns and has no counterpart here.
\<close>

section \<open>The library\<close>

datatype 'd source_event = TimerEvent "'d \<Rightarrow> 'd" | WatchdogEvent "'d \<Rightarrow> u64" u64 "'d \<Rightarrow> 'd"

record 'd dispatch =
  di_main_queue :: nat
  di_queue_create :: "string \<Rightarrow> 'd \<Rightarrow> nat \<times> 'd"
  di_source_create :: "nat \<Rightarrow> 'd \<Rightarrow> nat \<times> 'd"
  di_set_timer :: "nat \<Rightarrow> u64 \<Rightarrow> u64 \<Rightarrow> u64 \<Rightarrow> 'd \<Rightarrow> 'd"
  di_set_event :: "nat \<Rightarrow> 'd source_event \<Rightarrow> 'd \<Rightarrow> 'd"
  di_resume :: "nat \<Rightarrow> 'd \<Rightarrow> 'd"
  di_cancel :: "nat \<Rightarrow> 'd \<Rightarrow> 'd"
  di_release :: "nat \<Rightarrow> 'd \<Rightarrow> 'd"
  di_now :: "'d \<Rightarrow> u64"

section \<open>Timers\<close>

definition NSEC_PER_MSEC :: u64 where "NSEC_PER_MSEC = 1000000"

definition DISPATCH_TIME_NOW :: u64 where "DISPATCH_TIME_NOW = 0"

text \<open>\<open>start_timer\<close> and \<open>create_watchdog\<close>: the interval and the leeway in nanoseconds.\<close>

definition timer_params :: "u64 \<Rightarrow> u64 \<Rightarrow> u64 \<times> u64" where
  "timer_params interval_ms leeway_ms = (interval_ms * NSEC_PER_MSEC, leeway_ms * NSEC_PER_MSEC)"

definition watchdog_params :: "u64 \<Rightarrow> u64 \<times> u64" where
  "watchdog_params check_interval_ms = (check_interval_ms * NSEC_PER_MSEC, 100 * NSEC_PER_MSEC)"

text \<open>The last four calls of both: the timer, the context with its handler, and the start.\<close>

definition arm_source :: "'d dispatch \<Rightarrow> nat \<Rightarrow> u64 \<times> u64 \<Rightarrow> 'd source_event \<Rightarrow> 'd \<Rightarrow> 'd" where
  "arm_source di source params e d =
     di_resume di source (di_set_event di source e
       (di_set_timer di source DISPATCH_TIME_NOW (fst params) (snd params) d))"

definition start_timer :: "'d dispatch \<Rightarrow> u64 \<Rightarrow> u64 \<Rightarrow> ('d \<Rightarrow> 'd) \<Rightarrow> 'd \<Rightarrow> nat \<times> 'd" where
  "start_timer di interval_ms leeway_ms callback d =
    (let (source, d1) = di_source_create di (di_main_queue di) d
     in (source, arm_source di source (timer_params interval_ms leeway_ms) (TimerEvent callback) d1))"

definition cancel_timer :: "'d dispatch \<Rightarrow> nat \<Rightarrow> 'd \<Rightarrow> 'd" where
  "cancel_timer di source d = di_cancel di source d"

definition drop_timer :: "'d dispatch \<Rightarrow> nat \<Rightarrow> 'd \<Rightarrow> 'd" where
  "drop_timer di source d = di_release di source d"

definition create_watchdog ::
  "'d dispatch \<Rightarrow> ('d \<Rightarrow> u64) \<Rightarrow> u64 \<Rightarrow> u64 \<Rightarrow> ('d \<Rightarrow> 'd) \<Rightarrow> 'd \<Rightarrow> (nat \<times> nat) \<times> 'd" where
  "create_watchdog di last_tick deadline_ns check_interval_ms on_stall d =
    (let (queue, d1) = di_queue_create di ''com.fand.watchdog'' d;
         (source, d2) = di_source_create di queue d1
     in ((source, queue),
         arm_source di source (watchdog_params check_interval_ms) (WatchdogEvent last_tick deadline_ns on_stall) d2))"

definition drop_watchdog :: "'d dispatch \<Rightarrow> nat \<times> nat \<Rightarrow> 'd \<Rightarrow> 'd" where
  "drop_watchdog di h d = di_release di (snd h) (di_release di (fst h) (di_cancel di (fst h) d))"

section \<open>Events\<close>

fun fire :: "'d dispatch \<Rightarrow> 'd source_event \<Rightarrow> 'd \<Rightarrow> 'd" where
  "fire di (TimerEvent callback) d = callback d"
| "fire di (WatchdogEvent last_tick deadline_ns on_stall) d =
     (if watchdog_handler (last_tick d) (di_now di d) deadline_ns then on_stall d else d)"

section \<open>Laws\<close>

lemma watchdog_handler_iff:
  "watchdog_handler t now deadline \<longleftrightarrow> 0 < unat t \<and> unat t + unat deadline < unat now"
  by (auto simp: watchdog_handler_def word_less_nat_alt unat_sat_sub)

text \<open>
  The readings of \<open>mach_absolute_time\<close> count ticks of 125/3 nanoseconds on this hardware, and the handler
  takes them for nanoseconds: a stall shows only after \<open>deadline\<close> ticks.

  A library that keeps its calls: the source runs only once it has its timer and its handler, and a
  dropped watchdog cancels before it releases the source and the queue it created.
\<close>

datatype call = MkQueue string | MkSource nat | SetTimer nat u64 u64 u64 | SetEvent nat | Resume nat | Cancel nat | Release nat

definition recorder :: "call list dispatch" where
  "recorder = \<lparr> di_main_queue = 0, di_queue_create = (\<lambda>n d. (Suc (length d), d @ [MkQueue n])),
     di_source_create = (\<lambda>q d. (Suc (length d), d @ [MkSource q])),
     di_set_timer = (\<lambda>s a b c d. d @ [SetTimer s a b c]), di_set_event = (\<lambda>s e d. d @ [SetEvent s]),
     di_resume = (\<lambda>s d. d @ [Resume s]), di_cancel = (\<lambda>s d. d @ [Cancel s]), di_release = (\<lambda>s d. d @ [Release s]),
     di_now = (\<lambda>d. 0) \<rparr>"

lemma start_timer_calls:
  "start_timer recorder i l f [] = (1, [MkSource 0, SetTimer 1 0 (i * 1000000) (l * 1000000), SetEvent 1, Resume 1])"
  by (simp add: start_timer_def recorder_def arm_source_def timer_params_def NSEC_PER_MSEC_def DISPATCH_TIME_NOW_def)

lemma watchdog_life:
  assumes "create_watchdog recorder t n i f [] = (h, d)"
  shows "drop_watchdog recorder h d = [MkQueue ''com.fand.watchdog'', MkSource 1, SetTimer 2 0 (i * 1000000) 100000000,
    SetEvent 2, Resume 2, Cancel 2, Release 2, Release 1]"
  using assms by (auto simp: create_watchdog_def drop_watchdog_def recorder_def arm_source_def watchdog_params_def
      NSEC_PER_MSEC_def DISPATCH_TIME_NOW_def)

end
