(* ===== verification/Cli_Properties.thy ===== *)
theory Cli_Properties
  imports Config_Laws Research_Laws One_Fan Cli_Parse Cli_Keys Cli_Run Security Log Selftest_Laws Gcd
begin


section \<open>Configuration\<close>

text \<open>C15. A reload succeeds with a configuration exactly when the file opens, is safe (not writable by
  group or others, at most 64 KiB, outside the temporary directories unless allowed), is read, parses
  as TOML of version 1 and passes validation; every other way out is an error value.
\<close>

theorem reload_accepts:
  "reload_config os path = Inr c \<longleftrightarrow> (\<exists>fd content raw. co_open os path = Inr fd \<and> safe_file os fd
     \<and> co_read os fd = Inr content \<and> co_toml os content = Inr raw \<and> c = config_defaults raw \<and> config_version c = 1)
     \<and> 100 \<le> poll_interval_ms c \<and> poll_interval_ms c \<le> 5000 \<and> cfg_log_level c \<in> {''error'', ''warn'', ''info'', ''debug''}
     \<and> cfg_fans c \<noteq> [] \<and> distinct (map fb_index (cfg_fans c)) \<and> list_all accepted_fan (cfg_fans c)"
  unfolding reload_config_Inr load_config_Inr accepted_def by blast

text \<open>C16. The curve of a fan in a configuration that was loaded, with temperatures between 1 and \<open>2^64\<close>
  degrees and speeds between \<open>m\<close> and \<open>M\<close>, answers every reading, NaN and the infinities included,
  with a finite speed between \<open>m\<close> and \<open>M\<close>, up to half an RPM.
\<close>

theorem loaded_curves_answer:
  assumes "reload_config os path = Inr c" "f \<in> set (cfg_fans c)" "list_all (in_range m M) (fb_curve f)" "M \<le> 131072"
  shows "is_finite (evaluate (fb_curve f) x) \<and> rv (evaluate (fb_curve f) x) \<in> {real m - 1 / 2 .. real M + 1 / 2}"
proof -
  have "accepted_fan f" using assms(1,2) by (auto simp: reload_config_Inr accepted_def list_all_iff)
  then have w: "wf_curve (fb_curve f)" using assms(3,4) accepted_curve by blast
  have "m \<le> unat (snd p) \<and> unat (snd p) \<le> M" if "p \<in> set (fb_curve f)" for p
    using assms(3) that by (auto simp: list_all_iff in_range_def)
  from evaluate_range [OF w this, of x] show ?thesis by simp
qed

text \<open>A file with one fan: a sensor, two breakpoints, every default.\<close>

definition small_curve :: "breakpoint list" where
  "small_curve = [(lit 50 1, 1200), (lit 90 1, 5000)]"

definition small_raw :: raw_config where
  "small_raw = \<lparr> rc_config_version = Some 1, rc_poll_interval_ms = None, rc_log_level = None, rc_control_socket_path = None,
     rc_control_socket_mode = None, rc_low_power_attenuation_default = None, rc_fan = [\<lparr> rf_index = 0,
       rf_sensors = [Name ''TC0P''], rf_fusion = None, rf_curve = small_curve, rf_hysteresis_up = None,
       rf_hysteresis_down = None, rf_smoothing_alpha = None, rf_ramp_down_rpm_per_s = None, rf_panic_temp_c = None,
       rf_panic_hold_s = None, rf_min_start_rpm = None, rf_low_power_attenuation = None, rf_ac = None, rf_battery = None \<rparr>] \<rparr>"

definition small_os :: config_os where
  "small_os = \<lparr> co_open = (\<lambda>_. Inr 3), co_fstat = (\<lambda>_. Some \<lparr> fs_mode = 0x1A4, fs_uid = 0, fs_size = 300 \<rparr>),
     co_getpath = (\<lambda>_. Some ''/etc/fand.toml''), co_read = (\<lambda>_. Inr []), co_env = (\<lambda>_. None),
     co_toml = (\<lambda>_. Inr small_raw) \<rparr>"

lemma small_safe: "safe_file small_os 3"
proof -
  have "from_utf8 ''/etc/fand.toml'' = Some ''/etc/fand.toml''" by code_simp
  then have "\<not> in_tmp (resolved_path ''/etc/fand.toml'')"
    by (simp add: resolved_path_def nul_def in_tmp_def)
  moreover have "permission_bits \<lparr> fs_mode = 0x1A4, fs_uid = 0, fs_size = 300 \<rparr> AND 0x12 = 0"
    by (simp add: permission_bits_def)
  ultimately show ?thesis by (simp add: safe_file_def small_os_def MAX_CONFIG_SIZE_def)
qed

lemma small_accepted: "accepted (config_defaults small_raw)"
proof -
  have "fourcc_name ''TC0P''" by code_simp
  then show ?thesis
    by (simp add: accepted_def config_defaults_def small_raw_def default_to_def default_poll_interval_def default_log_level_def
        fan_defaults_def accepted_fan_def sensor_name_def small_curve_def good_temp_def default_hysteresis_down_def f32_eval)
qed

lemma small_loads: "reload_config small_os ''/etc/fand.toml'' = Inr (config_defaults small_raw)"
proof -
  have "config_version (config_defaults small_raw) = 1" by (simp add: config_defaults_def small_raw_def default_to_def)
  then show ?thesis unfolding reload_config_Inr load_config_Inr using small_safe small_accepted by (simp add: small_os_def)
qed

theorem loaded_curves_answer_witness: "rv (evaluate small_curve f32_NAN) \<in> {1200 - 1 / 2 .. 5000 + 1 / 2}"
proof -
  have c: "cfg_fans (config_defaults small_raw) = [fan_defaults (hd (rc_fan small_raw))]"
    "fb_curve (fan_defaults (hd (rc_fan small_raw))) = small_curve"
    by (simp_all add: config_defaults_def small_raw_def fan_defaults_def)
  have "list_all (in_range 1200 5000) small_curve" by (simp add: small_curve_def in_range_def f32_eval)
  then show ?thesis
    using loaded_curves_answer [OF small_loads, of "fan_defaults (hd (rc_fan small_raw))" 1200 5000 f32_NAN] by (simp add: c)
qed

section \<open>Values on the command line\<close>

text \<open>C36. A fan index is accepted exactly when it is a non-empty string of digits of value at most 255,
  and means that value; leading zeros are allowed; and every index reads back from how it is shown.
\<close>

theorem fan_index_parse:
  "(parse_fan_index s = Inr i \<longleftrightarrow> s \<noteq> [] \<and> list_all is_digit s \<and> dec s \<le> 255 \<and> i = word_of_nat (dec s))
    \<and> parse_fan_index (show_u8 j) = Inr j"
  using unsigned_less [of j, where 'a = nat] by (simp add: parse_fan_index_iff show_u8_def)

text \<open>C37. A speed is accepted exactly when it is a plain decimal (digits, and after a point at least one
  more) whose correctly rounded binary32 value is between 0 and 50000, and means that value.
\<close>

theorem rpm_parse:
  "parse_rpm s = Inr v \<longleftrightarrow> (\<exists>ip fp. ip \<noteq> [] \<and> list_all is_digit ip \<and> list_all is_digit fp
     \<and> s = (if fp = [] then ip else ip @ CHR ''.'' # fp)
     \<and> v = scale10 False (dec (ip @ fp)) (- int (length fp)) \<and> is_finite v \<and> 0 \<le> fv v \<and> fv v \<le> 50000 * 2 ^ 149)"
proof -
  have "is_finite v \<Longrightarrow> \<not> v < lit 0 1 \<and> \<not> RPM_SANITY_CEILING < v \<longleftrightarrow> 0 \<le> fv v \<and> fv v \<le> 50000 * 2 ^ 149" for v
    using ceiling_fin by (simp add: lt_fin not_less) (simp add: RPM_SANITY_CEILING_def f32_eval fv_def)
  then show ?thesis unfolding parse_rpm_iff strict_decimal_def by blast
qed

section \<open>JSON text\<close>

text \<open>C38. Escaping loses nothing: unescaping what \<open>json_escape\<close> writes gives the string back, so two
  different strings never share an escape.
\<close>

theorem json_escape_roundtrip: "unescape (json_escape s) = Some s"
  by (rule unescape_escape)

section \<open>The research commands\<close>

text \<open>C39. The settle wait of \<open>fand force-rpm\<close> ends by itself: on a platform whose sleeps last at least as
  long as asked, at most \<open>4 * secs\<close> turns of the loop wait at least \<open>secs\<close> seconds, and the
  connection is untouched.
\<close>

theorem settle_wait_ends:
  assumes "\<And>n d. io_now_ms io d + n \<le> io_now_ms io (io_sleep_ms io n d)"
  shows "secs * 1000 \<le> io_now_ms io (snd (wait_settled io secs s)) - io_now_ms io (snd s) \<and> fst (wait_settled io secs s) = fst s"
  using wait_ends [OF assms, of secs s] by (simp add: wait_settled_def)

text \<open>A platform whose state is its clock, in milliseconds; no call of it succeeds.\<close>

definition clock_io :: "nat platform" where
  "clock_io = \<lparr>
     io_call = (\<lambda>port sel p d. (1, p, d)), io_sleep_ms = (\<lambda>n d. d + n), io_wall_ns = (\<lambda>d. 0), io_now_ms = (\<lambda>d. d),
     io_matching = (\<lambda>d. (False, d)), io_get_service = (\<lambda>d. (0, d)), io_conforms = (\<lambda>sv d. False),
     io_service_open = (\<lambda>sv d. (1, 0, d)), io_service_close = (\<lambda>p d. d),
     io_object_release = (\<lambda>p d. d), io_entropy = (\<lambda>n d. (replicate n 0, d)),
     io_port_guard = (\<lambda>p g d. (1, d)), io_port_unguard = (\<lambda>p g d. d) \<rparr>"

theorem settle_wait_ends_witness: "4000 \<le> snd (wait_settled clock_io 4 (opened, 0)) - 0"
  using settle_wait_ends [of clock_io 4 "(opened, 0)"] by (simp add: clock_io_def)







lemma length_le [simp]: "length (f32_to_le v) = 4"
  by (simp add: f32_to_le_def u32_to_le_def u32_to_be_def)





section \<open>The environment and the log\<close>

text \<open>The scrub keeps exactly the allowed variables, in order and with their values; it fails (the
  process panics) exactly when some name or value is not UTF-8.
\<close>

lemma environment_scrubbed:
  "scrub_env env = (if list_all (\<lambda>(k, v). valid_utf8 k \<and> valid_utf8 v) env
     then Some (filter (\<lambda>(n, v). n \<in> set ALLOWLIST) env) else None)"
  using scrub_env_allowed [of env] by (auto simp: scrub_env_def env_names_def)

text \<open>C40. The rate limit: between two refills one call site writes as many lines as its bucket holds, at
  most three, however many messages it sends, and the bucket is lowered by as many.
\<close>

theorem log_rate_limited:
  assumes "log_wf s"
  shows "length (lg_lines (emit_all h ms s)) = length (lg_lines s) + min (length ms) (unat (lg_buckets s ! site h))
    \<and> unat (lg_buckets (emit_all h ms s) ! site h) = unat (lg_buckets s ! site h) - length ms
    \<and> unat (lg_buckets s ! site h) \<le> 3"
proof -
  have "lg_buckets s ! site h \<in> set (lg_buckets s)" using assms mod_64 [of h] by (simp add: log_wf_def site_def)
  then have "unat (lg_buckets s ! site h) \<le> 3" using assms by (auto simp: log_wf_def word_le_nat_alt)
  then show ?thesis using emit_all_lines [OF assms] by simp
qed

theorem log_rate_limited_witness:
  "length (lg_lines (emit_all 7 (replicate 5 (''1.0'', LError, ''lost'')) log_init)) = 3"
  using log_rate_limited [OF log_wf_init, of 7 "replicate 5 (''1.0'', LError, ''lost'')"]
  by (simp add: log_init_def site_def)

section \<open>The self-test\<close>






section \<open>The poll interval and the watchdog\<close>






end
