(* ===== verification/Cli_Selftest.thy ===== *)
theory Cli_Selftest
  imports Cli_Set
begin

text \<open>
  The command \<open>fand selftest\<close> (\<open>src/cli/selftest.rs\<close>): arguments, reports as text and JSON, and the exit
  code. The session is dropped on every way out, which writes the fans back to automatic.
\<close>

section \<open>Arguments\<close>

record selftest_args =
  sl_target :: "u8 option"
  sl_iterations :: u8
  sl_json :: bool

fun parse_selftest :: "selftest_args \<Rightarrow> string list \<Rightarrow> selftest_args option" where
  "parse_selftest a [] = Some a"
| "parse_selftest a (x # xs) =
    (if x = ''--fan'' then (case xs of v # ys \<Rightarrow> (case parse_fan_index v of
         Inr i \<Rightarrow> parse_selftest (a\<lparr> sl_target := Some i \<rparr>) ys | Inl _ \<Rightarrow> None) | [] \<Rightarrow> None)
     else if x = ''--iterations'' then (case xs of v # ys \<Rightarrow> (case parse_uint 255 v of
         Some n \<Rightarrow> if 1 \<le> n \<and> n \<le> 100 then parse_selftest (a\<lparr> sl_iterations := word_of_nat n \<rparr>) ys else None
       | None \<Rightarrow> None) | [] \<Rightarrow> None)
     else if x = ''--json'' then parse_selftest (a\<lparr> sl_json := True \<rparr>) xs
     else None)"

section \<open>Reports\<close>

definition result_label :: "selftest_result \<Rightarrow> string" where
  "result_label r = (case r of Pass \<Rightarrow> ''PASS''
     | Inconclusive \<Rightarrow> ''INCONCLUSIVE '' @ em_dash @ '' observed delta too small to verify the write path''
     | Fail \<Rightarrow> ''FAIL '' @ em_dash @ '' round-trip mismatch detected''
     | WatchdogTimeout \<Rightarrow> ''WATCHDOG TIMEOUT'' | SelftestConflict \<Rightarrow> ''CONFLICT'')"

definition row :: "string \<Rightarrow> string \<Rightarrow> string" where
  "row name v = nl (''  '' @ pad_right 19 (name @ '':'') @ v)"

definition rpm_of :: "f32 \<Rightarrow> string" where
  "rpm_of v = show_fixed 1 v @ '' RPM  ''"

definition check_mark :: string where "check_mark = [CHR 0xE2, CHR 0x9C, CHR 0x93]"
definition cross_mark :: string where "cross_mark = [CHR 0xE2, CHR 0x9C, CHR 0x97]"
definition about_sign :: string where "about_sign = [CHR 0xE2, CHR 0x89, CHR 0x88]"

definition print_human_fan :: "fan_report \<Rightarrow> string" where
  "print_human_fan f = nl (''fan '' @ show_u8 (fr_index f) @ '':'')
     @ row ''iterations'' (show_u8 (fr_completed f) @ '' / '' @ show_u8 (fr_requested f))
     @ row ''round trips'' (show_nat (unat (fr_round_trips f)) @ '' ('' @ show_nat (unat (fr_mismatches f)) @ '' mismatch''
         @ (if fr_mismatches f = 1 then [] else ''es'') @ '')'')
     @ row ''median @ min'' (rpm_of (fr_median_min f) @ ''(target: F0md=1, '' @ about_sign @ '' Mn)'')
     @ row ''median @ auto'' (rpm_of (fr_median_auto f) @ ''(target: F0md=0, system controlled)'')
     @ row ''delta'' (rpm_of (fr_delta f) @ (if DELTA_THRESHOLD_RPM \<le> fr_delta f then check_mark else cross_mark)
         @ ''  (>= 500 required)'')
     @ row ''result'' (result_label (fr_result f)) @ nl []"

definition print_human :: "selftest_report \<Rightarrow> string" where
  "print_human r = nl [] @ nl (''fand selftest '' @ em_dash @ '' wall-clock '' @ show_nat (unat (sr_wall_ms r)) @ '' ms'') @ nl []
     @ concat (map print_human_fan (sr_per_fan r)) @ nl ''summary:''
     @ row ''fans tested'' (show_nat (length (sr_per_fan r)))
     @ row ''total iterations'' (show_nat (unat (sr_iterations r)))
     @ row ''round trips'' (show_nat (unat (sr_round_trips r)))
     @ row ''mismatches'' (show_nat (unat (sr_mismatches r)))
     @ row ''wall clock'' (show_nat (unat (sr_wall_ms r)) @ '' ms'')
     @ row ''result'' (result_label (sr_overall r)) @ nl []"

text \<open>The envelope the two JSON reports share.\<close>

definition selftest_json :: "session_id \<Rightarrow> string list \<Rightarrow> string list \<Rightarrow> string" where
  "selftest_json sid per_fan summary = nl (json_object
     [field ''$schema'' (jstr ''https://pedrohbalbino.github.io/fand/schemas/selftest-v1.json''),
      field ''$id'' (jstr (''urn:fand:session:'' @ as_bytes sid)), field ''schema_version'' ''1'',
      field ''subcommand'' (jstr ''selftest''), field ''fand_version'' (jstr VERSION),
      field ''session_id'' (jstr (as_bytes sid)), field ''per_fan'' (''['' @ join '','' per_fan @ '']''),
      field ''summary'' (json_object summary)])"

definition summary_fields :: "nat \<Rightarrow> nat \<Rightarrow> nat \<Rightarrow> nat \<Rightarrow> nat \<Rightarrow> string \<Rightarrow> string list" where
  "summary_fields tested iterations trips mismatches wall result_name =
     [field ''fans_tested'' (show_nat tested), field ''total_iterations'' (show_nat iterations),
      field ''total_round_trips'' (show_nat trips), field ''total_mismatches'' (show_nat mismatches),
      field ''wall_clock_ms'' (show_nat wall), field ''overall_result'' (jstr result_name)]"

definition print_vacuous_pass_json :: "session_id \<Rightarrow> string" where
  "print_vacuous_pass_json sid = selftest_json sid [] (summary_fields 0 0 0 0 0 ''pass'')"

definition fan_report_json :: "fan_report \<Rightarrow> string" where
  "fan_report_json f = json_object [field ''fan_index'' (show_u8 (fr_index f)),
     field ''iterations_completed'' (show_u8 (fr_completed f)), field ''iterations_requested'' (show_u8 (fr_requested f)),
     field ''round_trip_count'' (show_nat (unat (fr_round_trips f))), field ''mismatch_count'' (show_nat (unat (fr_mismatches f))),
     field ''median_actual_at_min'' (show_fixed 1 (fr_median_min f)),
     field ''median_actual_at_auto'' (show_fixed 1 (fr_median_auto f)), field ''delta_rpm'' (show_fixed 1 (fr_delta f)),
     field ''result'' (jstr (selftest_as_str (fr_result f)))]"

definition print_json :: "session_id \<Rightarrow> selftest_report \<Rightarrow> string" where
  "print_json sid r = selftest_json sid (map fan_report_json (sr_per_fan r))
     (summary_fields (length (sr_per_fan r)) (unat (sr_iterations r)) (unat (sr_round_trips r))
       (unat (sr_mismatches r)) (unat (sr_wall_ms r)) (selftest_as_str (sr_overall r)))"

section \<open>The command\<close>

definition code_from_smc_error :: "smc_error \<Rightarrow> int" where
  "code_from_smc_error e = (case e of ConflictDetected _ _ \<Rightarrow> 5 | OpenFailed _ \<Rightarrow> 2 | ServiceNotFound \<Rightarrow> 2
     | WatchdogFired _ _ \<Rightarrow> 4 | _ \<Rightarrow> 1)"

definition selftest_with_session ::
  "'d platform \<Rightarrow> 'd os \<Rightarrow> selftest_args \<Rightarrow> 'd ws \<Rightarrow> int \<times> string \<times> 'd" where
  "selftest_with_session io os a s =
    (let fans_count = length (ws_envelopes (fst s)) in
     if fans_count = 0 then (0, if sl_json a then print_vacuous_pass_json (ws_session (fst s))
         else nl (''fand selftest: no fans on this machine '' @ em_dash @ '' vacuous pass''), drop_session io os s)
     else if (case sl_target a of Some i \<Rightarrow> fans_count \<le> unat i | None \<Rightarrow> False) then (64, [], drop_session io os s)
     else (case run_selftest io (sl_iterations a) s of
       (Inl e, s1) \<Rightarrow> (code_from_smc_error e, [], drop_session io os s1)
     | (Inr r, s1) \<Rightarrow> (selftest_exit_code (sr_overall r),
         if sl_json a then print_json (ws_session (fst s1)) r else print_human r, drop_session io os s1)))"

definition selftest_run :: "'d platform \<Rightarrow> 'd os \<Rightarrow> string list \<Rightarrow> process \<Rightarrow> 'd \<Rightarrow> int \<times> string \<times> 'd" where
  "selftest_run io os args p d =
    (case parse_selftest \<lparr> sl_target = None, sl_iterations = DEFAULT_ITERATIONS, sl_json = False \<rparr> args of
       None \<Rightarrow> (64, [], d)
     | Some a \<Rightarrow> (case acquire io os p d of
         (Inl e, p1, d1) \<Rightarrow> (code_from_smc_error e, [], d1)
       | (Inr w, p1, d1) \<Rightarrow> selftest_with_session io os a (w, d1)))"

section \<open>Laws\<close>

text \<open>Without a usage error, a conflict or a failure to run, the code is the verdict's.\<close>

lemma parse_selftest_iterations:
  "parse_selftest a xs = Some b \<Longrightarrow> 1 \<le> sl_iterations a \<and> sl_iterations a \<le> 100 \<Longrightarrow>
   1 \<le> sl_iterations b \<and> sl_iterations b \<le> 100"
proof (induction a xs rule: parse_selftest.induct)
  case (2 a x xs)
  have n: "1 \<le> (word_of_nat n :: u8) \<and> (word_of_nat n :: u8) \<le> 100" if "1 \<le> n" "n \<le> 100" for n
    using that by (simp add: word_le_nat_alt unat_of_nat take_bit_eq_mod)
  have "x = ''--fan'' \<or> x = ''--iterations'' \<or> x = ''--json''"
    by (rule ccontr) (use 2(4) in \<open>simp only: parse_selftest.simps de_Morgan_disj if_False option.distinct\<close>)
  then consider (fan) "x = ''--fan''" | (iters) "x \<noteq> ''--fan''" "x = ''--iterations''"
    | (json) "x \<noteq> ''--fan''" "x \<noteq> ''--iterations''" "x = ''--json''" by blast
  then show ?case
  proof cases
    case fan
    show ?thesis
    proof (cases xs)
      case (Cons v ys)
      show ?thesis
      proof (cases "parse_fan_index v")
        case (Inr i)
        then have "parse_selftest (a\<lparr> sl_target := Some i \<rparr>) ys = Some b" using 2(4) Cons fan by simp
        then show ?thesis using 2(1) [OF fan Cons Inr] 2(5) by simp
      qed (use 2(4) fan Cons in simp)
    qed (use 2(4) fan in simp)
  next
    case iters
    show ?thesis
    proof (cases xs)
      case (Cons v ys)
      show ?thesis
      proof (cases "parse_uint 255 v")
        case (Some k)
        then have k: "1 \<le> k \<and> k \<le> 100" "parse_selftest (a\<lparr> sl_iterations := word_of_nat k \<rparr>) ys = Some b"
          using 2(4) Cons iters by (simp_all split: if_splits)
        then show ?thesis using 2(2) [OF iters Cons Some k(1)] n by simp
      qed (use 2(4) iters Cons in simp)
    qed (use 2(4) iters in simp)
  next
    case json
    then have "parse_selftest (a\<lparr> sl_json := True \<rparr>) xs = Some b"
      using 2(4) by simp
    then show ?thesis using 2(3) [OF json] 2(5) by simp
  qed
qed simp

text \<open>The filter by fan is checked against the number of fans and then has no effect on the run.\<close>

lemma selftest_filter_unused:
  assumes "i < word_of_nat (length (ws_envelopes (fst s)))" "length (ws_envelopes (fst s)) < 256"
  shows "selftest_with_session io os (a\<lparr> sl_target := Some i \<rparr>) s
    = selftest_with_session io os (a\<lparr> sl_target := None \<rparr>) s"
  using assms by (simp add: selftest_with_session_def word_less_nat_alt unat_of_nat take_bit_eq_mod split: prod.split sum.split)

end
