(* ===== verification/Cli_Curve.thy ===== *)
theory Cli_Curve
  imports Cli_Set Config_Load
begin

text \<open>
  The command \<open>fand curve\<close> (\<open>src/cli/curve_cmd.rs\<close>): arguments, the points of the plot and the table
  below it. The chart itself is drawn by the \<open>textplots\<close> crate, the parameter \<open>chart\<close>: from the bounds of
  the axes, the line and the markers to text.
\<close>

record curve_args =
  cu_config :: string
  cu_fan :: "u8 option"

fun parse_curve :: "curve_args \<Rightarrow> string list \<Rightarrow> (int, curve_args) result" where
  "parse_curve a [] = Inr a"
| "parse_curve a (x # xs) =
    (if x = ''--config'' then (case xs of [] \<Rightarrow> Inl 64 | v # ys \<Rightarrow> parse_curve (a\<lparr> cu_config := v \<rparr>) ys)
     else if x = ''--fan'' then (case xs of [] \<Rightarrow> Inl 64 | v # ys \<Rightarrow> (case parse_fan_index v of
         Inr i \<Rightarrow> parse_curve (a\<lparr> cu_fan := Some i \<rparr>) ys | Inl _ \<Rightarrow> Inl 64))
     else if x = ''--help'' \<or> x = ''-h'' then Inl 0
     else Inl 64)"

type_synonym points = "(f32 \<times> f32) list"
type_synonym chart = "f32 \<Rightarrow> f32 \<Rightarrow> f32 \<Rightarrow> f32 \<Rightarrow> points \<Rightarrow> points \<Rightarrow> string"

definition sensor_text :: "sensor_ref \<Rightarrow> string" where
  "sensor_text s = (case s of Name n \<Rightarrow> n | Smc n \<Rightarrow> n)"

definition arrow :: string where "arrow = [CHR 0xE2, CHR 0x86, CHR 0x92]"

definition plot_point :: "breakpoint list \<Rightarrow> f32 \<Rightarrow> f32 \<Rightarrow> nat \<Rightarrow> f32 \<times> f32" where
  "plot_point bps t_min t_max i = (let t = t_min + divide ((t_max - t_min) * f32_of_nat i) (lit 100 1) in (t, evaluate bps t))"

definition curve_chart :: "chart \<Rightarrow> breakpoint list \<Rightarrow> string" where
  "curve_chart chart bps =
    (let t_min = fst (hd bps) - lit 5 1; t_max = fst (last bps) + lit 5 1;
         rpm_max = f32_of_nat (Max (set (map (unat \<circ> snd) bps)))
     in chart t_min t_max (lit 0 1) (rpm_max + lit 200 1) (map (plot_point bps t_min t_max) [0..<101])
          (map (\<lambda>(t, rpm). (t, f32_of_word rpm)) bps))"

definition point_row :: "breakpoint \<Rightarrow> string" where
  "point_row p = nl (''    '' @ pad_left 6 (show_fixed 1 (fst p)) @ celsius @ '' '' @ arrow @ '' ''
     @ pad_left 5 (show_nat (unat (snd p))) @ '' RPM'')"

definition print_curve :: "chart \<Rightarrow> fan_binding \<Rightarrow> string" where
  "print_curve chart f =
    nl (''Fan '' @ show_u8 (fb_index f) @ '' '' @ em_dash @ '' sensors: '' @ join '', '' (map sensor_text (fb_sensors f))
      @ '' '' @ em_dash @ '' hysteresis: '' @ show_fixed 1 (fb_hysteresis_up f) @ ''/''
      @ show_fixed 1 (fb_hysteresis_down f) @ celsius)
    @ (if length (fb_curve f) < 2 then nl (''  (curve has fewer than 2 points '' @ em_dash @ '' cannot plot)'')
       else curve_chart chart (fb_curve f) @ nl ''  Curve points:'' @ concat (map point_row (fb_curve f))
         @ (if lit 0 1 < fb_hysteresis_down f then nl (''  Hysteresis band: cooling requires ''
              @ show_fixed 1 (fb_hysteresis_down f) @ celsius @ '' additional drop before RPM decreases.'') else [])
         @ nl (''  (no SMC access '' @ em_dash @ '' live sensor marker unavailable)'') @ nl [])"

definition fans_to_plot :: "u8 option \<Rightarrow> fan_binding list \<Rightarrow> fan_binding list option" where
  "fans_to_plot filter_by fs = (case filter_by of None \<Rightarrow> Some fs
     | Some i \<Rightarrow> map_option (\<lambda>f. [f]) (List.find (\<lambda>f. fb_index f = i) fs))"

definition curve_run :: "config_os \<Rightarrow> chart \<Rightarrow> string list \<Rightarrow> int \<times> string" where
  "curve_run files chart args = (case parse_curve \<lparr> cu_config = ''/etc/fand.toml'', cu_fan = None \<rparr> args of
     Inl n \<Rightarrow> (n, [])
   | Inr a \<Rightarrow> (case load_config files (cu_config a) of Inl e \<Rightarrow> (1, [])
     | Inr cfg \<Rightarrow> if validate cfg \<noteq> [] then (1, [])
         else (case fans_to_plot (cu_fan a) (cfg_fans cfg) of None \<Rightarrow> (1, [])
           | Some fs \<Rightarrow> (0, concat (map (print_curve chart) fs)))))"

section \<open>Laws\<close>

text \<open>The fans that are plotted are fans of the configuration.\<close>

lemma fans_to_plot_subset: "fans_to_plot i fs = Some gs \<Longrightarrow> set gs \<subseteq> set fs"
  by (auto simp: fans_to_plot_def find_Some_iff split: option.splits)

end
