(* ===== verification/Cli_Main.thy ===== *)
theory Cli_Main
  imports Security Cli_Set
begin

text \<open>
  The entry point (\<open>src/main.rs\<close>): the scrub of the environment, then the choice of the subcommand. The
  subcommands that only report that they are not implemented, and those that print a text, are here; the
  others are the \<open>..._run\<close> functions of the theories \<open>Cli_...\<close>.
\<close>

datatype subcommand = CmdRun | CmdStatus | CmdShow | CmdSet | CmdSelftest | CmdCurve | CmdKeys | CmdProbe
  | CmdForce | CmdValidate | CmdReload | CmdVersion | CmdHelp | CmdUnknown string

definition subcommand_of :: "string \<Rightarrow> subcommand" where
  "subcommand_of s = (if s = ''run'' then CmdRun else if s = ''status'' then CmdStatus else if s = ''show'' then CmdShow
     else if s = ''set'' then CmdSet else if s = ''selftest'' then CmdSelftest else if s = ''curve'' then CmdCurve
     else if s = ''keys'' then CmdKeys else if s = ''probe'' then CmdProbe else if s = ''force-rpm'' then CmdForce
     else if s = ''validate'' then CmdValidate else if s = ''reload'' then CmdReload
     else if s = ''version'' \<or> s = ''--version'' \<or> s = ''-V'' then CmdVersion
     else if s = ''--help'' \<or> s = ''-h'' then CmdHelp else CmdUnknown s)"

text \<open>The arguments include the name of the program.\<close>

definition dispatch :: "string list \<Rightarrow> subcommand \<times> string list" where
  "dispatch args = (case drop 1 args of [] \<Rightarrow> (CmdStatus, []) | s # rest \<Rightarrow> (subcommand_of s, rest))"

text \<open>The subcommands with a fixed exit code.\<close>

definition status_execute :: int where "status_execute = 1"
definition show_execute :: int where "show_execute = 1"
definition reload_execute :: int where "reload_execute = 1"
definition validate_execute :: int where "validate_execute = 1"

definition fixed_exit :: "subcommand \<Rightarrow> int option" where
  "fixed_exit c = (case c of CmdStatus \<Rightarrow> Some status_execute | CmdShow \<Rightarrow> Some show_execute
     | CmdReload \<Rightarrow> Some reload_execute | CmdValidate \<Rightarrow> Some validate_execute
     | CmdVersion \<Rightarrow> Some 0 | CmdHelp \<Rightarrow> Some 0 | CmdUnknown _ \<Rightarrow> Some 64 | _ \<Rightarrow> None)"

text \<open>\<open>None\<close>: the listing of the environment panicked before anything else ran.\<close>

definition main_start :: "(string \<times> string) list \<Rightarrow> string list \<Rightarrow> (environment \<times> subcommand \<times> string list) option" where
  "main_start env args = map_option (\<lambda>e. (e, dispatch args)) (scrub_env env)"

section \<open>The printed texts\<close>

definition help_execute :: string where
  "help_execute = concat (map nl [
     ''usage: fand [subcommand] [options]'',
     [],
     ''subcommands:'',
     ''  run        Start the fan control daemon'',
     ''  status     Show current thermal and fan state'',
     ''  show       Live curve plot with operating point'',
     ''  set        Temporarily override fan speed'',
     ''  keys       List available fans and sensors'',
     ''  validate   Check a config file for errors'',
     ''  reload     Reload daemon config'',
     ''  version    Print version info'',
     [],
     ''Without a subcommand, `fand` is equivalent to `fand status`.''])"

definition version_execute :: string where
  "version_execute = nl (''fand '' @ VERSION @ '' schema '' @ show_nat 1 @ '' rustc 1.85.0'')"

definition unknown_subcommand :: "string \<Rightarrow> string" where
  "unknown_subcommand s = nl (''fand: unknown subcommand '' @ quote @ s @ quote)
     @ nl ''usage: fand [run|curve|status|show|set|keys|probe|force-rpm|validate|reload|version]''"

text \<open>What the subcommands print to standard error that only print a text.\<close>

definition printed_text :: "subcommand \<Rightarrow> string option" where
  "printed_text c = (case c of CmdHelp \<Rightarrow> Some help_execute | CmdVersion \<Rightarrow> Some version_execute
     | CmdUnknown s \<Rightarrow> Some (unknown_subcommand s) | _ \<Rightarrow> None)"

end
