(* ===== verification/Cli_Reports.thy ===== *)
theory Cli_Reports
  imports Cli_Probe
begin

text \<open>
  What \<open>fand force-rpm\<close> and \<open>fand probe\<close> print: the banner, the report of the attempts and outcomes as
  text and as JSON, and the listing of the writable keys. The operations of these commands are in
  \<open>Cli_Force\<close> and \<open>Cli_Probe\<close>; each text is a function of what they return.
\<close>

section \<open>Formatting\<close>

text \<open>\<open>{:+.0}\<close>: a sign for every number; NaN has none.\<close>

definition show_signed :: "f32 \<Rightarrow> string" where
  "show_signed x = (case view x of VFin s k \<Rightarrow> if s then show_fixed 0 x else CHR ''+'' # show_fixed 0 x
     | VInf s \<Rightarrow> if s then show_fixed 0 x else CHR ''+'' # show_fixed 0 x
     | VNaN \<Rightarrow> show_fixed 0 x)"

definition dashes :: "nat \<Rightarrow> string" where
  "dashes n = nl (replicate n CHR ''-'')"

definition single_quotes :: "string \<Rightarrow> string" where
  "single_quotes s = map (\<lambda>c. if c = CHR 0x22 then CHR 0x27 else c) s"

definition whole :: "f32 \<Rightarrow> string" where
  "whole x = show_fixed 0 x"

section \<open>The report of \<open>force-rpm\<close>\<close>

text \<open>The line continuations of the source drop the indentation of the four numbered lines.\<close>

definition force_usage :: string where
  "force_usage = concat (map nl [
     ''usage: fand force-rpm <rpm> [--settle-secs N] [--hold-secs N] [--json]'',
     [],
     ''Holds fan 0 at the requested RPM by trying each SMC bypass path:'',
     ''1. F0Tg direct'',
     ''2. F0Dc direct'',
     ''3. F0md=1 then F0Tg'',
     ''4. F0Mn raise + F0md=1 (forced-min floor bypass)'',
     [],
     ''Stops at the first path that moves F0Ac by '' @ [CHR 0xE2, CHR 0x89, CHR 0xA5] @ '' 500 RPM from baseline.'',
     ''Optionally holds the fan at target for --hold-secs seconds before'',
     ''restoring auto mode. Ctrl-C aborts the hold cleanly.'',
     [],
     ''--hold-secs 0 (default) runs the probe once and exits.'',
     [],
     ''Teardown always writes F0md=0 and restores any modified floor.''])"

definition force_banner :: "f32 \<Rightarrow> f32 \<Rightarrow> f32 \<Rightarrow> nat \<Rightarrow> string" where
  "force_banner target lo hi settle = nl (''fand force-rpm '' @ em_dash @ '' target='' @ whole target @ '' (clamped to ['' @ whole lo
     @ '', '' @ whole hi @ '']), settle='' @ show_nat settle @ ''s'')"

definition holding_line :: "nat \<Rightarrow> string \<Rightarrow> string" where
  "holding_line secs path = nl (''holding for '' @ show_nat secs @ ''s via path='' @ path @ '' '' @ em_dash
     @ '' press Ctrl-C to exit early'')"

definition attempt_json :: "f32 \<Rightarrow> attempt \<Rightarrow> string" where
  "attempt_json baseline a = (case snd a of
     Inr after \<Rightarrow> json_object [field ''path'' (jstr (fst a)), field ''ok'' ''true'', field ''after'' (whole after),
       field ''delta'' (whole (after - baseline))]
   | Inl msg \<Rightarrow> json_object [field ''path'' (jstr (fst a)), field ''ok'' ''false'', field ''error'' (jstr (single_quotes msg))])"

definition attempt_line :: "f32 \<Rightarrow> attempt \<Rightarrow> string" where
  "attempt_line baseline a = (case snd a of
     Inr after \<Rightarrow> nl (pad_right 26 (fst a) @ '' after='' @ pad_left 6 (whole after) @ '' delta=''
       @ pad_left 7 (show_signed (after - baseline)) @ '' ''
       @ (if PASS_DELTA_RPM \<le> fabs (after - baseline) then ''HELD'' else ''no-op''))
   | Inl msg \<Rightarrow> nl (pad_right 26 (fst a) @ '' ERROR '' @ msg))"

definition force_report_json :: "f32 \<Rightarrow> attempt list \<Rightarrow> string" where
  "force_report_json baseline as = nl (json_object [field ''baseline'' (whole baseline),
     field ''attempts'' (''['' @ join '','' (map (attempt_json baseline) as) @ '']''),
     field ''winner'' (case winner as baseline of Some a \<Rightarrow> jstr (fst a) | None \<Rightarrow> ''null'')])"

definition force_report_human :: "f32 \<Rightarrow> attempt list \<Rightarrow> string" where
  "force_report_human baseline as = dashes 72 @ concat (map (attempt_line baseline) as) @ dashes 72
     @ (case winner as baseline of Some a \<Rightarrow> nl (''winner: '' @ fst a)
        | None \<Rightarrow> nl (''no path moved the fan '' @ ge_sign @ '' '' @ whole PASS_DELTA_RPM @ '' RPM''))"

text \<open>What a run that made the attempts \<open>as\<close> has printed; a run without a winner holds nothing.\<close>

definition force_output :: "force_args \<Rightarrow> f32 \<Rightarrow> f32 \<Rightarrow> f32 \<Rightarrow> f32 \<Rightarrow> attempt list \<Rightarrow> string" where
  "force_output a target lo hi baseline as =
    (if fa_json a then force_report_json baseline as
     else force_banner target lo hi (fa_settle a)
       @ (case winner as baseline of Some w \<Rightarrow> if 0 < fa_hold a then holding_line (fa_hold a) (fst w) else [] | None \<Rightarrow> [])
       @ force_report_human baseline as)"

section \<open>The report of \<open>probe\<close>\<close>

definition probe_banner :: "f32 \<Rightarrow> f32 \<Rightarrow> f32 \<Rightarrow> nat \<Rightarrow> string" where
  "probe_banner lo hi target settle = nl (''fand probe '' @ em_dash @ '' fan 0 envelope min='' @ whole lo @ '' max='' @ whole hi
     @ '', target='' @ whole target @ '', settle='' @ show_nat settle @ ''s'')"

definition outcome_json :: "probe_outcome \<Rightarrow> string" where
  "outcome_json p = json_object [field ''path'' (jstr (po_path p)), field ''ok'' (show_bool (is_ok (po_write_result p))),
     field ''error'' (case po_write_result p of Inr _ \<Rightarrow> ''null'' | Inl s \<Rightarrow> jstr (single_quotes s)),
     field ''before'' (whole (po_before p)), field ''after'' (whole (po_after p)), field ''delta'' (whole (po_delta p)),
     field ''passed'' (show_bool (passed (lit 500 1) p))]"

definition matrix_json :: "f32 \<Rightarrow> f32 \<Rightarrow> f32 \<Rightarrow> nat \<Rightarrow> probe_outcome list \<Rightarrow> string" where
  "matrix_json lo hi target settle ps = nl (json_object [field ''min_rpm'' (whole lo), field ''max_rpm'' (whole hi),
     field ''target_rpm'' (whole target), field ''settle_secs'' (show_nat settle),
     field ''paths'' (''['' @ join '','' (map outcome_json ps) @ '']'')])"

definition outcome_line :: "probe_outcome \<Rightarrow> string" where
  "outcome_line p = nl (pad_right 28 (po_path p) @ '' '' @ pad_left 8 (whole (po_before p)) @ '' '' @ pad_left 8 (whole (po_after p))
     @ '' '' @ pad_left 8 (whole (po_delta p)) @ '' '' @ pad_left 7 (show_bool (passed (lit 500 1) p)) @ '' ''
     @ (case po_write_result p of Inr _ \<Rightarrow> [] | Inl s \<Rightarrow> s))"

definition matrix_human :: "probe_outcome list \<Rightarrow> string" where
  "matrix_human ps = dashes 78 @ nl (pad_right 28 ''path'' @ '' '' @ pad_left 8 ''before'' @ '' '' @ pad_left 8 ''after'' @ '' ''
     @ pad_left 8 ''delta'' @ '' '' @ pad_left 7 ''passed'' @ '' error'') @ dashes 78
     @ concat (map outcome_line ps) @ dashes 78
     @ (if list_ex (passed (lit 500 1)) ps
        then nl (''at least one path moved the fan '' @ ge_sign @ ''500 RPM '' @ em_dash
          @ '' the forced-min-only gate can be lifted for that path'')
        else nl (''no direct path moved the fan '' @ em_dash
          @ '' SMC surface remains F0md=0/1 only on this SoC; try `fand probe --enumerate` to dump the writable keyspace''))"

definition probe_output :: "probe_args \<Rightarrow> f32 \<Rightarrow> f32 \<Rightarrow> f32 \<Rightarrow> probe_outcome list \<Rightarrow> string" where
  "probe_output a lo hi target ps = (if pr_json a then matrix_json lo hi target (pr_settle a) ps
     else probe_banner lo hi target (pr_settle a) @ matrix_human ps)"

section \<open>The listing\<close>

definition listed_line :: "listed \<Rightarrow> string" where
  "listed_line l = (case l of (k, sz, ty, attrs) \<Rightarrow> nl (pad_right 8 (fourcc_str k) @ '' '' @ pad_left 5 (show_nat (unat sz)) @ '' ''
     @ pad_right 6 (fourcc_str ty) @ '' 0x'' @ show_hex 2 (unat attrs)))"

definition listing_human :: "nat \<times> listed list \<Rightarrow> string" where
  "listing_human listing = nl (''fand probe --enumerate '' @ em_dash @ '' '' @ show_nat (fst listing) @ '' total keys, ''
     @ show_nat (length (snd listing)) @ '' writable'') @ dashes 40
     @ nl (pad_right 8 ''fourcc'' @ '' '' @ pad_left 5 ''size'' @ '' '' @ pad_right 6 ''type'' @ '' attrs'') @ dashes 40
     @ concat (map listed_line (snd listing)) @ dashes 40"

section \<open>Laws\<close>

text \<open>No error message can close a JSON string early: its double quotes are gone.\<close>

lemma single_quotes_safe: "CHR 0x22 \<notin> set (single_quotes s)"
  by (auto simp: single_quotes_def)

text \<open>The verdict that is printed is the one the exit code gives.\<close>

lemma printed_verdict:
  "matrix_code ps = 0 \<longleftrightarrow> (\<exists>p\<in>set ps. is_ok (po_write_result p) \<and> lit 500 1 \<le> fabs (po_delta p))"
  by (simp add: matrix_code_def list_ex_iff passed_def)

lemma winner_moved: "winner as baseline = Some a \<Longrightarrow> a \<in> set as \<and> moved baseline a"
  by (auto simp: winner_def find_Some_iff)

end
