(* ===== verification/Edr_Detect.thy ===== *)
theory Edr_Detect
  imports Utf8 Parse_Num
begin

text \<open>
  Detection of endpoint-security agents (\<open>src/smc/edr_detect.rs\<close>): the bounded read of the output of
  \<open>ps\<close> and the case-insensitive substring search. The process is a list of what its reads return and
  of the clock after each of them.
\<close>

section \<open>Reading the process list\<close>

definition PS_TIMEOUT_MS :: nat where
  "PS_TIMEOUT_MS = 500"

text \<open>\<open>None\<close> is the end of file or an error: the loop is left.\<close>

type_synonym ps_reads = "(string option \<times> nat) list"

text \<open>\<open>Blocked\<close>: the reads ended while the loop still waits for the process.\<close>

datatype ps_result = Blocked | Gave_Up | Output string

fun ps_loop :: "nat \<Rightarrow> string \<Rightarrow> ps_reads \<Rightarrow> ps_result" where
  "ps_loop deadline buf [] = Blocked"
| "ps_loop deadline buf ((r, now) # rs) = (case r of
     None \<Rightarrow> Output buf
   | Some chunk \<Rightarrow> let buf1 = buf @ chunk in
       if deadline \<le> now then Gave_Up
       else if 1000000 < length buf1 then Gave_Up
       else ps_loop deadline buf1 rs)"

text \<open>The spawn may fail (\<open>None\<close>); \<open>start\<close> is the clock when the deadline is set.\<close>

definition run_ps_with_timeout :: "(nat \<times> ps_reads) option \<Rightarrow> ps_result option" where
  "run_ps_with_timeout child = (case child of None \<Rightarrow> None
     | Some (start, rs) \<Rightarrow> (case ps_loop (start + PS_TIMEOUT_MS) [] rs of
         Output s \<Rightarrow> (if valid_utf8 s then Some (Output s) else None)
       | Gave_Up \<Rightarrow> None
       | Blocked \<Rightarrow> Some Blocked))"

section \<open>The search\<close>

definition EDR_AGENT_NAMES :: "string list" where
  "EDR_AGENT_NAMES = [''falcon-sensor'', ''falcond'', ''CrowdStrike'', ''SentinelAgent'', ''sentineld'',
     ''sentinel_agent'', ''JamfProtect'', ''jamfprotect'', ''JamfAAD'', ''com.jamf.protect'',
     ''EndpointSecurityService'', ''socketfilterfw'']"

fun contains :: "string \<Rightarrow> string \<Rightarrow> bool" where
  "contains [] needle \<longleftrightarrow> needle = []"
| "contains (c # cs) needle \<longleftrightarrow> starts_with (c # cs) needle \<or> contains cs needle"

definition match_agent :: "string \<Rightarrow> string option" where
  "match_agent stdout = List.find (\<lambda>a. contains (map to_lower stdout) (map to_lower a)) EDR_AGENT_NAMES"

text \<open>\<open>None\<close> stands for a call that never returns because \<open>ps\<close> blocks.\<close>

definition detect_suspected_agent :: "(nat \<times> ps_reads) option \<Rightarrow> string option option" where
  "detect_suspected_agent child = (case run_ps_with_timeout child of
     None \<Rightarrow> Some None
   | Some (Output s) \<Rightarrow> Some (match_agent s)
   | Some Gave_Up \<Rightarrow> Some None
   | Some Blocked \<Rightarrow> None)"

section \<open>Facts\<close>

lemma contains_iff: "contains s needle \<longleftrightarrow> (\<exists>us vs. s = us @ needle @ vs)"
proof (induction s)
  case (Cons c cs)
  have "starts_with (c # cs) needle \<longleftrightarrow> (\<exists>vs. c # cs = needle @ vs)" by (simp add: starts_with_iff)
  then show ?case unfolding contains.simps Cons.IH by (metis append_Cons append_Nil append_eq_Cons_conv)
qed simp

lemma find_split:
  "List.find P xs = Some a \<longleftrightarrow> (\<exists>us vs. xs = us @ a # vs \<and> P a \<and> list_all (\<lambda>b. \<not> P b) us)"
proof (induction xs)
  case (Cons x xs)
  have "(\<exists>us vs. x # xs = us @ a # vs \<and> P a \<and> list_all (\<lambda>b. \<not> P b) us)
    \<longleftrightarrow> x = a \<and> P a \<or> \<not> P x \<and> (\<exists>us vs. xs = us @ a # vs \<and> P a \<and> list_all (\<lambda>b. \<not> P b) us)" (is "?L \<longleftrightarrow> ?R")
  proof
    assume ?L
    then obtain us vs where "x # xs = us @ a # vs" "P a" "list_all (\<lambda>b. \<not> P b) us" by blast
    then show ?R by (cases us) auto
  next
    assume ?R
    then show ?L
    proof
      assume "x = a \<and> P a"
      then show ?L by (intro exI [of _ "[]"] exI [of _ xs]) simp
    next
      assume "\<not> P x \<and> (\<exists>us vs. xs = us @ a # vs \<and> P a \<and> list_all (\<lambda>b. \<not> P b) us)"
      then obtain us vs where "\<not> P x" "xs = us @ a # vs" "P a" "list_all (\<lambda>b. \<not> P b) us" by blast
      then show ?L by (intro exI [of _ "x # us"] exI [of _ vs]) simp
    qed
  qed
  then show ?case by (cases "P x") (auto simp: Cons.IH)
qed simp

text \<open>The first agent of the list that occurs, and none only when none occurs.\<close>

lemma match_agent_iff:
  "match_agent s = Some a \<longleftrightarrow> (\<exists>us vs. EDR_AGENT_NAMES = us @ a # vs \<and> contains (map to_lower s) (map to_lower a)
     \<and> list_all (\<lambda>b. \<not> contains (map to_lower s) (map to_lower b)) us)"
  unfolding match_agent_def by (rule find_split)

text \<open>The text that is searched is bounded, and a reading that goes on past the deadline is given up.\<close>

lemma ps_loop_output: "ps_loop dl buf rs = Output s \<Longrightarrow> length buf \<le> 1000000 \<Longrightarrow> length s \<le> 1000000"
  by (induction dl buf rs rule: ps_loop.induct) (auto simp: Let_def split: option.splits if_splits)

lemma ps_loop_deadline:
  "list_all (\<lambda>(r, now). r \<noteq> None) us \<Longrightarrow> dl \<le> now \<Longrightarrow> ps_loop dl buf (us @ (Some c, now) # rs) = Gave_Up"
  by (induction us arbitrary: buf) (auto simp: Let_def)

end
