(* ===== verification/Wire_Host.thy ===== *)
theory Wire_Host
  imports Session_Lifecycle Smc_Wire
begin

text \<open>
  The host whose kernel takes buffers: the protocol on the bytes (\<open>wire_device\<close>) with the lock file. It is
  a \<open>host\<close>, so the life of a session, and everything else proved of sessions on a conforming host, holds
  for a kernel that sees nothing of the program but 80-byte requests.
\<close>

locale wire_host = wire_device raw io reg + advisory_lock os holder content
  for raw :: "'d raw_call" and io :: "'d platform" and reg and os :: "'d os" and holder content +
  assumes raw_holder: "holder (snd (snd (raw port sel inp buf d))) = holder d"
      "holder (io_sleep_ms io n d) = holder d" "holder (snd (io_matching io d)) = holder d"
      "holder (snd (io_get_service io d)) = holder d" "holder (snd (snd (io_service_open io sv d))) = holder d"
      "holder (io_service_close io pt d) = holder d" "holder (io_object_release io pt d) = holder d"
      "holder (snd (io_entropy io k d)) = holder d" "holder (snd (io_port_guard io pt g d)) = holder d"
      "holder (io_port_unguard io pt g d) = holder d"
    and lock_reg: "os_open_lock os path d = (r1, d') \<Longrightarrow> reg d' = reg d"
      "reg (os_close os fd d) = reg d" "os_try_lock os fd d = (b, d') \<Longrightarrow> reg d' = reg d"
      "reg (os_unlock os fd d) = reg d" "os_set_len os fd k d = (e, d') \<Longrightarrow> reg d' = reg d"
      "os_write os fd t d = (e, d') \<Longrightarrow> reg d' = reg d" "os_flush os fd d = (e, d') \<Longrightarrow> reg d' = reg d"

sublocale wire_host \<subseteq> on_wire: host "wire_platform raw io" reg os holder content
proof (unfold_locales, goal_cases)
  case (1 port sel p d)
  show ?case using raw_holder(1) [of port sel "param_bytes p" "param_bytes zeroed" d]
    by (simp add: wire_platform_def wire_call_def split_beta Let_def)
qed (auto simp: wire_platform_def raw_holder lock_reg(2,4) dest: lock_reg(1,3,5,6,7))

context wire_host
begin

lemma host_wire: "host (wire_platform raw io) reg os holder content"
  by (rule on_wire.host_axioms)

end

text \<open>The paired register file and lock table, given buffers.\<close>

interpretation wire_paired: wire_host "raw_of host_io" host_io "\<lambda>s. regfile_reg (fst s)" "host_os pid"
    "\<lambda>s. lt_holder (snd s)" "\<lambda>s. lt_content (snd s)" for pid
proof (intro wire_host.intro wire_host_axioms.intro smc_device.wire_of [OF host_device] host_lock)
qed (auto simp: raw_of_def split_beta Let_def paired.io_holder paired.os_reg(2,4) dest: paired.os_reg(1,3,5,6,7))

text \<open>The life of a session, down to the bytes.\<close>

lemma session_life_on_wire:
  assumes "wire_host raw io reg os holder content" "machine_ok (reg d) nkeys n fs" "holder d = None"
    and "acquire (wire_platform raw io) os p d = (Inr w, p', d1)" "commits (wire_platform raw io) cs (w, d1) = (w2, d2)"
  shows "reg (drop_session (wire_platform raw io) os (w2, d2)) = ftst_cleared (autos (fan_indices n) (reg d))
    \<and> holder (drop_session (wire_platform raw io) os (w2, d2)) = None"
proof -
  have h: "host (wire_platform raw io) reg os holder content"
    using assms(1) by (rule wire_host.host_wire)
  show ?thesis using host.session_life [OF h assms(2-5)] by simp
qed

end
