(* ===== verification/Spec2Isabelle.thy ===== *)
theory Spec2Isabelle
  imports Control_Properties Smc_Properties Session_Properties Cli_Properties Cli_Selftest Cli_Curve Cli_Main
    Cli_Reports Edr_Detect Wire_Host
begin

text \<open>
  A model of fand, the fan daemon for Apple Silicon Macs, written in Rust (sources under \<open>src/\<close> of the
  repository), and the properties that make it correct.

  The program. \<open>fand run\<close> reads temperature sensors through the SMC (the system management controller,
  a kernel service that stores typed values under four-character keys), computes a wanted fan speed
  (fusion, smoothing, curve, hysteresis, slew limit, panic latch, clamp), reduces it to the one control
  the hardware accepts (mode 1, forced minimum, or mode 0, automatic), and writes that mode through a
  write session. The session holds a lock file, three connections, a diagnostic unlock with a watchdog
  thread, and three ways to release the fans again: the main thread, a signal thread and a panic hook.
  The other commands set a fan once, test the write path, print keys and curves, or probe the hardware.

  The theories, and the source they model.

    Floating point: \<open>F32\<close> (binary32 with the operations the code uses, bit-exact and executable),
    \<open>F32_Rounding\<close>, \<open>F32_Laws\<close>, \<open>F32_Real\<close> (rounding, order, error bounds against the reals).

    Text: \<open>Parse_Num\<close>, \<open>Show\<close>, \<open>Utf8\<close> (what the code uses of the standard library's parsing, formatting and
    UTF-8 decoding; strings are lists of bytes).

    Prelude: \<open>Fand_Prelude\<close> (widths, byte order, saturating arithmetic), \<open>Result_State\<close> (operations that
    pass a state and may fail: \<open>bindE\<close>, \<open>catchE\<close>, and the two rules the proofs use, \<open>keeps\<close> and \<open>does\<close>),
    \<open>Machine\<close> (state machines).

    Control, \<open>src/control/\<close>: \<open>Curve\<close>, \<open>Fusion\<close> (\<open>fusion.rs\<close>, \<open>ema.rs\<close>), \<open>Hysteresis\<close>, \<open>Slew\<close>, \<open>Panic_Latch\<close>,
    \<open>Clamp\<close> (\<open>state.rs\<close>), \<open>Adapter\<close>, \<open>Control_Loop\<close> (\<open>loop.rs\<close>).

    The controller, \<open>src/smc/\<close>: \<open>Smc_Keys\<close>, \<open>Smc_Types\<close>, \<open>Key_Cache\<close> (\<open>cache.rs\<close>), \<open>Smc_Error\<close>,
    \<open>Smc_Display\<close> and \<open>Smc_Conn\<close> (\<open>ffi.rs\<close>), \<open>Smc_Wire\<close> (the 80-byte call structure of \<open>ffi.rs\<close>, over
    \<open>Struct_Layout\<close>, the placement of \<open>repr(C)\<close> fields), \<open>Round_Trip\<close>, \<open>Enumerate\<close>, \<open>Session_Id\<close>
    (\<open>src/correlation.rs\<close>).

    The session: \<open>Flock\<close> (\<open>single_instance.rs\<close>), \<open>Unlock\<close>, \<open>Teardown\<close> (\<open>signal.rs\<close>, \<open>panic_hook.rs\<close>),
    \<open>Teardown_Race\<close> (the two threads as a step relation), \<open>Selftest\<close>, \<open>Write_Session\<close>, \<open>Edr_Detect\<close>;
    \<open>Gcd\<close> (\<open>src/launchd/gcd.rs\<close>).

    Configuration, \<open>src/config/\<close>: \<open>Config_Schema\<close>, \<open>Config_Validate\<close>, \<open>Config_Load\<close> (\<open>load.rs\<close>, \<open>reload.rs\<close>).

    Commands, \<open>src/cli/\<close> and \<open>src/main.rs\<close>: \<open>Cli_Parse\<close>, \<open>Cli_Run\<close>, \<open>Cli_Set\<close>, \<open>Cli_Selftest\<close>, \<open>Cli_Keys\<close>,
    \<open>Cli_Curve\<close>, \<open>Cli_Force\<close>, \<open>Cli_Probe\<close>, \<open>Cli_Reports\<close> (what these two print), \<open>Cli_Main\<close>; \<open>Log\<close> (\<open>src/log.rs\<close>), \<open>Security\<close> (\<open>src/security.rs\<close>).

  The interfaces. What is outside the sources is a parameter: \<open>platform\<close> (the IOKit calls, the clocks,
  sleep and entropy), \<open>os\<close> (the calls behind the lock file), \<open>config_os\<close> (files, environment and the TOML
  reader), \<open>dispatch\<close> (the dispatch library), the environment variable of the safe minimum, the text of \<open>ps\<close>. The laws of the outside that
  the device theorems need are locales: \<open>call_guard\<close> (every command sent satisfies a predicate, over a
  platform that keeps a record of its calls), \<open>smc_device\<close> (\<open>Smc_Device\<close>: a device whose calls read and
  write a map of typed registers) and \<open>host\<close> (\<open>Session_Host\<close>: such a device with an \<open>advisory_lock\<close>, the contract of \<open>flock\<close>).
  \<open>wire_device\<close> (\<open>Smc_Wire\<close>) states the protocol on the bytes of the call structure and gives \<open>smc_device\<close>
  (a sublocale), so the device theorems hold for a kernel that is given 80-byte buffers; \<open>wire_host\<close>
  (\<open>Wire_Host\<close>) is \<open>host\<close> in the same way. They are
  interpreted on a register file, on that register file paired with a lock table, on one that takes buffers
  and keeps them on a tape, and on the spying platform. The locales of the components (\<open>slot_store\<close>, \<open>rounding\<close>, \<open>machine\<close>) are
  interpreted on the model's own operations, in the theory that defines them.

  The lemma groups. \<open>Smc_Writes\<close> and \<open>Session_Writes\<close>: which commands can be sent, by every operation.
  \<open>Smc_Device\<close>, \<open>Session_Device\<close>, \<open>Session_Teardown\<close>, \<open>Session_Host\<close>, \<open>Session_Lifecycle\<close>: what the
  operations do to the registers of a conforming device, up to the whole life of a session. \<open>Run_Laws\<close>,
  \<open>Selftest_Laws\<close>, \<open>Research_Laws\<close>, \<open>Config_Laws\<close>: the daemon's loop, the self-test, the raw writes of the
  research commands, and what validation means for the curve. \<open>One_Fan\<close>: a concrete machine on which the
  hypotheses of the device theorems hold. The properties C1 to C40 are in \<open>Control_Properties\<close>,
  \<open>Smc_Properties\<close>, \<open>Session_Properties\<close> and \<open>Cli_Properties\<close>, each with a witness where it has hypotheses.

  Bounds and fuel. The retry loop of a struct call has three attempts, as in the code. The tick loop of
  the daemon never ends; the model runs it for any number of ticks, an argument. The settle and hold
  waits are loops on the clock with fuel \<open>4\<close> and \<open>5\<close> turns per second, the number of sleeps that fit;
  \<open>settle_wait_ends\<close> shows that this is enough. Integers are words of the width of the source and wrap
  (the release build does not check overflow); clocks are natural numbers of milliseconds, or \<open>u64\<close>
  nanoseconds where the code subtracts them. A panic aborts; where the code can panic on a modelled
  path the result has a case for it.

  Not modelled. The placeholder files of \<open>src/ipc\<close>, \<open>src/iohid\<close> and
  \<open>src/smc/sleep.rs\<close>, which hold no code. \<open>enter_dispatch_main\<close>, which never returns. The
  messages of usage errors on standard error, and the log lines of the daemon. The build script, which
  stamps the revision into the binary. Unit tests and benchmarks.
\<close>

end
